(* ===== verification/Prelude.thy ===== *)
theory Prelude
  imports Main "HOL-Library.Sublist" "HOL-Library.List_Lexorder" "HOL-Library.Char_ord"
begin

text \<open>
  Shared vocabulary of the development: Go values as HOL values, the error and panic
  values every component returns, the functions of Go's packages \<open>strings\<close>,
  \<open>strconv\<close> and \<open>fmt\<close> that the framework calls, and the lemmas about them that the
  component theories use. A Go \<open>string\<close> or \<open>[]byte\<close> is a \<open>char list\<close>: a HOL
  character is one byte, as an element of a Go string is.
\<close>

section \<open>Values, errors and panics\<close>

type_synonym bytes = "char list"

text \<open>
  An \<open>error\<close> value of the code: \<open>Errorf m\<close> is \<open>errors.New\<close> or \<open>errors.Errorf\<close> with
  message \<open>m\<close>, \<open>Recovered m\<close> the error that \<open>sprintutils.PanicToError\<close> builds from a
  panic with value \<open>m\<close> (the code appends a stack trace, which carries no information
  here), and \<open>StatusErr c m\<close> a gRPC status error with code \<open>c\<close>.
\<close>

datatype grpc_code = Unavailable | OtherCode nat

datatype goerror = Errorf string | Recovered string | StatusErr grpc_code string

type_synonym 'a res = "goerror + 'a"

text \<open>A computation that may panic instead of returning.\<close>

datatype 'a outcome = Ret 'a | Panic string

fun error_text :: "goerror \<Rightarrow> string" where
  "error_text (Errorf m) = m"
| "error_text (Recovered m) = m"
| "error_text (StatusErr _ m) = m"

named_theorems go_defs \<open>definitions of the string and number functions\<close>

lemma Inl_or_Inr_cases:
  obtains (err) e where "r = Inl e" | (ok) v where "r = Inr v"
  by (cases r) auto

text \<open>A 64-bit sum or product.\<close>

definition wrap64 :: "int \<Rightarrow> int" where
  "wrap64 x = (x + 2 ^ 63) mod 2 ^ 64 - 2 ^ 63"

lemma wrap64_id: "- (2 ^ 63) \<le> x \<Longrightarrow> x < 2 ^ 63 \<Longrightarrow> wrap64 x = x"
  by (simp add: wrap64_def)

section \<open>Package strings\<close>

definition HasPrefix :: "string \<Rightarrow> string \<Rightarrow> bool" where
  "HasPrefix s p = prefix p s"

definition HasSuffix :: "string \<Rightarrow> string \<Rightarrow> bool" where
  "HasSuffix s p = suffix p s"

definition TrimPrefix :: "string \<Rightarrow> string \<Rightarrow> string" where
  "TrimPrefix s p = (if HasPrefix s p then drop (length p) s else s)"

definition Contains :: "string \<Rightarrow> string \<Rightarrow> bool" where
  "Contains s w = sublist w s"

definition ContainsAny :: "string \<Rightarrow> string \<Rightarrow> bool" where
  "ContainsAny s cs = list_ex (\<lambda>c. c \<in> set cs) s"

text \<open>\<open>IndexByte\<close> is the first position of a byte, \<open>None\<close> where Go returns -1.\<close>

fun IndexByte :: "string \<Rightarrow> char \<Rightarrow> nat option" where
  "IndexByte [] c = None"
| "IndexByte (x # xs) c = (if x = c then Some 0 else map_option Suc (IndexByte xs c))"

definition LastIndexByte :: "string \<Rightarrow> char \<Rightarrow> nat option" where
  "LastIndexByte s c = map_option (\<lambda>i. length s - 1 - i) (IndexByte (rev s) c)"

text \<open>\<open>strings.Split\<close> for the one-byte separators the code uses.\<close>

fun SplitByte :: "string \<Rightarrow> char \<Rightarrow> string list" where
  "SplitByte [] c = [[]]"
| "SplitByte (x # xs) c =
     (if x = c then [] # SplitByte xs c
      else case SplitByte xs c of [] \<Rightarrow> [[x]] | w # ws \<Rightarrow> (x # w) # ws)"

fun Join :: "string list \<Rightarrow> string \<Rightarrow> string" where
  "Join [] sep = []"
| "Join [w] sep = w"
| "Join (w # ws) sep = w @ sep @ Join ws sep"

text \<open>\<open>strings.ReplaceAll\<close> for a nonempty old string: left to right, no overlaps.\<close>

function ReplaceAll :: "string \<Rightarrow> string \<Rightarrow> string \<Rightarrow> string" where
  "ReplaceAll [] old new = []"
| "ReplaceAll (c # cs) old new =
     (if old \<noteq> [] \<and> prefix old (c # cs)
      then new @ ReplaceAll (drop (length old - 1) cs) old new
      else c # ReplaceAll cs old new)"
  by pat_completeness auto
termination
  by (relation "measure (\<lambda>(s, old, new). length s)") auto

text \<open>
  \<open>strings.TrimSpace\<close> removes Unicode white space at both ends. The byte sequences are
  the UTF-8 encodings of the code points \<open>unicode.IsSpace\<close> accepts; a sequence is at the
  front (at the back) of the bytes exactly when the first (the last) rune is that code
  point.
\<close>

definition space_seqs :: "bytes list" where
  "space_seqs =
     [[CHR 0x09],
      [CHR 0x0A],
      [CHR 0x0B],
      [CHR 0x0C],
      [CHR 0x0D],
      [CHR 0x20],
      [CHR 0xC2, CHR 0x85],
      [CHR 0xC2, CHR 0xA0],
      [CHR 0xE1, CHR 0x9A, CHR 0x80],
      [CHR 0xE2, CHR 0x80, CHR 0x80],
      [CHR 0xE2, CHR 0x80, CHR 0x81],
      [CHR 0xE2, CHR 0x80, CHR 0x82],
      [CHR 0xE2, CHR 0x80, CHR 0x83],
      [CHR 0xE2, CHR 0x80, CHR 0x84],
      [CHR 0xE2, CHR 0x80, CHR 0x85],
      [CHR 0xE2, CHR 0x80, CHR 0x86],
      [CHR 0xE2, CHR 0x80, CHR 0x87],
      [CHR 0xE2, CHR 0x80, CHR 0x88],
      [CHR 0xE2, CHR 0x80, CHR 0x89],
      [CHR 0xE2, CHR 0x80, CHR 0x8A],
      [CHR 0xE2, CHR 0x80, CHR 0xA8],
      [CHR 0xE2, CHR 0x80, CHR 0xA9],
      [CHR 0xE2, CHR 0x80, CHR 0xAF],
      [CHR 0xE2, CHR 0x81, CHR 0x9F],
      [CHR 0xE3, CHR 0x80, CHR 0x80]]"

function trim_front :: "bytes list \<Rightarrow> string \<Rightarrow> string" where
  "trim_front seqs s =
     (case find (\<lambda>w. w \<noteq> [] \<and> prefix w s) seqs of
        None \<Rightarrow> s
      | Some w \<Rightarrow> trim_front seqs (drop (length w) s))"
  by pat_completeness auto
termination
  by (relation "measure (\<lambda>(seqs, s). length s)")
    (auto simp: find_Some_iff prefix_def)

declare trim_front.simps [simp del]

definition TrimSpace :: "string \<Rightarrow> string" where
  "TrimSpace s = rev (trim_front (map rev space_seqs) (rev (trim_front space_seqs s)))"

text \<open>Case mapping of ASCII letters; other bytes are kept.\<close>

definition upper_char :: "char \<Rightarrow> char" where
  "upper_char c = (let n = of_char c :: nat in if 97 \<le> n \<and> n \<le> 122 then char_of (n - 32) else c)"

definition lower_char :: "char \<Rightarrow> char" where
  "lower_char c = (let n = of_char c :: nat in if 65 \<le> n \<and> n \<le> 90 then char_of (n + 32) else c)"

definition ToUpper :: "string \<Rightarrow> string" where
  "ToUpper s = map upper_char s"

definition ToLower :: "string \<Rightarrow> string" where
  "ToLower s = map lower_char s"

lemmas [go_defs] = HasPrefix_def HasSuffix_def TrimPrefix_def Contains_def ContainsAny_def
  LastIndexByte_def ToUpper_def ToLower_def

section \<open>Package strconv\<close>

definition digit_char :: "nat \<Rightarrow> char" where
  "digit_char d = char_of (if d < 10 then 48 + d else 87 + d)"

definition char_digit :: "char \<Rightarrow> nat option" where
  "char_digit c = (let n = of_char c :: nat in
     if 48 \<le> n \<and> n \<le> 57 then Some (n - 48)
     else if 97 \<le> n \<and> n \<le> 122 then Some (n - 87)
     else if 65 \<le> n \<and> n \<le> 90 then Some (n - 55) else None)"

fun itoa_nat :: "nat \<Rightarrow> string" where
  "itoa_nat n = (if n < 10 then [digit_char n] else itoa_nat (n div 10) @ [digit_char (n mod 10)])"

declare itoa_nat.simps [simp del]

definition Itoa :: "int \<Rightarrow> string" where
  "Itoa i = (if i < 0 then CHR ''-'' # itoa_nat (nat (- i)) else itoa_nat (nat i))"

text \<open>
  The loop of \<open>strconv.ParseUint\<close>: it stops at the first byte that is no digit of the
  base, or as soon as the value passes \<open>maxv\<close>. \<open>ErrSyntax\<close> and \<open>ErrRange\<close> are the two
  errors of the package.
\<close>

definition ErrSyntax :: goerror where
  "ErrSyntax = Errorf ''invalid syntax''"

definition ErrRange :: goerror where
  "ErrRange = Errorf ''value out of range''"

fun uint_loop :: "int \<Rightarrow> int \<Rightarrow> int \<Rightarrow> string \<Rightarrow> int res" where
  "uint_loop base maxv n [] = Inr n"
| "uint_loop base maxv n (c # cs) =
     (case char_digit c of
        None \<Rightarrow> Inl ErrSyntax
      | Some d \<Rightarrow>
          if base \<le> int d then Inl ErrSyntax
          else if maxv < n * base + int d then Inl ErrRange
          else uint_loop base maxv (n * base + int d) cs)"

definition ParseUint :: "string \<Rightarrow> int \<Rightarrow> nat \<Rightarrow> int res" where
  "ParseUint s base bits = (if s = [] then Inl ErrSyntax else uint_loop base (2 ^ bits - 1) 0 s)"

definition ParseInt :: "string \<Rightarrow> int \<Rightarrow> nat \<Rightarrow> int res" where
  "ParseInt s base bits =
     (let neg = (s \<noteq> [] \<and> hd s = CHR ''-'');
          body = (if s \<noteq> [] \<and> (hd s = CHR ''-'' \<or> hd s = CHR ''+'') then tl s else s)
      in case ParseUint body base bits of
           Inl e \<Rightarrow> Inl e
         | Inr n \<Rightarrow>
             if \<not> neg \<and> 2 ^ (bits - 1) \<le> n then Inl ErrRange
             else if neg \<and> 2 ^ (bits - 1) < n then Inl ErrRange
             else Inr (if neg then - n else n))"

definition Atoi :: "string \<Rightarrow> int res" where
  "Atoi s = ParseInt s 10 64"

section \<open>Lemmas\<close>

lemma HasPrefix_append [simp]: "HasPrefix (p @ s) p"
  by (simp add: HasPrefix_def)

lemma HasPrefix_append_iff: "HasPrefix (p @ s) (p @ q) \<longleftrightarrow> HasPrefix s q"
  by (simp add: HasPrefix_def)

lemma IndexByte_None [simp]: "IndexByte s c = None \<longleftrightarrow> c \<notin> set s"
  by (induction s c rule: IndexByte.induct) auto

lemma IndexByte_Some:
  "IndexByte s c = Some i \<longleftrightarrow> i < length s \<and> s ! i = c \<and> c \<notin> set (take i s)"
proof (induction s c arbitrary: i rule: IndexByte.induct)
  case (1 c)
  then show ?case by simp
next
  case (2 x xs c)
  then show ?case by (cases i) auto
qed

lemma IndexByte_append:
  "c \<notin> set u \<Longrightarrow> IndexByte (u @ c # v) c = Some (length u)"
  by (simp add: IndexByte_Some)

lemma SplitByte_ne [simp]: "SplitByte s c \<noteq> []"
  by (cases s) (auto split: list.splits)

lemma SplitByte_no_sep: "c \<notin> set s \<Longrightarrow> SplitByte s c = [s]"
  by (induction s) auto

lemma SplitByte_append: "c \<notin> set u \<Longrightarrow> SplitByte (u @ c # v) c = u # SplitByte v c"
  by (induction u) (auto split: list.splits)

lemma Join_Cons: "ws \<noteq> [] \<Longrightarrow> Join (w # ws) sep = w @ sep @ Join ws sep"
  by (cases ws) auto

lemma Join_SplitByte: "Join (SplitByte s c) [c] = s"
proof (induction s)
  case Nil
  then show ?case by simp
next
  case (Cons x xs)
  obtain w ws where w: "SplitByte xs c = w # ws"
    by (cases "SplitByte xs c") auto
  with Cons.IH show ?case by (cases ws) auto
qed

lemma SplitByte_parts: "w \<in> set (SplitByte s c) \<Longrightarrow> c \<notin> set w"
proof (induction s arbitrary: w)
  case Nil
  then show ?case by simp
next
  case (Cons x xs)
  obtain v vs where v: "SplitByte xs c = v # vs"
    by (cases "SplitByte xs c") auto
  with Cons show ?case by (auto split: if_splits)
qed

lemma SplitByte_Join:
  "ws \<noteq> [] \<Longrightarrow> (\<And>w. w \<in> set ws \<Longrightarrow> c \<notin> set w) \<Longrightarrow> SplitByte (Join ws [c]) c = ws"
proof (induction ws "[c]" rule: Join.induct)
  case (3 w v vs)
  then show ?case by (simp add: SplitByte_append)
qed (auto simp: SplitByte_no_sep)

lemma ToUpper_append: "ToUpper (s @ t) = ToUpper s @ ToUpper t"
  by (simp add: ToUpper_def)

lemma of_char_digit [simp]: "d < 36 \<Longrightarrow> of_char (digit_char d) = (if d < 10 then 48 + d else 87 + d)"
  by (simp add: digit_char_def)

lemma char_digit_digit_char [simp]: "d < 36 \<Longrightarrow> char_digit (digit_char d) = Some d"
  by (auto simp: char_digit_def Let_def)

lemma digit_char_inj: "d < 36 \<Longrightarrow> e < 36 \<Longrightarrow> digit_char d = digit_char e \<Longrightarrow> d = e"
  by (metis char_digit_digit_char option.inject)

lemma itoa_nat_ne [simp]: "itoa_nat n \<noteq> []"
  by (subst itoa_nat.simps) simp

lemma itoa_nat_digits: "set (itoa_nat n) \<subseteq> digit_char ` {..<10}"
proof (induction n rule: itoa_nat.induct)
  case (1 n)
  then show ?case
    by (subst itoa_nat.simps) auto
qed

lemma uint_loop_append:
  "uint_loop base maxv n s = Inr m \<Longrightarrow> uint_loop base maxv n (s @ t) = uint_loop base maxv m t"
  by (induction s arbitrary: n) (auto split: option.splits if_splits)

lemma uint_loop_itoa: "int n \<le> maxv \<Longrightarrow> uint_loop 10 maxv 0 (itoa_nat n) = Inr (int n)"
proof (induction n rule: itoa_nat.induct)
  case (1 n)
  show ?case
  proof (cases "n < 10")
    case True
    with "1.prems" show ?thesis by (subst itoa_nat.simps) simp
  next
    case False
    with 1 have "uint_loop 10 maxv 0 (itoa_nat (n div 10)) = Inr (int (n div 10))" by simp
    then have "uint_loop 10 maxv 0 (itoa_nat (n div 10) @ [digit_char (n mod 10)]) = Inr (int n)"
      using "1.prems" zdiv_int [of n 10] zmod_int [of n 10]
      by (simp add: uint_loop_append [where m = "int (n div 10)"] del: of_nat_mod of_nat_div)
    with False show ?thesis by (subst itoa_nat.simps) simp
  qed
qed

lemma itoa_nat_inj: assumes "itoa_nat a = itoa_nat b" shows "a = b"
proof -
  have "uint_loop 10 (max (int a) (int b)) 0 (itoa_nat a) = Inr (int a)"
    by (rule uint_loop_itoa) (rule max.cobounded1)
  moreover have "uint_loop 10 (max (int a) (int b)) 0 (itoa_nat b) = Inr (int b)"
    by (rule uint_loop_itoa) (rule max.cobounded2)
  ultimately have "Inr (int a) = (Inr (int b) :: int res)"
    unfolding assms by (rule trans [OF sym])
  then show ?thesis by simp
qed

lemma digit_not_minus: "d < 10 \<Longrightarrow> digit_char d \<noteq> CHR ''-''"
proof -
  assume d: "d < 10"
  have "of_char (digit_char d) \<noteq> (of_char (CHR ''-'') :: nat)"
    using d by simp
  then show ?thesis by metis
qed

lemma minus_notin_itoa [simp]: "CHR ''-'' \<notin> set (itoa_nat n)"
  using itoa_nat_digits [of n] digit_not_minus by force

lemma Itoa_inj: "Itoa a = Itoa b \<Longrightarrow> a = b"
proof -
  assume h: "Itoa a = Itoa b"
  have hd: "itoa_nat n \<noteq> CHR ''-'' # s" for n s
  proof
    assume "itoa_nat n = CHR ''-'' # s"
    then have "CHR ''-'' \<in> set (itoa_nat n)" by simp
    then show False by simp
  qed
  show ?thesis
  proof (cases "a < 0"; cases "b < 0")
    assume "a < 0" "b < 0"
    with h have "nat (- a) = nat (- b)" by (auto simp: Itoa_def intro: itoa_nat_inj)
    with \<open>a < 0\<close> \<open>b < 0\<close> show ?thesis by simp
  next
    assume "\<not> a < 0" "\<not> b < 0"
    with h have "nat a = nat b" by (auto simp: Itoa_def intro: itoa_nat_inj)
    with \<open>\<not> a < 0\<close> \<open>\<not> b < 0\<close> show ?thesis by simp
  qed (use h hd hd [symmetric] in \<open>auto simp: Itoa_def\<close>)
qed

lemma Itoa_ne [simp]: "Itoa i \<noteq> []"
  by (simp add: Itoa_def)

end
