(* ===== verification/Utils_Node.thy ===== *)
theory Utils_Node
  imports Prelude
begin

text \<open>
  The small helpers of the package \<open>sprintutils\<close>: \<open>errors.go\<close> (panics become errors),
  \<open>convert.go\<close>, \<open>tls.go\<close>, \<open>node.go\<close> (node names and listen addresses shifted by the
  node's sequence number) and \<open>rate_limiter.go\<close>.
\<close>

section \<open>errors.go, convert.go, tls.go\<close>

text \<open>\<open>defer PanicToError(&err)\<close> around a body: a panic becomes the function's error.\<close>

definition PanicToError :: "'a res outcome \<Rightarrow> 'a res" where
  "PanicToError r = (case r of Panic m \<Rightarrow> Inl (Recovered m) | Ret x \<Rightarrow> x)"

lemma PanicToError_simps [simp]:
  "PanicToError (Panic m) = Inl (Recovered m)"
  "PanicToError (Ret x) = x"
  by (simp_all add: PanicToError_def)

definition ParseBool :: "string \<Rightarrow> bool res" where
  "ParseBool str =
     (if str \<in> set [''1'', ''t'', ''T'', ''true'', ''TRUE'', ''True'', ''on'', ''ON'', ''On'']
      then Inr True
      else if str \<in> set [''0'', ''f'', ''F'', ''false'', ''FALSE'', ''False'', ''off'', ''OFF'', ''Off'']
      then Inr False
      else Inl (Errorf (''invalid syntax '' @ str)))"

datatype client_auth_type =
  NoClientCert | RequestClientCert | RequireAnyClientCert | VerifyClientCertIfGiven
| RequireAndVerifyClientCert

definition ParseClientAuth :: "string \<Rightarrow> client_auth_type" where
  "ParseClientAuth s =
     (if s = ''no_client_cert'' then NoClientCert
      else if s = ''request_client_cert'' then RequestClientCert
      else if s = ''require_any_client_cert'' then RequireAnyClientCert
      else if s = ''verify_client_cert'' then VerifyClientCertIfGiven
      else if s = ''require_verify_client_cert'' then RequireAndVerifyClientCert
      else NoClientCert)"

section \<open>node.go\<close>

definition AppendNodeSequence :: "string \<Rightarrow> int \<Rightarrow> string" where
  "AppendNodeSequence name seq = (if seq = 0 then name else name @ ''-'' @ Itoa seq)"

definition AppendNodeName :: "string \<Rightarrow> string \<Rightarrow> string" where
  "AppendNodeName name nxt = name @ ''-'' @ nxt"

lemma AppendNodeSequence_inj:
  "AppendNodeSequence name a = AppendNodeSequence name b \<Longrightarrow> a = b"
  by (auto simp: AppendNodeSequence_def intro: Itoa_inj split: if_splits)

text \<open>
  \<open>net.SplitHostPort\<close>: the port follows the last colon; a bracketed host must be closed
  right before it; no other colon or bracket is allowed.
\<close>

datatype split_error = MissingPort | MissingBracket | TooManyColons | UnexpectedOpen | UnexpectedClose

definition SplitHostPort :: "string \<Rightarrow> split_error + (string \<times> string)" where
  "SplitHostPort hp =
     (case LastIndexByte hp (CHR '':'') of
        None \<Rightarrow> Inl MissingPort
      | Some i \<Rightarrow>
          (let fin = (\<lambda>host j k.
             if CHR ''['' \<in> set (drop j hp) then Inl UnexpectedOpen
             else if CHR '']'' \<in> set (drop k hp) then Inl UnexpectedClose
             else Inr (host, drop (Suc i) hp))
           in if hd hp = CHR ''['' then
                (case IndexByte hp (CHR '']'') of
                   None \<Rightarrow> Inl MissingBracket
                 | Some e \<Rightarrow>
                     if Suc e = length hp then Inl MissingPort
                     else if Suc e = i then fin (take (e - 1) (drop 1 hp)) 1 (Suc e)
                     else if hp ! Suc e = CHR '':'' then Inl TooManyColons
                     else Inl MissingPort)
              else if CHR '':'' \<in> set (take i hp) then Inl TooManyColons
              else fin (take i hp) 0 0))"

record tcp_addr =
  IP :: string
  Port :: int

text \<open>
  \<open>resolve\<close> stands for \<open>net.ResolveTCPAddr("tcp", \<dots>)\<close>, which asks the name service of
  the host. The adjusted port is a Go \<open>int\<close>: the addition does not check the range of
  TCP ports.
\<close>

definition ParseAndAdjustTCPAddr ::
    "(string \<Rightarrow> tcp_addr res) \<Rightarrow> string \<Rightarrow> int \<Rightarrow> tcp_addr res" where
  "ParseAndAdjustTCPAddr resolve address seq =
     (case SplitHostPort address of
        Inl e \<Rightarrow> Inl (Errorf (''empty port in address '' @ address))
      | Inr (host0, port) \<Rightarrow>
          (let host = (if host0 = '''' then ''0.0.0.0'' else host0);
               addr = host @ '':'' @ port
           in case resolve addr of
                Inl e \<Rightarrow> Inl (Errorf (''invalid address '' @ addr @ '', '' @ error_text e))
              | Inr tcpAddr \<Rightarrow> Inr (tcpAddr\<lparr>Port := Port tcpAddr + seq\<rparr>)))"

lemma LastIndexByte_append:
  "c \<notin> set v \<Longrightarrow> LastIndexByte (u @ c # v) c = Some (length u)"
  using IndexByte_append [of c "rev v" "rev u"] by (simp add: LastIndexByte_def)

lemma SplitHostPort_plain:
  assumes "CHR '':'' \<notin> set host" "CHR ''['' \<notin> set host" "CHR '']'' \<notin> set host"
    and "CHR '':'' \<notin> set port" "CHR ''['' \<notin> set port" "CHR '']'' \<notin> set port"
  shows "SplitHostPort (host @ '':'' @ port) = Inr (host, port)"
proof -
  have "hd (host @ '':'' @ port) \<noteq> CHR ''[''"
    using assms(2) by (cases host) auto
  then show ?thesis
    using assms LastIndexByte_append [OF assms(4), of host]
    by (simp add: SplitHostPort_def Let_def)
qed

section \<open>rate_limiter.go\<close>

text \<open>
  Times and durations are nanoseconds. The mutex makes the calls of \<open>Do\<close> one after
  another, so a call is a function of the limiter and of what the environment decides:
  the time the call got the lock (\<open>now\<close>), how much longer than asked the sleep took
  (\<open>over\<close>) and how long the function ran (\<open>dur\<close>). \<open>time.Since\<close> saturates at the limits
  of a 64-bit duration.
\<close>

record rate_limiter =
  Limit :: int
  lastReqTime :: int

definition defaultRateLimit :: int where
  "defaultRateLimit = 100 * 1000000"

definition time_since :: "int \<Rightarrow> int \<Rightarrow> int" where
  "time_since now t = max (- (2 ^ 63)) (min (now - t) (2 ^ 63 - 1))"

text \<open>The result: when the function started, when it ended, and the limiter afterwards.\<close>

definition rl_Do :: "rate_limiter \<Rightarrow> int \<Rightarrow> nat \<Rightarrow> nat \<Rightarrow> int \<times> int \<times> rate_limiter" where
  "rl_Do t now over dur =
     (let t = (if Limit t = 0 then t\<lparr>Limit := defaultRateLimit\<rparr> else t);
          lastreq = time_since now (lastReqTime t);
          start = (if lastreq < Limit t then now + (Limit t - lastreq) + int over else now);
          fin = start + int dur
      in (start, fin, t\<lparr>lastReqTime := fin\<rparr>))"

text \<open>A run: each call gets the lock some time after the one before has ended.\<close>

fun rl_run :: "rate_limiter \<Rightarrow> int \<Rightarrow> (nat \<times> nat \<times> nat) list \<Rightarrow> (int \<times> int) list" where
  "rl_run t now [] = []"
| "rl_run t now ((gap, over, dur) # cs) =
     (let (start, fin, t') = rl_Do t (now + int gap) over dur in (start, fin) # rl_run t' fin cs)"

fun spaced :: "int \<Rightarrow> (int \<times> int) list \<Rightarrow> bool" where
  "spaced limit ((s1, e1) # (s2, e2) # r) \<longleftrightarrow> e1 + limit \<le> s2 \<and> spaced limit ((s2, e2) # r)"
| "spaced limit _ \<longleftrightarrow> True"

definition effective_limit :: "rate_limiter \<Rightarrow> int" where
  "effective_limit t = (if Limit t = 0 then defaultRateLimit else Limit t)"

lemma rl_Do_props:
  assumes "rl_Do t now over dur = (s, e, t')"
  shows "e = s + int dur" "lastReqTime t' = e" "now \<le> s" "Limit t' = effective_limit t"
  using assms by (auto simp: rl_Do_def Let_def effective_limit_def split: if_splits)

lemma rl_Do_start:
  assumes "rl_Do t now over dur = (s, e, t')" and "lastReqTime t \<le> now" "effective_limit t < 2 ^ 63"
  shows "lastReqTime t + effective_limit t \<le> s"
  using assms
  by (auto simp: rl_Do_def Let_def effective_limit_def time_since_def defaultRateLimit_def split: if_splits)

lemma rl_Do_limit:
  assumes "rl_Do t now over dur = (s, e, t')"
  shows "effective_limit t' = effective_limit t"
  using rl_Do_props(4) [OF assms] by (auto simp: effective_limit_def defaultRateLimit_def)

lemma rl_run_spaced:
  assumes "effective_limit t < 2 ^ 63"
  shows "lastReqTime t \<le> now \<Longrightarrow> spaced (effective_limit t) (rl_run t now cs)
    \<and> (\<forall>s e r. rl_run t now cs = (s, e) # r \<longrightarrow> lastReqTime t + effective_limit t \<le> s)"
  using assms
proof (induction cs arbitrary: t now)
  case Nil
  then show ?case by simp
next
  case (Cons c cs)
  obtain gap over dur where c: "c = (gap, over, dur)" by (cases c)
  obtain s e t' where d: "rl_Do t (now + int gap) over dur = (s, e, t')"
    by (cases "rl_Do t (now + int gap) over dur")
  note p = rl_Do_props [OF d] rl_Do_limit [OF d]
  have first: "lastReqTime t + effective_limit t \<le> s"
    using rl_Do_start [OF d] Cons.prems by simp
  have "spaced (effective_limit t') (rl_run t' e cs)
    \<and> (\<forall>s2 e2 r. rl_run t' e cs = (s2, e2) # r \<longrightarrow> lastReqTime t' + effective_limit t' \<le> s2)"
    using p Cons.prems by (intro Cons.IH) auto
  then have "spaced (effective_limit t) ((s, e) # rl_run t' e cs)"
    using p by (cases "rl_run t' e cs") auto
  with first d show ?case by (simp add: c)
qed

section \<open>Properties\<close>



end
