(* ===== verification/Utils_Prompt.thy ===== *)
theory Utils_Prompt
  imports Prelude
begin

text \<open>
  \<open>sprintutils/prompt.go\<close>: what the prompts make of the lines the user types. The input
  is the list of the lines that successive calls of \<open>ReadString\<close> return, each with its
  line break unless the input ended; \<open>None\<close> as a result means that the loop still waits
  for a line. Each prompt opens a reader of its own; what that reader has buffered beyond
  the lines it used is not part of the model.
\<close>

definition quotes3 :: string where
  "quotes3 = [CHR 0x22, CHR 0x22, CHR 0x22]"

text \<open>\<open>text[:len(text)-k]\<close>\<close>

definition chop :: "nat \<Rightarrow> string \<Rightarrow> string" where
  "chop k s = take (length s - k) s"

text \<open>The loop of a multi-line prompt that ends at a line with the suffix \<open>stop\<close>.\<close>

fun prompt_loop :: "string \<Rightarrow> string \<Rightarrow> string list \<Rightarrow> (string \<times> string list) option" where
  "prompt_loop stop out [] = None"
| "prompt_loop stop out (l # ls) =
     (let out = (if 0 < length out then out @ [CHR 0x0A] else out);
          txt = TrimSpace l
      in if HasSuffix txt stop then Some (out @ chop (length stop) txt, ls)
         else prompt_loop stop (out @ txt) ls)"

definition Prompt :: "string list \<Rightarrow> (string \<times> string list) option" where
  "Prompt ls =
     (case ls of
        [] \<Rightarrow> None
      | l # ls \<Rightarrow>
          (let txt = TrimSpace l in
           if txt = quotes3 then prompt_loop quotes3 '''' ls else Some (txt, ls)))"

definition PromptQuery :: "string list \<Rightarrow> (string \<times> string list) option" where
  "PromptQuery ls = prompt_loop '';'' '''' ls"

definition pemStart :: string where "pemStart = ''-----BEGIN ''"
definition pemEnd :: string where "pemEnd = ''-----END ''"

text \<open>Lines of a PEM block are kept as they are, line break included.\<close>

fun pem_loop :: "string \<Rightarrow> nat \<Rightarrow> string list \<Rightarrow> (string res \<times> string list) option" where
  "pem_loop out i [] = None"
| "pem_loop out i (l # ls) =
     (if i = 0 \<and> \<not> HasPrefix l pemStart
      then Some (Inl (Errorf (''pem must start from '' @ pemStart)), ls)
      else (let out = (if i = 0 then out else out @ [CHR 0x0A]) in
            if HasPrefix l pemEnd then Some (Inr (out @ l), ls)
            else pem_loop (out @ l) (Suc i) ls))"

definition PromptPEM :: "string list \<Rightarrow> (string res \<times> string list) option" where
  "PromptPEM ls = pem_loop '''' 0 ls"

text \<open>
  \<open>PromptPassword\<close> reads from the terminal (\<open>Inr\<close>) or, where standard input is none, a
  line of it (\<open>Inl\<close>).
\<close>

definition PromptPassword :: "string + string \<Rightarrow> string" where
  "PromptPassword inp = (case inp of Inr password \<Rightarrow> TrimSpace password | Inl l \<Rightarrow> TrimSpace l)"

section \<open>The query a multi-line prompt returns\<close>

text \<open>Joining trimmed lines with line breaks, as the builder does: none after an empty prefix.\<close>

fun join_lines :: "string \<Rightarrow> string list \<Rightarrow> string" where
  "join_lines out [] = out"
| "join_lines out (l # ls) = join_lines ((if out = '''' then '''' else out @ [CHR 0x0A]) @ TrimSpace l) ls"

lemma prompt_loop_join:
  assumes "\<forall>l \<in> set ls. \<not> HasSuffix (TrimSpace l) stop" and "HasSuffix (TrimSpace z) stop"
  shows "prompt_loop stop out (ls @ z # rest) =
    Some (let o' = join_lines out ls in (if o' = '''' then '''' else o' @ [CHR 0x0A]) @ chop (length stop) (TrimSpace z), rest)"
  using assms by (induction ls arbitrary: out) (auto simp: Let_def)

lemma prompt_loop_waits:
  "prompt_loop stop out ls = None \<longleftrightarrow> (\<forall>l \<in> set ls. \<not> HasSuffix (TrimSpace l) stop)"
  by (induction ls arbitrary: out) (auto simp: Let_def)

lemma pem_loop_Inr:
  "pem_loop out (Suc i) ls = Some (Inr s, rest) \<Longrightarrow>
   \<exists>body z. ls = body @ z # rest \<and> HasPrefix z pemEnd \<and> (\<forall>l \<in> set body. \<not> HasPrefix l pemEnd)
     \<and> s = out @ concat (map (\<lambda>l. CHR 0x0A # l) (body @ [z]))"
proof (induction ls arbitrary: out i)
  case Nil
  then show ?case by simp
next
  case (Cons l ls)
  show ?case
  proof (cases "HasPrefix l pemEnd")
    case True
    with Cons.prems have "ls = rest" "s = out @ CHR 0x0A # l" by auto
    with True show ?thesis by (intro exI [of _ "[]"] exI [of _ l]) simp
  next
    case False
    with Cons.prems have "pem_loop (out @ CHR 0x0A # l) (Suc (Suc i)) ls = Some (Inr s, rest)" by simp
    from Cons.IH [OF this] obtain body z where
      "ls = body @ z # rest" "HasPrefix z pemEnd" "\<forall>l \<in> set body. \<not> HasPrefix l pemEnd"
      "s = (out @ CHR 0x0A # l) @ concat (map (\<lambda>l. CHR 0x0A # l) (body @ [z]))" by blast
    with False show ?thesis by (intro exI [of _ "l # body"] exI [of _ z]) simp
  qed
qed

end
