(* ===== verification/Store_API.thy ===== *)
theory Store_API
  imports Prelude "HOL-Library.AList" "HOL-Library.Word"
begin

text \<open>
  The key-value stores (\<open>github.com/keyvalstore/store\<close>: bolt, bbolt, badger, cache) are
  third-party code. A store is a parameter of the model: a record of its operations over a
  state type of its own. \<open>st_contents\<close> says what a state holds; the laws relate every
  operation to it. An operation may fail; a failed write changes nothing.
\<close>

type_synonym float64 = "64 word"

record 's store_ops =
  st_contents :: "'s \<Rightarrow> bytes \<Rightarrow> bytes option"
  st_get :: "'s \<Rightarrow> bytes \<Rightarrow> bytes res"
  st_set :: "bytes \<Rightarrow> bytes \<Rightarrow> 's \<Rightarrow> goerror option \<times> 's"
  st_remove :: "bytes \<Rightarrow> 's \<Rightarrow> goerror option \<times> 's"
  st_scan :: "'s \<Rightarrow> bytes \<Rightarrow> (bytes \<times> bytes) list \<times> goerror option"
  st_Compact :: "float64 \<Rightarrow> 's \<Rightarrow> goerror option \<times> 's"
  st_DropWithPrefix :: "bytes \<Rightarrow> 's \<Rightarrow> goerror option \<times> 's"
  st_DropAll :: "'s \<Rightarrow> goerror option \<times> 's"
  st_Backup :: "'s \<Rightarrow> int \<Rightarrow> (bytes \<times> int) res"
  st_Restore :: "bytes \<Rightarrow> 's \<Rightarrow> goerror option \<times> 's"

text \<open>A store value: its operations and its state, as an interface value of Go.\<close>

record 's data_store =
  ops :: "'s store_ops"
  state :: 's

definition contents :: "'s data_store \<Rightarrow> bytes \<Rightarrow> bytes option" where
  "contents d = st_contents (ops d) (state d)"

definition nil_bytes :: "bytes option \<Rightarrow> bytes" where
  "nil_bytes v = (case v of None \<Rightarrow> [] | Some b \<Rightarrow> b)"

text \<open>
  What the code relies on: reading a missing key gives an empty value and no error;
  writes update one key; an enumeration gives every entry with the prefix once.
\<close>

definition store_laws :: "'s store_ops \<Rightarrow> bool" where
  "store_laws o' \<longleftrightarrow>
     (\<forall>s k v. st_get o' s k = Inr v \<longrightarrow> v = nil_bytes (st_contents o' s k)) \<and>
     (\<forall>s k v r s'. st_set o' k v s = (r, s') \<longrightarrow>
        st_contents o' s' = (if r = None then (st_contents o' s)(k \<mapsto> v) else st_contents o' s)) \<and>
     (\<forall>s k r s'. st_remove o' k s = (r, s') \<longrightarrow>
        st_contents o' s' = (if r = None then (st_contents o' s)(k := None) else st_contents o' s)) \<and>
     (\<forall>s p es. st_scan o' s p = (es, None) \<longrightarrow>
        distinct (map fst es) \<and> set es = {(k, v). st_contents o' s k = Some v \<and> prefix p k}) \<and>
     (\<forall>s p r s'. st_DropWithPrefix o' p s = (r, s') \<longrightarrow>
        st_contents o' s' = (if r = None then (\<lambda>k. if prefix p k then None else st_contents o' s k)
                             else st_contents o' s)) \<and>
     (\<forall>s r s'. st_DropAll o' s = (r, s') \<longrightarrow>
        st_contents o' s' = (if r = None then Map.empty else st_contents o' s)) \<and>
     (\<forall>s x r s'. st_Compact o' x s = (r, s') \<longrightarrow> st_contents o' s' = st_contents o' s)"

named_theorems store_law \<open>the laws of a store, one at a time\<close>

lemma law_get [store_law]: "store_laws o' \<Longrightarrow> st_get o' s k = Inr v \<Longrightarrow> v = nil_bytes (st_contents o' s k)"
  by (simp add: store_laws_def)

lemma law_set [store_law]: "store_laws o' \<Longrightarrow> st_set o' k v s = (r, s') \<Longrightarrow>
  st_contents o' s' = (if r = None then (st_contents o' s)(k \<mapsto> v) else st_contents o' s)"
  by (simp add: store_laws_def)

lemma law_remove [store_law]: "store_laws o' \<Longrightarrow> st_remove o' k s = (r, s') \<Longrightarrow>
  st_contents o' s' = (if r = None then (st_contents o' s)(k := None) else st_contents o' s)"
  by (simp add: store_laws_def)

lemma law_scan: "store_laws o' \<Longrightarrow> st_scan o' s p = (es, None) \<Longrightarrow>
  distinct (map fst es) \<and> set es = {(k, v). st_contents o' s k = Some v \<and> prefix p k}"
  by (simp add: store_laws_def)

lemma law_drop [store_law]: "store_laws o' \<Longrightarrow> st_DropWithPrefix o' p s = (r, s') \<Longrightarrow>
  st_contents o' s' = (if r = None then (\<lambda>k. if prefix p k then None else st_contents o' s k)
                       else st_contents o' s)"
  unfolding store_laws_def by blast

lemma law_drop_all [store_law]: "store_laws o' \<Longrightarrow> st_DropAll o' s = (r, s') \<Longrightarrow>
  st_contents o' s' = (if r = None then Map.empty else st_contents o' s)"
  unfolding store_laws_def by blast

lemma law_compact [store_law]: "store_laws o' \<Longrightarrow> st_Compact o' x s = (r, s') \<Longrightarrow>
  st_contents o' s' = st_contents o' s"
  unfolding store_laws_def by blast

section \<open>Calls on a store value\<close>

definition ds_get :: "'s data_store \<Rightarrow> bytes \<Rightarrow> bytes res" where
  "ds_get d k = st_get (ops d) (state d) k"

text \<open>Running a writing operation and keeping the store's new state.\<close>

definition ds_update ::
    "('s store_ops \<Rightarrow> 's \<Rightarrow> goerror option \<times> 's) \<Rightarrow> 's data_store \<Rightarrow> goerror option \<times> 's data_store" where
  "ds_update f d = (let (r, s') = f (ops d) (state d) in (r, d\<lparr>state := s'\<rparr>))"

text \<open>
  \<open>Enumerate\<dots>Do(cb)\<close> calls the callback on one entry after the other until it returns
  false. The callback's effects are on a state that is threaded through.
\<close>

fun enum_do :: "('e \<Rightarrow> 'c \<Rightarrow> bool \<times> 'c) \<Rightarrow> 'e list \<Rightarrow> 'c \<Rightarrow> bool \<times> 'c" where
  "enum_do cb [] c = (True, c)"
| "enum_do cb (e # es) c = (let (go, c') = cb e c in if go then enum_do cb es c' else (False, c'))"

definition ds_enumerate ::
    "'s data_store \<Rightarrow> bytes \<Rightarrow> (bytes \<times> bytes \<Rightarrow> 'c \<Rightarrow> bool \<times> 'c) \<Rightarrow> 'c \<Rightarrow> goerror option \<times> 'c" where
  "ds_enumerate d p cb c =
     (let (es, err) = st_scan (ops d) (state d) p;
          (all, c') = enum_do cb es c
      in (if all then err else None, c'))"

lemma ds_update_ops [simp]: "ds_update f d = (r, d') \<Longrightarrow> ops d' = ops d"
  by (auto simp: ds_update_def split: prod.splits)

lemma enum_do_always:
  "(\<And>e c. e \<in> set es \<Longrightarrow> fst (cb e c)) \<Longrightarrow> enum_do cb es c = (True, fold (\<lambda>e c. snd (cb e c)) es c)"
  by (induction es arbitrary: c) (auto simp: split_beta)

section \<open>A concrete store, for witnesses\<close>

text \<open>An in-memory store over an association list, on which no operation fails.\<close>

definition mem_ops :: "(bytes \<times> bytes) list store_ops" where
  "mem_ops =
     \<lparr>st_contents = map_of,
      st_get = (\<lambda>s k. Inr (nil_bytes (map_of s k))),
      st_set = (\<lambda>k v s. (None, AList.update k v s)),
      st_remove = (\<lambda>k s. (None, AList.delete k s)),
      st_scan = (\<lambda>s p. (filter (\<lambda>(k, v). prefix p k) (AList.clearjunk s), None)),
      st_Compact = (\<lambda>x s. (None, s)),
      st_DropWithPrefix = (\<lambda>p s. (None, filter (\<lambda>(k, v). \<not> prefix p k) s)),
      st_DropAll = (\<lambda>s. (None, [])),
      st_Backup = (\<lambda>s since. Inr ([], since)),
      st_Restore = (\<lambda>b s. (None, s))\<rparr>"

lemma map_of_filter_fst: "map_of (filter (\<lambda>(k, v). P k) s) k = (if P k then map_of s k else None)"
  by (induction s) auto

lemma distinct_map_fst_filter: "distinct (map fst s) \<Longrightarrow> distinct (map fst (filter P s))"
  by (rule distinct_map_filter)

lemma clearjunk_mem: "(k, v) \<in> set (AList.clearjunk s) \<longleftrightarrow> map_of s k = Some v"
  by (metis distinct_clearjunk map_of_clearjunk map_of_eq_Some_iff)

lemma mem_ops_laws: "store_laws mem_ops"
  unfolding store_laws_def mem_ops_def
  by (auto simp: update_conv' delete_conv' clearjunk_mem distinct_clearjunk fun_eq_iff
      map_of_filter_fst intro!: distinct_map_fst_filter)

end
