(* ===== verification/Config_Repository.thy ===== *)
theory Config_Repository
  imports Store_API
begin

text \<open>
  \<open>sprintcore/config_repository.go\<close>: the mutable properties of the node, kept in the
  bucket \<open>config\<close> of a store, and the registration of watchers. This theory holds the
  sequential behaviour: what each operation returns, does to the store, and sends to which
  watchers. \<open>Config_Watch\<close> adds the goroutines and channels.
\<close>

section \<open>The interface its clients use\<close>

text \<open>
  \<open>sprint.ConfigRepository\<close> as the control server, the node service, the authorization
  middleware and the setup command rely on it: \<open>view\<close> is the property map, a set with the
  empty value deletes.
\<close>

definition value_or_empty :: "string option \<Rightarrow> string" where
  "value_or_empty v = (case v of None \<Rightarrow> '''' | Some s \<Rightarrow> s)"

definition as_entry :: "string \<Rightarrow> string option" where
  "as_entry v = (if v = '''' then None else Some v)"

lemma value_or_empty_as_entry [simp]: "value_or_empty (as_entry v) = v"
  by (simp add: value_or_empty_def as_entry_def)

locale config_repository =
  fixes get :: "'r \<Rightarrow> string \<Rightarrow> string res outcome"
    and put :: "string \<Rightarrow> string \<Rightarrow> 'r \<Rightarrow> goerror option outcome \<times> 'r"
    and entries :: "'r \<Rightarrow> string \<Rightarrow> (string \<times> string) list res outcome"
    and inv :: "'r \<Rightarrow> bool"
    and view :: "'r \<Rightarrow> string \<Rightarrow> string option"
  assumes get_returns: "inv r \<Longrightarrow> \<exists>x. get r k = Ret x"
    and get_view: "inv r \<Longrightarrow> get r k = Ret (Inr v) \<Longrightarrow> v = value_or_empty (view r k)"
    and put_returns: "inv r \<Longrightarrow> put k v r = (x, r') \<Longrightarrow> (\<exists>e. x = Ret e) \<and> inv r'"
    and put_ok: "inv r \<Longrightarrow> put k v r = (Ret None, r') \<Longrightarrow> view r' = (view r)(k := as_entry v)"
    and put_failed: "inv r \<Longrightarrow> put k v r = (Ret (Some e), r') \<Longrightarrow> view r' = view r"
    and entries_view: "inv r \<Longrightarrow> entries r p = Ret (Inr es) \<Longrightarrow>
          distinct (map fst es) \<and> set es = {(k, v). view r k = Some v \<and> prefix p k}"
begin

lemma put_then_get:
  assumes "inv r" and "put k v r = (Ret None, r')" and "get r' k' = Ret (Inr u)"
  shows "u = (if k' = k then v else value_or_empty (view r k'))"
  using assms put_returns [OF assms(1,2)] get_view [of r' k' u] put_ok [OF assms(1,2)] by auto

lemma entries_get:
  assumes "inv r" and "entries r p = Ret (Inr es)" and "(k, v) \<in> set es" and "get r k = Ret (Inr u)"
  shows "u = v"
  using assms entries_view [OF assms(1,2)] get_view [OF assms(1,4)] by (auto simp: value_or_empty_def)

text \<open>A sequence of sets, stopping at the first that does not succeed.\<close>

fun puts :: "(string \<times> string) list \<Rightarrow> 'r \<Rightarrow> goerror option outcome \<times> 'r" where
  "puts [] r = (Ret None, r)"
| "puts ((k, v) # kvs) r =
     (case put k v r of (Ret None, r') \<Rightarrow> puts kvs r' | (x, r') \<Rightarrow> (x, r'))"

lemma puts_view:
  "inv r \<Longrightarrow> puts kvs r = (Ret None, r') \<Longrightarrow>
   inv r' \<and> view r' = fold (\<lambda>(k, v) m. m(k := as_entry v)) kvs (view r)"
proof (induction kvs r rule: puts.induct)
  case (1 r)
  then show ?case by simp
next
  case (2 k v kvs r)
  from "2.prems"(2) obtain r1 where p: "put k v r = (Ret None, r1)" "puts kvs r1 = (Ret None, r')"
    by (auto split: prod.splits outcome.splits option.splits)
  from put_returns [OF "2.prems"(1) p(1)] have "inv r1" by simp
  with 2 p put_ok [OF "2.prems"(1) p(1)] show ?case by simp
qed

end

section \<open>State and operations\<close>

definition ConfigBucket :: string where
  "ConfigBucket = ''config''"

definition ConfigBucketLen :: nat where
  "ConfigBucketLen = length ConfigBucket"

record config_change =
  ch_key :: string
  ch_value :: string

text \<open>
  \<open>watchMap\<close> holds the prefix of each registered watcher under its handle, in the order
  the map's iteration visits them.
\<close>

record 's config_repo =
  Store :: "'s data_store option"
  cfg_priority :: int
  shuttingDown :: bool
  watchNum :: int
  watchMap :: "(int \<times> string) list"

definition ConfigRepository :: "int \<Rightarrow> 's data_store option \<Rightarrow> 's config_repo" where
  "ConfigRepository priority store =
     \<lparr>Store = store, cfg_priority = priority, shuttingDown = False, watchNum = 0, watchMap = []\<rparr>"

definition nil_deref :: string where
  "nil_deref = ''invalid memory address or nil pointer dereference''"

definition bucket_key :: "string \<Rightarrow> bytes" where
  "bucket_key key = ConfigBucket @ '':'' @ key"

definition cfg_Get :: "'s config_repo \<Rightarrow> string \<Rightarrow> string res outcome" where
  "cfg_Get t key =
     (case Store t of None \<Rightarrow> Panic nil_deref | Some d \<Rightarrow> Ret (ds_get d (bucket_key key)))"

definition cfg_GetProperty :: "'s config_repo \<Rightarrow> string \<Rightarrow> string option" where
  "cfg_GetProperty t key =
     (if Store t = None \<or> shuttingDown t then None
      else case cfg_Get t key of
             Ret (Inr value) \<Rightarrow> if value = '''' then None else Some value
           | _ \<Rightarrow> None)"

definition cfg_EnumerateAll ::
    "'s config_repo \<Rightarrow> string \<Rightarrow> (string \<Rightarrow> string \<Rightarrow> 'c \<Rightarrow> bool \<times> 'c) \<Rightarrow> 'c \<Rightarrow> (goerror option \<times> 'c) outcome" where
  "cfg_EnumerateAll t pre cb c =
     (case Store t of
        None \<Rightarrow> Panic nil_deref
      | Some d \<Rightarrow>
          Ret (ds_enumerate d (bucket_key pre)
            (\<lambda>(key, value). cb (drop (ConfigBucketLen + 1) key) value) c))"

definition cfg_doSet :: "string \<Rightarrow> string \<Rightarrow> 's config_repo \<Rightarrow> goerror option outcome \<times> 's config_repo" where
  "cfg_doSet key value t =
     (case Store t of
        None \<Rightarrow> (Panic nil_deref, t)
      | Some d \<Rightarrow>
          (let (err, d') = ds_update
                 (if value = '''' then (\<lambda>o'. st_remove o' (bucket_key key))
                  else (\<lambda>o'. st_set o' (bucket_key key) value)) d
           in (Ret err, t\<lparr>Store := Some d'\<rparr>)))"

text \<open>The watchers a change is sent to, in the order of the iteration.\<close>

definition cfg_notifyAll :: "'s config_repo \<Rightarrow> config_change \<Rightarrow> (int \<times> config_change) list" where
  "cfg_notifyAll t e =
     map (\<lambda>(handle, pre). (handle, e)) (filter (\<lambda>(handle, pre). HasPrefix (ch_key e) pre) (watchMap t))"

definition cfg_Set :: "string \<Rightarrow> string \<Rightarrow> 's config_repo
    \<Rightarrow> goerror option outcome \<times> 's config_repo \<times> (int \<times> config_change) list" where
  "cfg_Set key value t =
     (case cfg_doSet key value t of
        (Ret None, t') \<Rightarrow>
          (Ret None, t',
           if watchNum t' \<noteq> 0 then cfg_notifyAll t' \<lparr>ch_key = key, ch_value = value\<rparr> else [])
      | (r, t') \<Rightarrow> (r, t', []))"

definition cfg_registerWatch :: "string \<Rightarrow> 's config_repo \<Rightarrow> int \<times> 's config_repo" where
  "cfg_registerWatch pre t =
     (let handle = watchNum t + 1
      in (handle, t\<lparr>watchNum := handle, watchMap := watchMap t @ [(handle, pre)]\<rparr>))"

definition cfg_unregisterWatch :: "int \<Rightarrow> 's config_repo \<Rightarrow> 's config_repo" where
  "cfg_unregisterWatch handle t = t\<lparr>watchMap := filter (\<lambda>(h, pre). h \<noteq> handle) (watchMap t)\<rparr>"

text \<open>\<open>Destroy\<close> gives the handles whose watchers it cancels.\<close>

definition cfg_Destroy :: "'s config_repo \<Rightarrow> 's config_repo \<times> int list" where
  "cfg_Destroy t =
     (let t = t\<lparr>shuttingDown := True\<rparr>
      in (t, if 0 < watchNum t then map fst (watchMap t) else []))"

definition cfg_Backend :: "'s config_repo \<Rightarrow> 's data_store option" where
  "cfg_Backend t = Store t"

definition cfg_SetBackend :: "'s data_store option \<Rightarrow> 's config_repo \<Rightarrow> 's config_repo" where
  "cfg_SetBackend d t = t\<lparr>Store := d\<rparr>"

section \<open>The contract holds\<close>

definition cfg_inv :: "'s config_repo \<Rightarrow> bool" where
  "cfg_inv t \<longleftrightarrow> (case Store t of None \<Rightarrow> False | Some d \<Rightarrow> store_laws (ops d))"

definition cfg_view :: "'s config_repo \<Rightarrow> string \<Rightarrow> string option" where
  "cfg_view t key = (case Store t of None \<Rightarrow> None | Some d \<Rightarrow> contents d (bucket_key key))"

definition cfg_put :: "string \<Rightarrow> string \<Rightarrow> 's config_repo \<Rightarrow> goerror option outcome \<times> 's config_repo" where
  "cfg_put key value t = (let (r, t', ns) = cfg_Set key value t in (r, t'))"

definition cfg_entries :: "'s config_repo \<Rightarrow> string \<Rightarrow> (string \<times> string) list res outcome" where
  "cfg_entries t pre =
     (case cfg_EnumerateAll t pre (\<lambda>k v acc. (True, acc @ [(k, v)])) [] of
        Panic m \<Rightarrow> Panic m
      | Ret (None, es) \<Rightarrow> Ret (Inr es)
      | Ret (Some e, es) \<Rightarrow> Ret (Inl e))"

lemma bucket_key_inj [simp]: "bucket_key a = bucket_key b \<longleftrightarrow> a = b"
  by (simp add: bucket_key_def)

lemma drop_bucket_key [simp]: "drop (ConfigBucketLen + 1) (bucket_key k) = k"
  by (simp add: bucket_key_def ConfigBucketLen_def ConfigBucket_def)

lemma prefix_bucket_key: "prefix (bucket_key p) x \<longleftrightarrow> (\<exists>k. x = bucket_key k \<and> prefix p k)"
  by (auto simp: bucket_key_def prefix_def)

text \<open>The entries an enumeration visits, as pairs of property and value.\<close>

definition strip_bucket :: "bytes \<times> bytes \<Rightarrow> string \<times> string" where
  "strip_bucket kv = (drop (ConfigBucketLen + 1) (fst kv), snd kv)"

lemma enum_do_strip:
  "(\<And>k v c. fst (f k v c)) \<Longrightarrow>
   enum_do (\<lambda>(key, value). f (drop (ConfigBucketLen + 1) key) value) raw c =
   (True, fold (\<lambda>(k, v) c. snd (f k v c)) (map strip_bucket raw) c)"
proof (induction raw arbitrary: c)
  case (Cons kv raw)
  obtain k v where kv: "kv = (k, v)" by (cases kv)
  obtain go c' where f: "f (drop (ConfigBucketLen + 1) k) v c = (go, c')"
    by (cases "f (drop (ConfigBucketLen + 1) k) v c")
  with Cons.prems [of "drop (ConfigBucketLen + 1) k" v c] have "go" by simp
  with Cons.IH [OF Cons.prems] f show ?case
    by (simp add: kv strip_bucket_def)
qed simp

lemma enum_do_snoc:
  "enum_do (\<lambda>(key, value) acc. (True, acc @ [(drop (Suc ConfigBucketLen) key, value)])) raw c =
   (True, c @ map strip_bucket raw)"
  by (induction raw arbitrary: c) (auto simp: strip_bucket_def)

lemma cfg_entries_cases:
  assumes "Store t = Some d"
  shows "cfg_entries t pre =
    (case st_scan (ops d) (state d) (bucket_key pre) of
       (raw, None) \<Rightarrow> Ret (Inr (map strip_bucket raw))
     | (raw, Some e) \<Rightarrow> Ret (Inl e))"
  unfolding cfg_entries_def cfg_EnumerateAll_def ds_enumerate_def
  by (simp add: assms enum_do_snoc split: prod.splits option.splits)

lemma cfg_EnumerateAll_fold:
  assumes "\<And>k v c. fst (cb k v c)" and "cfg_entries t pre = Ret (Inr es)"
  shows "cfg_EnumerateAll t pre cb c = Ret (None, fold (\<lambda>(k, v) c. snd (cb k v c)) es c)"
proof -
  from assms(2) obtain d where d: "Store t = Some d"
    by (cases "Store t") (auto simp: cfg_entries_def cfg_EnumerateAll_def)
  from assms(2) obtain raw where "st_scan (ops d) (state d) (bucket_key pre) = (raw, None)"
      and "es = map strip_bucket raw"
    by (auto simp: cfg_entries_cases [OF d] split: prod.splits option.splits)
  then show ?thesis
    using enum_do_strip [of cb raw c] assms(1) by (simp add: cfg_EnumerateAll_def ds_enumerate_def d)
qed

lemma cfg_doSet_view:
  assumes "cfg_inv t" and "cfg_doSet key value t = (r, t')"
  shows "cfg_inv t' \<and> watchNum t' = watchNum t \<and> watchMap t' = watchMap t \<and>
    (\<exists>e. r = Ret e \<and> cfg_view t' = (if e = None then (cfg_view t)(key := as_entry value) else cfg_view t))"
proof -
  from assms(1) obtain d where d: "Store t = Some d" "store_laws (ops d)"
    by (auto simp: cfg_inv_def split: option.splits)
  show ?thesis
  proof (cases "value = ''''")
    case True
    obtain e s' where r: "st_remove (ops d) (bucket_key key) (state d) = (e, s')"
      by (cases "st_remove (ops d) (bucket_key key) (state d)")
    with assms(2) d True law_remove [OF d(2) r] show ?thesis
      by (auto simp: cfg_doSet_def ds_update_def cfg_inv_def cfg_view_def contents_def as_entry_def fun_eq_iff)
  next
    case False
    obtain e s' where r: "st_set (ops d) (bucket_key key) value (state d) = (e, s')"
      by (cases "st_set (ops d) (bucket_key key) value (state d)")
    with assms(2) d False law_set [OF d(2) r] show ?thesis
      by (auto simp: cfg_doSet_def ds_update_def cfg_inv_def cfg_view_def contents_def as_entry_def fun_eq_iff)
  qed
qed

lemma cfg_put_doSet: "cfg_put key value t = cfg_doSet key value t"
  by (auto simp: cfg_put_def cfg_Set_def Let_def split: prod.splits outcome.splits option.splits)

lemma cfg_get_view: "cfg_inv t \<Longrightarrow> cfg_Get t k = Ret (Inr v) \<Longrightarrow> v = value_or_empty (cfg_view t k)"
  by (auto simp: cfg_inv_def cfg_Get_def cfg_view_def contents_def ds_get_def value_or_empty_def
      nil_bytes_def split: option.splits dest!: law_get)

lemma cfg_entries_view:
  assumes "cfg_inv t" and "cfg_entries t p = Ret (Inr es)"
  shows "distinct (map fst es) \<and> set es = {(k, v). cfg_view t k = Some v \<and> prefix p k}"
proof -
  from assms(1) obtain d where d: "Store t = Some d" "store_laws (ops d)"
    by (auto simp: cfg_inv_def split: option.splits)
  with assms(2) obtain raw where raw: "st_scan (ops d) (state d) (bucket_key p) = (raw, None)"
      and es: "es = map strip_bucket raw"
    by (auto simp: cfg_entries_cases [OF d(1)] split: prod.splits option.splits)
  note law = law_scan [OF d(2) raw]
  have keys: "\<And>kv. kv \<in> set raw \<Longrightarrow> \<exists>k. fst kv = bucket_key k"
    using law by (auto simp: prefix_bucket_key)
  have "inj_on (drop (ConfigBucketLen + 1)) (fst ` set raw)"
    by (rule inj_onI) (metis imageE keys drop_bucket_key)
  then have "distinct (map (drop (ConfigBucketLen + 1)) (map fst raw))"
    using law by (metis distinct_map list.set_map)
  moreover have "map fst es = map (drop (ConfigBucketLen + 1)) (map fst raw)"
    by (simp add: es strip_bucket_def)
  moreover have "set es = {(k, v). cfg_view t k = Some v \<and> prefix p k}"
  proof -
    have "(k, v) \<in> set es \<longleftrightarrow> (bucket_key k, v) \<in> set raw" for k v
    proof
      assume "(k, v) \<in> set es"
      then obtain x y where kv: "(x, y) \<in> set raw" "k = drop (ConfigBucketLen + 1) x" "v = y"
        by (auto simp: es strip_bucket_def)
      with keys [OF kv(1)] show "(bucket_key k, v) \<in> set raw"
        by (metis drop_bucket_key fst_conv)
    next
      assume "(bucket_key k, v) \<in> set raw"
      then show "(k, v) \<in> set es"
        using drop_bucket_key [of k] by (force simp: es strip_bucket_def image_iff)
    qed
    then show ?thesis
      using law d(1) by (auto simp: cfg_view_def contents_def prefix_bucket_key)
  qed
  ultimately show ?thesis by simp
qed

interpretation cfgr: config_repository cfg_Get cfg_put cfg_entries cfg_inv cfg_view
proof unfold_locales
  show "cfg_inv r \<Longrightarrow> \<exists>x. cfg_Get r k = Ret x" for r :: "'a config_repo" and k
    by (auto simp: cfg_inv_def cfg_Get_def split: option.splits)
qed (auto dest: cfg_get_view cfg_doSet_view cfg_entries_view simp: cfg_put_doSet)

lemmas cfg_contract = cfgr.put_returns cfgr.put_ok cfgr.put_failed cfgr.get_returns cfgr.get_view

lemma cfg_Set_put: "cfg_Set k v t = (r, t', ns) \<Longrightarrow> cfg_put k v t = (r, t')"
  by (simp add: cfg_put_def)

section \<open>Watchers\<close>

text \<open>Handles are numbered from 1 and never used again; the map is keyed by them.\<close>

definition watch_inv :: "'s config_repo \<Rightarrow> bool" where
  "watch_inv t \<longleftrightarrow> 0 \<le> watchNum t \<and> distinct (map fst (watchMap t)) \<and>
     (\<forall>(h, pre) \<in> set (watchMap t). 0 < h \<and> h \<le> watchNum t)"

lemma watch_inv_init: "watch_inv (ConfigRepository p d)"
  by (simp add: watch_inv_def ConfigRepository_def)

lemma watch_inv_register: "watch_inv t \<Longrightarrow> cfg_registerWatch pre t = (h, t') \<Longrightarrow> watch_inv t'"
  by (fastforce simp: watch_inv_def cfg_registerWatch_def Let_def)

lemma watch_inv_unregister: "watch_inv t \<Longrightarrow> watch_inv (cfg_unregisterWatch h t)"
  by (auto simp: watch_inv_def cfg_unregisterWatch_def distinct_map_fst_filter)

lemma cfg_Set_notifies:
  assumes "watch_inv t" and "cfg_Set k v t = (Ret None, t', ns)"
  shows "(h, e) \<in> set ns \<longleftrightarrow>
    e = \<lparr>ch_key = k, ch_value = v\<rparr> \<and> (\<exists>pre. (h, pre) \<in> set (watchMap t) \<and> HasPrefix k pre)"
proof -
  have eqs: "watchNum t' = watchNum t" "watchMap t' = watchMap t"
    using assms(2)
    by (auto simp: cfg_Set_def cfg_doSet_def split: prod.splits outcome.splits option.splits)
  have "watchNum t \<noteq> 0 \<or> watchMap t = []"
    using assms(1) by (cases "watchMap t") (auto simp: watch_inv_def)
  moreover have "ns = (if watchNum t' \<noteq> 0 then cfg_notifyAll t' \<lparr>ch_key = k, ch_value = v\<rparr> else [])"
    using assms(2) by (auto simp: cfg_Set_def split: prod.splits outcome.splits option.splits)
  ultimately show ?thesis
    by (force simp: eqs cfg_notifyAll_def)
qed

section \<open>Properties\<close>

text \<open>
  C13: an enumeration of a prefix that meets no error gives every property with the prefix that
  has a value exactly once, with the value that reading it gives; properties that were set to
  the empty string are gone, and entries of other buckets of the store never show.
\<close>

theorem entries_exact:
  assumes "cfg_inv t" and "cfg_put key value t = (Ret None, t')" and "cfg_entries t' pre = Ret (Inr es)"
  shows "distinct (map fst es) \<and>
    set es = {(k, v). prefix pre k \<and> (if k = key then value \<noteq> '''' \<and> v = value else cfg_view t k = Some v)} \<and>
    (\<forall>k v u. (k, v) \<in> set es \<and> cfg_Get t' k = Ret (Inr u) \<longrightarrow> u = v)"
proof -
  have i: "cfg_inv t'" using cfgr.put_returns [OF assms(1,2)] by simp
  note v = cfgr.put_ok [OF assms(1,2)]
  have "set es = {(k, v). prefix pre k \<and> (if k = key then value \<noteq> '''' \<and> v = value else cfg_view t k = Some v)}"
    using cfgr.entries_view [OF i assms(3)] v by (auto simp: as_entry_def)
  then show ?thesis
    using cfgr.entries_view [OF i assms(3)] cfgr.entries_get [OF i assms(3)] by blast
qed

definition sample_state :: "(bytes \<times> bytes) list" where
  "sample_state = [(''other:a'', ''1''), (''config:b'', ''2'')]"

definition sample_repo :: "(bytes \<times> bytes) list config_repo" where
  "sample_repo = ConfigRepository 0 (Some \<lparr>ops = mem_ops, state = sample_state\<rparr>)"

lemma sample_repo_inv: "cfg_inv sample_repo"
  by (simp add: sample_repo_def cfg_inv_def ConfigRepository_def mem_ops_laws)

lemma sample_put:
  "cfg_put k (c # v) sample_repo = (Ret None,
     sample_repo\<lparr>Store := Some \<lparr>ops = mem_ops, state = AList.update (bucket_key k) (c # v) sample_state\<rparr>\<rparr>)"
  by (simp add: cfg_put_doSet cfg_doSet_def sample_repo_def ConfigRepository_def ds_update_def mem_ops_def)

lemma strip_bucket_key: "strip_bucket (bucket_key k, v) = (k, v)"
  by (simp only: strip_bucket_def fst_conv snd_conv drop_bucket_key)

lemma sample_scan:
  "filter (\<lambda>(k, v). prefix (bucket_key '''') k) (AList.clearjunk (AList.update (bucket_key ''a'') ''3'' sample_state)) =
     [(bucket_key ''b'', ''2''), (bucket_key ''a'', ''3'')]"
  by code_simp

theorem entries_exact_witness:
  "\<exists>t' es. cfg_put ''a'' ''3'' sample_repo = (Ret None, t') \<and> cfg_entries t' '''' = Ret (Inr es) \<and>
     set es = {(''a'', ''3''), (''b'', ''2'')}"
proof -
  define t' where "t' = sample_repo\<lparr>Store := Some
    \<lparr>ops = mem_ops, state = AList.update (bucket_key ''a'') ''3'' sample_state\<rparr>\<rparr>"
  have p: "cfg_put ''a'' ''3'' sample_repo = (Ret None, t')"
    unfolding t'_def by (rule sample_put)
  have "Store t' = Some \<lparr>ops = mem_ops, state = AList.update (bucket_key ''a'') ''3'' sample_state\<rparr>"
    by (simp add: t'_def)
  note c = cfg_entries_cases [OF this, of "''''"]
  have sc: "st_scan mem_ops (AList.update (bucket_key ''a'') ''3'' sample_state) (bucket_key '''') =
      ([(bucket_key ''b'', ''2''), (bucket_key ''a'', ''3'')], None)"
    by (simp only: mem_ops_def store_ops.simps sample_scan)
  have e: "cfg_entries t' '''' = Ret (Inr [(''b'', ''2''), (''a'', ''3'')])"
    unfolding c data_store.simps sc by (simp only: prod.case option.case list.map strip_bucket_key)
  have "set [(''b'', ''2''), (''a'', ''3'')] = {(k, v). prefix '''' k \<and>
      (if k = ''a'' then ''3'' \<noteq> '''' \<and> v = ''3'' else cfg_view sample_repo k = Some v)}"
    using entries_exact [OF sample_repo_inv p e] by blast
  moreover have "set [(''b'', ''2''), (''a'', ''3'')] = {(''a'', ''3''), (''b'', ''2'')}"
    by (simp only: list.set insert_commute)
  ultimately show ?thesis using p e by blast
qed

end
