(* ===== verification/App_Property.thy ===== *)
theory App_Property
  imports Utils_Node Utils_Prompt Config_Repository
begin

text \<open>
  The property resolvers of the framework (\<open>sprintapp/property.go\<close>,
  \<open>sprintapp/application_flags.go\<close>; the third one is \<open>Config_Repository\<close>) and the
  command line: the flags the application registers, how Go's package \<open>flag\<close> parses them
  and how they are passed on to a server process.
\<close>

section \<open>The contract of a resolver\<close>

text \<open>
  A resolver may keep a cache: a lookup may change its state, but not what any lookup
  answers.
\<close>

locale property_resolver =
  fixes getp :: "string \<Rightarrow> 's \<Rightarrow> (string \<times> bool) \<times> 's"
    and inv :: "'s \<Rightarrow> bool"
    and answer :: "'s \<Rightarrow> string \<Rightarrow> string \<times> bool"
  assumes getp_answer: "inv s \<Longrightarrow> getp k s = (r, s') \<Longrightarrow> r = answer s k"
    and getp_stable: "inv s \<Longrightarrow> getp k s = (r, s') \<Longrightarrow> inv s' \<and> answer s' = answer s"
    and found_or_empty: "inv s \<Longrightarrow> answer s k = (v, False) \<Longrightarrow> v = ''''"
begin

fun lookups :: "string list \<Rightarrow> 's \<Rightarrow> (string \<times> bool) list \<times> 's" where
  "lookups [] s = ([], s)"
| "lookups (k # ks) s =
     (let (r, s') = getp k s; (rs, s'') = lookups ks s' in (r # rs, s''))"

lemma lookups_answer: "inv s \<Longrightarrow> fst (lookups ks s) = map (answer s) ks"
proof (induction ks arbitrary: s)
  case (Cons k ks)
  obtain r s' where g: "getp k s = (r, s')" by (cases "getp k s")
  from getp_answer [OF Cons.prems g] getp_stable [OF Cons.prems g] Cons.IH [of s'] g show ?case
    by (simp add: split_beta)
qed simp

lemma lookups_stable: "inv s \<Longrightarrow> inv (snd (lookups ks s)) \<and> answer (snd (lookups ks s)) = answer s"
proof (induction ks arbitrary: s)
  case (Cons k ks)
  obtain r s' where g: "getp k s = (r, s')" by (cases "getp k s")
  from getp_stable [OF Cons.prems g] Cons.IH [of s'] g show ?case
    by (simp add: split_beta)
qed simp

text \<open>The answer to a property does not depend on what was looked up before it.\<close>

lemma lookup_order:
  assumes "inv s" and "getp k (snd (lookups ks s)) = (r, s')"
  shows "r = answer s k"
  using assms lookups_stable [of s ks] getp_answer [of "snd (lookups ks s)" k r s'] by simp

end

section \<open>The system environment\<close>

record env_resolver =
  res_applicationName :: string
  res_priority :: int
  cache :: "string \<Rightarrow> string option"

definition SystemEnvironmentPropertyResolver :: "string \<Rightarrow> int \<Rightarrow> env_resolver" where
  "SystemEnvironmentPropertyResolver name priority =
     \<lparr>res_applicationName = name, res_priority = priority, cache = Map.empty\<rparr>"

definition toEnv :: "env_resolver \<Rightarrow> string \<Rightarrow> string option" where
  "toEnv t key =
     (if HasPrefix key ''application.''
      then Some (ToUpper (res_applicationName t @ ''_''
             @ ReplaceAll (drop (length ''application.'') key) ''.'' ''_''))
      else None)"

text \<open>\<open>env\<close> is the process environment: the empty string where a variable is unset.\<close>

definition env_GetProperty ::
    "(string \<Rightarrow> string) \<Rightarrow> string \<Rightarrow> env_resolver \<Rightarrow> (string \<times> bool) \<times> env_resolver" where
  "env_GetProperty env key t =
     (case toEnv t key of
        None \<Rightarrow> (('''', False), t)
      | Some e \<Rightarrow>
          (case cache t e of
             Some value \<Rightarrow> ((value, value \<noteq> ''''), t)
           | None \<Rightarrow> ((env e, env e \<noteq> ''''), t\<lparr>cache := (cache t)(e \<mapsto> env e)\<rparr>)))"

text \<open>\<open>typed\<close> is what the terminal gives, should the variable be unset.\<close>

definition env_PromptProperty ::
    "(string \<Rightarrow> string) \<Rightarrow> string + string \<Rightarrow> string \<Rightarrow> env_resolver \<Rightarrow> (string \<times> bool) \<times> env_resolver" where
  "env_PromptProperty env typed key t =
     (case toEnv t key of
        None \<Rightarrow> (('''', False), t)
      | Some e \<Rightarrow>
          (let value = env e;
               value = (if value = '''' then PromptPassword typed else value)
           in ((value, value \<noteq> ''''), t\<lparr>cache := (cache t)(e \<mapsto> value)\<rparr>)))"

text \<open>\<open>order\<close> is the order in which the iteration visits the cache.\<close>

definition env_Environ :: "string list \<Rightarrow> bool \<Rightarrow> env_resolver \<Rightarrow> string list" where
  "env_Environ order withValues t =
     map (\<lambda>k. if withValues then k @ ''='' @ (case cache t k of Some v \<Rightarrow> v | None \<Rightarrow> '''') else k) order"

definition IsPEMProperty :: "string \<Rightarrow> bool" where
  "IsPEMProperty key \<longleftrightarrow> HasSuffix key ''.pem'' \<or> HasSuffix key ''.key''"

definition IsPasswordProperty :: "string \<Rightarrow> bool" where
  "IsPasswordProperty key \<longleftrightarrow> HasSuffix key ''.pwd'' \<or> HasSuffix key ''.password''
     \<or> HasSuffix key ''.secret'' \<or> HasSuffix key ''.token''"

definition IsHiddenProperty :: "string \<Rightarrow> bool" where
  "IsHiddenProperty key \<longleftrightarrow> HasPrefix key ''.''"

definition env_answer :: "(string \<Rightarrow> string) \<Rightarrow> env_resolver \<Rightarrow> string \<Rightarrow> string \<times> bool" where
  "env_answer env t key =
     (case toEnv t key of
        None \<Rightarrow> ('''', False)
      | Some e \<Rightarrow> let v = (case cache t e of Some v \<Rightarrow> v | None \<Rightarrow> env e) in (v, v \<noteq> ''''))"

interpretation envr: property_resolver "env_GetProperty env" "\<lambda>_. True" "env_answer env" for env
  by unfold_locales
    (auto simp: env_GetProperty_def env_answer_def toEnv_def Let_def fun_eq_iff split: option.splits if_splits)

interpretation cfgp: property_resolver
  "\<lambda>k t. (case cfg_GetProperty t k of None \<Rightarrow> ('''', False) | Some v \<Rightarrow> (v, True), t)"
  "\<lambda>_. True" "\<lambda>t k. case cfg_GetProperty t k of None \<Rightarrow> ('''', False) | Some v \<Rightarrow> (v, True)"
  by unfold_locales (auto split: option.splits)

lemma env_prompt_then_get:
  assumes "env_PromptProperty env typed key t = (r, t')"
  shows "env_answer env' t' key = r"
  using assms
  by (auto simp: env_PromptProperty_def env_answer_def toEnv_def Let_def split: option.splits if_splits)

section \<open>The application's flags\<close>

record app_flags =
  daemon :: "bool option"
  verbose :: "bool option"
  node :: "int option"
  flags_priority :: int
  properties :: "(string \<Rightarrow> string option) option"

definition NewKeyValueFlags :: "(string \<Rightarrow> string option) option" where
  "NewKeyValueFlags = Some Map.empty"

definition flags_Set :: "string \<Rightarrow> (string \<Rightarrow> string option) option \<Rightarrow> (string \<Rightarrow> string option) option" where
  "flags_Set value f =
     (let m = (case f of None \<Rightarrow> Map.empty | Some m \<Rightarrow> m)
      in case IndexByte value (CHR ''='') of
           None \<Rightarrow> Some (m(value \<mapsto> ''''))
         | Some i \<Rightarrow> Some (m(take i value \<mapsto> drop (i + 1) value)))"

definition ApplicationFlags :: "int \<Rightarrow> app_flags" where
  "ApplicationFlags priority =
     \<lparr>daemon = None, verbose = None, node = None, flags_priority = priority,
      properties = NewKeyValueFlags\<rparr>"

definition RegisterFlags :: "app_flags \<Rightarrow> app_flags" where
  "RegisterFlags t = t\<lparr>daemon := Some False, verbose := Some False, node := Some 0\<rparr>"

text \<open>\<open>FlagSetFactory\<close>: a new flag set that every registrar of the context adds its flags to.\<close>

definition FlagSetFactory_Object :: "('fs \<Rightarrow> 'fs) list \<Rightarrow> 'fs \<Rightarrow> 'fs res" where
  "FlagSetFactory_Object registrars fs = Inr (fold (\<lambda>reg fs. reg fs) registrars fs)"

definition Daemon :: "app_flags \<Rightarrow> bool" where
  "Daemon t = (case daemon t of Some b \<Rightarrow> b | None \<Rightarrow> False)"

definition Verbose :: "app_flags \<Rightarrow> bool" where
  "Verbose t = (case verbose t of Some b \<Rightarrow> b | None \<Rightarrow> False)"

definition flags_Node :: "app_flags \<Rightarrow> int" where
  "flags_Node t = (case node t of Some n \<Rightarrow> n | None \<Rightarrow> 0)"

definition flags_GetProperty :: "app_flags \<Rightarrow> string \<Rightarrow> string \<times> bool" where
  "flags_GetProperty t key =
     (case properties t of
        None \<Rightarrow> ('''', False)
      | Some m \<Rightarrow> (case m key of Some v \<Rightarrow> (v, True) | None \<Rightarrow> ('''', False)))"

interpretation flagp: property_resolver "\<lambda>k t. (flags_GetProperty t k, t)" "\<lambda>_. True" flags_GetProperty
  by unfold_locales (auto simp: flags_GetProperty_def split: option.splits)

definition prop_map :: "app_flags \<Rightarrow> string \<Rightarrow> string option" where
  "prop_map t = (case properties t of None \<Rightarrow> Map.empty | Some m \<Rightarrow> m)"

text \<open>\<open>order\<close> is the order in which the iteration visits the properties.\<close>

definition RegisterServerArgs :: "string list \<Rightarrow> app_flags \<Rightarrow> string list \<Rightarrow> string list" where
  "RegisterServerArgs order t args =
     (let args = (if Verbose t then args @ [''-v''] else args);
          nd = flags_Node t;
          args = (if 0 < nd then args @ [''-n'', Itoa nd] else args)
      in args @ concat (map (\<lambda>k. if k \<noteq> ''''
                               then [''-p'', k @ ''='' @ (case prop_map t k of Some v \<Rightarrow> v | None \<Rightarrow> '''')]
                               else []) order))"

definition map_order :: "string list \<Rightarrow> (string \<Rightarrow> string option) \<Rightarrow> bool" where
  "map_order order m \<longleftrightarrow> distinct order \<and> set order = dom m"

section \<open>Package flag\<close>

text \<open>\<open>strconv.ParseBool\<close>, and \<open>strconv.ParseInt(s, 0, 64)\<close>: the base follows the prefix.\<close>

definition go_ParseBool :: "string \<Rightarrow> bool res" where
  "go_ParseBool s =
     (if s \<in> set [''1'', ''t'', ''T'', ''true'', ''TRUE'', ''True''] then Inr True
      else if s \<in> set [''0'', ''f'', ''F'', ''false'', ''FALSE'', ''False''] then Inr False
      else Inl ErrSyntax)"

datatype digit_state = AtStart | AfterDigit | AfterUnderscore | AfterOther

fun underscore_loop :: "bool \<Rightarrow> digit_state \<Rightarrow> string \<Rightarrow> bool" where
  "underscore_loop hex i [] = (i \<noteq> AfterUnderscore)"
| "underscore_loop hex i (c # cs) =
     (let dig = (case char_digit c of None \<Rightarrow> False | Some d \<Rightarrow> d < 10 \<or> (hex \<and> d < 16)) in
      if dig then underscore_loop hex AfterDigit cs
      else if c = CHR ''_'' then i = AfterDigit \<and> underscore_loop hex AfterUnderscore cs
      else if i = AfterUnderscore then False
      else underscore_loop hex AfterOther cs)"

definition underscoreOK :: "string \<Rightarrow> bool" where
  "underscoreOK s =
     (if 2 \<le> length s \<and> s ! 0 = CHR ''0'' \<and> lower_char (s ! 1) \<in> {CHR ''b'', CHR ''o'', CHR ''x''}
      then underscore_loop (lower_char (s ! 1) = CHR ''x'') AfterDigit (drop 2 s)
      else underscore_loop False AtStart s)"

definition ParseUint0 :: "string \<Rightarrow> nat \<Rightarrow> int res" where
  "ParseUint0 s bits =
     (if s = '''' then Inl ErrSyntax
      else (let (base, digits) =
              (if hd s \<noteq> CHR ''0'' then (10, s)
               else if 3 \<le> length s \<and> lower_char (s ! 1) = CHR ''b'' then (2, drop 2 s)
               else if 3 \<le> length s \<and> lower_char (s ! 1) = CHR ''o'' then (8, drop 2 s)
               else if 3 \<le> length s \<and> lower_char (s ! 1) = CHR ''x'' then (16, drop 2 s)
               else (8, drop 1 s))
            in case uint_loop base (2 ^ bits - 1) 0 (filter (\<lambda>c. c \<noteq> CHR ''_'') digits) of
                 Inl e \<Rightarrow> Inl e
               | Inr n \<Rightarrow> if CHR ''_'' \<in> set digits \<and> \<not> underscoreOK s then Inl ErrSyntax else Inr n))"

definition ParseInt0 :: "string \<Rightarrow> int res" where
  "ParseInt0 s =
     (let neg = (s \<noteq> [] \<and> hd s = CHR ''-'');
          body = (if s \<noteq> [] \<and> (hd s = CHR ''-'' \<or> hd s = CHR ''+'') then tl s else s)
      in case ParseUint0 body 64 of
           Inl e \<Rightarrow> Inl e
         | Inr n \<Rightarrow>
             if \<not> neg \<and> 2 ^ 63 \<le> n then Inl ErrRange
             else if neg \<and> 2 ^ 63 < n then Inl ErrRange
             else Inr (if neg then - n else n))"

text \<open>\<open>flag.FlagSet.Parse\<close> on the flags of \<open>RegisterFlags\<close>.\<close>

definition is_bool_flag :: "string \<Rightarrow> bool option" where
  "is_bool_flag name =
     (if name \<in> set [''d'', ''v''] then Some True
      else if name \<in> set [''n'', ''p''] then Some False else None)"

definition set_flag :: "string \<Rightarrow> string \<Rightarrow> app_flags \<Rightarrow> goerror option \<times> app_flags" where
  "set_flag name value t =
     (if name = ''d'' then
        (case go_ParseBool value of Inl e \<Rightarrow> (Some e, t) | Inr b \<Rightarrow> (None, t\<lparr>daemon := Some b\<rparr>))
      else if name = ''v'' then
        (case go_ParseBool value of Inl e \<Rightarrow> (Some e, t) | Inr b \<Rightarrow> (None, t\<lparr>verbose := Some b\<rparr>))
      else if name = ''n'' then
        (case ParseInt0 value of Inl e \<Rightarrow> (Some e, t) | Inr n \<Rightarrow> (None, t\<lparr>node := Some n\<rparr>))
      else (None, t\<lparr>properties := flags_Set value (properties t)\<rparr>))"

definition split_flag :: "string \<Rightarrow> string \<times> string option" where
  "split_flag name =
     (case IndexByte (drop 1 name) (CHR ''='') of
        None \<Rightarrow> (name, None)
      | Some i \<Rightarrow> (take (i + 1) name, Some (drop (i + 2) name)))"

datatype flag_head = FlagStop | FlagEnd | FlagBad | FlagNamed string "string option"

definition flag_head_of :: "string \<Rightarrow> flag_head" where
  "flag_head_of s =
     (if length s < 2 \<or> hd s \<noteq> CHR ''-'' then FlagStop
      else if s = ''--'' then FlagEnd
      else (let name = (if s ! 1 = CHR ''-'' then drop 2 s else drop 1 s) in
            if name = '''' \<or> hd name = CHR ''-'' \<or> hd name = CHR ''='' then FlagBad
            else case split_flag name of (nm, v) \<Rightarrow> FlagNamed nm v))"

fun FlagParse :: "string list \<Rightarrow> app_flags \<Rightarrow> string list res \<times> app_flags" where
  "FlagParse [] t = (Inr [], t)"
| "FlagParse (s # args) t =
     (case flag_head_of s of
        FlagStop \<Rightarrow> (Inr (s # args), t)
      | FlagEnd \<Rightarrow> (Inr args, t)
      | FlagBad \<Rightarrow> (Inl (Errorf (''bad flag syntax: '' @ s)), t)
      | FlagNamed name value \<Rightarrow>
          (case is_bool_flag name of
             None \<Rightarrow>
               (Inl (Errorf (if name = ''help'' \<or> name = ''h'' then ''flag: help requested''
                             else ''flag provided but not defined: -'' @ name)), t)
           | Some True \<Rightarrow>
               (case set_flag name (case value of Some v \<Rightarrow> v | None \<Rightarrow> ''true'') t of
                  (Some e, t') \<Rightarrow> (Inl (Errorf (''invalid boolean value for -'' @ name)), t')
                | (None, t') \<Rightarrow> FlagParse args t')
           | Some False \<Rightarrow>
               (case value of
                  Some v \<Rightarrow>
                    (case set_flag name v t of
                       (Some e, t') \<Rightarrow> (Inl (Errorf (''invalid value for flag -'' @ name)), t')
                     | (None, t') \<Rightarrow> FlagParse args t')
                | None \<Rightarrow>
                    (case args of
                       [] \<Rightarrow> (Inl (Errorf (''flag needs an argument: -'' @ name)), t)
                     | v # args' \<Rightarrow>
                         (case set_flag name v t of
                            (Some e, t') \<Rightarrow> (Inl (Errorf (''invalid value for flag -'' @ name)), t')
                          | (None, t') \<Rightarrow> FlagParse args' t')))))"

section \<open>Flags survive being passed to a server process\<close>

lemma flag_heads:
  "flag_head_of ''-d'' = FlagNamed ''d'' None" "flag_head_of ''-v'' = FlagNamed ''v'' None"
  "flag_head_of ''-n'' = FlagNamed ''n'' None" "flag_head_of ''-p'' = FlagNamed ''p'' None"
  by code_simp+

lemma flag_kinds:
  "is_bool_flag ''d'' = Some True" "is_bool_flag ''v'' = Some True"
  "is_bool_flag ''n'' = Some False" "is_bool_flag ''p'' = Some False"
  by (simp_all add: is_bool_flag_def)

lemma itoa_nat_hd: "0 < n \<Longrightarrow> hd (itoa_nat n) \<noteq> CHR ''0''"
proof (induction n rule: itoa_nat.induct)
  case (1 n)
  have zero: "d = 0" if "d < 10" "digit_char d = CHR ''0''" for d
  proof -
    have "of_char (digit_char d) = (of_char (CHR ''0'') :: nat)"
      using that(2) by (rule arg_cong)
    with that(1) show ?thesis by simp
  qed
  from 1 zero show ?case by (subst itoa_nat.simps) auto
qed

lemma digit_not_sign: assumes "d < 10" shows "digit_char d \<notin> {CHR ''-'', CHR ''+'', CHR ''_''}"
proof -
  have "digit_char d \<noteq> c" if "of_char c \<notin> {48..<58 :: nat}" for c
    using that assms by auto
  from this [of "CHR ''-''"] this [of "CHR ''+''"] this [of "CHR ''_''"] show ?thesis
    by simp
qed

lemma itoa_nat_no_sign: "c \<in> set (itoa_nat n) \<Longrightarrow> c \<notin> {CHR ''-'', CHR ''+'', CHR ''_''}"
proof -
  assume "c \<in> set (itoa_nat n)"
  then obtain d where "d < 10" "c = digit_char d" using itoa_nat_digits [of n] by auto
  then show ?thesis using digit_not_sign [of d] by simp
qed

lemma ParseInt0_Itoa:
  assumes "0 < n" "n < 2 ^ 63"
  shows "ParseInt0 (Itoa n) = Inr n"
proof -
  define s where "s = itoa_nat (nat n)"
  have ne: "s \<noteq> []" and hd_in: "hd s \<in> set s" by (simp_all add: s_def)
  have hd: "s \<noteq> []" "hd s \<notin> {CHR ''-'', CHR ''+'', CHR ''_''}" "hd s \<noteq> CHR ''0''"
    using ne hd_in itoa_nat_no_sign [of "hd s" "nat n"] itoa_nat_hd [of "nat n"] assms(1)
    by (simp_all add: s_def)
  have us: "CHR ''_'' \<notin> set s"
    using itoa_nat_no_sign [of "CHR ''_''" "nat n"] by (auto simp: s_def)
  have f: "filter (\<lambda>c. c \<noteq> CHR ''_'') s = s"
    using us by (auto intro!: filter_True)
  have nn: "int (nat n) = n" using assms(1) by simp
  have "int (nat n) \<le> 2 ^ 64 - 1" unfolding nn using assms(2) by simp
  from uint_loop_itoa [OF this] have loop: "uint_loop 10 (2 ^ 64 - 1) 0 s = Inr n"
    unfolding nn s_def .
  have P: "ParseUint0 s 64 = Inr n"
    unfolding ParseUint0_def if_P [OF hd(3)] if_not_P [OF hd(1)] Let_def case_prod_conv f loop
    using us by (simp only: sum.case simp_thms if_False)
  have I: "Itoa n = s" using assms by (simp add: Itoa_def s_def)
  have "hd s \<noteq> CHR ''-''" "hd s \<noteq> CHR ''+''" using hd(2) by simp_all
  then show ?thesis
    using assms hd(1) unfolding I by (simp add: ParseInt0_def P)
qed

lemma FlagParse_v: "FlagParse (''-v'' # args) t = FlagParse args (t\<lparr>verbose := Some True\<rparr>)"
  and FlagParse_d: "FlagParse (''-d'' # args) t = FlagParse args (t\<lparr>daemon := Some True\<rparr>)"
  by (simp_all add: flag_heads flag_kinds set_flag_def go_ParseBool_def)

lemma FlagParse_n:
  "0 < n \<Longrightarrow> n < 2 ^ 63 \<Longrightarrow> FlagParse (''-n'' # Itoa n # args) t = FlagParse args (t\<lparr>node := Some n\<rparr>)"
  by (simp add: flag_heads flag_kinds set_flag_def ParseInt0_Itoa)

lemma FlagParse_p:
  "CHR ''='' \<notin> set k \<Longrightarrow> FlagParse (''-p'' # (k @ ''='' @ v) # args) t =
     FlagParse args (t\<lparr>properties := Some ((prop_map t)(k \<mapsto> v))\<rparr>)"
  by (simp add: flag_heads flag_kinds set_flag_def flags_Set_def IndexByte_append prop_map_def)

lemma FlagParse_stop: "s = '''' \<or> hd s \<noteq> CHR ''-'' \<Longrightarrow> FlagParse (s # args) t = (Inr (s # args), t)"
  by (auto simp: flag_head_of_def)

declare FlagParse.simps [simp del]

lemma FlagParse_properties:
  assumes "\<forall>k \<in> set order. CHR ''='' \<notin> set k \<and> m k \<noteq> None"
  shows "FlagParse (concat (map (\<lambda>k. if k \<noteq> '''' then [''-p'', k @ ''='' @ (case m k of Some v \<Rightarrow> v | None \<Rightarrow> '''')]
                                     else []) order) @ rest) (t\<lparr>properties := Some p\<rparr>) =
     FlagParse rest (t\<lparr>properties := Some (\<lambda>k. if k \<noteq> '''' \<and> k \<in> set order then m k else p k)\<rparr>)"
  using assms
proof (induction order arbitrary: p)
  case (Cons k order)
  show ?case
  proof (cases "k = ''''")
    case True
    have "(\<lambda>j. if j \<noteq> '''' \<and> j \<in> set (k # order) then m j else p j) =
        (\<lambda>j. if j \<noteq> '''' \<and> j \<in> set order then m j else p j)"
      by (auto simp: True)
    with Cons True show ?thesis by simp
  next
    case False
    from Cons.prems obtain v where v: "m k = Some v" by auto
    have "FlagParse (''-p'' # (k @ ''='' @ v) # args) (t\<lparr>properties := Some p\<rparr>) =
        FlagParse args (t\<lparr>properties := Some (p(k \<mapsto> v))\<rparr>)" for args
      using Cons.prems FlagParse_p [of k v args "t\<lparr>properties := Some p\<rparr>"] by (simp add: prop_map_def)
    moreover have "(\<lambda>j. if j \<noteq> '''' \<and> j \<in> set order then m j else (p(k \<mapsto> v)) j) =
        (\<lambda>j. if j \<noteq> '''' \<and> j \<in> set (k # order) then m j else p j)"
      using False v by (auto simp: fun_eq_iff)
    ultimately show ?thesis
      using Cons False v by simp
  qed
qed simp

text \<open>
  The flags a process was started with, passed on and parsed by the server process, give
  the same verbosity, node number and properties (a property with the empty name is lost).
\<close>

definition passed_on :: "app_flags \<Rightarrow> app_flags \<Rightarrow> app_flags" where
  "passed_on t u = u\<lparr>verbose := Some (Verbose t), node := Some (max 0 (flags_Node t)),
     properties := Some ((prop_map t)('''' := None))\<rparr>"

lemma FlagParse_RegisterServerArgs:
  assumes "map_order order (prop_map t)" and "\<forall>k \<in> dom (prop_map t). CHR ''='' \<notin> set k"
    and "flags_Node t < 2 ^ 63" and "u = RegisterFlags (ApplicationFlags p)\<lparr>daemon := b\<rparr>"
  shows "FlagParse (RegisterServerArgs order t [] @ rest) u = FlagParse rest (passed_on t u)"
proof -
  define u1 where "u1 = u\<lparr>verbose := Some (Verbose t)\<rparr>"
  define u2 where "u2 = u1\<lparr>node := Some (max 0 (flags_Node t))\<rparr>"
  define ps where "ps = concat (map (\<lambda>k. if k \<noteq> ''''
    then [''-p'', k @ ''='' @ (case prop_map t k of Some v \<Rightarrow> v | None \<Rightarrow> '''')] else []) order)"
  have u: "verbose u = Some False" "node u = Some 0" "properties u = Some Map.empty"
    by (simp_all add: assms(4) RegisterFlags_def ApplicationFlags_def NewKeyValueFlags_def)
  have u2p: "u2 = u2\<lparr>properties := Some Map.empty\<rparr>"
    using u by (simp add: u2_def u1_def)
  have "u = u\<lparr>verbose := Some False\<rparr>" "u1 = u1\<lparr>node := Some 0\<rparr>"
    using u by (simp_all add: u1_def)
  then have "FlagParse (RegisterServerArgs order t [] @ rest) u =
      FlagParse ((if 0 < flags_Node t then [''-n'', Itoa (flags_Node t)] else []) @ ps @ rest) u1"
    by (simp add: RegisterServerArgs_def Let_def FlagParse_v u1_def flip: ps_def)
  also have "\<dots> = FlagParse (ps @ rest) u2"
    using u assms(3) \<open>u1 = u1\<lparr>node := Some 0\<rparr>\<close> by (auto simp: FlagParse_n u2_def max_def)
  also have "\<dots> = FlagParse rest (u2\<lparr>properties := Some (\<lambda>k. if k \<noteq> '''' \<and> k \<in> set order
      then prop_map t k else None)\<rparr>)"
    unfolding ps_def using assms(1,2) FlagParse_properties [where m = "prop_map t" and order = order and t = u2 and p = Map.empty and rest = rest]
    by (subst u2p) (auto simp: map_order_def domIff)
  also have "(\<lambda>k. if k \<noteq> '''' \<and> k \<in> set order then prop_map t k else None) = (prop_map t)('''' := None)"
    using assms(1) by (auto simp: map_order_def fun_eq_iff)
  finally show ?thesis by (simp add: passed_on_def u2_def u1_def fun_upd_def)
qed

text \<open>A key set through the command line never contains the separator.\<close>

lemma flags_Set_keys:
  "(\<forall>k \<in> dom m. CHR ''='' \<notin> set k) \<Longrightarrow> flags_Set value (Some m) = Some m' \<Longrightarrow>
   \<forall>k \<in> dom m'. CHR ''='' \<notin> set k"
  by (auto simp: flags_Set_def IndexByte_Some split: option.splits if_splits)

section \<open>Properties\<close>

lemma env_lookups_fold: "snd (envr.lookups env ks t) = fold (\<lambda>k t. snd (env_GetProperty env k t)) ks t"
  by (induction ks arbitrary: t) (auto simp: split_beta)

text \<open>
  the answer of the environment resolver to a property is the same whatever properties
  were looked up before through the same resolver (its cache never changes an answer), and a
  property outside \<open>application.\<close> is never found.
\<close>

theorem lookups_independent:
  "fst (env_GetProperty env k
      (fold (\<lambda>j t. snd (env_GetProperty env j t)) ks (SystemEnvironmentPropertyResolver name p))) =
     (if HasPrefix k ''application.''
      then let v = env (ToUpper (name @ ''_'' @ ReplaceAll (drop (length ''application.'') k) ''.'' ''_''))
           in (v, v \<noteq> '''')
      else ('''', False))"
proof -
  let ?t = "SystemEnvironmentPropertyResolver name p"
  have "fst (env_GetProperty env k (snd (envr.lookups env ks ?t))) = env_answer env ?t k"
    using envr.lookup_order [OF TrueI, of env k ks ?t] by (metis prod.collapse)
  then show ?thesis
    by (simp add: env_lookups_fold env_answer_def toEnv_def SystemEnvironmentPropertyResolver_def Let_def)
qed

end
