(* ===== verification/Paths.thy ===== *)
theory Paths
  imports Prelude
begin

text \<open>
  The functions of Go's package \<open>path/filepath\<close> that the framework calls, for the separator
  \<open>/\<close>: \<open>Clean\<close>, \<open>Join\<close>, \<open>Dir\<close>, \<open>Base\<close>, \<open>Abs\<close>, and \<open>path.Ext\<close>.
\<close>

definition slash :: char where "slash = CHR ''/''"

text \<open>The elements kept so far, the last one first.\<close>

fun clean_parts :: "bool \<Rightarrow> string list \<Rightarrow> string list \<Rightarrow> string list" where
  "clean_parts rooted acc [] = rev acc"
| "clean_parts rooted acc (p # ps) =
     (if p = '''' \<or> p = ''.'' then clean_parts rooted acc ps
      else if p = ''..'' then
        (if acc \<noteq> [] \<and> hd acc \<noteq> ''..'' then clean_parts rooted (tl acc) ps
         else if rooted then clean_parts rooted acc ps
         else clean_parts rooted (p # acc) ps)
      else clean_parts rooted (p # acc) ps)"

definition Clean :: "string \<Rightarrow> string" where
  "Clean path =
     (let rooted = HasPrefix path ''/'';
          ps = clean_parts rooted [] (SplitByte path slash)
      in if rooted then ''/'' @ Join ps ''/'' else if ps = [] then ''.'' else Join ps ''/'')"

definition path_Join :: "string list \<Rightarrow> string" where
  "path_Join es =
     (let es = filter (\<lambda>e. e \<noteq> '''') es in if es = [] then '''' else Clean (Join es ''/''))"

definition Dir :: "string \<Rightarrow> string" where
  "Dir path = Clean (case LastIndexByte path slash of None \<Rightarrow> '''' | Some i \<Rightarrow> take (i + 1) path)"

definition Base :: "string \<Rightarrow> string" where
  "Base path =
     (if path = '''' then ''.''
      else (let p = rev (dropWhile (\<lambda>c. c = slash) (rev path))
            in if p = '''' then ''/''
               else case LastIndexByte p slash of None \<Rightarrow> p | Some i \<Rightarrow> drop (i + 1) p))"

text \<open>\<open>wd\<close> is the result of \<open>os.Getwd\<close>.\<close>

definition Abs :: "string res \<Rightarrow> string \<Rightarrow> string res" where
  "Abs wd path =
     (if HasPrefix path ''/'' then Inr (Clean path)
      else case wd of Inl e \<Rightarrow> Inl e | Inr d \<Rightarrow> Inr (path_Join [d, path]))"

text \<open>\<open>path.Ext\<close>: from the last dot of the last element on.\<close>

definition path_Ext :: "string \<Rightarrow> string" where
  "path_Ext p =
     (let l = (case LastIndexByte p slash of None \<Rightarrow> p | Some i \<Rightarrow> drop (i + 1) p)
      in case LastIndexByte l (CHR ''.'') of None \<Rightarrow> '''' | Some i \<Rightarrow> drop i l)"

text \<open>
  What holds of the elements kept so far and of every element that is not dropped holds of
  the elements of the cleaned path.
\<close>

lemma clean_parts_all:
  assumes "list_all P acc"
    and "\<And>p. p \<in> set ps \<Longrightarrow> p \<noteq> '''' \<Longrightarrow> p \<noteq> ''.'' \<Longrightarrow> \<not> (rooted \<and> p = ''..'') \<Longrightarrow> P p"
  shows "list_all P (clean_parts rooted acc ps)"
  using assms
proof (induction ps arbitrary: acc)
  case Nil
  then show ?case by (simp add: list_all_iff)
next
  case (Cons p ps)
  have IH: "list_all P (clean_parts rooted acc' ps)" if "list_all P acc'" for acc'
    using that Cons.prems(2) by (intro Cons.IH) auto
  have tl: "list_all P (tl acc)" using Cons.prems(1) by (cases acc) simp_all
  consider "p = '''' \<or> p = ''.''" | "p \<noteq> ''''" "p \<noteq> ''.''" "rooted \<and> p = ''..''"
    | "p \<noteq> ''''" "p \<noteq> ''.''" "\<not> (rooted \<and> p = ''..'')" by blast
  then show ?case
  proof cases
    case 1
    then show ?thesis using IH [OF Cons.prems(1)] by (simp only: clean_parts.simps if_True)
  next
    case 2
    then show ?thesis using IH [OF Cons.prems(1)] IH [OF tl] by simp
  next
    case 3
    then have "P p" using Cons.prems(2) by simp
    with Cons.prems(1) IH [of "p # acc"] have "list_all P (clean_parts rooted (p # acc) ps)" by simp
    with 3 show ?thesis using IH [OF tl] by (cases "p = ''..''") auto
  qed
qed

lemma clean_parts_fixed:
  "\<forall>p \<in> set ps. p \<notin> {'''', ''.'', ''..''} \<Longrightarrow> clean_parts rooted acc ps = rev acc @ ps"
  by (induction ps arbitrary: acc) auto

lemma Base_plain: "name \<noteq> '''' \<Longrightarrow> slash \<notin> set name \<Longrightarrow> Base (d @ [slash] @ name) = name"
proof -
  assume n: "name \<noteq> ''''" "slash \<notin> set name"
  have "dropWhile (\<lambda>c. c = slash) (rev (d @ [slash] @ name)) = rev (d @ [slash] @ name)"
    using n by (cases "rev name") (auto simp: rev_eq_Cons_iff)
  moreover have "LastIndexByte (d @ [slash] @ name) slash = Some (length d)"
    using IndexByte_append [of slash "rev name" "rev d"] n(2) by (simp add: LastIndexByte_def)
  ultimately show ?thesis by (simp add: Base_def Let_def)
qed

section \<open>Joining below an absolute directory\<close>

definition rooted :: "string \<Rightarrow> bool" where
  "rooted p \<longleftrightarrow> HasPrefix p ''/''"

text \<open>The elements of an absolute path.\<close>

definition elems :: "string \<Rightarrow> string list" where
  "elems p = clean_parts True [] (SplitByte p slash)"

definition plain_name :: "string \<Rightarrow> bool" where
  "plain_name n \<longleftrightarrow> n \<notin> {'''', ''.'', ''..''} \<and> slash \<notin> set n"

lemma clean_parts_snoc:
  assumes "n \<noteq> ''''" "n \<noteq> ''.''" "n \<noteq> ''..''"
  shows "clean_parts r acc (ps @ [n]) = clean_parts r acc ps @ [n]"
  using assms by (induction ps arbitrary: acc) auto

lemma SplitByte_snoc: "c \<notin> set n \<Longrightarrow> SplitByte (d @ c # n) c = SplitByte d c @ [n]"
  by (induction d) (auto simp: SplitByte_no_sep split: list.splits)

lemma elems_plain: "p \<in> set (elems d) \<Longrightarrow> plain_name p"
proof -
  have "list_all (\<lambda>p. p \<noteq> '''' \<and> p \<noteq> ''.'' \<and> p \<noteq> ''..'' \<and> slash \<notin> set p) (elems d)"
    unfolding elems_def by (rule clean_parts_all) (auto dest: SplitByte_parts)
  then show "p \<in> set (elems d) \<Longrightarrow> plain_name p"
    by (auto simp: list_all_iff plain_name_def)
qed

lemma Join_elems: "ws \<noteq> [] \<Longrightarrow> \<forall>w \<in> set ws. plain_name w \<Longrightarrow> SplitByte (''/'' @ Join ws ''/'') slash = [] # ws"
  using SplitByte_Join [of ws slash] by (auto simp: slash_def plain_name_def)

lemma path_Join_rooted:
  assumes "rooted d" and "plain_name n"
  shows "path_Join [d, n] = ''/'' @ Join (elems d @ [n]) ''/''"
proof -
  have ne: "d \<noteq> ''''" "n \<noteq> ''''" "n \<noteq> ''.''" "n \<noteq> ''..''" "slash \<notin> set n"
    using assms by (auto simp: rooted_def HasPrefix_def plain_name_def)
  have sp: "SplitByte (d @ ''/'' @ n) slash = SplitByte d slash @ [n]"
    using SplitByte_snoc [OF ne(5), of d] by (simp add: slash_def)
  have r: "HasPrefix (d @ ''/'' @ n) ''/''"
    using assms(1) by (auto simp: rooted_def HasPrefix_def prefix_def)
  have "path_Join [d, n] = Clean (d @ ''/'' @ n)"
    using ne(1,2) by (simp add: path_Join_def)
  also have "\<dots> = ''/'' @ Join (elems d @ [n]) ''/''"
    unfolding Clean_def Let_def sp
    using r clean_parts_snoc [OF ne(2-4), of True "[]" "SplitByte d slash"]
    by (simp add: elems_def del: clean_parts.simps)
  finally show ?thesis .
qed

lemma elems_path_Join:
  assumes "rooted d" and "plain_name n"
  shows "elems (path_Join [d, n]) = elems d @ [n]" and "rooted (path_Join [d, n])"
proof -
  have pl: "\<forall>w \<in> set (elems d @ [n]). plain_name w" using elems_plain assms(2) by auto
  then have "SplitByte (path_Join [d, n]) slash = [] # elems d @ [n]"
    using path_Join_rooted [OF assms] Join_elems [of "elems d @ [n]"] by simp
  moreover have "clean_parts True [] (elems d @ [n]) = elems d @ [n]"
    using pl clean_parts_fixed [of "elems d @ [n]" True "[]"] by (auto simp: plain_name_def)
  ultimately show "elems (path_Join [d, n]) = elems d @ [n]"
    by (subst elems_def) simp
  show "rooted (path_Join [d, n])"
    using path_Join_rooted [OF assms] by (simp add: rooted_def HasPrefix_def)
qed

end
