(* ===== verification/App_Core.thy ===== *)
theory App_Core
  imports App_Property Paths
begin

text \<open>
  \<open>sprintapp/application.go\<close>: the application bean, its options, its construction, its
  shutdown (also as a step relation, since several goroutines may call it while others
  observe it) and the dispatch of a command line to a command.
\<close>

section \<open>The bean\<close>

text \<open>\<open>'b\<close> are the beans of the program; the other constructors are the application's own.\<close>

datatype property_value = StringValue string | BoolValue bool | ModesValue "(string \<times> nat) list"

datatype 'b bean =
  Bean 'b | ApplicationBean | DepBean | PropertyFile string
| PropertyMap "(string \<times> (string \<times> property_value) list) list"
| EnvironmentBean env_resolver

record 'b application =
  beans :: "'b bean list"
  applicationName :: string
  applicationVersion :: string
  applicationBuild :: string
  applicationProfile :: string
  applicationErr :: "goerror option"
  executable :: string
  executableDir :: string
  applicationDir :: string
  devMode :: bool
  app_shuttingDown :: bool
  shutdownCh :: bool  \<comment> \<open>the channel is closed\<close>
  app_restarting :: bool
  shutdownOnce :: bool  \<comment> \<open>the function of \<open>sync.Once\<close> has run\<close>

definition AppendBeans :: "'b bean list \<Rightarrow> 'b application \<Rightarrow> 'b application" where
  "AppendBeans scan t = t\<lparr>beans := beans t @ scan\<rparr>"

datatype 'b app_option = WithNope | WithVersion string | WithBuild string | WithBeans "'b list"

fun apply_option :: "'b app_option \<Rightarrow> 'b application \<Rightarrow> 'b application" where
  "apply_option WithNope t = t"
| "apply_option (WithVersion version) t = t\<lparr>applicationVersion := version\<rparr>"
| "apply_option (WithBuild build) t = t\<lparr>applicationBuild := build\<rparr>"
| "apply_option (WithBeans bs) t = AppendBeans (map Bean bs) t"

definition new_application :: "string \<Rightarrow> 'b application" where
  "new_application name =
     \<lparr>beans = [], applicationName = name, applicationVersion = '''', applicationBuild = '''',
      applicationProfile = '''', applicationErr = None, executable = '''', executableDir = '''',
      applicationDir = '''', devMode = False, app_shuttingDown = False, shutdownCh = False,
      app_restarting = False, shutdownOnce = False\<rparr>"

definition Application :: "string \<Rightarrow> 'b app_option list \<Rightarrow> 'b application" where
  "Application name options =
     AppendBeans [ApplicationBean] (fold apply_option options (new_application name))"

definition app_GetStats :: "(string \<times> string \<Rightarrow> 'c \<Rightarrow> bool \<times> 'c) \<Rightarrow> 'b application \<Rightarrow> 'c \<Rightarrow> 'c" where
  "app_GetStats cb t c =
     fold (\<lambda>nv c. snd (cb nv c))
       [(''name'', applicationName t), (''executable'', executable t), (''home'', applicationDir t),
        (''version'', applicationVersion t), (''build'', applicationBuild t),
        (''profile'', applicationProfile t)] c"

text \<open>\<open>argv\<close> is \<open>os.Args\<close>, \<open>wd\<close> the result of \<open>os.Getwd\<close>, \<open>env\<close> the process environment.\<close>

definition app_PostConstruct ::
    "string list \<Rightarrow> string res \<Rightarrow> (string \<Rightarrow> string) \<Rightarrow> 'b application \<Rightarrow> goerror option \<times> 'b application" where
  "app_PostConstruct argv wd env t =
     (case argv of
        [] \<Rightarrow> (Some (Recovered ''index out of range''), t)
      | exe # _ \<Rightarrow>
          (case Abs wd (Dir exe) of
             Inl e \<Rightarrow> (Some e, t\<lparr>executable := exe, executableDir := ''''\<rparr>)
           | Inr dir \<Rightarrow>
               (let t = t\<lparr>executable := Base exe, executableDir := dir\<rparr>
                in case Abs wd (if Base dir = ''bin'' then Dir dir else dir) of
                     Inl e \<Rightarrow> (Some e, t\<lparr>applicationDir := ''''\<rparr>)
                   | Inr home \<Rightarrow>
                       (let profile = ToLower (env (ToUpper (applicationName t @ ''_profile'')))
                        in (None, t\<lparr>applicationDir := home, applicationProfile := profile,
                                    devMode := (profile = ''dev'')\<rparr>)))))"

definition Active :: "'b application \<Rightarrow> bool" where
  "Active t = (\<not> app_shuttingDown t)"

definition app_Shutdown :: "bool \<Rightarrow> 'b application \<Rightarrow> unit outcome \<times> 'b application" where
  "app_Shutdown restart t =
     (if shutdownOnce t then (Ret (), t)
      else (let t = t\<lparr>app_restarting := restart, app_shuttingDown := True,
                      applicationErr := Some (Errorf ''closed''), shutdownOnce := True\<rparr>
            in if shutdownCh t then (Panic ''close of closed channel'', t)
               else (Ret (), t\<lparr>shutdownCh := True\<rparr>)))"

text \<open>The application is a \<open>context.Context\<close>: \<open>Done\<close> is the channel, \<open>Err\<close> the stored error.\<close>

definition app_Done :: "'b application \<Rightarrow> bool" where
  "app_Done t = shutdownCh t"

definition app_Err :: "'b application \<Rightarrow> goerror option" where
  "app_Err t = applicationErr t"

section \<open>Shutdown under concurrency\<close>

text \<open>
  One action per atomic operation of the body that \<open>sync.Once\<close> guards. \<open>Idle\<close>: nobody has
  entered; \<open>Entered\<close>, \<open>StoredRestart\<close>, \<open>StoredShutting\<close>, \<open>StoredErr\<close>: how far the one
  call that entered has come; \<open>Finished\<close>. Other calls wait for it and do nothing.
\<close>

datatype once_pc = Idle | Entered bool | StoredRestart | StoredShutting | StoredErr | Finished

type_synonym 'b shut_state = "once_pc \<times> 'b application"

inductive shut_step :: "'b shut_state \<Rightarrow> 'b shut_state \<Rightarrow> bool" where
  enter: "shut_step (Idle, t) (Entered restart, t)"
| store_restart: "shut_step (Entered restart, t) (StoredRestart, t\<lparr>app_restarting := restart\<rparr>)"
| store_shutting: "shut_step (StoredRestart, t) (StoredShutting, t\<lparr>app_shuttingDown := True\<rparr>)"
| store_err: "shut_step (StoredShutting, t) (StoredErr, t\<lparr>applicationErr := Some (Errorf ''closed'')\<rparr>)"
| close_ch: "\<not> shutdownCh t \<Longrightarrow>
    shut_step (StoredErr, t) (Finished, t\<lparr>shutdownCh := True, shutdownOnce := True\<rparr>)"

inductive_cases shut_stepE: "shut_step (pc, t) (pc', t')"

inductive_simps shut_step_stored_err: "shut_step (StoredErr, t) s"

definition shut_inv :: "'b shut_state \<Rightarrow> bool" where
  "shut_inv s = (case s of (pc, t) \<Rightarrow>
     (shutdownCh t \<longleftrightarrow> pc = Finished) \<and> (shutdownOnce t \<longleftrightarrow> pc = Finished) \<and>
     (app_shuttingDown t \<longleftrightarrow> pc \<in> {StoredShutting, StoredErr, Finished}) \<and>
     (applicationErr t \<noteq> None \<longleftrightarrow> pc \<in> {StoredErr, Finished}))"

lemma shut_inv_step: "shut_step s s' \<Longrightarrow> shut_inv s \<Longrightarrow> shut_inv s'"
  by (induction rule: shut_step.induct) (auto simp: shut_inv_def)

lemma shut_inv_reach: "shut_step\<^sup>*\<^sup>* (Idle, Application n opts) s \<Longrightarrow> shut_inv s"
proof (induction rule: rtranclp_induct)
  case base
  have "fold apply_option opts t = t' \<Longrightarrow> shut_inv (Idle, t) \<Longrightarrow> shut_inv (Idle, t')" for t t' :: "'a application"
  proof (induction opts arbitrary: t)
    case (Cons a opts)
    then show ?case by (cases a) (auto simp: shut_inv_def AppendBeans_def)
  qed simp
  then show ?case
    by (simp add: Application_def shut_inv_def AppendBeans_def new_application_def)
qed (rule shut_inv_step)

text \<open>Closing the channel is the last action, it never panics, and it is always reached.\<close>

lemma shut_close_enabled: "shut_inv (StoredErr, t) \<Longrightarrow> \<exists>s. shut_step (StoredErr, t) s"
  by (auto simp: shut_step_stored_err shut_inv_def)

text \<open>Once a reader sees the application inactive, what it reads of \<open>Restarting\<close> is final.\<close>

lemma shut_restart_final:
  "shut_step s s' \<Longrightarrow> shut_inv s \<Longrightarrow> app_shuttingDown (snd s) \<Longrightarrow>
   app_shuttingDown (snd s') \<and> app_restarting (snd s') = app_restarting (snd s)"
  by (induction rule: shut_step.induct) (auto simp: shut_inv_def)

section \<open>Run\<close>

definition preprocessArgs :: "string list \<Rightarrow> string list" where
  "preprocessArgs args =
     (if length args = 1 \<and> hd args \<in> set [''-h'', ''-help'', ''--help''] then [''help'']
      else if length args = 1 \<and> hd args \<in> set [''-v'', ''-version'', ''--version''] then [''version'']
      else args)"

text \<open>
  A command, as \<open>sprint.Command\<close>: its synopsis, and \<open>Run\<close> over the parsed flags, its
  arguments and the outside world \<open>'w\<close>. \<open>world\<close> is that world, \<open>out\<close> the lines written to
  the standard output, \<open>ctx_closed\<close> counts \<open>ctx.Close()\<close>.
\<close>

record 'w run_state =
  world :: 'w
  out :: "string list"
  ctx_closed :: nat

record 'w command =
  BeanName :: string
  Synopsis :: string
  cmd_Run :: "app_flags \<Rightarrow> string list \<Rightarrow> 'w \<Rightarrow> goerror option outcome \<times> 'w"

text \<open>What the injection gives to \<open>applicationDep\<close>; \<open>order\<close> is the map's iteration order.\<close>

record 'w app_dep =
  dep_flags :: app_flags
  Commands :: "string \<Rightarrow> 'w command option"
  order :: "string list"

definition printUsage :: "'b application \<Rightarrow> 'w app_dep \<Rightarrow> 'w run_state \<Rightarrow> 'w run_state" where
  "printUsage t dep s =
     s\<lparr>out := out s @ [''Usage: '' @ executable t @ '' [command]'']
         @ map (\<lambda>name. case Commands dep name of
                         Some c \<Rightarrow> ''    '' @ BeanName c @ '' - '' @ Synopsis c | None \<Rightarrow> '''') (order dep)
         @ [''Flags:'']\<rparr>"

definition run_command :: "'w command \<Rightarrow> app_flags \<Rightarrow> string list \<Rightarrow> 'w run_state
    \<Rightarrow> goerror option outcome \<times> 'w run_state" where
  "run_command c flags args s =
     (let (r, w) = cmd_Run c flags args (world s) in (r, s\<lparr>world := w\<rparr>))"

text \<open>The part of \<open>Run\<close> between the creation of the container and its deferred close.\<close>

definition run_body :: "'b application \<Rightarrow> string list \<Rightarrow> 'w app_dep \<Rightarrow> 'w run_state
    \<Rightarrow> goerror option outcome \<times> 'w run_state" where
  "run_body t args dep s =
     (case FlagParse args (dep_flags dep) of
        (Inl e, flags) \<Rightarrow> (Ret (Some e), s)
      | (Inr args, flags) \<Rightarrow>
          (case args of
             cmd # rest \<Rightarrow>
               (case Commands dep cmd of
                  Some inst \<Rightarrow> run_command inst flags rest s
                | None \<Rightarrow> (Ret None, printUsage t dep (s\<lparr>out := out s @ [''Invalid command: '' @ cmd]\<rparr>)))
           | [] \<Rightarrow>
               (case Commands dep ''default'' of
                  Some inst \<Rightarrow> (Panic ''slice bounds out of range [1:0]'', s)
                | None \<Rightarrow> (Ret None, printUsage t dep s))))"

definition recover_error :: "goerror option outcome \<Rightarrow> goerror option" where
  "recover_error r = (case r of Ret e \<Rightarrow> e | Panic m \<Rightarrow> Some (Recovered m))"

text \<open>\<open>scan.go\<close>: the file modes, octal in the source.\<close>

definition DefaultFileModes :: "(string \<times> nat) list" where
  "DefaultFileModes =
     [(''log.dir'', 509), (''log.file'', 436), (''backup.file'', 436), (''exe.file'', 509),
      (''run.dir'', 509), (''pid.file'', 438), (''data.dir'', 504), (''data.file'', 436)]"

definition run_beans :: "'b application \<Rightarrow> 'b bean list" where
  "run_beans t =
     [DepBean, PropertyFile (''resources:'' @ applicationName t @ ''.yml''),
      PropertyMap [(''application'',
        [(''name'', StringValue (applicationName t)), (''version'', StringValue (applicationVersion t)),
         (''build'', StringValue (applicationBuild t)), (''profile'', StringValue (applicationProfile t)),
         (''perm'', ModesValue DefaultFileModes), (''autoupdate'', BoolValue False)])],
      EnvironmentBean (SystemEnvironmentPropertyResolver (applicationName t) 10)]"

text \<open>\<open>glue_New\<close> is the injection framework: an error, a panic, or the dependencies.\<close>

definition app_Run :: "('b bean list \<Rightarrow> 'w app_dep res outcome) \<Rightarrow> string list \<Rightarrow> 'b application
    \<Rightarrow> 'w run_state \<Rightarrow> goerror option \<times> 'b application \<times> 'w run_state" where
  "app_Run glue_New args t s =
     (let args = preprocessArgs args;
          t = AppendBeans (run_beans t) t
      in case glue_New (beans t) of
           Panic m \<Rightarrow> (Some (Recovered m), t, s)
         | Ret (Inl e) \<Rightarrow> (Some e, t, s)
         | Ret (Inr dep) \<Rightarrow>
             (let (r, s) = run_body t args dep s
              in (recover_error r, t, s\<lparr>ctx_closed := ctx_closed s + 1\<rparr>)))"

lemma run_body_command:
  assumes "FlagParse args (dep_flags dep) = (Inr (cmd # rest), flags)" and "Commands dep cmd = Some inst"
  shows "run_body t args dep s = run_command inst flags rest s"
  using assms by (simp add: run_body_def)

lemma run_body_closed: "run_body t args dep s = (r, s') \<Longrightarrow> ctx_closed s' = ctx_closed s"
  by (auto simp: run_body_def run_command_def printUsage_def split: prod.splits sum.splits list.splits option.splits)

lemma app_Run_closes:
  assumes "glue_New (beans t @ run_beans t) = Ret (Inr dep)" and "app_Run glue_New args t s = (r, t', s')"
  shows "ctx_closed s' = ctx_closed s + 1"
  using assms
  by (auto simp: app_Run_def Let_def AppendBeans_def dest!: run_body_closed split: prod.splits)

section \<open>Properties\<close>

text \<open>
  C20: in every interleaving of the calls of \<open>Shutdown\<close>, the closed channel, the shutting-down
  flag and the error appear in that order backwards (who sees the channel closed sees the
  error, who sees the error sees the flag); the channel can always be closed without a panic;
  and once the flag is up no step changes whether the application restarts.
\<close>

theorem shutdown_safe:
  assumes "shut_step\<^sup>*\<^sup>* (Idle, Application name opts) (pc, t)"
  shows "(app_Done t \<longrightarrow> app_Err t \<noteq> None) \<and> (app_Err t \<noteq> None \<longrightarrow> \<not> Active t) \<and>
    (pc = StoredErr \<longrightarrow> (\<exists>s. shut_step (pc, t) s)) \<and>
    (\<forall>pc' t'. \<not> Active t \<and> shut_step (pc, t) (pc', t') \<longrightarrow>
      \<not> Active t' \<and> app_restarting t' = app_restarting t)"
proof -
  note i = shut_inv_reach [OF assms]
  show ?thesis
    using i shut_close_enabled [of t] shut_restart_final [of "(pc, t)"] 
    by (auto simp: app_Done_def app_Err_def Active_def shut_inv_def)
qed

theorem shutdown_safe_witness:
  "\<exists>t :: unit application. shut_step\<^sup>*\<^sup>* (Idle, Application ''app'' []) (StoredErr, t) \<and> \<not> Active t \<and> app_Err t \<noteq> None"
proof -
  define t where "t = (Application ''app'' [] :: unit application)\<lparr>app_restarting := True,
      app_shuttingDown := True, applicationErr := Some (Errorf ''closed'')\<rparr>"
  have r: "shut_step\<^sup>*\<^sup>* (Idle, Application ''app'' []) (StoredErr, t)"
    unfolding t_def
    by (rule converse_rtranclp_into_rtranclp [where r = shut_step, OF shut_step.enter [of _ True]],
        rule converse_rtranclp_into_rtranclp [where r = shut_step, OF shut_step.store_restart],
        rule converse_rtranclp_into_rtranclp [where r = shut_step, OF shut_step.store_shutting],
        rule converse_rtranclp_into_rtranclp [where r = shut_step, OF shut_step.store_err], rule rtranclp.rtrancl_refl)
  have "app_Err t \<noteq> None" by (simp add: t_def app_Err_def)
  with r shutdown_safe [OF r] show ?thesis by blast
qed

end
