(* ===== verification/App_Resources.thy ===== *)
theory App_Resources
  imports Utils_Node
begin

text \<open>
  \<open>sprintapp/resource_service.go\<close>: reading resources, the two template caches, the licence
  list without the lines of given packages, and the OpenAPI documents of a resource source.
  \<open>resource\<close> stands for the container's resources: \<open>None\<close> where none has the name,
  otherwise what opening and reading it does.
\<close>

section \<open>Memo tables\<close>

text \<open>
  A lookup that remembers results: it answers as the computation does, and remembers
  successes only.
\<close>

locale memo_table =
  fixes lookup :: "('k \<Rightarrow> 'v res) \<Rightarrow> 'k \<Rightarrow> 's \<Rightarrow> 'v res \<times> 's"
    and table :: "'s \<Rightarrow> 'k \<Rightarrow> 'v option"
  assumes hit: "table s k = Some v \<Longrightarrow> lookup f k s = (Inr v, s)"
    and miss_ok: "table s k = None \<Longrightarrow> f k = Inr v \<Longrightarrow>
          \<exists>s'. lookup f k s = (Inr v, s') \<and> table s' = (table s)(k \<mapsto> v)"
    and miss_err: "table s k = None \<Longrightarrow> f k = Inl e \<Longrightarrow> lookup f k s = (Inl e, s)"
begin

definition sound :: "('k \<Rightarrow> 'v res) \<Rightarrow> 's \<Rightarrow> bool" where
  "sound f s \<longleftrightarrow> (\<forall>k v. table s k = Some v \<longrightarrow> f k = Inr v)"

lemma lookup_sound:
  assumes "sound f s" and "lookup f k s = (r, s')"
  shows "r = f k \<and> sound f s'"
proof (cases "table s k")
  case (Some v)
  with assms hit [of s k v f] show ?thesis by (simp add: sound_def)
next
  case None
  then show ?thesis
    using assms miss_ok [OF None] miss_err [OF None, of f]
    by (cases "f k") (fastforce simp: sound_def)+
qed

text \<open>A result that was computed once is given again whatever the computation does later.\<close>

lemma remembered:
  assumes "lookup f k s = (Inr v, s')"
  shows "lookup g k s' = (Inr v, s')"
proof (cases "table s k")
  case (Some u)
  with assms hit [of s k u] show ?thesis by simp
next
  case None
  then show ?thesis
    using assms miss_ok [OF None, of f] miss_err [OF None, of f] hit [of s' k v g]
    by (cases "f k") auto
qed

end

section \<open>The service\<close>

record ('t, 'h) resource_service =
  textTemplates :: "string \<Rightarrow> 't option"
  htmlTemplates :: "string \<Rightarrow> 'h option"

definition ResourceService :: "('t, 'h) resource_service" where
  "ResourceService = \<lparr>textTemplates = Map.empty, htmlTemplates = Map.empty\<rparr>"

definition GetResource :: "(string \<Rightarrow> bytes res outcome option) \<Rightarrow> string \<Rightarrow> bytes res" where
  "GetResource resource name =
     PanicToError
       (case resource name of
          None \<Rightarrow> Ret (Inl (Errorf (''resource not found '' @ name)))
        | Some r \<Rightarrow> r)"

definition load_template ::
    "(string \<Rightarrow> bytes res outcome option) \<Rightarrow> (string \<Rightarrow> bytes \<Rightarrow> 't res) \<Rightarrow> string \<Rightarrow> 't res" where
  "load_template resource parse fileName =
     (case GetResource resource fileName of Inl e \<Rightarrow> Inl e | Inr res \<Rightarrow> parse fileName res)"

definition text_lookup :: "(string \<Rightarrow> 't res) \<Rightarrow> string \<Rightarrow> ('t, 'h) resource_service
    \<Rightarrow> 't res \<times> ('t, 'h) resource_service" where
  "text_lookup load fileName t =
     (case textTemplates t fileName of
        Some tpl \<Rightarrow> (Inr tpl, t)
      | None \<Rightarrow>
          (case load fileName of
             Inl e \<Rightarrow> (Inl e, t)
           | Inr tpl \<Rightarrow> (Inr tpl, t\<lparr>textTemplates := (textTemplates t)(fileName \<mapsto> tpl)\<rparr>)))"

definition html_lookup :: "(string \<Rightarrow> 'h res) \<Rightarrow> string \<Rightarrow> ('t, 'h) resource_service
    \<Rightarrow> 'h res \<times> ('t, 'h) resource_service" where
  "html_lookup load fileName t =
     (case htmlTemplates t fileName of
        Some tpl \<Rightarrow> (Inr tpl, t)
      | None \<Rightarrow>
          (case load fileName of
             Inl e \<Rightarrow> (Inl e, t)
           | Inr tpl \<Rightarrow> (Inr tpl, t\<lparr>htmlTemplates := (htmlTemplates t)(fileName \<mapsto> tpl)\<rparr>)))"

definition TextTemplate :: "(string \<Rightarrow> bytes res outcome option) \<Rightarrow> (string \<Rightarrow> bytes \<Rightarrow> 't res)
    \<Rightarrow> string \<Rightarrow> ('t, 'h) resource_service \<Rightarrow> 't res \<times> ('t, 'h) resource_service" where
  "TextTemplate resource parse = text_lookup (load_template resource parse)"

definition HtmlTemplate :: "(string \<Rightarrow> bytes res outcome option) \<Rightarrow> (string \<Rightarrow> bytes \<Rightarrow> 'h res)
    \<Rightarrow> string \<Rightarrow> ('t, 'h) resource_service \<Rightarrow> 'h res \<times> ('t, 'h) resource_service" where
  "HtmlTemplate resource parse = html_lookup (load_template resource parse)"

interpretation textm: memo_table text_lookup textTemplates
  by unfold_locales (auto simp: text_lookup_def)

interpretation htmlm: memo_table html_lookup htmlTemplates
  by unfold_locales (auto simp: html_lookup_def)

text \<open>A template that was read once is given again whatever the resource holds later.\<close>

lemma TextTemplate_again:
  "TextTemplate resource parse f t = (Inr tpl, t') \<Longrightarrow> TextTemplate resource' parse' f t' = (Inr tpl, t')"
  unfolding TextTemplate_def by (rule textm.remembered)

lemma HtmlTemplate_again:
  "HtmlTemplate resource parse f t = (Inr tpl, t') \<Longrightarrow> HtmlTemplate resource' parse' f t' = (Inr tpl, t')"
  unfolding HtmlTemplate_def by (rule htmlm.remembered)

text \<open>While the resources stay as they are, a cached lookup answers as reading and parsing does.\<close>

lemma TextTemplate_load:
  assumes "textm.sound (load_template resource parse) t" and "TextTemplate resource parse f t = (r, t')"
  shows "r = load_template resource parse f \<and> textm.sound (load_template resource parse) t'"
  using textm.lookup_sound [OF assms(1)] assms(2) unfolding TextTemplate_def by blast

definition newline :: char where "newline = CHR 0x0A"

fun include_line :: "string \<Rightarrow> string list \<Rightarrow> bool" where
  "include_line line [] = True"
| "include_line line (word # words) = (if Contains line word then False else include_line line words)"

fun filter_loop :: "string list \<Rightarrow> string list \<Rightarrow> string \<Rightarrow> string" where
  "filter_loop words [] out = out"
| "filter_loop words (line # lines) out =
     filter_loop words lines (if include_line line words then out @ line @ [newline] else out)"

definition filterLines :: "string \<Rightarrow> string list \<Rightarrow> string" where
  "filterLines content words = filter_loop words (SplitByte content newline) ''''"

definition GetLicenses ::
    "(string \<Rightarrow> bytes res outcome option) \<Rightarrow> string \<Rightarrow> string \<Rightarrow> string res" where
  "GetLicenses resource packageName name =
     (case GetResource resource name of
        Inl e \<Rightarrow> Inl e
      | Inr content \<Rightarrow>
          if packageName \<noteq> '''' then Inr (filterLines content [packageName]) else Inr content)"

record resource_source =
  source_Name :: string
  AssetNames :: "string list"

definition GetOpenAPI ::
    "(string \<Rightarrow> bytes res outcome option) \<Rightarrow> resource_source list \<Rightarrow> string \<Rightarrow> string" where
  "GetOpenAPI resource sources source =
     concat (map (\<lambda>s. if source_Name s \<noteq> source then ''''
                      else concat (map (\<lambda>name.
                        if HasSuffix name ''.swagger.json''
                        then (case GetResource resource name of Inr content \<Rightarrow> content | Inl _ \<Rightarrow> '''')
                        else '''') (AssetNames s)))
                 sources)"

section \<open>Lemmas\<close>

lemma include_line_iff: "include_line line words \<longleftrightarrow> (\<forall>w \<in> set words. \<not> Contains line w)"
  by (induction words) auto

lemma filter_loop_eq:
  "filter_loop words ls out =
   out @ concat (map (\<lambda>l. l @ [newline]) (filter (\<lambda>l. \<forall>w \<in> set words. \<not> Contains l w) ls))"
  by (induction ls arbitrary: out) (auto simp: include_line_iff)

lemma SplitByte_lines:
  "\<forall>l \<in> set ls. c \<notin> set l \<Longrightarrow> SplitByte (concat (map (\<lambda>l. l @ [c]) ls)) c = ls @ [[]]"
  by (induction ls) (auto simp: SplitByte_append)

lemma filterLines_lines:
  "SplitByte (filterLines content words) newline =
   filter (\<lambda>l. \<forall>w \<in> set words. \<not> Contains l w) (SplitByte content newline) @ ['''']"
  unfolding filterLines_def filter_loop_eq append_Nil
  by (rule SplitByte_lines) (auto dest: SplitByte_parts)

section \<open>Properties\<close>

text \<open>
  the licences are the resource's lines in their order, without those that contain the
  application's package name; without a package name they are the resource as it is; and an
  error of the resource, or its panic, is the error of the call.
\<close>

theorem licences_lines:
  assumes "GetLicenses resource packageName name = out"
  shows "case GetResource resource name of
      Inl e \<Rightarrow> out = Inl e
    | Inr content \<Rightarrow> (\<exists>txt. out = Inr txt \<and>
        (if packageName = '''' then txt = content
         else SplitByte txt newline = filter (\<lambda>l. \<not> Contains l packageName) (SplitByte content newline) @ ['''']))"
  using assms filterLines_lines [of _ "[packageName]"]
  by (auto simp: GetLicenses_def split: sum.splits if_splits)

theorem licences_lines_witness:
  "\<exists>txt. GetLicenses (\<lambda>_. Some (Ret (Inr (''mine'' @ [CHR 0x0A] @ ''other'')))) ''min'' ''f'' = Inr txt \<and>
     SplitByte txt newline = [''other'', '''']"
  using licences_lines [OF refl, where resource = "\<lambda>_. Some (Ret (Inr (''mine'' @ [CHR 0x0A] @ ''other'')))"
      and name = "''f''" and packageName = "''min''"]
  by (auto simp: GetResource_def newline_def Contains_def sublist_code)

end
