(* ===== verification/Utils_Files.thy ===== *)
theory Utils_Files
  imports Prelude "HOL-Library.Word"
begin

text \<open>
  \<open>sprintutils/files.go\<close>: the parser of permission strings, and the file helpers over a
  small file system. A file system maps paths to nodes; paths are compared as strings
  (no links, no normalisation). Every call of the package \<open>os\<close> may also be refused by
  the environment (permissions, quota, missing parents, I/O errors), which the world's
  field \<open>deny\<close> decides.
\<close>

unbundle bit_operations_syntax

section \<open>ParseFileMode\<close>

type_synonym file_mode = "32 word"

text \<open>The loop over \<open>rwxrwxrwx\<close>: byte \<open>i\<close> of the string decides bit \<open>8 - i\<close>.\<close>

fun mode_loop :: "nat \<Rightarrow> string \<Rightarrow> string \<Rightarrow> file_mode \<Rightarrow> file_mode" where
  "mode_loop i [] s m = m"
| "mode_loop i (c # cs) s m =
     mode_loop (Suc i) cs s (if c = s ! i then m OR push_bit (9 - 1 - i) 1 else m)"

definition ParseFileMode :: "string \<Rightarrow> file_mode" where
  "ParseFileMode s =
     (let s' = (if length s < 9 then replicate (9 - length s) (CHR ''-'') @ s
                else drop (length s - 9) s)
      in mode_loop 0 ''rwxrwxrwx'' s' 0)"

text \<open>Go's \<open>FileMode.String\<close> for a mode that has permission bits only.\<close>

definition mode_string :: "file_mode \<Rightarrow> string" where
  "mode_string m = CHR ''-'' #
     map (\<lambda>(i, c). if bit m (8 - i) then c else CHR ''-'') (zip [0..<9] ''rwxrwxrwx'')"

lemma mode_loop_bit:
  "bit (mode_loop i cs s m) n \<longleftrightarrow>
     bit m n \<or> (n < 32 \<and> (\<exists>k < length cs. n = 8 - (i + k) \<and> cs ! k = s ! (i + k)))"
proof (induction i cs s m rule: mode_loop.induct)
  case (1 i s m)
  then show ?case by simp
next
  case (2 i c cs s m)
  have push: "bit (push_bit (8 - i) 1 :: file_mode) n \<longleftrightarrow> n = 8 - i \<and> n < 32"
    by (auto simp: bit_exp_iff)
  have "(\<exists>k < length (c # cs). n = 8 - (i + k) \<and> (c # cs) ! k = s ! (i + k)) \<longleftrightarrow>
      (n = 8 - i \<and> c = s ! i) \<or> (\<exists>k < length cs. n = 8 - (Suc i + k) \<and> cs ! k = s ! (Suc i + k))"
    by (auto simp: less_Suc_eq_0_disj)
  with 2 push show ?case by (auto simp: bit_or_iff)
qed

declare mode_loop.simps [simp del]

lemma mode_loop_bit9:
  assumes "length cs = 9"
  shows "bit (mode_loop 0 cs s 0) n \<longleftrightarrow> n < 9 \<and> cs ! (8 - n) = s ! (8 - n)"
proof
  assume "bit (mode_loop 0 cs s 0) n"
  then obtain k where "k < 9" "n = 8 - k" "cs ! k = s ! k"
    unfolding mode_loop_bit using assms by auto
  then show "n < 9 \<and> cs ! (8 - n) = s ! (8 - n)" by auto
next
  assume h: "n < 9 \<and> cs ! (8 - n) = s ! (8 - n)"
  then have "8 - n < length cs" "n = 8 - (0 + (8 - n))" using assms by auto
  with h show "bit (mode_loop 0 cs s 0) n"
    unfolding mode_loop_bit by (intro disjI2 conjI exI [of _ "8 - n"]) auto
qed

lemma mode_loop_bit_rwx:
  "bit (mode_loop 0 ''rwxrwxrwx'' s 0) n \<longleftrightarrow> n < 9 \<and> ''rwxrwxrwx'' ! (8 - n) = s ! (8 - n)"
  by (rule mode_loop_bit9) simp

lemma ParseFileMode_bit:
  "bit (ParseFileMode s) n \<longleftrightarrow> n < 9 \<and> n < length s \<and> ''rwxrwxrwx'' ! (8 - n) = s ! (length s - 1 - n)"
proof (cases "length s < 9")
  case True
  have pad: "(replicate (9 - length s) (CHR ''-'') @ s) ! (8 - n) =
      (if n < length s then s ! (length s - 1 - n) else CHR ''-'')" if "n < 9"
    using that True by (auto simp: nth_append)
  have dash: "''rwxrwxrwx'' ! (8 - n) \<noteq> CHR ''-''" if "n < 9"
    using that by (auto simp: less_Suc_eq numeral_eq_Suc)
  show ?thesis
    using True pad dash unfolding ParseFileMode_def Let_def mode_loop_bit_rwx
    by (auto simp del: nth_append split: if_splits)
next
  case False
  then have "drop (length s - 9) s ! (8 - n) = s ! (length s - 1 - n)" if "n < 9"
    using that by simp
  with False show ?thesis by (auto simp: ParseFileMode_def mode_loop_bit_rwx)
qed

lemma mode_string_nth: "n < 9 \<Longrightarrow>
  mode_string m ! (9 - n) = (if bit m n then ''rwxrwxrwx'' ! (8 - n) else CHR ''-'')"
proof -
  assume n: "n < 9"
  then have "mode_string m ! (9 - n) =
      map (\<lambda>(i, c). if bit m (8 - i) then c else CHR ''-'') (zip [0..<9] ''rwxrwxrwx'') ! (8 - n)"
    by (simp add: mode_string_def Suc_diff_le nth_Cons')
  also have "\<dots> = (if bit m n then ''rwxrwxrwx'' ! (8 - n) else CHR ''-'')"
    using n by simp
  finally show ?thesis .
qed

lemma ParseFileMode_mode_string_bit:
  "bit (ParseFileMode (mode_string m)) n \<longleftrightarrow> n < 9 \<and> bit m n"
proof -
  have len: "length (mode_string m) = 10" by (simp add: mode_string_def)
  have dash: "''rwxrwxrwx'' ! (8 - n) \<noteq> CHR ''-''" if "n < 9"
    using that by (auto simp: less_Suc_eq numeral_eq_Suc)
  show ?thesis
    using mode_string_nth [of n m] dash unfolding ParseFileMode_bit len
    by (auto split: if_splits simp del: nth_Cons_numeral)
qed

section \<open>The file system\<close>

datatype fnode = DirNode file_mode | FileNode file_mode bytes

datatype os_call =
  OsStat string | OsMkdir string | OsChmod string | OsOpen string | OsCreate string
| OsRemove string | OsRead string | OsWrite string

record os_world =
  fs :: "string \<Rightarrow> fnode option"
  umask :: file_mode
  deny :: "os_call \<Rightarrow> goerror option"

definition ErrNotExist :: goerror where
  "ErrNotExist = Errorf ''file does not exist''"

definition ErrExist :: goerror where
  "ErrExist = Errorf ''file already exists''"

definition ErrIsDir :: goerror where
  "ErrIsDir = Errorf ''is a directory''"

definition os_Stat :: "os_world \<Rightarrow> string \<Rightarrow> fnode res" where
  "os_Stat w p =
     (case deny w (OsStat p) of Some e \<Rightarrow> Inl e
      | None \<Rightarrow> (case fs w p of None \<Rightarrow> Inl ErrNotExist | Some n \<Rightarrow> Inr n))"

definition os_Mkdir :: "string \<Rightarrow> file_mode \<Rightarrow> os_world \<Rightarrow> goerror option \<times> os_world" where
  "os_Mkdir p perm w =
     (case deny w (OsMkdir p) of Some e \<Rightarrow> (Some e, w)
      | None \<Rightarrow>
          (case fs w p of Some _ \<Rightarrow> (Some ErrExist, w)
           | None \<Rightarrow> (None, w\<lparr>fs := (fs w)(p \<mapsto> DirNode (perm AND NOT (umask w)))\<rparr>)))"

fun set_mode :: "file_mode \<Rightarrow> fnode \<Rightarrow> fnode" where
  "set_mode perm (DirNode _) = DirNode perm"
| "set_mode perm (FileNode _ c) = FileNode perm c"

definition os_Chmod :: "string \<Rightarrow> file_mode \<Rightarrow> os_world \<Rightarrow> goerror option \<times> os_world" where
  "os_Chmod p perm w =
     (case deny w (OsChmod p) of Some e \<Rightarrow> (Some e, w)
      | None \<Rightarrow>
          (case fs w p of None \<Rightarrow> (Some ErrNotExist, w)
           | Some n \<Rightarrow> (None, w\<lparr>fs := (fs w)(p \<mapsto> set_mode perm n)\<rparr>)))"

text \<open>Opening for reading; opening with \<open>O_RDWR|O_CREATE|O_TRUNC\<close>.\<close>

definition os_Open :: "os_world \<Rightarrow> string \<Rightarrow> goerror option" where
  "os_Open w p =
     (case deny w (OsOpen p) of Some e \<Rightarrow> Some e
      | None \<Rightarrow> (case fs w p of None \<Rightarrow> Some ErrNotExist | Some _ \<Rightarrow> None))"

definition os_Create :: "string \<Rightarrow> file_mode \<Rightarrow> os_world \<Rightarrow> goerror option \<times> os_world" where
  "os_Create p perm w =
     (case deny w (OsCreate p) of Some e \<Rightarrow> (Some e, w)
      | None \<Rightarrow>
          (case fs w p of
             None \<Rightarrow> (None, w\<lparr>fs := (fs w)(p \<mapsto> FileNode (perm AND NOT (umask w)) [])\<rparr>)
           | Some (FileNode m _) \<Rightarrow> (None, w\<lparr>fs := (fs w)(p \<mapsto> FileNode m [])\<rparr>)
           | Some (DirNode _) \<Rightarrow> (Some ErrIsDir, w)))"

definition os_Read :: "os_world \<Rightarrow> string \<Rightarrow> bytes res" where
  "os_Read w p =
     (case deny w (OsRead p) of Some e \<Rightarrow> Inl e
      | None \<Rightarrow>
          (case fs w p of Some (FileNode _ c) \<Rightarrow> Inr c | Some (DirNode _) \<Rightarrow> Inl ErrIsDir
           | None \<Rightarrow> Inl ErrNotExist))"

text \<open>Writing at the end of an open file.\<close>

definition os_Write :: "string \<Rightarrow> bytes \<Rightarrow> os_world \<Rightarrow> goerror option \<times> os_world" where
  "os_Write p b w =
     (case deny w (OsWrite p) of Some e \<Rightarrow> (Some e, w)
      | None \<Rightarrow>
          (case fs w p of
             Some (FileNode m c) \<Rightarrow> (None, w\<lparr>fs := (fs w)(p \<mapsto> FileNode m (c @ b))\<rparr>)
           | Some (DirNode _) \<Rightarrow> (Some ErrIsDir, w)
           | None \<Rightarrow> (Some ErrNotExist, w)))"

text \<open>\<open>ioutil.WriteFile\<close>.\<close>

definition os_WriteFile :: "string \<Rightarrow> bytes \<Rightarrow> file_mode \<Rightarrow> os_world \<Rightarrow> goerror option \<times> os_world" where
  "os_WriteFile p b perm w =
     (case os_Create p perm w of (Some e, w) \<Rightarrow> (Some e, w) | (None, w) \<Rightarrow> os_Write p b w)"

definition os_Remove :: "string \<Rightarrow> os_world \<Rightarrow> goerror option \<times> os_world" where
  "os_Remove p w =
     (case deny w (OsRemove p) of Some e \<Rightarrow> (Some e, w)
      | None \<Rightarrow>
          (case fs w p of None \<Rightarrow> (Some ErrNotExist, w)
           | Some _ \<Rightarrow> (None, w\<lparr>fs := (fs w)(p := None)\<rparr>)))"

named_theorems os_defs \<open>the calls of the package os\<close>

lemmas [os_defs] = os_Stat_def os_Mkdir_def os_Chmod_def os_Open_def os_Create_def os_Read_def
  os_Write_def os_Remove_def

section \<open>The helpers\<close>

definition CreateFileIfNeeded :: "string \<Rightarrow> file_mode \<Rightarrow> os_world \<Rightarrow> goerror option \<times> os_world" where
  "CreateFileIfNeeded fileName fileperm w =
     (case os_Stat w fileName of
        Inr _ \<Rightarrow> (None, w)
      | Inl _ \<Rightarrow>
          (case os_Create fileName fileperm w of
             (Some e, w) \<Rightarrow> (Some e, w)
           | (None, w) \<Rightarrow> os_Chmod fileName fileperm w))"

definition CreateDirIfNeeded :: "string \<Rightarrow> file_mode \<Rightarrow> os_world \<Rightarrow> goerror option \<times> os_world" where
  "CreateDirIfNeeded dir perm w =
     (case os_Stat w dir of
        Inr _ \<Rightarrow> (None, w)
      | Inl _ \<Rightarrow>
          (case os_Mkdir dir perm w of
             (Some e, w) \<Rightarrow> (Some (Errorf (''unable to create dir '' @ dir @ '', '' @ error_text e)), w)
           | (None, w) \<Rightarrow>
               (case os_Chmod dir perm w of
                  (Some e, w) \<Rightarrow> (Some (Errorf (''unable to chmod dir '' @ dir @ '', '' @ error_text e)), w)
                | (None, w) \<Rightarrow> (None, w))))"

definition RemoveFileIfExist :: "string \<Rightarrow> os_world \<Rightarrow> goerror option \<times> os_world" where
  "RemoveFileIfExist filePath w =
     (case os_Stat w filePath of Inl _ \<Rightarrow> (None, w) | Inr _ \<Rightarrow> os_Remove filePath w)"

text \<open>
  \<open>copyFile\<close> opens the source, then truncates the destination, then copies: when both
  are the same file, what is copied is the truncated content.
\<close>

definition copyFile :: "string \<Rightarrow> string \<Rightarrow> file_mode \<Rightarrow> os_world \<Rightarrow> int res \<times> os_world" where
  "copyFile src dst perm w =
     (case os_Open w src of
        Some e \<Rightarrow> (Inl e, w)
      | None \<Rightarrow>
          (case os_Create dst perm w of
             (Some e, w) \<Rightarrow> (Inl e, w)
           | (None, w) \<Rightarrow>
               (case os_Read w src of
                  Inl e \<Rightarrow> (Inl e, w)
                | Inr c \<Rightarrow>
                    (case os_Write dst c w of
                       (Some e, w) \<Rightarrow> (Inl e, w)
                     | (None, w) \<Rightarrow> (Inr (int (length c)), w)))))"

text \<open>\<open>CopyFile\<close> returns the count with \<open>Chmod\<close>'s error; a caller looks at the error.\<close>

definition CopyFile :: "string \<Rightarrow> string \<Rightarrow> file_mode \<Rightarrow> os_world \<Rightarrow> int res \<times> os_world" where
  "CopyFile src dst perm w =
     (case copyFile src dst perm w of
        (Inl e, w) \<Rightarrow> (Inl e, w)
      | (Inr cnt, w) \<Rightarrow>
          (case os_Chmod dst perm w of (Some e, w) \<Rightarrow> (Inl e, w) | (None, w) \<Rightarrow> (Inr cnt, w)))"

definition IsFileLocked :: "os_world \<Rightarrow> string \<Rightarrow> bool" where
  "IsFileLocked w filePath = (os_Open w filePath \<noteq> None)"

definition BackupFile :: "string \<Rightarrow> file_mode \<Rightarrow> os_world \<Rightarrow> int res \<times> os_world" where
  "BackupFile filePath filePerm w =
     (case os_Stat w filePath of
        Inl _ \<Rightarrow> (Inr 0, w)
      | Inr _ \<Rightarrow> CopyFile filePath (filePath @ ''.bak'') filePerm w)"

text \<open>\<open>AppendFile\<close> opens without \<open>O_CREATE\<close>; the message is the formatted one.\<close>

definition AppendFile :: "string \<Rightarrow> string \<Rightarrow> os_world \<Rightarrow> goerror option \<times> os_world" where
  "AppendFile filename message w =
     (case os_Open w filename of Some e \<Rightarrow> (Some e, w) | None \<Rightarrow> os_Write filename message w)"

section \<open>Archives\<close>

text \<open>
  The decompressor of the package \<open>compress/gzip\<close> is a parameter: on a stream, the error
  of \<open>NewReader\<close>, or the bytes that copying from the reader gives and the error it ends
  with. The input and the output of the functions are different files.
\<close>

type_synonym gunzip = "bytes \<Rightarrow> goerror + (bytes \<times> goerror option)"

definition doUnpackGzipFile ::
    "gunzip \<Rightarrow> string \<Rightarrow> string \<Rightarrow> file_mode \<Rightarrow> os_world \<Rightarrow> int res \<times> os_world" where
  "doUnpackGzipFile gunzip inputFilePath outputFilePath filePerm w =
     (case os_Open w inputFilePath of
        Some e \<Rightarrow> (Inl e, w)
      | None \<Rightarrow>
          (case os_Read w inputFilePath of
             Inl e \<Rightarrow> (Inl e, w)
           | Inr packed \<Rightarrow>
               (case gunzip packed of
                  Inl e \<Rightarrow> (Inl e, w)
                | Inr (plain, err) \<Rightarrow>
                    (case os_Create outputFilePath filePerm w of
                       (Some e, w) \<Rightarrow> (Inl e, w)
                     | (None, w) \<Rightarrow>
                         (case os_Write outputFilePath plain w of
                            (Some e, w) \<Rightarrow> (Inl e, w)
                          | (None, w) \<Rightarrow>
                              (case err of Some e \<Rightarrow> Inl e | None \<Rightarrow> Inr (int (length plain)), w))))))"

definition UnpackGzipFile ::
    "gunzip \<Rightarrow> string \<Rightarrow> string \<Rightarrow> file_mode \<Rightarrow> os_world \<Rightarrow> int res \<times> os_world" where
  "UnpackGzipFile gunzip inputFilePath outputFilePath filePerm w =
     (case doUnpackGzipFile gunzip inputFilePath outputFilePath filePerm w of
        (Inl e, w) \<Rightarrow> (Inl e, w)
      | (Inr cnt, w) \<Rightarrow>
          (case os_Chmod outputFilePath filePerm w of
             (Some e, w) \<Rightarrow> (Inl e, w) | (None, w) \<Rightarrow> (Inr cnt, w)))"

text \<open>
  A tar archive is the list of its headers as \<open>tar.Reader.Next\<close> returns them, each with
  the bytes of the decompressed stream that follow it, and the error \<open>Next\<close> ends with
  (\<open>None\<close> is \<open>io.EOF\<close>).
\<close>

datatype tar_flag = TypeDir | TypeReg | TypeOther

record tar_header =
  Typeflag :: tar_flag
  tar_Name :: string
  tar_Size :: nat
  tar_rest :: bytes

datatype tar_search = TarFound tar_header | TarEOF | TarErr goerror

fun untar_loop :: "string \<Rightarrow> string \<Rightarrow> tar_header list \<Rightarrow> goerror option \<Rightarrow> tar_search" where
  "untar_loop fileName currentDir [] None = TarEOF"
| "untar_loop fileName currentDir [] (Some e) = TarErr e"
| "untar_loop fileName currentDir (h # hs) e =
     (case Typeflag h of
        TypeDir \<Rightarrow> untar_loop fileName (tar_Name h) hs e
      | TypeReg \<Rightarrow>
          if TrimPrefix (tar_Name h) currentDir = fileName then TarFound h
          else untar_loop fileName currentDir hs e
      | TypeOther \<Rightarrow> untar_loop fileName currentDir hs e)"

definition UnpackTarGzipFile ::
    "(bytes \<Rightarrow> goerror + (tar_header list \<times> goerror option)) \<Rightarrow> string \<Rightarrow> string \<Rightarrow> string
     \<Rightarrow> file_mode \<Rightarrow> os_world \<Rightarrow> int res \<times> os_world" where
  "UnpackTarGzipFile untar fileName inputFilePath outputFilePath filePerm w =
     (case os_Open w inputFilePath of
        Some e \<Rightarrow> (Inl e, w)
      | None \<Rightarrow>
          (case os_Read w inputFilePath of
             Inl e \<Rightarrow> (Inl e, w)
           | Inr packed \<Rightarrow>
               (case untar packed of
                  Inl e \<Rightarrow> (Inl e, w)
                | Inr (hs, err) \<Rightarrow>
                    (case untar_loop fileName '''' hs err of
                       TarEOF \<Rightarrow> (Inl (Errorf (''file '' @ fileName @ '' not found in tar.gz archive '' @ inputFilePath)), w)
                     | TarErr e \<Rightarrow> (Inl e, w)
                     | TarFound h \<Rightarrow>
                         (case os_Create outputFilePath filePerm w of
                            (Some e, w) \<Rightarrow> (Inl e, w)
                          | (None, w) \<Rightarrow>
                              (case os_Write outputFilePath (take (tar_Size h) (tar_rest h)) w of
                                 (Some e, w) \<Rightarrow> (Inl e, w)
                               | (None, w) \<Rightarrow>
                                   if length (tar_rest h) < tar_Size h then (Inl (Errorf ''EOF''), w)
                                   else (case os_Chmod outputFilePath filePerm w of
                                           (Some e, w) \<Rightarrow> (Inl e, w)
                                         | (None, w) \<Rightarrow> (Inr (int (tar_Size h)), w))))))))"

text \<open>\<open>write\<close> and \<open>close\<close> are the methods of the third-party compressor \<open>'z\<close> over a buffer.\<close>

definition PackGzipData :: "(bytes \<Rightarrow> 'z res) \<Rightarrow> ('z \<Rightarrow> bytes res) \<Rightarrow> bytes \<Rightarrow> bytes res" where
  "PackGzipData write close plain =
     (case write plain of
        Inl e \<Rightarrow> Inl e
      | Inr zw \<Rightarrow> (case close zw of Inl e \<Rightarrow> Inl e | Inr buf \<Rightarrow> Inr buf))"

definition UnpackGzipData :: "gunzip \<Rightarrow> bytes \<Rightarrow> bytes res" where
  "UnpackGzipData gunzip compressed =
     (case gunzip compressed of
        Inl e \<Rightarrow> Inl e
      | Inr (buf, Some e) \<Rightarrow> Inl e
      | Inr (buf, None) \<Rightarrow> Inr buf)"

section \<open>What the helpers leave behind\<close>

text \<open>A call changes at most the path it is given.\<close>

definition frame :: "string set \<Rightarrow> os_world \<Rightarrow> os_world \<Rightarrow> bool" where
  "frame ps w w' \<longleftrightarrow> (\<forall>q. q \<notin> ps \<longrightarrow> fs w' q = fs w q) \<and> umask w' = umask w \<and> deny w' = deny w"

lemma frame_refl [simp]: "frame ps w w"
  by (simp add: frame_def)

lemma frame_trans: "frame ps w w' \<Longrightarrow> frame ps w' w'' \<Longrightarrow> frame ps w w''"
  by (simp add: frame_def)

lemma os_Mkdir_frame: "os_Mkdir p perm w = (r, w') \<Longrightarrow> frame {p} w w'"
  and os_Chmod_frame: "os_Chmod p perm w = (r, w') \<Longrightarrow> frame {p} w w'"
  and os_Create_frame: "os_Create p perm w = (r, w') \<Longrightarrow> frame {p} w w'"
  and os_Write_frame: "os_Write p b w = (r, w') \<Longrightarrow> frame {p} w w'"
  and os_Remove_frame: "os_Remove p w = (r, w') \<Longrightarrow> frame {p} w w'"
  by (auto simp: os_defs frame_def split: option.splits fnode.splits)

lemmas os_frames = os_Mkdir_frame os_Chmod_frame os_Create_frame os_Write_frame os_Remove_frame

lemma CreateDirIfNeeded_frame: "CreateDirIfNeeded dir perm w = (r, w') \<Longrightarrow> frame {dir} w w'"
  by (auto simp: CreateDirIfNeeded_def split: sum.splits prod.splits option.splits
      dest!: os_frames intro: frame_trans)

lemma CreateDirIfNeeded_ok:
  assumes "CreateDirIfNeeded dir perm w = (None, w')"
  shows "fs w' dir = (case fs w dir of None \<Rightarrow> Some (DirNode perm) | Some n \<Rightarrow> Some n)"
  using assms
  by (auto simp: CreateDirIfNeeded_def os_defs split: sum.splits prod.splits option.splits)

lemma CreateFileIfNeeded_ok:
  assumes "CreateFileIfNeeded p perm w = (None, w')" and "\<not> (\<exists>n. os_Stat w p = Inr n)"
  shows "\<exists>n. fs w' p = Some (FileNode perm n)"
  using assms
  by (auto simp: CreateFileIfNeeded_def os_defs split: sum.splits prod.splits option.splits fnode.splits)

lemma copyFile_ok:
  assumes "copyFile src dst perm w = (Inr n, w')" and "src \<noteq> dst"
  shows "\<exists>m m' c. fs w src = Some (FileNode m c) \<and> fs w' dst = Some (FileNode m' c) \<and> n = int (length c)
    \<and> frame {dst} w w'"
  using assms
  by (auto simp: copyFile_def os_defs frame_def split: sum.splits prod.splits option.splits fnode.splits)

lemma CopyFile_ok:
  assumes "CopyFile src dst perm w = (Inr n, w')" and "src \<noteq> dst"
  shows "\<exists>m c. fs w src = Some (FileNode m c) \<and> fs w' dst = Some (FileNode perm c) \<and> n = int (length c)
    \<and> frame {dst} w w'"
proof -
  from assms(1) obtain w1 where c: "copyFile src dst perm w = (Inr n, w1)"
      and ch: "os_Chmod dst perm w1 = (None, w')"
    by (auto simp: CopyFile_def split: sum.splits prod.splits option.splits)
  from copyFile_ok [OF c assms(2)] obtain m m' d where
      d: "fs w src = Some (FileNode m d)" "fs w1 dst = Some (FileNode m' d)" "n = int (length d)"
      and f: "frame {dst} w w1" by blast
  from ch d(2) have "fs w' dst = Some (FileNode perm d)"
    by (auto simp: os_Chmod_def split: option.splits)
  with d f os_Chmod_frame [OF ch] show ?thesis by (blast intro: frame_trans)
qed

lemma untar_loop_found:
  "untar_loop fileName cur hs e = TarFound h \<Longrightarrow>
   h \<in> set hs \<and> Typeflag h = TypeReg \<and>
   (\<exists>d. (d = cur \<or> (\<exists>g \<in> set hs. Typeflag g = TypeDir \<and> tar_Name g = d)) \<and> TrimPrefix (tar_Name h) d = fileName)"
  by (induction fileName cur hs e rule: untar_loop.induct) (auto split: tar_flag.splits if_splits)

section \<open>Properties\<close>

text \<open>
  the parser of permissions reads back what Go prints of a mode that has permission bits
  only, and of any string it takes no bits beyond the nine permission bits.
\<close>

theorem mode_roundtrip:
  "ParseFileMode (mode_string (take_bit 9 m)) = take_bit 9 m \<and> take_bit 9 (ParseFileMode s) = ParseFileMode s"
proof
  show "ParseFileMode (mode_string (take_bit 9 m)) = take_bit 9 m"
    by (rule bit_eqI) (simp add: ParseFileMode_mode_string_bit bit_take_bit_iff)
  show "take_bit 9 (ParseFileMode s) = ParseFileMode s"
    by (rule bit_eqI) (auto simp: ParseFileMode_bit bit_take_bit_iff)
qed

text \<open>
  a copy that succeeds leaves at the destination the content the source had, with the
  permissions that were asked for whatever the mask is, reports its length, and leaves every
  other file as it was.
\<close>

theorem copy_file:
  assumes "CopyFile src dst perm w = (Inr n, w')" and "src \<noteq> dst"
  shows "\<exists>m c. fs w src = Some (FileNode m c) \<and> fs w' dst = Some (FileNode perm c) \<and> n = int (length c) \<and>
    (\<forall>p. p \<noteq> dst \<longrightarrow> fs w' p = fs w p)"
  using CopyFile_ok [OF assms] by (auto simp: frame_def)

theorem copy_file_witness:
  "\<exists>w'. CopyFile ''a'' ''b'' 436 \<lparr>fs = [''a'' \<mapsto> FileNode 0 ''xyz''], umask = 18, deny = (\<lambda>_. None)\<rparr> = (Inr 3, w') \<and>
     fs w' ''b'' = Some (FileNode 436 ''xyz'')"
proof -
  let ?w = "\<lparr>fs = [''a'' \<mapsto> FileNode 0 ''xyz''], umask = 18, deny = (\<lambda>_. None)\<rparr>"
  obtain w' where c: "CopyFile ''a'' ''b'' 436 ?w = (Inr 3, w')"
    by (simp add: CopyFile_def copyFile_def os_defs)
  from copy_file [OF c] show ?thesis using c by auto
qed

end
