(* ===== verification/Autoupdate.thy ===== *)
theory Autoupdate
  imports Utils_Files
begin

text \<open>
  \<open>sprintcore/autoupdate_service.go\<close>: the watcher of the update file, the jobs that freeze
  updates, and the delayed restart. The first part models whole calls; the second one the
  atomic operations of concurrent \<open>triggerUpdate\<close> and \<open>Unfreeze\<close> calls.
\<close>

section \<open>State and operations\<close>

record file_information =
  info_Name :: string
  Size :: int
  ModTime :: int

datatype watcher = NoWatcher | Watching | WatcherClosed

text \<open>
  \<open>timers\<close> are the pending functions of \<open>time.AfterFunc\<close>, each with the \<open>current\<close> it
  captured; \<open>restarts\<close> counts the calls of \<open>Application.Shutdown(true)\<close>. The freeze map is
  kept in the order its iteration gives.
\<close>

record autoupdate_service =
  AutoupdateFile :: string
  watcher :: watcher
  cacheStat :: file_information
  triggerUpdateTimestamp :: int
  freezeNextId :: int
  freezeMap :: "(int \<times> string) list"
  triggerAfterUnfreeze :: bool
  closeOnce :: bool
  timers :: "int list"
  restarts :: nat

definition AutoupdateService :: "string \<Rightarrow> autoupdate_service" where
  "AutoupdateService file =
     \<lparr>AutoupdateFile = file, watcher = NoWatcher,
      cacheStat = \<lparr>info_Name = '''', Size = 0, ModTime = 0\<rparr>, triggerUpdateTimestamp = 0,
      freezeNextId = 0, freezeMap = [], triggerAfterUnfreeze = False, closeOnce = False,
      timers = [], restarts = 0\<rparr>"

text \<open>\<open>new\<close>, \<open>stat\<close> and \<open>add\<close>: the results of creating the watcher, of \<open>os.Stat\<close>, of watching.\<close>

definition doStart :: "goerror option \<Rightarrow> (int \<times> int) res \<Rightarrow> goerror option \<Rightarrow> string
    \<Rightarrow> autoupdate_service \<Rightarrow> goerror option \<times> autoupdate_service" where
  "doStart new stat add autoupdateFile t =
     (case new of
        Some e \<Rightarrow> (Some (Errorf (''create watcher '' @ error_text e)), t)
      | None \<Rightarrow>
          (let t = t\<lparr>watcher := Watching\<rparr>
           in case stat of
                Inl e \<Rightarrow> (Some (Errorf (''autoupdate file '' @ autoupdateFile @ '' not found '' @ error_text e)), t)
              | Inr (sz, mtime) \<Rightarrow>
                  (let t = t\<lparr>cacheStat := \<lparr>info_Name = autoupdateFile, Size = sz, ModTime = mtime\<rparr>\<rparr>
                   in case add of
                        Some e \<Rightarrow> (Some (Errorf (''listen updates on file '' @ autoupdateFile @ error_text e)), t)
                      | None \<Rightarrow> (None, t))))"

definition au_PostConstruct :: "goerror option \<Rightarrow> (int \<times> int) res \<Rightarrow> goerror option
    \<Rightarrow> autoupdate_service \<Rightarrow> goerror option \<times> autoupdate_service" where
  "au_PostConstruct new stat add t =
     (if AutoupdateFile t \<noteq> '''' then doStart new stat add (AutoupdateFile t) t else (None, t))"

definition au_Destroy :: "autoupdate_service \<Rightarrow> autoupdate_service" where
  "au_Destroy t =
     (if closeOnce t then t
      else t\<lparr>closeOnce := True, watcher := (if watcher t = Watching then WatcherClosed else watcher t)\<rparr>)"

definition Freeze :: "string \<Rightarrow> autoupdate_service \<Rightarrow> int \<times> autoupdate_service" where
  "Freeze jobName t =
     (let i = freezeNextId t + 1
      in (i, t\<lparr>freezeNextId := i, freezeMap := freezeMap t @ [(i, jobName)]\<rparr>))"

definition hasFreezeJob :: "autoupdate_service \<Rightarrow> bool" where
  "hasFreezeJob t = (freezeMap t \<noteq> [])"

definition FreezeJobs :: "autoupdate_service \<Rightarrow> int \<Rightarrow> string option" where
  "FreezeJobs t = map_of (freezeMap t)"

text \<open>A call of \<open>triggerUpdate\<close> at the time \<open>now\<close>, without interference.\<close>

definition triggerUpdate :: "int \<Rightarrow> autoupdate_service \<Rightarrow> autoupdate_service" where
  "triggerUpdate now t =
     (if hasFreezeJob t then t\<lparr>triggerAfterUnfreeze := True\<rparr>
      else t\<lparr>triggerUpdateTimestamp := now, timers := timers t @ [now]\<rparr>)"

definition Unfreeze :: "int \<Rightarrow> int \<Rightarrow> autoupdate_service \<Rightarrow> autoupdate_service" where
  "Unfreeze now handle t =
     (let t = t\<lparr>freezeMap := filter (\<lambda>(h, name). h \<noteq> handle) (freezeMap t)\<rparr>
      in if \<not> hasFreezeJob t \<and> triggerAfterUnfreeze t then triggerUpdate now t else t)"

definition isFileLocked :: "os_world \<Rightarrow> string \<Rightarrow> bool" where
  "isFileLocked w filePath = (os_Open w filePath \<noteq> None)"

text \<open>The function of the timer that captured \<open>current\<close>, running at the time \<open>now\<close>.\<close>

definition timer_fires :: "os_world \<Rightarrow> int \<Rightarrow> int \<Rightarrow> autoupdate_service \<Rightarrow> autoupdate_service" where
  "timer_fires w now current t =
     (let t = t\<lparr>timers := remove1 current (timers t)\<rparr>
      in if triggerUpdateTimestamp t = current then
           (if \<not> isFileLocked w (info_Name (cacheStat t)) then t\<lparr>restarts := restarts t + 1\<rparr>
            else triggerUpdate now t)
         else t)"

datatype event_op = OpCreate | OpWrite | OpOther

text \<open>\<open>stat\<close>: size and modification time of the event's file, if it can be read.\<close>

definition onEvent :: "int \<Rightarrow> event_op \<Rightarrow> string \<Rightarrow> (int \<times> int) option \<Rightarrow> autoupdate_service \<Rightarrow> autoupdate_service" where
  "onEvent now op' name stat t =
     (if op' = OpCreate \<or> op' = OpWrite then
        (case stat of
           None \<Rightarrow> t
         | Some (sz, mtime) \<Rightarrow>
             if info_Name (cacheStat t) \<noteq> name then t
             else if sz \<noteq> Size (cacheStat t) \<or> ModTime (cacheStat t) < mtime then triggerUpdate now t
             else t)
      else t)"

section \<open>Whole calls\<close>

lemma freeze_fresh:
  assumes "\<forall>(h, n) \<in> set (freezeMap t). h \<le> freezeNextId t" and "Freeze name t = (i, t')"
  shows "(\<forall>(h, n) \<in> set (freezeMap t'). h \<le> freezeNextId t') \<and> FreezeJobs t i = None \<and>
    FreezeJobs t' = (FreezeJobs t)(i \<mapsto> name)"
proof -
  have i: "i = freezeNextId t + 1" "freezeMap t' = freezeMap t @ [(i, name)]" "freezeNextId t' = i"
    using assms(2) by (auto simp: Freeze_def Let_def)
  have none: "map_of (freezeMap t) i = None"
    using assms(1) i(1) by (auto simp: map_of_eq_None_iff)
  have "map_of (freezeMap t @ [(i, name)]) = (map_of (freezeMap t))(i \<mapsto> name)"
    using none by (auto simp: fun_eq_iff map_add_def split: option.splits)
  with assms(1) i none show ?thesis by (auto simp: FreezeJobs_def)
qed

lemma freeze_unfreeze_map:
  "map_of (filter (\<lambda>(h, name). h \<noteq> handle) fm) = (map_of fm)(handle := None)"
  by (induction fm) (auto simp: fun_eq_iff)

lemma Unfreeze_jobs: "FreezeJobs (Unfreeze now h t) = (FreezeJobs t)(h := None)"
  by (auto simp: Unfreeze_def Let_def FreezeJobs_def triggerUpdate_def freeze_unfreeze_map)

text \<open>Only the timer of the last trigger restarts the application.\<close>

lemma older_timer_no_restart:
  "current \<noteq> triggerUpdateTimestamp t \<Longrightarrow> restarts (timer_fires w now current t) = restarts t"
  by (simp add: timer_fires_def Let_def)

section \<open>Concurrent calls\<close>

text \<open>
  The actions of \<open>triggerUpdate\<close>: the first check, the store of the flag, the second
  check, arming the timer. Of \<open>Unfreeze\<close>: deleting the handle, the check, loading the flag
  (which continues as a trigger).
\<close>

datatype au_pc = TCheck | TStore | TCheckAgain | TArm | UDelete int | UCheck | ULoad | ADone

record au_state =
  frozen :: "int list"
  after :: bool
  armed :: bool
  requested :: bool
  au_pcs :: "au_pc list"

definition au_act :: "au_pc \<Rightarrow> au_state \<Rightarrow> au_pc \<times> au_state" where
  "au_act pc s =
     (case pc of
        TCheck \<Rightarrow> (if frozen s \<noteq> [] then TStore else TArm, s)
      | TStore \<Rightarrow> (TCheckAgain, s\<lparr>after := True\<rparr>)
      | TCheckAgain \<Rightarrow> (if frozen s \<noteq> [] then ADone else TArm, s)
      | TArm \<Rightarrow> (ADone, s\<lparr>armed := True\<rparr>)
      | UDelete h \<Rightarrow> (UCheck, s\<lparr>frozen := filter (\<lambda>x. x \<noteq> h) (frozen s)\<rparr>)
      | UCheck \<Rightarrow> (if frozen s \<noteq> [] then ADone else ULoad, s)
      | ULoad \<Rightarrow> (if after s then TCheck else ADone, s)
      | ADone \<Rightarrow> (ADone, s))"

inductive au_step :: "au_state \<Rightarrow> au_state \<Rightarrow> bool" where
  trigger: "au_step s (s\<lparr>au_pcs := au_pcs s @ [TCheck], requested := True\<rparr>)"
| unfreeze: "au_step s (s\<lparr>au_pcs := au_pcs s @ [UDelete h]\<rparr>)"
| freeze: "au_step s (s\<lparr>frozen := frozen s @ [h]\<rparr>)"
| act: "i < length (au_pcs s) \<Longrightarrow> au_act (au_pcs s ! i) s = (pc, s') \<Longrightarrow>
        au_step s (s'\<lparr>au_pcs := (au_pcs s)[i := pc]\<rparr>)"

definition au_init :: au_state where
  "au_init = \<lparr>frozen = [], after = False, armed = False, requested = False, au_pcs = []\<rparr>"

definition triggering :: "au_state \<Rightarrow> bool" where
  "triggering s \<longleftrightarrow> (\<exists>pc \<in> set (au_pcs s). pc \<in> {TCheck, TStore, TCheckAgain, TArm})"

definition unfreezing :: "au_state \<Rightarrow> bool" where
  "unfreezing s \<longleftrightarrow> (\<exists>pc \<in> set (au_pcs s). pc \<in> {UCheck, ULoad})"

text \<open>
  A requested update that is not armed yet is in the hands of a running trigger, or of the
  flag: then either a job freezes updates or an unfreezing call has yet to look at the flag.
  A trigger past its store has set the flag.
\<close>

definition au_inv :: "au_state \<Rightarrow> bool" where
  "au_inv s \<longleftrightarrow>
     (requested s \<and> \<not> armed s \<longrightarrow> triggering s \<or> (after s \<and> (frozen s \<noteq> [] \<or> unfreezing s))) \<and>
     (TCheckAgain \<in> set (au_pcs s) \<longrightarrow> after s)"

lemma set_update_split: "i < length xs \<Longrightarrow> x \<in> set (xs[i := y]) \<Longrightarrow> x = y \<or> x \<in> set xs"
  by (meson insert_iff set_update_subset_insert subset_iff)

lemma mem_update: "i < length xs \<Longrightarrow> y \<in> set (xs[i := y])"
  by (rule set_update_memI)

lemma mem_update_other: "x \<in> set xs \<Longrightarrow> x \<noteq> xs ! i \<Longrightarrow> x \<in> set (xs[i := y])"
  by (metis in_set_conv_nth length_list_update nth_list_update_neq)

lemma triggering_update:
  "i < length ps \<Longrightarrow> pc \<in> {TCheck, TStore, TCheckAgain, TArm} \<Longrightarrow> triggering (s\<lparr>au_pcs := ps[i := pc]\<rparr>)"
  by (auto simp: triggering_def intro: mem_update)

lemma unfreezing_update:
  "i < length ps \<Longrightarrow> pc \<in> {UCheck, ULoad} \<Longrightarrow> unfreezing (s\<lparr>au_pcs := ps[i := pc]\<rparr>)"
  by (auto simp: unfreezing_def intro: mem_update)

lemma triggering_other:
  "triggering s \<Longrightarrow> au_pcs s ! i \<notin> {TCheck, TStore, TCheckAgain, TArm} \<Longrightarrow> au_pcs s' = (au_pcs s)[i := pc] \<Longrightarrow> triggering s'"
  unfolding triggering_def by (metis mem_update_other)

lemma unfreezing_other:
  "unfreezing s \<Longrightarrow> au_pcs s ! i \<notin> {UCheck, ULoad} \<Longrightarrow> au_pcs s' = (au_pcs s)[i := pc] \<Longrightarrow> unfreezing s'"
  unfolding unfreezing_def by (metis mem_update_other)

lemma au_inv_act:
  assumes "au_inv s" and "i < length (au_pcs s)" and "au_act (au_pcs s ! i) s = (pc, s1)"
  shows "au_inv (s1\<lparr>au_pcs := (au_pcs s)[i := pc]\<rparr>)" (is "au_inv ?s'")
proof -
  have mem: "au_pcs s ! i \<in> set (au_pcs s)" using assms(2) by simp
  have pcs: "au_pcs ?s' = (au_pcs s)[i := pc]" by simp
  have trig: "pc \<in> {TCheck, TStore, TCheckAgain, TArm} \<Longrightarrow> triggering ?s'"
    using triggering_update [OF assms(2)] by simp
  have unfr: "pc \<in> {UCheck, ULoad} \<Longrightarrow> unfreezing ?s'"
    using unfreezing_update [OF assms(2)] by simp
  have again: "TCheckAgain \<in> set (au_pcs ?s') \<Longrightarrow> pc = TCheckAgain \<or> TCheckAgain \<in> set (au_pcs s)"
    using set_update_split [OF assms(2)] by auto
  note keep = triggering_other [OF _ _ pcs] unfreezing_other [OF _ _ pcs]
  show ?thesis
    using assms(1,3) mem trig unfr again keep
    by (cases "au_pcs s ! i") (auto simp: au_inv_def au_act_def split: if_splits)
qed

lemma au_inv_step: "au_step s s' \<Longrightarrow> au_inv s \<Longrightarrow> au_inv s'"
proof (induction rule: au_step.induct)
  case (act i s pc s')
  then show ?case using au_inv_act by blast
qed (auto simp: au_inv_def triggering_def unfreezing_def)

lemma au_inv_reach: "au_step\<^sup>*\<^sup>* au_init s \<Longrightarrow> au_inv s"
proof (induction rule: rtranclp_induct)
  case base
  then show ?case by (simp add: au_init_def au_inv_def)
qed (rule au_inv_step)

text \<open>When every call has returned and nothing freezes updates, a requested one is armed.\<close>

lemma au_quiescent:
  assumes "au_step\<^sup>*\<^sup>* au_init s" and "set (au_pcs s) \<subseteq> {ADone}" and "frozen s = []" and "requested s"
  shows "armed s"
  using au_inv_reach [OF assms(1)] assms(2-4)
  by (auto simp: au_inv_def triggering_def unfreezing_def)

section \<open>Properties\<close>

text \<open>
  C36: no requested update is lost, in any interleaving of triggers, freezes and unfreezes:
  until the restart is armed, some trigger is running, or the flag is set and a job freezes
  updates or an unfreezing call has yet to look at the flag; so when every call has returned
  and no job is left, the restart of a requested update is armed.
\<close>

theorem update_not_lost:
  assumes "au_step\<^sup>*\<^sup>* au_init s" and "requested s"
  shows "(armed s \<or> triggering s \<or> (after s \<and> (frozen s \<noteq> [] \<or> unfreezing s))) \<and>
    (set (au_pcs s) \<subseteq> {ADone} \<and> frozen s = [] \<longrightarrow> armed s)"
proof
  show "armed s \<or> triggering s \<or> (after s \<and> (frozen s \<noteq> [] \<or> unfreezing s))"
    using au_inv_reach [OF assms(1)] assms(2) by (auto simp: au_inv_def)
  show "set (au_pcs s) \<subseteq> {ADone} \<and> frozen s = [] \<longrightarrow> armed s"
    using au_quiescent [OF assms(1)] assms(2) by blast
qed

theorem update_not_lost_witness:
  "\<exists>s. au_step\<^sup>*\<^sup>* au_init s \<and> requested s \<and> frozen s = [] \<and> armed s"
proof -
  define s1 where "s1 = au_init\<lparr>au_pcs := [TCheck], requested := True\<rparr>"
  define s2 where "s2 = s1\<lparr>au_pcs := [TArm]\<rparr>"
  define s3 where "s3 = s2\<lparr>armed := True, au_pcs := [ADone]\<rparr>"
  have 1: "au_step au_init s1"
    using au_step.trigger [of au_init] by (simp add: s1_def au_init_def)
  have 2: "au_step s1 s2"
    using au_step.act [of 0 s1 TArm s1] by (simp add: s1_def s2_def au_init_def au_act_def)
  have 3: "au_step s2 s3"
    using au_step.act [of 0 s2 ADone "s2\<lparr>armed := True\<rparr>"] by (simp add: s1_def s2_def s3_def au_init_def au_act_def)
  note r = rtranclp.rtrancl_into_rtrancl [where r = au_step]
  have reach: "au_step\<^sup>*\<^sup>* au_init s3" by (rule r [OF r [OF r [OF rtranclp.rtrancl_refl 1] 2] 3])
  have req: "requested s3" "set (au_pcs s3) \<subseteq> {ADone}" "frozen s3 = []"
    by (simp_all add: s3_def s2_def s1_def au_init_def)
  with update_not_lost [OF reach req(1)] reach show ?thesis by blast
qed

end
