(* ===== verification/Codec.thy ===== *)
theory Codec
  imports Prelude
begin

text \<open>
  The encodings of Go's packages \<open>encoding/base64\<close> and \<open>encoding/hex\<close> that the framework
  uses for tokens, keys, stored values and node identifiers, with their round trips. A
  decoder returns the bytes it produced so far together with whether the input was well
  formed, as \<open>DecodeString\<close> returns \<open>dbuf[:n], err\<close>; the offset inside the error message
  is left out.
\<close>

section \<open>Base 64\<close>

text \<open>The alphabets differ in the last two symbols: URL (minus, underscore), standard (plus, slash).\<close>

definition b64_sym :: "bool \<Rightarrow> nat \<Rightarrow> char" where
  "b64_sym url i =
     (if i < 26 then char_of (65 + i) else if i < 52 then char_of (71 + i)
      else if i < 62 then char_of (i - 4)
      else if i = 62 then (if url then CHR ''-'' else CHR ''+'')
      else (if url then CHR ''_'' else CHR ''/''))"

definition b64_val :: "bool \<Rightarrow> char \<Rightarrow> nat option" where
  "b64_val url c = (let n = of_char c :: nat in
     if 65 \<le> n \<and> n \<le> 90 then Some (n - 65)
     else if 97 \<le> n \<and> n \<le> 122 then Some (n - 71)
     else if 48 \<le> n \<and> n \<le> 57 then Some (n + 4)
     else if c = (if url then CHR ''-'' else CHR ''+'') then Some 62
     else if c = (if url then CHR ''_'' else CHR ''/'') then Some 63
     else None)"

text \<open>\<open>url = True\<close> is \<open>base64.RawURLEncoding\<close>, without padding; \<open>False\<close> is \<open>base64.StdEncoding\<close>.\<close>

fun b64_encode :: "bool \<Rightarrow> bytes \<Rightarrow> string" where
  "b64_encode url [] = []"
| "b64_encode url [x] =
     (let n = of_char x in
      [b64_sym url (n div 4), b64_sym url (n mod 4 * 16)] @ (if url then [] else ''==''))"
| "b64_encode url [x, y] =
     (let n = of_char x * 256 + of_char y in
      [b64_sym url (n div 1024), b64_sym url (n div 16 mod 64), b64_sym url (n mod 16 * 4)]
      @ (if url then [] else ''=''))"
| "b64_encode url (x # y # z # r) =
     (let n = of_char x * 65536 + of_char y * 256 + of_char z in
      [b64_sym url (n div 262144), b64_sym url (n div 4096 mod 64),
       b64_sym url (n div 64 mod 64), b64_sym url (n mod 64)] @ b64_encode url r)"

text \<open>The decoder skips line breaks anywhere, then reads quanta of four symbols.\<close>

definition no_breaks :: "string \<Rightarrow> string" where
  "no_breaks s = filter (\<lambda>c. c \<noteq> CHR 0x0A \<and> c \<noteq> CHR 0x0D) s"

definition bytes1 :: "nat \<Rightarrow> nat \<Rightarrow> bytes" where
  "bytes1 a b = [char_of ((a * 64 + b) div 16)]"

definition bytes2 :: "nat \<Rightarrow> nat \<Rightarrow> nat \<Rightarrow> bytes" where
  "bytes2 a b c = (let v = (a * 64 + b) * 64 + c in [char_of (v div 1024), char_of (v div 4 mod 256)])"

definition bytes3 :: "nat \<Rightarrow> nat \<Rightarrow> nat \<Rightarrow> nat \<Rightarrow> bytes" where
  "bytes3 a b c d = (let v = ((a * 64 + b) * 64 + c) * 64 + d in
     [char_of (v div 65536), char_of (v div 256 mod 256), char_of (v mod 256)])"

fun b64_quanta :: "bool \<Rightarrow> string \<Rightarrow> bytes \<times> bool" where
  "b64_quanta url [] = ([], True)"
| "b64_quanta url [p] = ([], False)"
| "b64_quanta url [p, q] =
     (case (b64_val url p, b64_val url q) of
        (Some a, Some b) \<Rightarrow> if url then (bytes1 a b, True) else ([], False)
      | _ \<Rightarrow> ([], False))"
| "b64_quanta url [p, q, r] =
     (case (b64_val url p, b64_val url q, b64_val url r) of
        (Some a, Some b, Some c) \<Rightarrow> if url then (bytes2 a b c, True) else ([], False)
      | _ \<Rightarrow> ([], False))"
| "b64_quanta url (p # q # r # s # rest) =
     (case (b64_val url p, b64_val url q) of
        (Some a, Some b) \<Rightarrow>
          (case b64_val url r of
             Some c \<Rightarrow>
               (case b64_val url s of
                  Some d \<Rightarrow> (let (out, ok) = b64_quanta url rest in (bytes3 a b c d @ out, ok))
                | None \<Rightarrow> if \<not> url \<and> s = CHR ''='' then (bytes2 a b c, rest = []) else ([], False))
           | None \<Rightarrow>
               if \<not> url \<and> r = CHR ''='' \<and> s = CHR ''='' then (bytes1 a b, rest = []) else ([], False))
      | _ \<Rightarrow> ([], False))"

definition ErrCorrupt :: goerror where
  "ErrCorrupt = Errorf ''illegal base64 data''"

definition b64_decode :: "bool \<Rightarrow> string \<Rightarrow> bytes \<times> goerror option" where
  "b64_decode url s = (let (out, ok) = b64_quanta url (no_breaks s) in
     (out, if ok then None else Some ErrCorrupt))"

subsection \<open>Round trip\<close>

lemma b64_val_sym [simp]: "i < 64 \<Longrightarrow> b64_val url (b64_sym url i) = Some i"
  by (cases url) (auto simp: b64_val_def b64_sym_def Let_def)

lemma b64_sym_not_break [simp]:
  "i < 64 \<Longrightarrow> b64_sym url i \<noteq> CHR 0x0A" "i < 64 \<Longrightarrow> b64_sym url i \<noteq> CHR 0x0D"
proof -
  have "b64_val url (CHR 0x0A) = None" "b64_val url (CHR 0x0D) = None"
    by (cases url; simp add: b64_val_def)+
  then show "i < 64 \<Longrightarrow> b64_sym url i \<noteq> CHR 0x0A" "i < 64 \<Longrightarrow> b64_sym url i \<noteq> CHR 0x0D"
    by (metis b64_val_sym option.distinct(1))+
qed

lemma of_char_lt [simp]: "of_char (c :: char) < (256 :: nat)"
  by (rule nat_of_char_less_256)

lemma char_of_of_char_eq: "(n :: nat) = of_char c \<Longrightarrow> char_of n = c"
  by simp

lemma bytes1_enc: "bytes1 (of_char x div 4) (of_char x mod 4 * 16) = [x]"
proof -
  have "((of_char x :: nat) div 4 * 64 + of_char x mod 4 * 16) div 16 = of_char x" by presburger
  then show ?thesis by (simp add: bytes1_def)
qed

lemma bytes2_enc:
  fixes x y :: char
  defines "n \<equiv> of_char x * 256 + of_char y :: nat"
  shows "bytes2 (n div 1024) (n div 16 mod 64) (n mod 16 * 4) = [x, y]"
proof -
  define a b where "a = (of_char x :: nat)" and "b = (of_char y :: nat)"
  have lt: "b < 256" by (simp add: b_def)
  have n: "n = a * 256 + b" by (simp add: n_def a_def b_def)
  have "n div 1024 * 64 + n div 16 mod 64 = n div 16"
    using div_mult2_eq [of n 16 64] div_mult_mod_eq [of "n div 16" 64] by simp
  moreover have "n div 16 * 64 + n mod 16 * 4 = n * 4"
    using div_mult_mod_eq [of n 16] by linarith
  ultimately have v: "(n div 1024 * 64 + n div 16 mod 64) * 64 + n mod 16 * 4 = n * 4"
    by simp
  have "n * 4 div 1024 = n div 256"
    using div_mult_mult2 [of 4 n 256] by simp
  then have "n * 4 div 1024 = a"
    using lt unfolding n by simp
  moreover have "n * 4 div 4 mod 256 = b"
    using lt unfolding n by simp
  ultimately show ?thesis
    unfolding bytes2_def Let_def v by (simp add: a_def b_def)
qed

lemma bytes3_enc:
  fixes x y z :: char
  defines "n \<equiv> of_char x * 65536 + of_char y * 256 + of_char z :: nat"
  shows "bytes3 (n div 262144) (n div 4096 mod 64) (n div 64 mod 64) (n mod 64) = [x, y, z]"
proof -
  define a b c where "a = (of_char x :: nat)" and "b = (of_char y :: nat)" and "c = (of_char z :: nat)"
  have lt: "b < 256" "c < 256" by (simp_all add: b_def c_def)
  have n: "n = a * 65536 + b * 256 + c" by (simp add: n_def a_def b_def c_def)
  have "n div 262144 * 64 + n div 4096 mod 64 = n div 4096"
    using div_mult2_eq [of n 4096 64] div_mult_mod_eq [of "n div 4096" 64] by simp
  moreover have "n div 4096 * 64 + n div 64 mod 64 = n div 64"
    using div_mult2_eq [of n 64 64] div_mult_mod_eq [of "n div 64" 64] by simp
  ultimately have v: "((n div 262144 * 64 + n div 4096 mod 64) * 64 + n div 64 mod 64) * 64 + n mod 64 = n"
    by simp
  have "n div 65536 = a"
    using lt unfolding n by linarith
  moreover have d: "n div 256 = a * 256 + b"
    using lt unfolding n by linarith
  moreover have "n div 256 mod 256 = b"
    using lt unfolding d by simp
  moreover have "n mod 256 = c"
    using lt mod_mult_self3 [of "a * 256 + b" 256 c] unfolding n by (simp add: algebra_simps)
  ultimately show ?thesis
    unfolding bytes3_def Let_def v by (simp add: a_def b_def c_def)
qed

lemma b64_quanta_encode: "b64_quanta url (b64_encode url bs) = (bs, True)"
proof (induction url bs rule: b64_encode.induct)
  case (2 url x)
  have pad: "b64_val False (CHR ''='') = None" by (simp add: b64_val_def)
  have "of_char x div 4 < (64 :: nat)" using of_char_lt [of x] by linarith
  then show ?case by (cases url) (simp_all add: Let_def bytes1_enc pad)
next
  case (3 url x y)
  have pad: "b64_val False (CHR ''='') = None" by (simp add: b64_val_def)
  have "(of_char x * 256 + of_char y) div 1024 < (64 :: nat)"
    using of_char_lt [of x] of_char_lt [of y] by linarith
  then show ?case by (cases url) (simp_all add: Let_def bytes2_enc pad)
next
  case (4 url x y z r)
  have "(of_char x * 65536 + of_char y * 256 + of_char z) div 262144 < (64 :: nat)"
    using of_char_lt [of x] of_char_lt [of y] of_char_lt [of z] by linarith
  with 4 show ?case by (simp add: Let_def bytes3_enc)
qed simp

lemma no_breaks_id: "(\<And>c. c \<in> set s \<Longrightarrow> c \<noteq> CHR 0x0A \<and> c \<noteq> CHR 0x0D) \<Longrightarrow> no_breaks s = s"
  by (simp add: no_breaks_def)

lemma b64_encode_no_break: "c \<in> set (b64_encode url bs) \<Longrightarrow> c \<noteq> CHR 0x0A \<and> c \<noteq> CHR 0x0D"
proof (induction url bs rule: b64_encode.induct)
  case (2 url x)
  have "of_char x div 4 < (64 :: nat)" using of_char_lt [of x] by linarith
  with 2 show ?case by (auto simp: Let_def split: if_splits)
next
  case (3 url x y)
  have "(of_char x * 256 + of_char y) div 1024 < (64 :: nat)"
    using of_char_lt [of x] of_char_lt [of y] by linarith
  with 3 show ?case by (auto simp: Let_def split: if_splits)
next
  case (4 url x y z r)
  have "(of_char x * 65536 + of_char y * 256 + of_char z) div 262144 < (64 :: nat)"
    using of_char_lt [of x] of_char_lt [of y] of_char_lt [of z] by linarith
  with 4 show ?case by (auto simp: Let_def)
qed simp

lemma b64_roundtrip [simp]: "b64_decode url (b64_encode url bs) = (bs, None)"
proof -
  have "no_breaks (b64_encode url bs) = b64_encode url bs"
    using b64_encode_no_break by (rule no_breaks_id)
  then show ?thesis by (simp add: b64_decode_def b64_quanta_encode)
qed

section \<open>Hex\<close>

fun hex_encode :: "bytes \<Rightarrow> string" where
  "hex_encode [] = []"
| "hex_encode (c # cs) = digit_char (of_char c div 16) # digit_char (of_char c mod 16) # hex_encode cs"

text \<open>The number a byte string denotes, most significant byte first.\<close>

definition be_value :: "bytes \<Rightarrow> int" where
  "be_value bs = foldl (\<lambda>n c. n * 256 + int (of_char c)) 0 bs"

lemma be_fold_ge: "0 \<le> n \<Longrightarrow> n \<le> foldl (\<lambda>n c. n * 256 + int (of_char c)) n bs"
proof (induction bs arbitrary: n)
  case (Cons c cs)
  have "n \<le> n * 256 + int (of_char c)" using Cons.prems by simp
  also have "\<dots> \<le> foldl (\<lambda>n c. n * 256 + int (of_char c)) (n * 256 + int (of_char c)) cs"
    using Cons.prems by (intro Cons.IH) simp
  finally show ?case by simp
qed simp

lemma be_fold_bound:
  "0 \<le> n \<Longrightarrow> foldl (\<lambda>n c. n * 256 + int (of_char c)) n bs < (n + 1) * 256 ^ length bs"
proof (induction bs arbitrary: n)
  case (Cons c cs)
  have c: "int (of_char c) \<le> 255" using of_char_lt [of c] by linarith
  have "foldl (\<lambda>n c. n * 256 + int (of_char c)) (n * 256 + int (of_char c)) cs
      < (n * 256 + int (of_char c) + 1) * 256 ^ length cs"
    using Cons.prems by (intro Cons.IH) simp
  also have "\<dots> \<le> ((n + 1) * 256) * 256 ^ length cs"
    using c by (intro mult_right_mono) auto
  finally show ?case by (simp add: algebra_simps)
qed simp

lemma be_value_bound: "0 \<le> be_value bs \<and> be_value bs < 256 ^ length bs"
  using be_fold_ge [of 0 bs] be_fold_bound [of 0 bs] by (simp add: be_value_def)

lemma uint_loop_hex:
  "0 \<le> n \<Longrightarrow> foldl (\<lambda>n c. n * 256 + int (of_char c)) n bs \<le> maxv \<Longrightarrow>
   uint_loop 16 maxv n (hex_encode bs) = Inr (foldl (\<lambda>n c. n * 256 + int (of_char c)) n bs)"
proof (induction bs arbitrary: n)
  case (Cons c cs)
  define v h l where "v = (of_char c :: nat)" and "h = v div 16" and "l = v mod 16"
  have "v < 256" by (simp add: v_def)
  then have hl: "h < 16" "l < 16" by (auto simp: h_def l_def)
  have v: "int v = int h * 16 + int l"
    unfolding h_def l_def by (metis of_nat_add of_nat_mult div_mult_mod_eq of_nat_numeral)
  have le: "n * 256 + int v \<le> maxv"
    using Cons.prems be_fold_ge [of "n * 256 + int v" cs] by (simp add: v_def)
  have le1: "n * 16 + int h \<le> maxv"
    using le v Cons.prems(1) by linarith
  have eq: "(n * 16 + int h) * 16 + int l = n * 256 + int v"
    unfolding v by (simp add: algebra_simps)
  have enc: "hex_encode (c # cs) = digit_char h # digit_char l # hex_encode cs"
    by (simp add: v_def h_def l_def)
  have "uint_loop 16 maxv n (hex_encode (c # cs)) = uint_loop 16 maxv (n * 256 + int v) (hex_encode cs)"
    using hl le le1 unfolding enc eq [symmetric] by simp
  with Cons show ?case by (simp add: v_def)
qed simp

lemma hex_encode_ne: "bs \<noteq> [] \<Longrightarrow> hex_encode bs \<noteq> []"
  by (cases bs) auto

lemma ParseUint_hex:
  assumes "bs \<noteq> []" and "8 * length bs \<le> bits"
  shows "ParseUint (hex_encode bs) 16 bits = Inr (be_value bs)"
proof -
  have "(256 :: int) ^ length bs = 2 ^ (8 * length bs)"
    by (simp add: power_mult)
  also have "\<dots> \<le> 2 ^ bits"
    using assms(2) by (intro power_increasing) auto
  finally have "be_value bs \<le> 2 ^ bits - 1"
    using be_value_bound [of bs] by linarith
  then show ?thesis
    using assms(1) uint_loop_hex [of 0 bs "2 ^ bits - 1"]
    by (simp add: ParseUint_def hex_encode_ne be_value_def)
qed

end
