(* ===== verification/Utils_Tokens.thy ===== *)
theory Utils_Tokens
  imports Codec
begin

text \<open>
  \<open>sprintutils/tokens.go\<close>: identifiers, bootstrap tokens, node identifiers and the JWT
  authorization tokens. The random source is the list of the results its successive reads
  give. The base-62 codec and the JWT library are third-party code: parameters of the
  definitions that call them; what the code relies on of the JWT library is the predicate
  \<open>jwt_laws\<close>.
\<close>

section \<open>Identifiers\<close>

record base62 =
  b62_EncodeToString :: "bytes \<Rightarrow> string"
  b62_DecodeString :: "string \<Rightarrow> bytes res"
  b62_EncodeUint64 :: "int \<Rightarrow> string"
  b62_DecodeToUint64 :: "string \<Rightarrow> int res"

definition DefaultTokenSize :: nat where "DefaultTokenSize = 32"
definition DefaultLongIdSize :: nat where "DefaultLongIdSize = 16"
definition NodeIdBits :: nat where "NodeIdBits = 48"
definition NodeIdSize :: nat where "NodeIdSize = NodeIdBits div 8"

definition GenerateLongId :: "base62 \<Rightarrow> bytes res \<Rightarrow> string res" where
  "GenerateLongId b62 rd =
     (case rd of Inr nonce \<Rightarrow> Inr (b62_EncodeToString b62 nonce) | Inl e \<Rightarrow> Inl e)"

definition EncodeLongId :: "base62 \<Rightarrow> bytes \<Rightarrow> string" where
  "EncodeLongId b62 i = b62_EncodeToString b62 i"

definition DecodeLongId :: "base62 \<Rightarrow> string \<Rightarrow> bytes res" where
  "DecodeLongId b62 s = b62_DecodeString b62 s"

definition EncodeId :: "base62 \<Rightarrow> int \<Rightarrow> string" where
  "EncodeId b62 i = b62_EncodeUint64 b62 i"

definition DecodeId :: "base62 \<Rightarrow> string \<Rightarrow> int res" where
  "DecodeId b62 s = b62_DecodeToUint64 b62 s"

section \<open>Bootstrap tokens\<close>

text \<open>
  \<open>GenerateToken\<close> draws again until the encoded nonce has neither a minus nor an
  underscore. The result is \<open>None\<close> while the loop still waits for another read.
\<close>

fun GenerateToken :: "bytes res list \<Rightarrow> (string res \<times> bytes res list) option" where
  "GenerateToken [] = None"
| "GenerateToken (rd # rds) =
     (case rd of
        Inr nonce \<Rightarrow>
          (let key = b64_encode True nonce in
           if \<not> ContainsAny key ''-_'' then Some (Inr key, rds) else GenerateToken rds)
      | Inl e \<Rightarrow> Some (Inl e, rds))"

definition ParseToken :: "string \<Rightarrow> bytes res" where
  "ParseToken base64key =
     (case b64_decode True base64key of
        (key, Some e) \<Rightarrow> Inl e
      | (key, None) \<Rightarrow>
          if length key \<noteq> DefaultTokenSize
          then Inl (Errorf (''wrong token size '' @ Itoa (int (length key)) @ '', expected 32''))
          else Inr key)"

lemma GenerateToken_Inr:
  assumes "GenerateToken rds = Some (Inr key, rest)"
  shows "\<exists>nonce. Inr nonce \<in> set rds \<and> key = b64_encode True nonce \<and> \<not> ContainsAny key ''-_''"
  using assms by (induction rds) (auto simp: Let_def split: sum.splits if_splits)

lemma GenerateToken_terminates:
  assumes "rd \<in> set rds"
    and "case rd of Inl _ \<Rightarrow> True | Inr nonce \<Rightarrow> \<not> ContainsAny (b64_encode True nonce) ''-_''"
  shows "\<exists>r. GenerateToken rds = Some r"
  using assms by (induction rds) (auto simp: Let_def split: sum.splits if_splits)

section \<open>Node identifiers\<close>

definition GenerateNodeId :: "bytes res \<Rightarrow> string res" where
  "GenerateNodeId rd = (case rd of Inr blob \<Rightarrow> Inr (''0x'' @ hex_encode blob) | Inl e \<Rightarrow> Inl e)"

definition ParseNodeId :: "string \<Rightarrow> int res" where
  "ParseNodeId nodeId =
     ParseUint (if HasPrefix nodeId ''0x'' then drop 2 nodeId else nodeId) 16 NodeIdBits"

lemma ParseNodeId_hex:
  assumes "length blob = NodeIdSize"
  shows "ParseNodeId (''0x'' @ hex_encode blob) = Inr (be_value blob)"
proof -
  have "blob \<noteq> []" "8 * length blob \<le> NodeIdBits"
    using assms by (auto simp: NodeIdSize_def NodeIdBits_def)
  then show ?thesis
    using ParseUint_hex [of blob NodeIdBits] by (simp add: ParseNodeId_def HasPrefix_def)
qed

lemma uint_loop_bound:
  "uint_loop base maxv n s = Inr m \<Longrightarrow> 0 \<le> n \<Longrightarrow> n \<le> maxv \<Longrightarrow> 0 \<le> base \<Longrightarrow> 0 \<le> m \<and> m \<le> maxv"
  by (induction s arbitrary: n) (auto split: option.splits if_splits)

lemma ParseNodeId_bound: "ParseNodeId s = Inr n \<Longrightarrow> 0 \<le> n \<and> n < 2 ^ 48"
  by (auto simp: ParseNodeId_def ParseUint_def NodeIdBits_def split: if_splits
      dest!: uint_loop_bound)

section \<open>Authorization tokens\<close>

text \<open>A Go map that may be nil is an option of a map.\<close>

record authorized_user =
  Username :: string
  Roles :: "(string \<Rightarrow> bool option) option"
  user_Context :: "(string \<Rightarrow> string option) option"
  ExpiresAt :: int
  Token :: string

record user_claims =
  claim_Roles :: "string list"
  claim_Context :: "(string \<Rightarrow> string option) option"
  claim_Id :: string
  claim_ExpiresAt :: int

text \<open>
  The JWT library: \<open>SignedString\<close> with HS256, and \<open>ParseWithClaims\<close> at a time, which
  gives the error, the claims read and the flag \<open>Valid\<close>. \<open>jwt_encodable\<close> says that the
  claims survive their JSON form (their strings are valid UTF-8).
\<close>

record jwt_lib =
  jwt_SignedString :: "bytes \<Rightarrow> user_claims \<Rightarrow> string res"
  jwt_Parse :: "bytes \<Rightarrow> int \<Rightarrow> string \<Rightarrow> goerror option \<times> user_claims \<times> bool"
  jwt_encodable :: "user_claims \<Rightarrow> bool"

text \<open>
  What the code relies on: a token that was signed with a key is accepted with that key
  and gives back its claims as long as it has no expiry time or is not past it, and is
  refused with an error afterwards.
\<close>

definition jwt_laws :: "jwt_lib \<Rightarrow> bool" where
  "jwt_laws lib \<longleftrightarrow>
     (\<forall>key c tok now. jwt_encodable lib c \<and> jwt_SignedString lib key c = Inr tok \<longrightarrow>
        (if claim_ExpiresAt c = 0 \<or> now \<le> claim_ExpiresAt c
         then jwt_Parse lib key now tok = (None, c, True)
         else fst (jwt_Parse lib key now tok) \<noteq> None))"

text \<open>
  The keys of \<open>user.Roles\<close> are collected in the order the map's iteration gives them
  (\<open>order\<close>), whatever their values are.
\<close>

definition role_order_ok :: "string list \<Rightarrow> authorized_user \<Rightarrow> bool" where
  "role_order_ok order u \<longleftrightarrow>
     distinct order \<and> set order = (case Roles u of None \<Rightarrow> {} | Some m \<Rightarrow> dom m)"

definition GenerateAuthToken ::
    "jwt_lib \<Rightarrow> string list \<Rightarrow> bytes option \<Rightarrow> authorized_user option \<Rightarrow> string res" where
  "GenerateAuthToken lib order secretKey user =
     (case secretKey of
        None \<Rightarrow> Inl (Errorf ''empty secretKey'')
      | Some key \<Rightarrow>
          (case user of
             None \<Rightarrow> Inl (Errorf ''empty user'')
           | Some u \<Rightarrow>
               jwt_SignedString lib key
                 \<lparr>claim_Roles = order, claim_Context = user_Context u,
                  claim_Id = Username u, claim_ExpiresAt = ExpiresAt u\<rparr>))"

fun index_roles :: "string list \<Rightarrow> (string \<Rightarrow> bool option) \<Rightarrow> (string \<Rightarrow> bool option)" where
  "index_roles [] m = m"
| "index_roles (role # roles) m = index_roles roles (m(role \<mapsto> True))"

lemma index_roles_eq: "index_roles rs m r = (if r \<in> set rs then Some True else m r)"
  by (induction rs arbitrary: m) auto

definition VerifyAuthToken ::
    "jwt_lib \<Rightarrow> int \<Rightarrow> bytes option \<Rightarrow> string \<Rightarrow> authorized_user res" where
  "VerifyAuthToken lib now secretKey jwtToken =
     (case secretKey of
        None \<Rightarrow> Inl (Errorf ''empty secretKey'')
      | Some key \<Rightarrow>
          (let (err, claims, valid) = jwt_Parse lib key now jwtToken;
               decodedToken = fst (b64_decode True jwtToken)
           in if err \<noteq> None then Inl (Errorf (''wrong jwt token '' @ decodedToken))
              else if \<not> valid then Inl (Errorf (''expired jwt token '' @ decodedToken))
              else Inr \<lparr>Username = claim_Id claims,
                        Roles = Some (index_roles (claim_Roles claims) Map.empty),
                        user_Context = claim_Context claims,
                        ExpiresAt = claim_ExpiresAt claims,
                        Token = jwtToken\<rparr>))"

text \<open>The roles a verified token grants: every key of the user's map, with value true.\<close>

definition granted :: "authorized_user \<Rightarrow> (string \<Rightarrow> bool option)" where
  "granted u = (\<lambda>r. case Roles u of None \<Rightarrow> None
                    | Some m \<Rightarrow> if r \<in> dom m then Some True else None)"

lemma verify_generated:
  assumes "jwt_laws lib" and "role_order_ok order u"
    and "GenerateAuthToken lib order (Some key) (Some u) = Inr tok"
    and "jwt_encodable lib \<lparr>claim_Roles = order, claim_Context = user_Context u,
           claim_Id = Username u, claim_ExpiresAt = ExpiresAt u\<rparr>"
  shows "VerifyAuthToken lib now (Some key) tok =
     (if ExpiresAt u = 0 \<or> now \<le> ExpiresAt u
      then Inr (u\<lparr>Roles := Some (granted u), Token := tok\<rparr>)
      else Inl (Errorf (''wrong jwt token '' @ fst (b64_decode True tok))))"
proof -
  define c where "c = \<lparr>claim_Roles = order, claim_Context = user_Context u,
    claim_Id = Username u, claim_ExpiresAt = ExpiresAt u\<rparr>"
  have law: "if ExpiresAt u = 0 \<or> now \<le> ExpiresAt u then jwt_Parse lib key now tok = (None, c, True)
      else fst (jwt_Parse lib key now tok) \<noteq> None"
    using assms(1,3,4) by (simp add: jwt_laws_def GenerateAuthToken_def c_def)
  have roles: "index_roles order Map.empty = granted u"
    using assms(2) by (auto simp: index_roles_eq role_order_ok_def granted_def split: option.splits)
  show ?thesis
  proof (cases "ExpiresAt u = 0 \<or> now \<le> ExpiresAt u")
    case True
    with law show ?thesis by (simp add: VerifyAuthToken_def c_def roles)
  next
    case False
    with law show ?thesis
      by (cases "jwt_Parse lib key now tok") (simp add: VerifyAuthToken_def)
  qed
qed

section \<open>Properties\<close>

text \<open>A library that signs one claim with one key, for witnesses.\<close>

definition one_token_lib :: "bytes \<Rightarrow> user_claims \<Rightarrow> string \<Rightarrow> jwt_lib" where
  "one_token_lib key c tok =
     \<lparr>jwt_SignedString = (\<lambda>k d. if k = key \<and> d = c then Inr tok else Inl (Errorf ''sign'')),
      jwt_Parse = (\<lambda>k now t.
        if k = key \<and> t = tok \<and> (claim_ExpiresAt c = 0 \<or> now \<le> claim_ExpiresAt c) then (None, c, True)
        else (Some (Errorf ''parse''), c, False)),
      jwt_encodable = (\<lambda>_. True)\<rparr>"

lemma one_token_laws: "jwt_laws (one_token_lib key c tok)"
  by (auto simp: jwt_laws_def one_token_lib_def)

text \<open>
  C5: a token generated for a user verifies with the same key, until it expires, to the same
  user with a granted role for every key of the role map (whatever value the key has) and the
  token itself; after that time, and without a key, it is refused.
\<close>

theorem token_roundtrip:
  assumes "jwt_laws lib" and "role_order_ok order u"
    and "GenerateAuthToken lib order (Some key) (Some u) = Inr tok"
    and "jwt_encodable lib \<lparr>claim_Roles = order, claim_Context = user_Context u,
           claim_Id = Username u, claim_ExpiresAt = ExpiresAt u\<rparr>"
  shows "(if ExpiresAt u = 0 \<or> now \<le> ExpiresAt u
      then \<exists>v roles. VerifyAuthToken lib now (Some key) tok = Inr v \<and>
        Username v = Username u \<and> user_Context v = user_Context u \<and> ExpiresAt v = ExpiresAt u \<and>
        Token v = tok \<and> Roles v = Some roles \<and>
        (\<forall>r. roles r = (if \<exists>m b. Roles u = Some m \<and> m r = Some b then Some True else None))
      else \<exists>e. VerifyAuthToken lib now (Some key) tok = Inl e)
    \<and> (\<exists>e. VerifyAuthToken lib now None tok = Inl e)"
proof -
  have "granted u r = (if \<exists>m b. Roles u = Some m \<and> m r = Some b then Some True else None)" for r
    by (auto simp: granted_def dom_def split: option.splits)
  then show ?thesis
    using verify_generated [OF assms, of now] by (auto simp: VerifyAuthToken_def)
qed

definition sample_user :: authorized_user where
  "sample_user = \<lparr>Username = ''ann'', Roles = Some [''ADMIN'' \<mapsto> True, ''OFF'' \<mapsto> False], user_Context = None,
     ExpiresAt = 100, Token = ''''\<rparr>"

definition sample_claims :: user_claims where
  "sample_claims = \<lparr>claim_Roles = [''ADMIN'', ''OFF''], claim_Context = None, claim_Id = ''ann'', claim_ExpiresAt = 100\<rparr>"

lemma sample_token:
  "role_order_ok [''ADMIN'', ''OFF''] sample_user"
  "GenerateAuthToken (one_token_lib ''k'' sample_claims ''t'') [''ADMIN'', ''OFF''] (Some ''k'') (Some sample_user) = Inr ''t''"
  by (auto simp: role_order_ok_def sample_user_def GenerateAuthToken_def one_token_lib_def sample_claims_def)

theorem token_roundtrip_witness:
  "\<exists>v. VerifyAuthToken (one_token_lib ''k'' sample_claims ''t'') 7 (Some ''k'') ''t'' = Inr v \<and> Username v = ''ann''"
  using token_roundtrip [OF one_token_laws sample_token, of 7]
  by (auto simp: sample_user_def one_token_lib_def)

end
