(* ===== verification/Trim_Lemmas.thy ===== *)
theory Trim_Lemmas
  imports Codec
begin

text \<open>
  \<open>TrimSpace\<close> on the texts of commands and answers: a text that neither starts nor ends
  with white space is kept, and base-64 text is such a text.
\<close>

section \<open>Base-64 text\<close>

lemma b64_encode_chars: "set (b64_encode url bs) \<subseteq> insert (CHR ''='') (b64_sym url ` {..<64})"
proof (induction url bs rule: b64_encode.induct)
  case (2 url x)
  have "of_char x div 4 \<in> {..<64 :: nat}" "of_char x mod 4 * 16 \<in> {..<64 :: nat}"
    using of_char_lt [of x] unfolding lessThan_iff by linarith+
  then show ?case by (simp add: Let_def)
next
  case (3 url x y)
  have "(of_char x * 256 + of_char y) div 1024 \<in> {..<64 :: nat}"
    using of_char_lt [of x] of_char_lt [of y] unfolding lessThan_iff by linarith
  moreover have "m div 16 mod 64 \<in> {..<64 :: nat}" "m mod 16 * 4 \<in> {..<64 :: nat}" for m by auto
  ultimately show ?case by (simp add: Let_def)
next
  case (4 url x y z bs)
  have "(of_char x * 65536 + of_char y * 256 + of_char z) div 262144 \<in> {..<64 :: nat}"
    using of_char_lt [of x] of_char_lt [of y] of_char_lt [of z] unfolding lessThan_iff by linarith
  moreover have "m mod 64 \<in> {..<64 :: nat}" for m by auto
  ultimately show ?case using 4 by (simp add: Let_def)
qed simp

lemma b64_sym_range: "i < 64 \<Longrightarrow> of_char (b64_sym url i) \<in> {43 .. 122 :: nat} - {59}"
  by (cases url) (auto simp: b64_sym_def)

lemma b64_encode_range: "c \<in> set (b64_encode url bs) \<Longrightarrow> of_char c \<in> {43 .. 122 :: nat} - {59}"
proof -
  assume "c \<in> set (b64_encode url bs)"
  with b64_encode_chars [of url bs] have "c = CHR ''='' \<or> c \<in> b64_sym url ` {..<64}" by blast
  then show ?thesis
  proof
    assume "c \<in> b64_sym url ` {..<64}"
    then obtain i where i: "i < 64" "c = b64_sym url i" by blast
    from b64_sym_range [OF i(1), of url] show ?thesis unfolding i(2) .
  qed simp
qed

lemma b64_encode_ne: "bs \<noteq> [] \<Longrightarrow> b64_encode url bs \<noteq> []"
  by (cases "(url, bs)" rule: b64_encode.cases) (auto simp: Let_def)

section \<open>Trimming\<close>

definition no_space_front :: "string \<Rightarrow> bool" where
  "no_space_front s \<longleftrightarrow> (\<forall>w \<in> set space_seqs. \<not> prefix w s)"

definition no_space_back :: "string \<Rightarrow> bool" where
  "no_space_back s \<longleftrightarrow> (\<forall>w \<in> set space_seqs. \<not> suffix w s)"

lemma space_seqs_ne: "w \<in> set space_seqs \<Longrightarrow> w \<noteq> []"
  by (auto simp: space_seqs_def)

lemma trim_front_keep: "(\<And>w. w \<in> set seqs \<Longrightarrow> w = [] \<or> \<not> prefix w s) \<Longrightarrow> trim_front seqs s = s"
proof -
  assume "\<And>w. w \<in> set seqs \<Longrightarrow> w = [] \<or> \<not> prefix w s"
  then have "find (\<lambda>w. w \<noteq> [] \<and> prefix w s) seqs = None" by (auto simp: find_None_iff)
  then show ?thesis by (subst trim_front.simps) simp
qed

lemma TrimSpace_keep: "no_space_front s \<Longrightarrow> no_space_back s \<Longrightarrow> TrimSpace s = s"
  unfolding TrimSpace_def no_space_front_def no_space_back_def suffix_to_prefix
  by (subst trim_front_keep, force, subst trim_front_keep) auto

lemma trim_front_space: "trim_front space_seqs (CHR '' '' # s) = trim_front space_seqs s"
  by (subst trim_front.simps) (simp add: space_seqs_def)

lemma TrimSpace_space: "TrimSpace (CHR '' '' # s) = TrimSpace s"
  by (simp add: TrimSpace_def trim_front_space)

lemma TrimSpace_Nil [simp]: "TrimSpace [] = []"
  by (subst TrimSpace_keep) (auto simp: no_space_front_def no_space_back_def space_seqs_def)

text \<open>A first or last byte that no white space starts or ends with.\<close>

lemma no_space_front_char: "(32 :: nat) < of_char c \<Longrightarrow> of_char c < (128 :: nat) \<Longrightarrow> no_space_front (c # s)"
  by (auto simp: no_space_front_def space_seqs_def)

lemma no_space_back_char: "(32 :: nat) < of_char c \<Longrightarrow> of_char c < (128 :: nat) \<Longrightarrow> no_space_back (s @ [c])"
  by (auto simp: no_space_back_def suffix_to_prefix space_seqs_def)

lemma no_space_back_append:
  assumes "t \<noteq> []" and "(32 :: nat) < of_char (last t)" "of_char (last t) < (128 :: nat)"
  shows "no_space_back (s @ t)"
  using no_space_back_char [OF assms(2,3), of "s @ butlast t"] assms(1) by simp

lemma TrimSpace_b64 [simp]: "TrimSpace (b64_encode url bs) = b64_encode url bs"
proof (cases "bs = []")
  case False
  define e where "e = b64_encode url bs"
  have e: "e \<noteq> []" using b64_encode_ne [OF False] by (simp add: e_def)
  have r: "c \<in> set e \<Longrightarrow> (32 :: nat) < of_char c \<and> of_char c < (128 :: nat)" for c
    using b64_encode_range [of c url bs] by (auto simp: e_def)
  have "no_space_front e"
    using no_space_front_char [of "hd e" "tl e"] r [of "hd e"] e by simp
  moreover have "no_space_back e"
    using no_space_back_append [of e "[]"] r [of "last e"] e by simp
  ultimately show ?thesis unfolding e_def by (rule TrimSpace_keep)
qed simp

text \<open>A word followed by a space: white space in front of it would be in front of the word.\<close>

lemma no_space_front_word:
  assumes "no_space_front k" and "k \<noteq> []"
  shows "no_space_front (k @ CHR '' '' # r)"
  unfolding no_space_front_def
proof
  fix w assume w: "w \<in> set space_seqs"
  show "\<not> prefix w (k @ CHR '' '' # r)"
  proof
    assume "prefix w (k @ CHR '' '' # r)"
    with assms(1) w obtain us where us: "w = k @ us" "prefix us (CHR '' '' # r)" "us \<noteq> []"
      by (auto simp: no_space_front_def prefix_append)
    then have "CHR '' '' \<in> set w" by (cases us) auto
    with w have "w = [CHR '' '']" by (auto simp: space_seqs_def)
    with us assms(2) show False by (cases k) auto
  qed
qed

end
