(* ===== verification/Auth_Middleware.thy ===== *)
theory Auth_Middleware
  imports Utils_Tokens Config_Repository Trim_Lemmas
begin

text \<open>
  \<open>sprintserver/authorization_middleware.go\<close>: who a request comes from. A context holds the
  request's metadata (\<open>None\<close> where the call did not come over gRPC; the values of the
  \<open>authorization\<close> header, \<open>None\<close> without it) and the user that \<open>Authenticate\<close> stored.
\<close>

record call_ctx =
  metadata :: "string list option option"
  ctx_user :: "authorized_user option"

record auth_middleware =
  invalidTokens :: "string set"
  secretKey :: "bytes option"

definition AuthorizationMiddleware :: auth_middleware where
  "AuthorizationMiddleware = \<lparr>invalidTokens = {}, secretKey = None\<rparr>"

text \<open>The user of a token generated on the first start; \<open>order\<close> is the map's iteration order.\<close>

definition default_user :: "string \<Rightarrow> int \<Rightarrow> authorized_user" where
  "default_user name now =
     \<lparr>Username = name, Roles = Some [''USER'' \<mapsto> True, ''ADMIN'' \<mapsto> True], user_Context = Some Map.empty,
      ExpiresAt = now + 356 * 24 * 3600, Token = ''''\<rparr>"

definition generateDefaultAuthToken ::
    "jwt_lib \<Rightarrow> string list \<Rightarrow> string res \<Rightarrow> int \<Rightarrow> string \<Rightarrow> string res" where
  "generateDefaultAuthToken lib order currentUser now secret =
     (case b64_decode True secret of
        (_, Some e) \<Rightarrow> Inl e
      | (key, None) \<Rightarrow>
          (case currentUser of
             Inl e \<Rightarrow> Inl e
           | Inr name \<Rightarrow> GenerateAuthToken lib order (Some key) (Some (default_user name now))))"

text \<open>
  \<open>PostConstruct\<close>: \<open>prop\<close> is the property \<open>jwt.secret.key\<close>, \<open>rds\<close> the reads of the random
  source (\<open>None\<close> as a result: it still waits for one). The result has the error, the
  middleware, the repository and whether a default token was printed.
\<close>

definition auth_finish :: "string \<Rightarrow> auth_middleware \<Rightarrow> goerror option \<times> auth_middleware" where
  "auth_finish secret t = (let (key, err) = b64_decode True secret in (err, t\<lparr>secretKey := Some key\<rparr>))"

definition auth_PostConstruct ::
    "jwt_lib \<Rightarrow> string list \<Rightarrow> string res \<Rightarrow> int \<Rightarrow> bytes res list \<Rightarrow> string \<Rightarrow> auth_middleware \<Rightarrow> 's config_repo
     \<Rightarrow> (goerror option outcome \<times> auth_middleware \<times> 's config_repo \<times> string option) option" where
  "auth_PostConstruct lib order currentUser now rds prop t repo =
     (if prop \<noteq> '''' then (let (e, t) = auth_finish prop t in Some (Ret e, t, repo, None))
      else case GenerateToken rds of
             None \<Rightarrow> None
           | Some (Inl e, _) \<Rightarrow> Some (Ret (Some e), t, repo, None)
           | Some (Inr secret, _) \<Rightarrow>
               (case cfg_put ''jwt.secret.key'' secret repo of
                  (Panic m, repo) \<Rightarrow> Some (Panic m, t, repo, None)
                | (Ret (Some e), repo) \<Rightarrow> Some (Ret (Some e), t, repo, None)
                | (Ret None, repo) \<Rightarrow>
                    (case generateDefaultAuthToken lib order currentUser now secret of
                       Inl e \<Rightarrow> Some (Ret (Some e), t, repo, None)
                     | Inr authToken \<Rightarrow>
                         (let (e, t) = auth_finish secret t in Some (Ret e, t, repo, Some authToken)))))"

definition AuthenticateByHeader :: "jwt_lib \<Rightarrow> int \<Rightarrow> string \<Rightarrow> auth_middleware \<Rightarrow> authorized_user option" where
  "AuthenticateByHeader lib now authHeader t =
     (if \<not> HasPrefix authHeader ''Bearer '' then None
      else (let token = TrimSpace (TrimPrefix authHeader ''Bearer '')
            in if token = '''' then None
               else if token \<in> invalidTokens t then None
               else case VerifyAuthToken lib now (secretKey t) token of Inl _ \<Rightarrow> None | Inr user \<Rightarrow> Some user))"

definition doAuthenticate :: "jwt_lib \<Rightarrow> int \<Rightarrow> call_ctx \<Rightarrow> auth_middleware \<Rightarrow> authorized_user option" where
  "doAuthenticate lib now ctx t =
     (case metadata ctx of
        None \<Rightarrow> None
      | Some None \<Rightarrow> None
      | Some (Some authHeaders) \<Rightarrow>
          if length authHeaders \<noteq> 1 then None else AuthenticateByHeader lib now (hd authHeaders) t)"

definition anonymous :: authorized_user where
  "anonymous = \<lparr>Username = '''', Roles = None, user_Context = None, ExpiresAt = 0, Token = ''''\<rparr>"

definition Authenticate :: "jwt_lib \<Rightarrow> int \<Rightarrow> call_ctx \<Rightarrow> auth_middleware \<Rightarrow> call_ctx" where
  "Authenticate lib now ctx t =
     ctx\<lparr>ctx_user := Some (case doAuthenticate lib now ctx t of None \<Rightarrow> anonymous | Some u \<Rightarrow> u)\<rparr>"

definition GetUser :: "jwt_lib \<Rightarrow> int \<Rightarrow> auth_middleware \<Rightarrow> call_ctx \<Rightarrow> authorized_user option" where
  "GetUser lib now t ctx =
     (case ctx_user ctx of
        Some user \<Rightarrow> if Username user = '''' \<and> ExpiresAt user = 0 then None else Some user
      | None \<Rightarrow> doAuthenticate lib now ctx t)"

definition HasUserRole :: "jwt_lib \<Rightarrow> int \<Rightarrow> auth_middleware \<Rightarrow> call_ctx \<Rightarrow> string \<Rightarrow> bool" where
  "HasUserRole lib now t ctx role =
     (case GetUser lib now t ctx of
        None \<Rightarrow> False
      | Some user \<Rightarrow> (case Roles user of None \<Rightarrow> False | Some m \<Rightarrow> m role = Some True))"

definition UserContext :: "jwt_lib \<Rightarrow> int \<Rightarrow> auth_middleware \<Rightarrow> call_ctx \<Rightarrow> string \<Rightarrow> string option" where
  "UserContext lib now t ctx name =
     (case GetUser lib now t ctx of
        None \<Rightarrow> None
      | Some user \<Rightarrow> (case user_Context user of None \<Rightarrow> None | Some m \<Rightarrow> m name))"

definition mw_GenerateToken :: "jwt_lib \<Rightarrow> string list \<Rightarrow> authorized_user \<Rightarrow> auth_middleware \<Rightarrow> string res" where
  "mw_GenerateToken lib order user t = GenerateAuthToken lib order (secretKey t) (Some user)"

definition mw_ParseToken :: "jwt_lib \<Rightarrow> int \<Rightarrow> string \<Rightarrow> auth_middleware \<Rightarrow> authorized_user res" where
  "mw_ParseToken lib now token t = VerifyAuthToken lib now (secretKey t) token"

definition InvalidateToken :: "string \<Rightarrow> auth_middleware \<Rightarrow> auth_middleware" where
  "InvalidateToken token t = t\<lparr>invalidTokens := insert token (invalidTokens t)\<rparr>"

section \<open>The contract the handlers rely on\<close>

locale authorization =
  fixes get_user :: "'x \<Rightarrow> authorized_user option"
    and has_role :: "'x \<Rightarrow> string \<Rightarrow> bool"
  assumes has_role_user: "has_role x r \<longleftrightarrow> (\<exists>u m. get_user x = Some u \<and> Roles u = Some m \<and> m r = Some True)"
begin

text \<open>The two ways the handlers ask for the administrator's role agree.\<close>

definition guarded :: "'x \<Rightarrow> bool" where
  "guarded x \<longleftrightarrow> (case get_user x of None \<Rightarrow> False
     | Some u \<Rightarrow> \<not> (Roles u = None \<or> \<not> (case Roles u of None \<Rightarrow> False | Some m \<Rightarrow> m ''ADMIN'' = Some True)))"

lemma guarded_iff: "guarded x \<longleftrightarrow> has_role x ''ADMIN''"
  by (auto simp: guarded_def has_role_user split: option.splits)

lemma no_user_no_role: "get_user x = None \<Longrightarrow> \<not> has_role x r"
  by (simp add: has_role_user)

end

interpretation auth: authorization "GetUser lib now t" "HasUserRole lib now t" for lib now t
  by unfold_locales (auto simp: HasUserRole_def split: option.splits)

section \<open>Lemmas\<close>

lemma verified_user:
  assumes "VerifyAuthToken lib now (Some key) token = Inr u"
  shows "\<exists>c. jwt_Parse lib key now token = (None, c, True) \<and> Username u = claim_Id c \<and>
    ExpiresAt u = claim_ExpiresAt c \<and> Token u = token \<and>
    (\<forall>m r. Roles u = Some m \<longrightarrow> (m r = Some True \<longleftrightarrow> r \<in> set (claim_Roles c)))"
proof -
  obtain err c valid where j: "jwt_Parse lib key now token = (err, c, valid)"
    by (cases "jwt_Parse lib key now token")
  with assms have v: "err = None" "valid"
      "u = \<lparr>Username = claim_Id c, Roles = Some (index_roles (claim_Roles c) Map.empty),
            user_Context = claim_Context c, ExpiresAt = claim_ExpiresAt c, Token = token\<rparr>"
    by (auto simp: VerifyAuthToken_def Let_def split: if_splits)
  then show ?thesis by (intro exI [of _ c]) (auto simp: j index_roles_eq)
qed

lemma authenticated_header:
  assumes "doAuthenticate lib now ctx t = Some u"
  shows "\<exists>h token. metadata ctx = Some (Some [h]) \<and> HasPrefix h ''Bearer '' \<and>
    token = TrimSpace (drop 7 h) \<and> token \<noteq> '''' \<and> token \<notin> invalidTokens t \<and>
    VerifyAuthToken lib now (secretKey t) token = Inr u"
proof -
  from assms obtain h where h: "metadata ctx = Some (Some [h])" "AuthenticateByHeader lib now h t = Some u"
    by (auto simp: doAuthenticate_def length_Suc_conv split: option.splits if_splits)
  then show ?thesis
    by (auto simp: AuthenticateByHeader_def Let_def TrimPrefix_def numeral_eq_Suc split: if_splits sum.splits)
qed

lemma Authenticate_GetUser:
  "GetUser lib now' t' (Authenticate lib now ctx t) =
   (case doAuthenticate lib now ctx t of
      None \<Rightarrow> None | Some u \<Rightarrow> if Username u = '''' \<and> ExpiresAt u = 0 then None else Some u)"
  by (auto simp: GetUser_def Authenticate_def anonymous_def split: option.splits)

lemma AuthenticateByHeader_token:
  assumes "TrimSpace token = token" and "token \<noteq> ''''" and "token \<notin> invalidTokens t"
  shows "AuthenticateByHeader lib now (''Bearer '' @ token) t =
    (case VerifyAuthToken lib now (secretKey t) token of Inl _ \<Rightarrow> None | Inr user \<Rightarrow> Some user)"
  using assms by (simp add: AuthenticateByHeader_def TrimPrefix_def HasPrefix_def Let_def)

section \<open>Properties\<close>

lemma AuthenticateByHeader_drop:
  "AuthenticateByHeader lib now h t =
     (if \<not> HasPrefix h ''Bearer '' \<or> TrimSpace (drop 7 h) = '''' \<or> TrimSpace (drop 7 h) \<in> invalidTokens t then None
      else case VerifyAuthToken lib now (secretKey t) (TrimSpace (drop 7 h)) of Inl _ \<Rightarrow> None | Inr user \<Rightarrow> Some user)"
proof -
  have "HasPrefix h ''Bearer '' \<Longrightarrow> TrimPrefix h ''Bearer '' = drop 7 h"
    by (simp add: TrimPrefix_def numeral_eq_Suc)
  then show ?thesis by (simp add: AuthenticateByHeader_def Let_def)
qed

text \<open>
  C3: what the middleware finds for a call that came with one header, exactly: the user of the
  token, when the header is \<open>Bearer\<close> and a token that is not empty, was not invalidated and
  verifies with the middleware's key; nobody otherwise, and nobody for a call without
  metadata or with another number of headers.
\<close>

theorem bearer_exact:
  "(case doAuthenticate lib now ctx t of
      Some u \<Rightarrow> \<exists>h. metadata ctx = Some (Some [h]) \<and> HasPrefix h ''Bearer '' \<and>
        TrimSpace (drop 7 h) \<noteq> '''' \<and> TrimSpace (drop 7 h) \<notin> invalidTokens t \<and>
        VerifyAuthToken lib now (secretKey t) (TrimSpace (drop 7 h)) = Inr u
    | None \<Rightarrow> \<forall>h. metadata ctx = Some (Some [h]) \<longrightarrow> \<not> HasPrefix h ''Bearer '' \<or>
        TrimSpace (drop 7 h) = '''' \<or> TrimSpace (drop 7 h) \<in> invalidTokens t \<or>
        (\<exists>e. VerifyAuthToken lib now (secretKey t) (TrimSpace (drop 7 h)) = Inl e))"
proof (cases "doAuthenticate lib now ctx t")
  case (Some u)
  with authenticated_header [OF Some] show ?thesis by auto
next
  case None
  then show ?thesis
    by (auto simp: doAuthenticate_def AuthenticateByHeader_drop split: sum.splits if_splits)
qed

definition sample_mw :: auth_middleware where
  "sample_mw = \<lparr>invalidTokens = {}, secretKey = Some ''k''\<rparr>"

definition bearer_ctx :: "string \<Rightarrow> call_ctx" where
  "bearer_ctx token = \<lparr>metadata = Some (Some [''Bearer '' @ token]), ctx_user = None\<rparr>"

lemma sample_verify:
  "VerifyAuthToken (one_token_lib ''k'' sample_claims ''t'') 7 (Some ''k'') ''t'' =
     Inr \<lparr>Username = ''ann'', Roles = Some (index_roles [''ADMIN'', ''OFF''] Map.empty), user_Context = None,
          ExpiresAt = 100, Token = ''t''\<rparr>"
  by (simp add: VerifyAuthToken_def one_token_lib_def sample_claims_def)

lemma trim_sample: "TrimSpace '' t'' = ''t''" "TrimSpace ''t'' = ''t''"
  by code_simp+

lemma sample_auth:
  "doAuthenticate (one_token_lib ''k'' sample_claims ''t'') 7 (bearer_ctx ''t'') sample_mw =
     Some \<lparr>Username = ''ann'', Roles = Some (index_roles [''ADMIN'', ''OFF''] Map.empty), user_Context = None,
          ExpiresAt = 100, Token = ''t''\<rparr>"
  using AuthenticateByHeader_token [of "''t''" sample_mw] sample_verify trim_sample
  by (simp add: doAuthenticate_def bearer_ctx_def sample_mw_def)

theorem bearer_exact_witness:
  "\<exists>u. VerifyAuthToken (one_token_lib ''k'' sample_claims ''t'') 7 (Some ''k'') ''t'' = Inr u \<and> Username u = ''ann''"
  using bearer_exact [where lib = "one_token_lib ''k'' sample_claims ''t''" and now = 7 and ctx = "bearer_ctx ''t''"
      and t = sample_mw] trim_sample
  unfolding sample_auth by (auto simp: bearer_ctx_def sample_mw_def sample_verify)

text \<open>
  C4: once a token was invalidated, and whatever further tokens are invalidated after it, no
  call with that token in its header has any role, whether or not the interceptor has stored
  the call's user; other tokens are accepted as before.
\<close>

theorem revoked_token:
  assumes "t' = fold InvalidateToken later (InvalidateToken (TrimSpace (drop 7 h)) t)"
    and "ctx = \<lparr>metadata = Some (Some [h]), ctx_user = None\<rparr>"
  shows "\<not> HasUserRole lib now t' ctx role \<and>
    \<not> HasUserRole lib now' t' (Authenticate lib now ctx t') role \<and>
    (\<forall>h2. TrimSpace (drop 7 h2) \<noteq> TrimSpace (drop 7 h) \<and> TrimSpace (drop 7 h2) \<notin> set later \<longrightarrow>
      AuthenticateByHeader lib now h2 t' = AuthenticateByHeader lib now h2 t)"
proof -
  have inv: "invalidTokens t' = insert (TrimSpace (drop 7 h)) (invalidTokens t) \<union> set later"
      and key: "secretKey t' = secretKey t"
  proof -
    have "invalidTokens (fold InvalidateToken later s) = invalidTokens s \<union> set later \<and>
        secretKey (fold InvalidateToken later s) = secretKey s" for s
      by (induction later arbitrary: s) (auto simp: InvalidateToken_def)
    then show "invalidTokens t' = insert (TrimSpace (drop 7 h)) (invalidTokens t) \<union> set later"
      "secretKey t' = secretKey t" by (auto simp: assms(1) InvalidateToken_def)
  qed
  have none: "doAuthenticate lib n ctx t' = None" for n
  proof (rule ccontr)
    assume "doAuthenticate lib n ctx t' \<noteq> None"
    then obtain u where "doAuthenticate lib n ctx t' = Some u" by blast
    from authenticated_header [OF this] inv assms(2) show False by auto
  qed
  have "GetUser lib now t' ctx = None" "GetUser lib now' t' (Authenticate lib now ctx t') = None"
    using none by (simp_all add: Authenticate_GetUser) (simp add: GetUser_def assms(2))
  then have "\<not> HasUserRole lib now t' ctx role" "\<not> HasUserRole lib now' t' (Authenticate lib now ctx t') role"
    by (simp_all add: HasUserRole_def)
  moreover have "AuthenticateByHeader lib now h2 t' = AuthenticateByHeader lib now h2 t"
    if "TrimSpace (drop 7 h2) \<noteq> TrimSpace (drop 7 h)" "TrimSpace (drop 7 h2) \<notin> set later" for h2
    using that inv key by (auto simp: AuthenticateByHeader_drop)
  ultimately show ?thesis by blast
qed

theorem revoked_token_witness:
  "HasUserRole (one_token_lib ''k'' sample_claims ''t'') 7 sample_mw (bearer_ctx ''t'') ''ADMIN'' \<and>
   \<not> HasUserRole (one_token_lib ''k'' sample_claims ''t'') 7 (InvalidateToken ''t'' sample_mw) (bearer_ctx ''t'') ''ADMIN''"
  using revoked_token [OF refl refl, where later = "[]" and h = "''Bearer t''" and t = sample_mw
      and lib = "one_token_lib ''k'' sample_claims ''t''" and now = 7 and role = "''ADMIN''"]
    trim_sample sample_auth
  by (simp add: HasUserRole_def GetUser_def bearer_ctx_def index_roles_eq)

end
