(* ===== verification/Glob.thy ===== *)
theory Glob
  imports Prelude
begin

text \<open>
  \<open>filepath.Match\<close> of Go's standard library, as the storage service calls it: only whether
  a name matches counts, so a malformed pattern and a pattern that does not match are both
  \<open>None\<close> (a malformed chunk is an error for every name).
\<close>

section \<open>UTF-8\<close>

definition byte_val :: "char \<Rightarrow> nat" where
  "byte_val c = of_char c"

definition is_cont :: "char \<Rightarrow> bool" where
  "is_cont c = (128 \<le> byte_val c \<and> byte_val c < 192)"

text \<open>\<open>utf8.DecodeRuneInString\<close>: the code point and its width; (65533, 1) for a bad byte.\<close>

definition RuneError :: nat where
  "RuneError = 65533"

fun decode_rune :: "string \<Rightarrow> nat \<times> nat" where
  "decode_rune [] = (RuneError, 0)"
| "decode_rune (a # s) =
     (let x = byte_val a in
      if x < 128 then (x, 1)
      else if 194 \<le> x \<and> x < 224 then
        (case s of b # _ \<Rightarrow> if is_cont b then (64 * (x - 192) + (byte_val b - 128), 2) else (RuneError, 1)
         | _ \<Rightarrow> (RuneError, 1))
      else if 224 \<le> x \<and> x < 240 then
        (case s of b # c # _ \<Rightarrow>
             if is_cont b \<and> is_cont c \<and> (x = 224 \<longrightarrow> 160 \<le> byte_val b) \<and> (x = 237 \<longrightarrow> byte_val b < 160)
             then (4096 * (x - 224) + 64 * (byte_val b - 128) + (byte_val c - 128), 3)
             else (RuneError, 1)
         | _ \<Rightarrow> (RuneError, 1))
      else if 240 \<le> x \<and> x < 245 then
        (case s of b # c # d # _ \<Rightarrow>
             if is_cont b \<and> is_cont c \<and> is_cont d \<and> (x = 240 \<longrightarrow> 144 \<le> byte_val b)
                \<and> (x = 244 \<longrightarrow> byte_val b < 144)
             then (262144 * (x - 240) + 4096 * (byte_val b - 128) + 64 * (byte_val c - 128)
                   + (byte_val d - 128), 4)
             else (RuneError, 1)
         | _ \<Rightarrow> (RuneError, 1))
      else (RuneError, 1))"

lemma decode_rune_pos: "s \<noteq> [] \<Longrightarrow> 0 < snd (decode_rune s)"
  by (cases s) (auto simp: Let_def split: list.splits)

section \<open>Chunks\<close>

fun strip_stars :: "string \<Rightarrow> bool \<times> string" where
  "strip_stars [] = (False, [])"
| "strip_stars (c # cs) = (if c = CHR ''*'' then (True, snd (strip_stars cs)) else (False, c # cs))"

text \<open>The length of the chunk: up to the next star outside a character class.\<close>

fun scan_length :: "bool \<Rightarrow> string \<Rightarrow> nat" where
  "scan_length inrange [] = 0"
| "scan_length inrange (c # cs) =
     (if c = CHR 0x5C then (case cs of [] \<Rightarrow> 1 | d # ds \<Rightarrow> 2 + scan_length inrange ds)
      else if c = CHR ''['' then 1 + scan_length True cs
      else if c = CHR '']'' then 1 + scan_length False cs
      else if c = CHR ''*'' \<and> \<not> inrange then 0
      else 1 + scan_length inrange cs)"

definition scanChunk :: "string \<Rightarrow> bool \<times> string \<times> string" where
  "scanChunk pattern =
     (let (star, p) = strip_stars pattern; i = scan_length False p in (star, take i p, drop i p))"

text \<open>One (possibly escaped) character of a class, which must not end the chunk.\<close>

definition getEsc :: "string \<Rightarrow> (nat \<times> string) option" where
  "getEsc chunk =
     (if chunk = [] \<or> hd chunk = CHR ''-'' \<or> hd chunk = CHR '']'' then None
      else (let chunk = (if hd chunk = CHR 0x5C then tl chunk else chunk) in
            if chunk = [] then None
            else (let (r, n) = decode_rune chunk; rest = drop n chunk in
                  if r = RuneError \<and> n = 1 then None
                  else if rest = [] then None else Some (r, rest))))"

lemma getEsc_shorter: "getEsc chunk = Some (r, rest) \<Longrightarrow> length rest < length chunk"
proof -
  assume g: "getEsc chunk = Some (r, rest)"
  define c where "c = (if hd chunk = CHR 0x5C then tl chunk else chunk)"
  have "chunk \<noteq> []" "c \<noteq> []" "rest = drop (snd (decode_rune c)) c"
    using g by (auto simp: getEsc_def Let_def c_def split: prod.splits if_splits)
  moreover from this have "length c \<le> length chunk" by (simp add: c_def)
  ultimately show ?thesis using decode_rune_pos [of c] by (cases c) auto
qed

function match_class :: "nat \<Rightarrow> bool \<Rightarrow> bool \<Rightarrow> string \<Rightarrow> (bool \<times> string) option" where
  "match_class r first acc chunk =
     (if chunk \<noteq> [] \<and> hd chunk = CHR '']'' \<and> \<not> first then Some (acc, tl chunk)
      else case getEsc chunk of
             None \<Rightarrow> None
           | Some (lo, c1) \<Rightarrow>
               if hd c1 = CHR ''-'' then
                 (case getEsc (tl c1) of
                    None \<Rightarrow> None
                  | Some (hi, c2) \<Rightarrow> match_class r False (acc \<or> (lo \<le> r \<and> r \<le> hi)) c2)
               else match_class r False (acc \<or> r = lo) c1)"
  by pat_completeness auto
termination
  by (relation "measure (\<lambda>(r, first, acc, chunk). length chunk)") (auto dest!: getEsc_shorter)

declare match_class.simps [simp del]

lemma match_class_shorter: "match_class r first acc chunk = Some (m, rest) \<Longrightarrow> length rest \<le> length chunk"
proof (induction r first acc chunk rule: match_class.induct)
  case (1 r first acc chunk)
  show ?case
  proof (cases "chunk \<noteq> [] \<and> hd chunk = CHR '']'' \<and> \<not> first")
    case True
    with "1.prems" have "rest = tl chunk"
      by (subst (asm) match_class.simps) simp
    then show ?thesis by simp
  next
    case False
    with "1.prems" obtain lo c1 where lo: "getEsc chunk = Some (lo, c1)"
      by (auto simp: match_class.simps [of r first acc chunk] split: option.splits)
    note l1 = getEsc_shorter [OF lo]
    show ?thesis
    proof (cases "hd c1 = CHR ''-''")
      case True
      with "1.prems" False lo obtain hi c2 where hi: "getEsc (tl c1) = Some (hi, c2)"
          and m: "match_class r False (acc \<or> (lo \<le> r \<and> r \<le> hi)) c2 = Some (m, rest)"
        by (auto simp: match_class.simps [of r first acc chunk] split: option.splits)
      from "1.IH"(1) [OF False lo refl True hi refl m] getEsc_shorter [OF hi] l1 show ?thesis by simp
    next
      case c: False
      with "1.prems" False lo have m: "match_class r False (acc \<or> r = lo) c1 = Some (m, rest)"
        by (auto simp: match_class.simps [of r first acc chunk] split: option.splits)
      from "1.IH"(2) [OF False lo refl c m] l1 show ?thesis by simp
    qed
  qed
qed

function matchChunk :: "string \<Rightarrow> string \<Rightarrow> string option" where
  "matchChunk [] s = Some s"
| "matchChunk (c # chunk) s =
     (if s = [] then None
      else if c = CHR ''['' then
        (let (r, n) = decode_rune s;
             negated = (chunk \<noteq> [] \<and> hd chunk = CHR ''^'');
             body = (if negated then tl chunk else chunk)
         in case match_class r True False body of
              None \<Rightarrow> None
            | Some (m, rest) \<Rightarrow> if m = negated then None else matchChunk rest (drop n s))
      else if c = CHR ''?'' then
        (if hd s = CHR ''/'' then None else matchChunk chunk (drop (snd (decode_rune s)) s))
      else if c = CHR 0x5C then
        (case chunk of
           [] \<Rightarrow> None
         | d # ds \<Rightarrow> if d \<noteq> hd s then None else matchChunk ds (tl s))
      else if c \<noteq> hd s then None else matchChunk chunk (tl s))"
  by pat_completeness auto
termination
proof (relation "measure (\<lambda>(chunk, s). length chunk)", goal_cases)
  case (2 c chunk s x r n negated body y m rest)
  then have "length rest \<le> length body" by (auto dest: match_class_shorter)
  with 2 show ?case by (auto split: if_splits)
qed auto

text \<open>After a star: the first position, none before it a slash, at which the chunk matches.\<close>

fun skip_match :: "string \<Rightarrow> bool \<Rightarrow> string \<Rightarrow> string option" where
  "skip_match chunk isLast [] = None"
| "skip_match chunk isLast (c # s) =
     (if c = CHR ''/'' then None
      else case matchChunk chunk s of
             Some t \<Rightarrow> if isLast \<and> t \<noteq> [] then skip_match chunk isLast s else Some t
           | None \<Rightarrow> skip_match chunk isLast s)"

lemma strip_stars_shorter: "length (snd (strip_stars p)) \<le> length p"
  by (induction p) auto

lemma scan_length_pos: "p \<noteq> [] \<Longrightarrow> hd p \<noteq> CHR ''*'' \<Longrightarrow> 0 < scan_length False p"
  by (cases p) (auto split: list.splits)

lemma strip_stars_progress: "p \<noteq> [] \<Longrightarrow> \<not> fst (strip_stars p) \<Longrightarrow> hd p \<noteq> CHR ''*'' \<and> snd (strip_stars p) = p"
  by (cases p) (auto split: if_splits)

lemma strip_stars_star: "fst (strip_stars p) \<Longrightarrow> length (snd (strip_stars p)) < length p"
  by (cases p) (auto simp: less_Suc_eq_le strip_stars_shorter split: if_splits)

lemma scanChunk_shorter: "p \<noteq> [] \<Longrightarrow> scanChunk p = (star, chunk, rest) \<Longrightarrow> length rest < length p"
proof -
  assume p: "p \<noteq> []" "scanChunk p = (star, chunk, rest)"
  then have rest: "rest = drop (scan_length False (snd (strip_stars p))) (snd (strip_stars p))"
    by (auto simp: scanChunk_def Let_def split: prod.splits)
  show ?thesis
  proof (cases "fst (strip_stars p)")
    case True
    with strip_stars_star show ?thesis by (simp add: rest less_imp_diff_less)
  next
    case False
    with strip_stars_progress [OF p(1)] scan_length_pos p(1) show ?thesis by (simp add: rest)
  qed
qed

function filepath_Match :: "string \<Rightarrow> string \<Rightarrow> bool" where
  "filepath_Match pattern name =
     (if pattern = [] then name = []
      else (let (star, chunk, rest) = scanChunk pattern in
            if star \<and> chunk = [] then CHR ''/'' \<notin> set name
            else case (case matchChunk chunk name of
                         Some t \<Rightarrow> if t = [] \<or> rest \<noteq> [] then Some t
                                  else if star then skip_match chunk (rest = []) name else None
                       | None \<Rightarrow> if star then skip_match chunk (rest = []) name else None) of
                   Some t \<Rightarrow> filepath_Match rest t
                 | None \<Rightarrow> False))"
  by pat_completeness auto
termination
proof (relation "measure (\<lambda>(pattern, name). length pattern)", goal_cases)
  case (2 pattern name x star y chunk rest t)
  then have "scanChunk pattern = (star, chunk, rest)" by simp
  from scanChunk_shorter [OF 2(1) this] show ?case by simp
qed simp

declare filepath_Match.simps [simp del]

section \<open>What a pattern matches\<close>

definition plain_pattern :: "string \<Rightarrow> bool" where
  "plain_pattern p \<longleftrightarrow> (\<forall>c \<in> set p. c \<notin> {CHR ''*'', CHR ''?'', CHR ''['', CHR 0x5C})"

lemma scan_length_plain: "plain_pattern p \<Longrightarrow> scan_length False p = length p"
  by (induction p) (auto simp: plain_pattern_def)

lemma matchChunk_plain:
  "plain_pattern p \<Longrightarrow> matchChunk p s = (if prefix p s then Some (drop (length p) s) else None)"
proof (induction p arbitrary: s)
  case (Cons c p)
  then show ?case by (cases s) (auto simp: plain_pattern_def)
qed simp

text \<open>A pattern without special characters matches itself only.\<close>

lemma filepath_Match_plain: "plain_pattern p \<Longrightarrow> filepath_Match p name \<longleftrightarrow> name = p"
proof (cases "p = []")
  case True
  then show ?thesis by (simp add: filepath_Match.simps)
next
  case False
  assume pl: "plain_pattern p"
  have sc: "scanChunk p = (False, p, [])"
    using pl False by (cases p) (auto simp: scanChunk_def scan_length_plain plain_pattern_def)
  have nil: "filepath_Match [] t \<longleftrightarrow> t = []" for t
    by (simp add: filepath_Match.simps)
  show ?thesis
    using False pl by (subst filepath_Match.simps) (auto simp: sc nil matchChunk_plain prefix_def)
qed

text \<open>A prefix followed by a star matches the names with that prefix and no slash after it.\<close>

lemma scan_length_plain_star: "plain_pattern p \<Longrightarrow> scan_length False (p @ CHR ''*'' # r) = length p"
  by (induction p) (auto simp: plain_pattern_def)

lemma filepath_Match_prefix_star:
  assumes "plain_pattern p" and "p \<noteq> []"
  shows "filepath_Match (p @ ''*'') name \<longleftrightarrow> (\<exists>t. name = p @ t \<and> CHR ''/'' \<notin> set t)"
proof -
  have "hd p \<noteq> CHR ''*''" using assms by (cases p) (auto simp: plain_pattern_def)
  then have sc: "scanChunk (p @ ''*'') = (False, p, ''*'')"
  proof -
    have "strip_stars (p @ ''*'') = (False, p @ ''*'')"
      using \<open>hd p \<noteq> CHR ''*''\<close> assms(2) by (cases p) auto
    then show ?thesis
      using scan_length_plain_star [OF assms(1), of "[]"] by (simp add: scanChunk_def)
  qed
  have star: "filepath_Match ''*'' t \<longleftrightarrow> CHR ''/'' \<notin> set t" for t
    by (subst filepath_Match.simps) (simp add: scanChunk_def)
  show ?thesis
    by (subst filepath_Match.simps) (auto simp: sc star matchChunk_plain [OF assms(1)] prefix_def)
qed

end
