(* ===== verification/Commands.thy ===== *)
theory Commands
  imports Prelude
begin

text \<open>
  The interface \<open>ExecuteCommand(cmd, args)\<close> that the storage service and the job service
  share and that the control server forwards to: an answer or an error, over a state.
\<close>

locale command_service =
  fixes exec :: "string \<Rightarrow> string list \<Rightarrow> 's \<Rightarrow> string res \<times> 's"
    and view :: "'s \<Rightarrow> 'v"
    and inv :: "'s \<Rightarrow> bool"
    and atomic :: "string \<Rightarrow> bool"
  assumes exec_inv: "inv s \<Longrightarrow> exec cmd args s = (r, s') \<Longrightarrow> inv s'"
    and failed_unchanged: "inv s \<Longrightarrow> atomic cmd \<Longrightarrow> exec cmd args s = (Inl e, s') \<Longrightarrow> view s' = view s"
begin

text \<open>A batch of commands, stopping at the first error.\<close>

fun batch :: "(string \<times> string list) list \<Rightarrow> 's \<Rightarrow> string list res \<times> 's" where
  "batch [] s = (Inr [], s)"
| "batch ((cmd, args) # cs) s =
     (case exec cmd args s of
        (Inl e, s') \<Rightarrow> (Inl e, s')
      | (Inr a, s') \<Rightarrow>
          (case batch cs s' of (Inl e, s'') \<Rightarrow> (Inl e, s'') | (Inr as, s'') \<Rightarrow> (Inr (a # as), s'')))"

lemma batch_inv: "inv s \<Longrightarrow> batch cs s = (r, s') \<Longrightarrow> inv s'"
proof (induction cs s arbitrary: r rule: batch.induct)
  case (2 cmd args cs s)
  obtain r1 s1 where e: "exec cmd args s = (r1, s1)" by (cases "exec cmd args s")
  from exec_inv [OF "2.prems"(1) e] have "inv s1" .
  with 2 e show ?case by (cases r1) (auto split: prod.splits sum.splits)
qed simp

text \<open>A failed batch has the effect of the commands before the one that failed.\<close>

lemma batch_failed:
  "inv s \<Longrightarrow> \<forall>(cmd, args) \<in> set cs. atomic cmd \<Longrightarrow> batch cs s = (Inl e, s') \<Longrightarrow>
   \<exists>done rest as s1. cs = done @ rest \<and> rest \<noteq> [] \<and> batch done s = (Inr as, s1) \<and> view s' = view s1"
proof (induction cs s rule: batch.induct)
  case (2 cmd args cs s)
  obtain r1 s1 where e: "exec cmd args s = (r1, s1)" by (cases "exec cmd args s")
  show ?case
  proof (cases r1)
    case (Inl e1)
    with 2 e have "view s' = view s" using failed_unchanged [of s cmd args e1 s1] by simp
    then show ?thesis
      by (intro exI [of _ "[]"] exI [of _ "(cmd, args) # cs"] exI [of _ s]) simp
  next
    case (Inr a)
    have "inv s1" using exec_inv "2.prems"(1) e by blast
    moreover have "batch cs s1 = (Inl e, s')"
      using "2.prems"(3) e Inr by (auto split: prod.splits sum.splits)
    ultimately obtain d rest as s2 where "cs = d @ rest" "rest \<noteq> []" "batch d s1 = (Inr as, s2)" "view s' = view s2"
      using "2.IH" [OF e [symmetric] Inr] "2.prems"(2) e Inr by auto
    then show ?thesis
      using e Inr by (intro exI [of _ "(cmd, args) # d"] exI [of _ rest] exI [of _ "a # as"] exI [of _ s2]) simp
  qed
qed simp

end

end
