(* ===== verification/Storage_Service.thy ===== *)
theory Storage_Service
  imports Store_API Trim_Lemmas Glob Commands Utils_Node Utils_Files Utils_Prompt
begin

text \<open>
  \<open>sprintcore/storage_service.go\<close>: the query language over the application's stores, the
  interactive consoles (over a gRPC stream and over the terminal) and the storage commands.
  \<open>cb\<close> is the caller's callback, whose effects are on a state \<open>'c\<close>.
\<close>

record 's storage_service =
  StoreMap :: "string \<Rightarrow> 's data_store option"
  availableStores :: "string list"
  BackupFilePerm :: file_mode

text \<open>\<open>names\<close> are the keys of the store map in the order the iteration gives them.\<close>

definition storage_PostConstruct :: "string list \<Rightarrow> 's storage_service \<Rightarrow> 's storage_service" where
  "storage_PostConstruct names t = t\<lparr>availableStores := sort names\<rparr>"

definition ErrInterrupted :: goerror where
  "ErrInterrupted = Errorf ''interrupted''"

text \<open>\<open>strings.Trim(s, cutset)\<close>\<close>

definition strings_Trim :: "string \<Rightarrow> string \<Rightarrow> string" where
  "strings_Trim s cutset =
     rev (dropWhile (\<lambda>c. c \<in> set cutset) (rev (dropWhile (\<lambda>c. c \<in> set cutset) s)))"

definition set_store :: "string \<Rightarrow> 's data_store \<Rightarrow> 's storage_service \<Rightarrow> 's storage_service" where
  "set_store name s t = t\<lparr>StoreMap := (StoreMap t)(name \<mapsto> s)\<rparr>"

text \<open>The final answer of a query: the interruption error when the callback declines it.\<close>

definition answer :: "(string \<Rightarrow> 'c \<Rightarrow> bool \<times> 'c) \<Rightarrow> string \<Rightarrow> 'c \<Rightarrow> goerror option \<times> 'c" where
  "answer cb msg c = (let (go, c') = cb msg c in (if go then None else Some ErrInterrupted, c'))"

definition split_query :: "string \<Rightarrow> string \<times> string" where
  "split_query query =
     (let query = strings_Trim query '''';
          query = (if HasSuffix query '';'' then take (length query - 1) query else query);
          cmdEnd = (case IndexByte query (CHR '' '') of None \<Rightarrow> length query | Some i \<Rightarrow> i)
      in (take cmdEnd query, TrimSpace (drop cmdEnd query)))"

definition query_get :: "bytes \<Rightarrow> 's data_store \<Rightarrow> (string \<Rightarrow> 'c \<Rightarrow> bool \<times> 'c) \<Rightarrow> 'c \<Rightarrow> goerror option \<times> 'c" where
  "query_get key s cb c =
     (case ds_get s key of Inl e \<Rightarrow> (Some e, c) | Inr v \<Rightarrow> answer cb (b64_encode False v) c)"

definition query_set :: "string \<Rightarrow> string \<Rightarrow> 's data_store \<Rightarrow> 's storage_service
    \<Rightarrow> (string \<Rightarrow> 'c \<Rightarrow> bool \<times> 'c) \<Rightarrow> 'c \<Rightarrow> goerror option \<times> 's storage_service \<times> 'c" where
  "query_set name args s t cb c =
     (case IndexByte args (CHR '' '') of
        None \<Rightarrow> (Some (Errorf ''not enough args, usage: set key value''), t, c)
      | Some keyEnd \<Rightarrow>
          (let key = TrimSpace (take keyEnd args); value = TrimSpace (drop keyEnd args)
           in case b64_decode False value of
                (_, Some e) \<Rightarrow> (Some e, t, c)
              | (v, None) \<Rightarrow>
                  (case ds_update (\<lambda>o'. st_set o' key v) s of
                     (Some e, s') \<Rightarrow> (Some e, set_store name s' t, c)
                   | (None, s') \<Rightarrow>
                       (let (r, c') = answer cb ''OK'' c in (r, set_store name s' t, c')))))"

definition query_rm :: "string \<Rightarrow> bytes \<Rightarrow> 's data_store \<Rightarrow> 's storage_service
    \<Rightarrow> (string \<Rightarrow> 'c \<Rightarrow> bool \<times> 'c) \<Rightarrow> 'c \<Rightarrow> goerror option \<times> 's storage_service \<times> 'c" where
  "query_rm name key s t cb c =
     (case ds_update (\<lambda>o'. st_remove o' key) s of
        (Some e, s') \<Rightarrow> (Some e, set_store name s' t, c)
      | (None, s') \<Rightarrow> (let (r, c') = answer cb ''OK'' c in (r, set_store name s' t, c')))"

definition ExecuteQuery :: "string \<Rightarrow> string \<Rightarrow> (string \<Rightarrow> 'c \<Rightarrow> bool \<times> 'c) \<Rightarrow> 's storage_service \<Rightarrow> 'c
    \<Rightarrow> goerror option \<times> 's storage_service \<times> 'c" where
  "ExecuteQuery name query cb t c =
     (case StoreMap t name of
        None \<Rightarrow> (Some (Errorf (''storage '' @ name @ '' is not found'')), t, c)
      | Some s \<Rightarrow>
          (let (cmd, args) = split_query query;
               pure = (\<lambda>(r, c'). (r, t, c'))
           in if cmd = ''help'' then
                pure (answer cb ''available commands: help, list, get, set, rm, dump, scan, search'' c)
              else if cmd = ''list'' then pure (answer cb (Join (availableStores t) '', '') c)
              else if cmd = ''get'' then pure (query_get args s cb c)
              else if cmd = ''set'' then query_set name args s t cb c
              else if cmd = ''rm'' then query_rm name args s t cb c
              else if cmd = ''dump'' then
                pure (ds_enumerate s args (\<lambda>(k, v). cb (k @ '', '' @ b64_encode False v)) c)
              else if cmd = ''scan'' then pure (ds_enumerate s args (\<lambda>(k, v). cb k) c)
              else if cmd = ''search'' then
                pure (ds_enumerate s [] (\<lambda>(k, v) c. if filepath_Match args k then cb k c else (True, c)) c)
              else (Some (Errorf (''unknown command cmd='' @ cmd @ '', args='' @ args)), t, c)))"

section \<open>The console over a stream\<close>

text \<open>
  The stream: requests still to come (\<open>Recv\<close> fails after the last one), responses sent,
  and which calls of \<open>Send\<close> succeed.
\<close>

record console_response =
  Status :: int
  Content :: string

record console_stream =
  inbox :: "string list"
  outbox :: "console_response list"
  send_ok :: "nat \<Rightarrow> bool"
  sends :: nat

definition stream_Send :: "console_response \<Rightarrow> console_stream \<Rightarrow> goerror option \<times> console_stream" where
  "stream_Send rec st =
     (if send_ok st (sends st)
      then (None, st\<lparr>outbox := outbox st @ [rec], sends := sends st + 1\<rparr>)
      else (Some (Errorf ''transport is closing''), st\<lparr>sends := sends st + 1\<rparr>))"

definition list_text :: "string list \<Rightarrow> string" where
  "list_text xs = ''['' @ Join xs '' '' @ '']''"

text \<open>One round of the loop: the error of the request's handling, the new default storage.\<close>

definition console_request :: "string \<Rightarrow> string \<Rightarrow> 's storage_service \<Rightarrow> console_stream
    \<Rightarrow> goerror option \<times> string \<times> 's storage_service \<times> console_stream" where
  "console_request query defaultStorage t st =
     (if HasPrefix query ''use '' then
        (let newStorage = TrimSpace (drop 4 query)
         in case StoreMap t newStorage of
              None \<Rightarrow>
                (let (e, st) = stream_Send \<lparr>Status = 200, Content =
                       ''error: storage '' @ newStorage @ '' not found, available storages ''
                       @ list_text (availableStores t)\<rparr> st
                 in (e, defaultStorage, t, st))
            | Some _ \<Rightarrow>
                (let (e, st) = stream_Send \<lparr>Status = 200, Content =
                       ''selected storage '' @ newStorage\<rparr> st
                 in (e, newStorage, t, st)))
      else
        (let (e, t, st) = ExecuteQuery defaultStorage query
               (\<lambda>content st. let (e, st) = stream_Send \<lparr>Status = 200, Content = content\<rparr> st in (e = None, st)) t st
         in (e, defaultStorage, t, st)))"

definition console_finish :: "goerror option \<Rightarrow> console_stream \<Rightarrow> goerror option \<times> console_stream" where
  "console_finish err st =
     (let st = (case err of
                  None \<Rightarrow> st
                | Some e \<Rightarrow> snd (stream_Send \<lparr>Status = 501, Content = ''internal error, '' @ error_text e\<rparr> st))
      in stream_Send \<lparr>Status = 100, Content = ''''\<rparr> st)"

fun console_loop :: "string list \<Rightarrow> string \<Rightarrow> 's storage_service \<Rightarrow> console_stream
    \<Rightarrow> goerror option \<times> 's storage_service \<times> console_stream" where
  "console_loop [] defaultStorage t st = (None, t, st)"
| "console_loop (query # queries) defaultStorage t st =
     (let (err, defaultStorage, t, st) = console_request query defaultStorage t (st\<lparr>inbox := queries\<rparr>)
      in case console_finish err st of
           (Some e, st) \<Rightarrow> (Some e, t, st)
         | (None, st) \<Rightarrow> console_loop queries defaultStorage t st)"

definition Console :: "'s storage_service \<Rightarrow> console_stream \<Rightarrow> goerror option \<times> 's storage_service \<times> console_stream" where
  "Console t st = console_loop (inbox st) ''config-store'' t st"

section \<open>The console on the terminal\<close>

text \<open>\<open>cout\<close> and \<open>cerr\<close> are what was written to the two writers.\<close>

record console_output =
  cout :: string
  cerr :: string

definition say :: "string \<Rightarrow> console_output \<Rightarrow> console_output" where
  "say s w = w\<lparr>cout := cout w @ s\<rparr>"

definition complain :: "string \<Rightarrow> console_output \<Rightarrow> console_output" where
  "complain s w = w\<lparr>cerr := cerr w @ s\<rparr>"

definition nl :: string where "nl = [CHR 0x0A]"

definition local_request :: "string \<Rightarrow> string \<Rightarrow> 's storage_service \<Rightarrow> console_output
    \<Rightarrow> string \<times> 's storage_service \<times> console_output" where
  "local_request query defaultStorage t w =
     (if query = '''' then (defaultStorage, t, w)
      else if query = ''list'' then (defaultStorage, t, say (list_text (availableStores t) @ nl) w)
      else if HasPrefix query ''use '' then
        (let newStorage = TrimSpace (drop 4 query)
         in case StoreMap t newStorage of
              None \<Rightarrow> (defaultStorage, t,
                complain (''error: storage '' @ newStorage @ '' not found, available storages ''
                  @ list_text (availableStores t) @ nl) w)
            | Some _ \<Rightarrow> (newStorage, t, say (''selected storage '' @ newStorage @ nl) w))
      else
        (case ExecuteQuery defaultStorage query (\<lambda>s w. (True, say (s @ nl) w)) t w of
           (None, t, w) \<Rightarrow> (defaultStorage, t, w)
         | (Some e, t, w) \<Rightarrow> (defaultStorage, t, complain (''error: '' @ error_text e @ nl) w)))"

lemma prompt_loop_shorter: "prompt_loop stop out ls = Some (q, rest) \<Longrightarrow> length rest < length ls"
  by (induction ls arbitrary: out) (auto simp: Let_def less_Suc_eq split: if_splits)

lemma Prompt_shorter: "Prompt ls = Some (q, rest) \<Longrightarrow> length rest < length ls"
  by (auto simp: Prompt_def Let_def split: list.splits if_splits dest: prompt_loop_shorter)

text \<open>\<open>None\<close> while the console waits for the next line.\<close>

function local_loop :: "string list \<Rightarrow> string \<Rightarrow> 's storage_service \<Rightarrow> console_output
    \<Rightarrow> ('s storage_service \<times> console_output) option" where
  "local_loop ls defaultStorage t w =
     (case Prompt ls of
        None \<Rightarrow> None
      | Some (query, rest) \<Rightarrow>
          if query = ''exit'' then Some (t, w)
          else (let (defaultStorage, t, w) = local_request query defaultStorage t w
                in local_loop rest defaultStorage t w))"
  by pat_completeness auto
termination
  by (relation "measure (\<lambda>(ls, d, t, w). length ls)") (auto dest!: Prompt_shorter)

declare local_loop.simps [simp del]

definition LocalConsole :: "string list \<Rightarrow> 's storage_service \<Rightarrow> console_output
    \<Rightarrow> ('s storage_service \<times> console_output) option" where
  "LocalConsole ls t w = local_loop ls ''config-store'' t w"

section \<open>Commands\<close>

record 's storage_world =
  svc :: "'s storage_service"
  osw :: os_world

text \<open>A command that replaces the store by what an operation leaves.\<close>

definition update_command ::
    "string \<Rightarrow> 's data_store \<Rightarrow> ('s store_ops \<Rightarrow> 's \<Rightarrow> goerror option \<times> 's) \<Rightarrow> 's storage_world
     \<Rightarrow> string res \<times> 's storage_world" where
  "update_command name s f w =
     (let (e, s') = ds_update f s; w' = w\<lparr>svc := set_store name s' (svc w)\<rparr>
      in (case e of Some e \<Rightarrow> Inl e | None \<Rightarrow> Inr ''OK'', w'))"

text \<open>\<open>parse_float\<close> is \<open>strconv.ParseFloat(s, 64)\<close>.\<close>

definition storage_ExecuteCommand ::
    "(string \<Rightarrow> float64 res) \<Rightarrow> string \<Rightarrow> string list \<Rightarrow> 's storage_world \<Rightarrow> string res \<times> 's storage_world" where
  "storage_ExecuteCommand parse_float cmd args w =
     (if cmd = ''list'' then (Inr (Join (availableStores (svc w)) '', ''), w)
      else case args of
        [] \<Rightarrow> (Inl (Errorf ''expected storage name as argument of the command''), w)
      | name # args \<Rightarrow>
          (case StoreMap (svc w) name of
             None \<Rightarrow> (Inl (Errorf (''storage '' @ name @ '' is not found'')), w)
           | Some s \<Rightarrow>
               (let cmd' = ToLower cmd in
                if cmd' = ''compact'' then
                  (case args of
                     [] \<Rightarrow> (Inl (Errorf ''compact command needs discardRatio argument''), w)
                   | a # _ \<Rightarrow>
                       (case parse_float a of
                          Inl e \<Rightarrow> (Inl (Errorf ''second argument discardRatio must be double''), w)
                        | Inr discardRatio \<Rightarrow> update_command name s (\<lambda>o'. st_Compact o' discardRatio) w))
                else if cmd' = ''drop'' then
                  (case args of
                     [] \<Rightarrow> (Inl (Errorf ''drop command needs prefix argument''), w)
                   | p # _ \<Rightarrow>
                       if \<not> HasSuffix p '':'' then (Inl (Errorf ''invalid prefix, must end with :''), w)
                       else update_command name s (\<lambda>o'. st_DropWithPrefix o' p) w)
                else if cmd' = ''clean'' then update_command name s (\<lambda>o'. st_DropAll o') w
                else if cmd' = ''dump'' then
                  (case args of
                     path # since # _ \<Rightarrow>
                       (case ParseUint since 10 64 of
                          Inl e \<Rightarrow> (Inl (Errorf ''second argument since must be integer''), w)
                        | Inr since \<Rightarrow>
                            (case os_Create path (BackupFilePerm (svc w)) (osw w) of
                               (Some e, fw) \<Rightarrow> (Inl e, w\<lparr>osw := fw\<rparr>)
                             | (None, fw) \<Rightarrow>
                                 (case st_Backup (ops s) (state s) since of
                                    Inl e \<Rightarrow> (Inl e, w\<lparr>osw := fw\<rparr>)
                                  | Inr (blob, newSince) \<Rightarrow>
                                      (case os_Write path blob fw of
                                         (Some e, fw) \<Rightarrow> (Inl e, w\<lparr>osw := fw\<rparr>)
                                       | (None, fw) \<Rightarrow> (Inr (''Last: '' @ Itoa newSince), w\<lparr>osw := fw\<rparr>)))))
                   | _ \<Rightarrow> (Inl (Errorf ''dump command needs path argument and timestamp''), w))
                else if cmd' = ''restore'' then
                  (case args of
                     [] \<Rightarrow> (Inl (Errorf ''restore command needs path argument''), w)
                   | path # _ \<Rightarrow>
                       (case os_Open (osw w) path of
                          Some e \<Rightarrow> (Inl e, w)
                        | None \<Rightarrow>
                            (case os_Read (osw w) path of
                               Inl e \<Rightarrow> (Inl e, w)
                             | Inr blob \<Rightarrow> update_command name s (\<lambda>o'. st_Restore o' blob) w)))
                else (Inl (Errorf (''unknown command '' @ cmd)), w))))"

section \<open>Well-formedness and what the operations keep\<close>

definition stores_ok :: "'s storage_service \<Rightarrow> bool" where
  "stores_ok t \<longleftrightarrow> (\<forall>name s. StoreMap t name = Some s \<longrightarrow> store_laws (ops s))"

text \<open>The data of all stores.\<close>

definition all_contents :: "'s storage_service \<Rightarrow> string \<Rightarrow> (bytes \<Rightarrow> bytes option) option" where
  "all_contents t name = map_option contents (StoreMap t name)"

lemma set_store_contents:
  "all_contents (set_store name s t) = (all_contents t)(name \<mapsto> contents s)"
  by (auto simp: all_contents_def set_store_def fun_eq_iff)

lemma set_store_same: "StoreMap t name = Some s \<Longrightarrow> contents s' = contents s \<Longrightarrow>
  all_contents (set_store name s' t) = all_contents t"
  by (auto simp: all_contents_def set_store_def fun_eq_iff)

lemma ds_update_contents:
  assumes "ds_update f s = (r, s')"
  obtains s1 where "f (ops s) (state s) = (r, s1)" "contents s' = st_contents (ops s) s1" "ops s' = ops s"
proof -
  obtain x y where f: "f (ops s) (state s) = (x, y)" by (cases "f (ops s) (state s)")
  have s': "r = x" "s' = s\<lparr>state := y\<rparr>"
    using assms unfolding ds_update_def f by simp_all
  show thesis
    by (rule that [of y]) (simp_all add: f s' contents_def)
qed

lemma ds_update_set:
  assumes "store_laws (ops s)" and "ds_update (\<lambda>o'. st_set o' k v) s = (r, s')"
  shows "contents s' = (if r = None then (contents s)(k \<mapsto> v) else contents s)"
proof -
  from assms(2) obtain s1 where "st_set (ops s) k v (state s) = (r, s1)"
      and "contents s' = st_contents (ops s) s1" by (rule ds_update_contents)
  with law_set [OF assms(1)] show ?thesis by (simp add: contents_def)
qed

lemma ds_update_remove:
  assumes "store_laws (ops s)" and "ds_update (\<lambda>o'. st_remove o' k) s = (r, s')"
  shows "contents s' = (if r = None then (contents s)(k := None) else contents s)"
proof -
  from assms(2) obtain s1 where "st_remove (ops s) k (state s) = (r, s1)"
      and "contents s' = st_contents (ops s) s1" by (rule ds_update_contents)
  with law_remove [OF assms(1)] show ?thesis by (simp add: contents_def)
qed

lemma stores_ok_set_store: "stores_ok t \<Longrightarrow> store_laws (ops s) \<Longrightarrow> stores_ok (set_store name s t)"
  by (auto simp: stores_ok_def set_store_def)

lemmas query_defs = ExecuteQuery_def query_get_def query_set_def query_rm_def Let_def

text \<open>What a query may do to the stores, by its command.\<close>

definition query_effect :: "string \<Rightarrow> 's storage_service \<Rightarrow> goerror option \<Rightarrow> 's storage_service \<Rightarrow> bool" where
  "query_effect name t r t' \<longleftrightarrow>
     all_contents t' = all_contents t \<or>
     (\<exists>s k v. StoreMap t name = Some s \<and> all_contents t' = (all_contents t)(name \<mapsto> (contents s)(k := v)))"

lemma ExecuteQuery_effect:
  assumes "stores_ok t" and "ExecuteQuery name query cb t c = (r, t', c')"
  shows "stores_ok t'" and "query_effect name t r t'"
    and "fst (split_query query) \<notin> {''set'', ''rm''} \<Longrightarrow> t' = t"
    and "availableStores t' = availableStores t"
proof -
  have "stores_ok t' \<and> query_effect name t r t' \<and>
      (fst (split_query query) \<notin> {''set'', ''rm''} \<longrightarrow> t' = t) \<and> availableStores t' = availableStores t"
  proof (cases "StoreMap t name")
    case None
    with assms show ?thesis by (simp add: ExecuteQuery_def query_effect_def)
  next
    case (Some s)
    have law: "store_laws (ops s)" using assms(1) Some by (simp add: stores_ok_def)
    obtain cmd args where q: "split_query query = (cmd, args)" by (cases "split_query query")
    have upd: "stores_ok (set_store name s' t) \<and> query_effect name t r (set_store name s' t)"
      if "ds_update (\<lambda>o'. st_set o' k v) s = (e, s') \<or> ds_update (\<lambda>o'. st_remove o' k) s = (e, s')" for k v e s'
    proof -
      have "ops s' = ops s" using that by auto
      moreover have "contents s' = contents s \<or> (\<exists>k v. contents s' = (contents s)(k := v))"
        using that ds_update_set [OF law] ds_update_remove [OF law] by metis
      moreover from this have "query_effect name t r (set_store name s' t)"
        using Some set_store_same [OF Some] unfolding query_effect_def set_store_contents by metis
      ultimately show ?thesis
        using assms(1) law by (simp add: stores_ok_set_store)
    qed
    consider "cmd = ''set''" | "cmd = ''rm''" | "cmd \<noteq> ''set''" "cmd \<noteq> ''rm''" by blast
    then show ?thesis
    proof cases
      case 1
      with assms(2) Some q have "query_set name args s t cb c = (r, t', c')"
        by (simp add: ExecuteQuery_def)
      then have "t' = t \<or> (\<exists>k v e s'. ds_update (\<lambda>o'. st_set o' k v) s = (e, s') \<and> t' = set_store name s' t)"
        by (auto simp: query_set_def Let_def split: option.splits prod.splits)
      with upd assms(1) 1 q show ?thesis by (auto simp: query_effect_def set_store_def)
    next
      case 2
      with assms(2) Some q have "query_rm name args s t cb c = (r, t', c')"
        by (simp add: ExecuteQuery_def)
      then have "\<exists>k e s'. ds_update (\<lambda>o'. st_remove o' k) s = (e, s') \<and> t' = set_store name s' t"
        by (auto simp: query_rm_def Let_def split: option.splits prod.splits)
      with upd 2 q show ?thesis by (auto simp: set_store_def)
    next
      case 3
      with assms Some q have "t' = t"
        by (simp add: ExecuteQuery_def Let_def split: if_splits prod.splits)
      with assms(1) show ?thesis by (simp add: query_effect_def)
    qed
  qed
  then show "stores_ok t'" "query_effect name t r t'"
    "fst (split_query query) \<notin> {''set'', ''rm''} \<Longrightarrow> t' = t" "availableStores t' = availableStores t" by auto
qed

section \<open>Reading back what was set\<close>

definition plain_key :: "string \<Rightarrow> bool" where
  "plain_key k \<longleftrightarrow> k \<noteq> '''' \<and> no_space_front k \<and> no_space_back k \<and> CHR '' '' \<notin> set k \<and> \<not> HasSuffix k '';''"

lemma strings_Trim_Nil [simp]: "strings_Trim s '''' = s"
proof -
  have "dropWhile (\<lambda>c. c \<in> set '''') u = u" for u :: string by (cases u) auto
  then show ?thesis unfolding strings_Trim_def by simp
qed

lemma split_query_word:
  assumes "CHR '' '' \<notin> set cmd" and "\<not> HasSuffix (cmd @ CHR '' '' # rest) '';''"
  shows "split_query (cmd @ CHR '' '' # rest) = (cmd, TrimSpace rest)"
  using assms by (simp add: split_query_def Let_def IndexByte_append TrimSpace_space)

lemma HasSuffix_last: "s \<noteq> [] \<Longrightarrow> HasSuffix (u @ s) [c] \<longleftrightarrow> last s = c"
  by (cases s rule: rev_cases) (auto simp: HasSuffix_def suffix_to_prefix)

lemma split_query_set:
  assumes "plain_key k" and "v \<noteq> []"
  shows "split_query (''set '' @ k @ '' '' @ b64_encode False v) = (''set'', k @ '' '' @ b64_encode False v)"
proof -
  define e where "e = b64_encode False v"
  have e: "e \<noteq> []" using b64_encode_ne [OF assms(2)] by (simp add: e_def)
  have l: "of_char (last e) \<in> {43 .. 122 :: nat} - {59}"
    using b64_encode_range [of "last e" False v] e by (simp add: e_def)
  then have "last e \<noteq> CHR '';''" by auto
  then have "\<not> HasSuffix (''set'' @ CHR '' '' # (k @ '' '' @ e)) '';''"
    using HasSuffix_last [OF e, of "''set '' @ k @ '' ''" "CHR '';''"] by simp
  moreover have "TrimSpace (k @ '' '' @ e) = k @ '' '' @ e"
    using assms(1) no_space_front_word [of k e] no_space_back_append [of e "k @ '' ''"] e l
    by (intro TrimSpace_keep) (auto simp: plain_key_def)
  ultimately show ?thesis
    using split_query_word [of "''set''" "k @ '' '' @ e"] by (simp add: e_def)
qed

lemma split_query_key:
  assumes "plain_key k" and "CHR '' '' \<notin> set cmd"
  shows "split_query (cmd @ '' '' @ k) = (cmd, k)"
proof -
  have k: "k \<noteq> []" "\<not> HasSuffix k '';''" using assms(1) by (simp_all add: plain_key_def)
  then have "last k \<noteq> CHR '';''" using HasSuffix_last [of k "[]"] by simp
  then have "\<not> HasSuffix (cmd @ CHR '' '' # k) '';''"
    using HasSuffix_last [OF k(1), of "cmd @ '' ''" "CHR '';''"] by simp
  moreover have "TrimSpace k = k"
    using assms(1) by (intro TrimSpace_keep) (simp_all add: plain_key_def)
  ultimately show ?thesis
    using split_query_word [OF assms(2), of k] by simp
qed

lemma query_set_plain:
  assumes "plain_key k" and "v \<noteq> []"
  shows "query_set name (k @ '' '' @ b64_encode False v) s t cb c =
    (case ds_update (\<lambda>o'. st_set o' k v) s of
       (Some e, s') \<Rightarrow> (Some e, set_store name s' t, c)
     | (None, s') \<Rightarrow> (let (r, c') = answer cb ''OK'' c in (r, set_store name s' t, c')))"
proof -
  have "CHR '' '' \<notin> set k" "TrimSpace k = k"
    using assms(1) TrimSpace_keep [of k] by (simp_all add: plain_key_def)
  then show ?thesis
    by (simp add: query_set_def Let_def IndexByte_append TrimSpace_space)
qed

lemma set_query_contents:
  assumes "StoreMap t name = Some s" and "store_laws (ops s)" and "plain_key k" and "v \<noteq> []"
    and "ExecuteQuery name (''set '' @ k @ '' '' @ b64_encode False v) cb t c = (r, t', c')"
    and "r = None"
  shows "\<exists>s'. StoreMap t' name = Some s' \<and> store_laws (ops s') \<and> contents s' = (contents s)(k \<mapsto> v)
    \<and> (\<forall>n. n \<noteq> name \<longrightarrow> StoreMap t' n = StoreMap t n)"
proof -
  have q: "query_set name (k @ '' '' @ b64_encode False v) s t cb c = (r, t', c')"
    using assms(1,5) split_query_set [OF assms(3,4)] by (simp add: ExecuteQuery_def Let_def)
  then obtain s' where "ds_update (\<lambda>o'. st_set o' k v) s = (None, s')" "t' = set_store name s' t"
    using assms(6) unfolding query_set_plain [OF assms(3,4)] by (auto split: prod.splits option.splits)
  with ds_update_set [OF assms(2)] assms(2) show ?thesis
    by (intro exI [of _ s']) (auto simp: set_store_def)
qed

lemma get_query:
  assumes "StoreMap t name = Some s" and "store_laws (ops s)" and "plain_key k"
    and "ExecuteQuery name (''get '' @ k) cb t c = (r, t', c')" and "st_get (ops s) (state s) k = Inr u"
  shows "(r, c') = answer cb (b64_encode False (nil_bytes (contents s k))) c"
proof -
  have "split_query (''get '' @ k) = (''get'', k)"
    using split_query_key [OF assms(3), of "''get''"] by simp
  then have "query_get k s cb c = (r, c')"
    using assms(1,4) by (simp add: ExecuteQuery_def Let_def split: prod.splits)
  with law_get [OF assms(2,5)] assms(5) show ?thesis
    by (simp add: query_get_def ds_get_def contents_def)
qed

section \<open>The console answers every request with one end marker\<close>

lemma answer_inv: "(\<And>m c. P c \<Longrightarrow> P (snd (cb m c))) \<Longrightarrow> P c \<Longrightarrow> answer cb m c = (r, c') \<Longrightarrow> P c'"
  by (metis (no_types, lifting) answer_def case_prod_beta snd_conv)

lemma enum_do_inv: "(\<And>e c. P c \<Longrightarrow> P (snd (cb e c))) \<Longrightarrow> P c \<Longrightarrow> P (snd (enum_do cb es c))"
proof (induction es arbitrary: c)
  case (Cons e es)
  obtain g c1 where "cb e c = (g, c1)" by (cases "cb e c")
  with Cons.prems Cons.IH [of c1] Cons.prems(1) [of c e] show ?case by simp
qed simp

lemma ds_enumerate_inv:
  "(\<And>e c. P c \<Longrightarrow> P (snd (cb e c))) \<Longrightarrow> P c \<Longrightarrow> ds_enumerate d p cb c = (r, c') \<Longrightarrow> P c'"
  using enum_do_inv [of P cb] by (auto simp: ds_enumerate_def split: prod.splits) (metis snd_conv)

text \<open>What every call of the callback keeps is kept by a query.\<close>

lemma ExecuteQuery_callback:
  assumes "\<And>m c. P c \<Longrightarrow> P (snd (cb m c))" and "P c"
    and "ExecuteQuery name query cb t c = (r, t', c')"
  shows "P c'"
proof (cases "StoreMap t name")
  case None
  with assms show ?thesis by (simp add: ExecuteQuery_def)
next
  case (Some s)
  obtain cmd args where q: "split_query query = (cmd, args)" by (cases "split_query query")
  have a: "answer cb m c = (x, y) \<Longrightarrow> P y" for m x y
    by (rule answer_inv [of P, OF assms(1,2)])
  have e1: "ds_enumerate s p (\<lambda>(k, v). cb (f k v)) c = (x, y) \<Longrightarrow> P y" for p f x y
    by (rule ds_enumerate_inv [of P, OF _ assms(2)]) (auto simp: split_beta intro: assms(1))
  have e2: "ds_enumerate s p (\<lambda>(k, v) c. if f k then cb k c else (True, c)) c = (x, y) \<Longrightarrow> P y" for p f x y
    by (rule ds_enumerate_inv [of P, OF _ assms(2)]) (auto simp: split_beta intro: assms(1))
  have g: "query_get args s cb c = (x, y) \<Longrightarrow> P y" for x y
    using assms(2) by (auto simp: query_get_def split: sum.splits dest: a)
  have st: "query_set name args s t cb c = (x, z, y) \<Longrightarrow> P y" for x y z
    using assms(2) by (auto simp: query_set_def Let_def split: option.splits prod.splits dest: a)
  have rm: "query_rm name args s t cb c = (x, z, y) \<Longrightarrow> P y" for x y z
    using assms(2) by (auto simp: query_rm_def Let_def split: option.splits prod.splits dest: a)
  show ?thesis
    using assms(2,3) Some q e1 [of _ "\<lambda>k v. k @ '', '' @ b64_encode False v"] e1 [of _ "\<lambda>k v. k"] e2
    by (simp add: ExecuteQuery_def Let_def split: if_splits prod.splits)
      (auto dest: a g st rm)
qed

definition marker :: console_response where
  "marker = \<lparr>Status = 100, Content = ''''\<rparr>"

text \<open>The stream after some messages, none of them a marker, were sent.\<close>

definition sent_content :: "console_stream \<Rightarrow> console_stream \<Rightarrow> bool" where
  "sent_content st0 st \<longleftrightarrow> send_ok st = send_ok st0 \<and>
     (\<exists>b. outbox st = outbox st0 @ b \<and> (\<forall>r \<in> set b. Status r \<noteq> 100))"

lemma sent_content_refl [simp]: "sent_content st st"
  by (simp add: sent_content_def)

lemma sent_content_Send: "sent_content st0 st \<Longrightarrow> Status rec \<noteq> 100 \<Longrightarrow> sent_content st0 (snd (stream_Send rec st))"
  by (auto simp: sent_content_def stream_Send_def)

lemma console_request_content:
  assumes "console_request query d t st = (e, d', t', st')"
  shows "sent_content st st'"
proof (cases "HasPrefix query ''use ''")
  case True
  have snd200: "sent_content st (snd (stream_Send \<lparr>Status = 200, Content = m\<rparr> st))" for m
    by (rule sent_content_Send) simp_all
  from True assms have "\<exists>m. st' = snd (stream_Send \<lparr>Status = 200, Content = m\<rparr> st)"
    by (cases "StoreMap t (TrimSpace (drop 4 query))")
      (auto simp: console_request_def Let_def split_beta)
  with snd200 show ?thesis by blast
next
  case False
  define cb where "cb = (\<lambda>content st. let (e, st) = stream_Send \<lparr>Status = 200, Content = content\<rparr> st in (e = None, st))"
  from False assms obtain e1 where q: "ExecuteQuery d query cb t st = (e1, t', st')"
    by (auto simp: console_request_def cb_def split: prod.splits)
  have "sent_content st (snd (cb m c))" if "sent_content st c" for m c
    using sent_content_Send [OF that, of "\<lparr>Status = 200, Content = m\<rparr>"]
    by (simp add: cb_def Let_def split_beta)
  from ExecuteQuery_callback [of "sent_content st", OF this sent_content_refl q] show ?thesis .
qed

lemma console_loop_blocks:
  assumes "\<forall>n. send_ok st n" and "console_loop queries d t st = (r, t', st')"
  shows "r = None \<and> (\<exists>blocks. length blocks = length queries \<and>
     outbox st' = outbox st @ concat (map (\<lambda>b. b @ [marker]) blocks) \<and>
     (\<forall>b \<in> set blocks. \<forall>x \<in> set b. Status x \<noteq> 100))"
  using assms
proof (induction queries d t st rule: console_loop.induct)
  case (2 query queries d t st)
  obtain err d1 t1 st1 where rq: "console_request query d t (st\<lparr>inbox := queries\<rparr>) = (err, d1, t1, st1)"
    by (cases "console_request query d t (st\<lparr>inbox := queries\<rparr>)")
  have c1: "sent_content (st\<lparr>inbox := queries\<rparr>) st1" using rq by (rule console_request_content)
  define st2 where "st2 = (case err of None \<Rightarrow> st1
    | Some e \<Rightarrow> snd (stream_Send \<lparr>Status = 501, Content = ''internal error, '' @ error_text e\<rparr> st1))"
  have c2: "sent_content (st\<lparr>inbox := queries\<rparr>) st2"
    unfolding st2_def using c1 sent_content_Send [OF c1] by (simp split: option.splits)
  then obtain b where b: "outbox st2 = outbox st @ b" "\<forall>x \<in> set b. Status x \<noteq> 100" "send_ok st2 = send_ok st"
    by (auto simp: sent_content_def)
  define st3 where "st3 = snd (stream_Send marker st2)"
  have fin: "console_finish err st1 = (None, st3)"
    using "2.prems"(1) b(3)
    by (simp add: console_finish_def Let_def st3_def marker_def stream_Send_def flip: st2_def)
  have st3: "outbox st3 = outbox st @ b @ [marker]" "\<forall>n. send_ok st3 n"
    using b "2.prems"(1) by (simp_all add: st3_def stream_Send_def)
  have "console_loop queries d1 t1 st3 = (r, t', st')"
    using "2.prems"(2) rq fin by simp
  from "2.IH" [OF rq [symmetric] refl refl refl fin [symmetric] refl st3(2) this]
  obtain blocks where "r = None" "length blocks = length queries"
      "outbox st' = outbox st3 @ concat (map (\<lambda>b. b @ [marker]) blocks)"
      "\<forall>b \<in> set blocks. \<forall>x \<in> set b. Status x \<noteq> 100" by blast
  with st3 b(2) show ?case
    by (intro conjI exI [of _ "b # blocks"]) auto
qed simp

section \<open>The command interface\<close>

lemma update_command_cases:
  assumes "update_command name s f w = (r, w')"
  obtains e s' where "ds_update f s = (e, s')" "w' = w\<lparr>svc := set_store name s' (svc w)\<rparr>"
    "r = (case e of Some e \<Rightarrow> Inl e | None \<Rightarrow> Inr ''OK'')"
  using assms by (auto simp: update_command_def split: prod.splits)

definition keeps_on_error :: "('s store_ops \<Rightarrow> 's \<Rightarrow> goerror option \<times> 's) \<Rightarrow> bool" where
  "keeps_on_error f \<longleftrightarrow> (\<forall>o' s e s'. store_laws o' \<longrightarrow> f o' s = (Some e, s') \<longrightarrow> st_contents o' s' = st_contents o' s)"

lemma keeps_on_error_ops:
  "keeps_on_error (\<lambda>o'. st_Compact o' x)" "keeps_on_error (\<lambda>o'. st_DropWithPrefix o' p)"
  "keeps_on_error (\<lambda>o'. st_DropAll o')"
  by (auto simp: keeps_on_error_def dest: law_compact law_drop law_drop_all)

definition storage_inv :: "'s storage_world \<Rightarrow> bool" where
  "storage_inv w = stores_ok (svc w)"

lemma update_command_inv:
  assumes "storage_inv w" and "StoreMap (svc w) name = Some s" and "update_command name s f w = (r, w')"
  shows "storage_inv w'"
proof -
  from assms(3) obtain e s' where u: "ds_update f s = (e, s')" "w' = w\<lparr>svc := set_store name s' (svc w)\<rparr>"
    by (rule update_command_cases)
  have "store_laws (ops s')" using assms(1,2) u(1) by (simp add: storage_inv_def stores_ok_def)
  with u(2) assms(1) show ?thesis by (simp add: storage_inv_def stores_ok_set_store)
qed

lemma update_command_failed:
  assumes "storage_inv w" and "StoreMap (svc w) name = Some s" and "keeps_on_error f"
    and "update_command name s f w = (Inl e, w')"
  shows "all_contents (svc w') = all_contents (svc w)"
proof -
  from assms(4) obtain e1 s' where u: "ds_update f s = (e1, s')" "w' = w\<lparr>svc := set_store name s' (svc w)\<rparr>"
      "Inl e = (case e1 of Some e \<Rightarrow> Inl e | None \<Rightarrow> Inr ''OK'')"
    by (rule update_command_cases)
  then obtain x where "e1 = Some x" by (auto split: option.splits)
  with u(1) assms(1-3) have "contents s' = contents s"
    by (elim ds_update_contents) (auto simp: keeps_on_error_def storage_inv_def stores_ok_def contents_def)
  with assms(2) u(2) show ?thesis by (simp add: set_store_same)
qed

lemma storage_command_inv:
  "storage_inv w \<Longrightarrow> storage_ExecuteCommand pf cmd args w = (r, w') \<Longrightarrow> storage_inv w'"
  by (auto simp: storage_ExecuteCommand_def Let_def
      split: list.splits option.splits if_splits sum.splits prod.splits dest: update_command_inv)
    (auto simp: storage_inv_def)

lemmas update_failed = update_command_failed [OF _ _ keeps_on_error_ops(1)]
  update_command_failed [OF _ _ keeps_on_error_ops(2)] update_command_failed [OF _ _ keeps_on_error_ops(3)]

lemma storage_command_failed:
  "storage_inv w \<Longrightarrow> ToLower cmd \<noteq> ''restore'' \<Longrightarrow> storage_ExecuteCommand pf cmd args w = (Inl e, w') \<Longrightarrow>
   all_contents (svc w') = all_contents (svc w)"
  by (auto simp: storage_ExecuteCommand_def Let_def
      split: list.splits option.splits if_splits sum.splits prod.splits dest: update_failed)

interpretation storagec: command_service "storage_ExecuteCommand pf"
  "\<lambda>w. all_contents (svc w)" storage_inv "\<lambda>cmd. ToLower cmd \<noteq> ''restore''" for pf
  by unfold_locales (auto dest: storage_command_inv storage_command_failed)

section \<open>Properties\<close>

text \<open>
  C15: a value set through the query language is read back by it: after \<open>set\<close> of a key without
  white space and a value in base 64 that reports no error, \<open>get\<close> of the key answers with that
  value (when reading reports no error), \<open>get\<close> of another key with what it had, and no other
  store changes.
\<close>

theorem query_set_get:
  assumes "StoreMap t name = Some s" and "store_laws (ops s)" and "plain_key k" and "v \<noteq> []" and "plain_key k2"
    and "ExecuteQuery name (''set '' @ k @ '' '' @ b64_encode False v) cb t c = (None, t', c')"
    and "ExecuteQuery name (''get '' @ k2) (\<lambda>m out. (True, out @ [m])) t' [] = (None, t2, out)"
  shows "out = [b64_encode False (if k2 = k then v else nil_bytes (contents s k2))] \<and> t2 = t' \<and>
    (\<forall>n. n \<noteq> name \<longrightarrow> StoreMap t' n = StoreMap t n)"
proof -
  obtain s' where s': "StoreMap t' name = Some s'" "store_laws (ops s')" "contents s' = (contents s)(k \<mapsto> v)"
      and others: "\<forall>n. n \<noteq> name \<longrightarrow> StoreMap t' n = StoreMap t n"
    using set_query_contents [OF assms(1-4,6) refl] by blast
  have q: "split_query (''get '' @ k2) = (''get'', k2)"
    using split_query_key [OF assms(5), of "''get''"] by simp
  have "query_get k2 s' (\<lambda>m out. (True, out @ [m])) [] = (None, out)" "t2 = t'"
    using assms(7) s'(1) q by (auto simp: ExecuteQuery_def Let_def split: prod.splits)
  then obtain u where u: "st_get (ops s') (state s') k2 = Inr u"
    by (auto simp: query_get_def ds_get_def split: sum.splits)
  from get_query [OF s'(1,2) assms(5,7) u] have "out = [b64_encode False (nil_bytes (contents s' k2))]"
    by (simp add: answer_def)
  with s'(3) others \<open>t2 = t'\<close> show ?thesis by (auto simp: nil_bytes_def)
qed

definition mem_service :: "(bytes \<times> bytes) list storage_service" where
  "mem_service = \<lparr>StoreMap = [''db'' \<mapsto> \<lparr>ops = mem_ops, state = [(''j'', ''w'')]\<rparr>], availableStores = [''db''],
     BackupFilePerm = 436\<rparr>"

lemma mem_service_db: "StoreMap mem_service ''db'' = Some \<lparr>ops = mem_ops, state = [(''j'', ''w'')]\<rparr>"
  by (simp add: mem_service_def)

lemma plain_k: "plain_key ''k''" "plain_key ''j''"
  by (code_simp, code_simp)

lemma mem_set_query:
  assumes "v \<noteq> []"
  shows "\<exists>t'. ExecuteQuery ''db'' (''set '' @ ''k'' @ '' '' @ b64_encode False v) (\<lambda>m out. (True, out @ [m])) mem_service []
     = (None, t', [''OK'']) \<and> StoreMap t' ''db'' = Some \<lparr>ops = mem_ops, state = AList.update ''k'' v [(''j'', ''w'')]\<rparr>"
proof -
  have "ExecuteQuery ''db'' (''set '' @ ''k'' @ '' '' @ b64_encode False v) (\<lambda>m out. (True, out @ [m])) mem_service [] =
      query_set ''db'' (''k'' @ '' '' @ b64_encode False v) \<lparr>ops = mem_ops, state = [(''j'', ''w'')]\<rparr> mem_service
        (\<lambda>m out. (True, out @ [m])) []"
    using split_query_set [OF plain_k(1) assms] mem_service_db by (simp add: ExecuteQuery_def Let_def)
  moreover have "ds_update (\<lambda>o'. st_set o' ''k'' v) \<lparr>ops = mem_ops, state = [(''j'', ''w'')]\<rparr> =
      (None, \<lparr>ops = mem_ops, state = AList.update ''k'' v [(''j'', ''w'')]\<rparr>)"
    by (simp add: ds_update_def mem_ops_def)
  ultimately show ?thesis
    using query_set_plain [OF plain_k(1) assms, where name = "''db''" and t = mem_service
        and s = "\<lparr>ops = mem_ops, state = [(''j'', ''w'')]\<rparr>" and cb = "\<lambda>m out. (True, out @ [m])" and c = "[]"]
    by (simp add: answer_def set_store_def)
qed

theorem query_set_get_witness:
  "\<exists>t' t2. ExecuteQuery ''db'' (''set '' @ ''k'' @ '' '' @ b64_encode False ''v'') (\<lambda>m out. (True, out @ [m])) mem_service []
       = (None, t', [''OK'']) \<and>
     ExecuteQuery ''db'' (''get '' @ ''k'') (\<lambda>m out. (True, out @ [m])) t' [] = (None, t2, [b64_encode False ''v''])"
proof -
  define v where "v = ''v''"
  then have v: "v \<noteq> []" by simp
  obtain t' where s: "ExecuteQuery ''db'' (''set '' @ ''k'' @ '' '' @ b64_encode False v)
      (\<lambda>m out. (True, out @ [m])) mem_service [] = (None, t', [''OK''])"
      and m: "StoreMap t' ''db'' = Some \<lparr>ops = mem_ops, state = AList.update ''k'' v [(''j'', ''w'')]\<rparr>"
    using mem_set_query [OF v] by blast
  have "split_query (''get '' @ ''k'') = (''get'', ''k'')"
    using split_query_key [OF plain_k(1), of "''get''"] by simp
  then obtain out where g: "ExecuteQuery ''db'' (''get '' @ ''k'') (\<lambda>m out. (True, out @ [m])) t' [] = (None, t', out)"
    using m by (simp add: ExecuteQuery_def Let_def query_get_def ds_get_def mem_ops_def answer_def)
  have l: "store_laws (ops \<lparr>ops = mem_ops, state = [(''j'', ''w'')]\<rparr>)" by (simp add: mem_ops_laws)
  have "out = [b64_encode False v]"
    using query_set_get [OF mem_service_db l plain_k(1) v plain_k(1) s g] by simp
  with s g show ?thesis unfolding v_def by blast
qed

text \<open>
  C16: whatever the query is and whatever its callback answers, it changes at most one key of
  the store it names; a command other than \<open>set\<close> and \<open>rm\<close> changes nothing at all; the list of
  the stores stays and the stores keep their laws.
\<close>

theorem query_frame:
  assumes "stores_ok t" and "ExecuteQuery name query cb t c = (r, t', c')"
  shows "(\<exists>k v. \<forall>n. all_contents t' n =
      (if n = name then map_option (\<lambda>m. m(k := v)) (all_contents t n) else all_contents t n)) \<and>
    (fst (split_query query) \<notin> {''set'', ''rm''} \<longrightarrow> t' = t) \<and>
    availableStores t' = availableStores t \<and> stores_ok t'"
proof -
  note e = ExecuteQuery_effect [OF assms]
  from e(2) consider "all_contents t' = all_contents t"
    | s k v where "StoreMap t name = Some s" "all_contents t' = (all_contents t)(name \<mapsto> (contents s)(k := v))"
    by (auto simp: query_effect_def)
  then have "\<exists>k v. \<forall>n. all_contents t' n =
      (if n = name then map_option (\<lambda>m. m(k := v)) (all_contents t n) else all_contents t n)"
  proof cases
    case 1
    then show ?thesis
      by (cases "all_contents t name")
        (auto intro!: exI [of _ "[]"] exI [of _ "the (all_contents t name) []"])
  next
    case 2
    then show ?thesis by (intro exI [of _ k] exI [of _ v]) (simp add: all_contents_def)
  qed
  with e show ?thesis by blast
qed

lemma mem_service_ok: "stores_ok mem_service"
  by (auto simp: stores_ok_def mem_service_def mem_ops_laws split: if_splits)

theorem query_frame_witness:
  "\<exists>t' k v. ExecuteQuery ''db'' (''set '' @ ''k'' @ '' '' @ b64_encode False ''v'') (\<lambda>m out. (True, out @ [m])) mem_service []
       = (None, t', [''OK'']) \<and> all_contents t' ''db'' = map_option (\<lambda>m. m(k := v)) (all_contents mem_service ''db'') \<and>
     stores_ok t'"
proof -
  have v: "''v'' \<noteq> []" by simp
  obtain t' where s: "ExecuteQuery ''db'' (''set '' @ ''k'' @ '' '' @ b64_encode False ''v'')
      (\<lambda>m out. (True, out @ [m])) mem_service [] = (None, t', [''OK''])"
    using mem_set_query [OF v] by blast
  from query_frame [OF mem_service_ok s] obtain k v where
      "all_contents t' ''db'' = map_option (\<lambda>m. m(k := v)) (all_contents mem_service ''db'')" "stores_ok t'"
    by (metis (lifting))
  with s show ?thesis by blast
qed

text \<open>
  C17: the console answers every request of the stream with messages that are no end marker,
  followed by one end marker, whatever the requests are and whether or not they fail, as long
  as sending works; and it ends without an error when the requests end.
\<close>

theorem console_markers:
  assumes "\<forall>n. send_ok st n" and "Console t st = (r, t', st')"
  shows "r = None \<and> (\<exists>blocks. length blocks = length (inbox st) \<and>
     outbox st' = outbox st @ concat (map (\<lambda>b. b @ [marker]) blocks) \<and>
     (\<forall>b \<in> set blocks. \<forall>x \<in> set b. Status x \<noteq> 100))"
  using console_loop_blocks [OF assms(1)] assms(2) by (simp add: Console_def)

theorem console_markers_witness:
  "\<exists>t' st'. Console mem_service \<lparr>inbox = [''use db'', ''bad'', ''use x''], outbox = [], send_ok = \<lambda>_. True, sends = 0\<rparr> = (None, t', st') \<and>
     length (filter (\<lambda>x. Status x = 100) (outbox st')) = 3"
proof -
  let ?st = "\<lparr>inbox = [''use db'', ''bad'', ''use x''], outbox = [], send_ok = \<lambda>_. True, sends = 0\<rparr>"
  obtain r t' st' where c: "Console mem_service ?st = (r, t', st')" by (cases "Console mem_service ?st")
  have cnt: "\<forall>b \<in> set bs. \<forall>x \<in> set b. Status x \<noteq> 100 \<Longrightarrow>
      length (filter (\<lambda>x. Status x = 100) (concat (map (\<lambda>b. b @ [marker]) bs))) = length bs" for bs
    by (induction bs) (auto simp: marker_def filter_empty_conv)
  have ok: "\<forall>n. send_ok ?st n" by simp
  obtain bs where b: "r = None" "length bs = length (inbox ?st)"
      "outbox st' = outbox ?st @ concat (map (\<lambda>b. b @ [marker]) bs)" "\<forall>b \<in> set bs. \<forall>x \<in> set b. Status x \<noteq> 100"
    using console_markers [OF ok c] by blast
  then have "length bs = 3" "outbox st' = concat (map (\<lambda>b. b @ [marker]) bs)" by simp_all
  with b c cnt [of bs] show ?thesis by auto
qed



end
