(* ===== verification/Job_Service.thy ===== *)
theory Job_Service
  imports Commands Utils_Node
begin

text \<open>
  \<open>sprintcore/job_service.go\<close>: the list of jobs, in the order they were added; a name may
  occur more than once, and the operations by name act on the first. The execution function
  of a job acts on a world of its own; \<open>ExecuteCommand\<close> starts a job in a goroutine, which
  the model records in \<open>spawned\<close>.
\<close>

record 'w job_info =
  Name :: string
  ExecutionFn :: "'w \<Rightarrow> goerror option outcome \<times> 'w"

record 'w job_service =
  jobs :: "'w job_info list"
  spawned :: "string list"

definition JobService :: "'w job_service" where
  "JobService = \<lparr>jobs = [], spawned = []\<rparr>"

definition ErrJobNotFound :: goerror where
  "ErrJobNotFound = Errorf ''job not found''"

definition ListJobs :: "'w job_service \<Rightarrow> string list res" where
  "ListJobs t = Inr (map Name (jobs t))"

definition AddJob :: "'w job_info \<Rightarrow> 'w job_service \<Rightarrow> goerror option \<times> 'w job_service" where
  "AddJob job t = (None, t\<lparr>jobs := jobs t @ [job]\<rparr>)"

text \<open>The loop over the slice: \<open>before\<close> are the jobs passed, the result is \<open>None\<close> without a match.\<close>

fun cancel_loop :: "string \<Rightarrow> 'w job_info list \<Rightarrow> 'w job_info list \<Rightarrow> 'w job_info list option" where
  "cancel_loop name before [] = None"
| "cancel_loop name before (job # rest) =
     (if Name job = name then Some (before @ rest) else cancel_loop name (before @ [job]) rest)"

definition CancelJob :: "string \<Rightarrow> 'w job_service \<Rightarrow> goerror option \<times> 'w job_service" where
  "CancelJob name t =
     (case cancel_loop name [] (jobs t) of
        Some js \<Rightarrow> (None, t\<lparr>jobs := js\<rparr>)
      | None \<Rightarrow> (Some ErrJobNotFound, t))"

definition findJob :: "string \<Rightarrow> 'w job_service \<Rightarrow> 'w job_info res" where
  "findJob name t =
     (case find (\<lambda>job. Name job = name) (jobs t) of
        Some job \<Rightarrow> Inr job
      | None \<Rightarrow> Inl ErrJobNotFound)"

definition RunJob :: "string \<Rightarrow> 'w job_service \<Rightarrow> 'w \<Rightarrow> goerror option \<times> 'w" where
  "RunJob name t w =
     (case findJob name t of
        Inl e \<Rightarrow> (Some e, w)
      | Inr job \<Rightarrow>
          (case ExecutionFn job w of
             (Ret e, w') \<Rightarrow> (e, w')
           | (Panic m, w') \<Rightarrow> (Some (Recovered m), w')))"

definition job_ExecuteCommand :: "string \<Rightarrow> string list \<Rightarrow> 'w job_service \<Rightarrow> string res \<times> 'w job_service" where
  "job_ExecuteCommand cmd args t =
     (if cmd = ''list'' then
        (case ListJobs t of Inl e \<Rightarrow> (Inl e, t) | Inr l \<Rightarrow> (Inr (Join l [CHR 0x0A]), t))
      else if cmd = ''run'' then
        (case args of
           [] \<Rightarrow> (Inr ''Usage: job run name'', t)
         | jobName # _ \<Rightarrow> (Inr ''OK'', t\<lparr>spawned := spawned t @ [jobName]\<rparr>))
      else if cmd = ''cancel'' then
        (case args of
           [] \<Rightarrow> (Inr ''Usage: job cancel name'', t)
         | jobName # _ \<Rightarrow>
             (case CancelJob jobName t of
                (Some e, t) \<Rightarrow> (Inl (Errorf (''cancel of job '' @ jobName @ '' was failed, '' @ error_text e)), t)
              | (None, t) \<Rightarrow> (Inr ''OK'', t)))
      else (Inl (Errorf (''unknown job command '' @ cmd)), t))"

section \<open>Lemmas\<close>

lemma cancel_loop_remove1:
  "cancel_loop name before js =
   (if name \<in> Name ` set js
    then Some (before @ takeWhile (\<lambda>j. Name j \<noteq> name) js @ tl (dropWhile (\<lambda>j. Name j \<noteq> name) js))
    else None)"
  by (induction js arbitrary: before) auto

lemma cancel_names:
  assumes "CancelJob name t = (None, t')"
  shows "map Name (jobs t') = remove1 name (map Name (jobs t))"
proof -
  have "map Name (takeWhile (\<lambda>j. Name j \<noteq> name) js @ tl (dropWhile (\<lambda>j. Name j \<noteq> name) js)) =
      remove1 name (map Name js)" for js :: "'a job_info list"
    by (induction js) auto
  with assms show ?thesis
    by (auto simp: CancelJob_def cancel_loop_remove1 split: if_splits)
qed

lemma CancelJob_found: "fst (CancelJob name t) = None \<longleftrightarrow> name \<in> set (map Name (jobs t))"
  by (auto simp: CancelJob_def cancel_loop_remove1)

lemma findJob_found: "(\<exists>job. findJob name t = Inr job) \<longleftrightarrow> name \<in> set (map Name (jobs t))"
  by (auto simp: findJob_def find_None_iff find_Some_iff split: option.splits)

interpretation jobc: command_service job_ExecuteCommand "\<lambda>t. (jobs t, spawned t)" "\<lambda>_. True" "\<lambda>_. True"
  by unfold_locales
    (auto simp: job_ExecuteCommand_def CancelJob_def ListJobs_def split: if_splits list.splits prod.splits option.splits)

section \<open>Properties\<close>

text \<open>
  the command \<open>cancel\<close> removes the first job of the name and nothing else, and refuses a
  name that no job has without a change; the command \<open>list\<close> shows the remaining jobs in their
  order; a name that no job has any more cannot be run; and no command that is refused, whatever
  it is, changes the jobs or starts one.
\<close>

theorem job_cancel:
  assumes "job_ExecuteCommand ''cancel'' (name # rest) t = (r, t')"
  shows "(if name \<in> set (map Name (jobs t))
      then r = Inr ''OK'' \<and> map Name (jobs t') = remove1 name (map Name (jobs t)) \<and> spawned t' = spawned t
      else (\<exists>e. r = Inl e) \<and> t' = t) \<and>
    job_ExecuteCommand ''list'' [] t' = (Inr (Join (map Name (jobs t')) [CHR 0x0A]), t') \<and>
    (name \<notin> set (map Name (jobs t')) \<longrightarrow> RunJob name t' w = (Some ErrJobNotFound, w))"
proof -
  obtain e t1 where c: "CancelJob name t = (e, t1)" by (cases "CancelJob name t")
  have sp: "spawned t1 = spawned t"
    using c by (auto simp: CancelJob_def split: option.splits)
  have refused: "r = Inl x \<Longrightarrow> t' = t" for x
    using assms jobc.failed_unchanged [where s = t and s' = t' and e = x] by simp
  have found: "e = None \<longleftrightarrow> name \<in> set (map Name (jobs t))"
    using CancelJob_found [of name t] c by simp
  have run: "name \<notin> set (map Name (jobs t')) \<Longrightarrow> RunJob name t' w = (Some ErrJobNotFound, w)"
  proof -
    assume "name \<notin> set (map Name (jobs t'))"
    then have "find (\<lambda>job. Name job = name) (jobs t') = None" by (auto simp: find_None_iff)
    then show ?thesis by (simp add: RunJob_def findJob_def)
  qed
  show ?thesis
  proof (cases e)
    case None
    with c assms have "t' = t1" "r = Inr ''OK''" by (auto simp: job_ExecuteCommand_def)
    with None c sp found run cancel_names [of name t t1] show ?thesis
      by (auto simp: job_ExecuteCommand_def ListJobs_def)
  next
    case (Some x)
    with c assms have "\<exists>e. r = Inl e" by (auto simp: job_ExecuteCommand_def)
    moreover from this have "t' = t" using refused by blast
    moreover note Some
    ultimately show ?thesis using found run by (auto simp: job_ExecuteCommand_def ListJobs_def)
  qed
qed

theorem job_cancel_witness:
  "\<exists>t'. job_ExecuteCommand ''cancel'' [''b'']
      \<lparr>jobs = [\<lparr>Name = ''a'', ExecutionFn = \<lambda>w. (Ret None, w)\<rparr>, \<lparr>Name = ''b'', ExecutionFn = \<lambda>w. (Ret None, w)\<rparr>], spawned = []\<rparr>
      = (Inr ''OK'', t' :: nat job_service) \<and> map Name (jobs t') = [''a'']"
proof -
  let ?t = "\<lparr>jobs = [\<lparr>Name = ''a'', ExecutionFn = \<lambda>w :: nat. (Ret None, w)\<rparr>, \<lparr>Name = ''b'', ExecutionFn = \<lambda>w. (Ret None, w)\<rparr>],
    spawned = []\<rparr>"
  obtain r t' where "job_ExecuteCommand ''cancel'' [''b''] ?t = (r, t')" by (cases "job_ExecuteCommand ''cancel'' [''b''] ?t")
  with job_cancel [OF this] show ?thesis by auto
qed

end
