(* ===== verification/Control_Server.thy ===== *)
theory Control_Server
  imports Auth_Middleware App_Core Storage_Service Job_Service
begin

text \<open>
  \<open>sprintserver/grpc_control_server.go\<close>: the administrative handlers. A handler gets the
  request's context, command and arguments and gives a reply and an error; panics become
  errors. The state is the part of the node that the handlers act on.
\<close>

type_synonym reply = "string option \<times> goerror option"

definition ok_reply :: "string \<Rightarrow> reply" where "ok_reply content = (Some content, None)"
definition fail :: "goerror \<Rightarrow> reply" where "fail e = (None, Some e)"

definition ErrAuthWrongRole :: goerror where "ErrAuthWrongRole = Errorf ''wrong role''"
definition ErrAuthAdminRequired :: goerror where "ErrAuthAdminRequired = Errorf ''admin role required''"
definition ErrAuthUserNotFound :: goerror where "ErrAuthUserNotFound = Errorf ''user not found''"

text \<open>
  \<open>certs\<close> and \<open>certManager\<close> are the optional third-party certificate services, as functions
  of command and arguments over their state \<open>'x\<close>; \<open>shutdown_timers\<close> are the pending calls
  of \<open>Application.Shutdown\<close> with their argument.
\<close>

type_synonym 'x cert_exec = "string \<Rightarrow> string list \<Rightarrow> 'x \<Rightarrow> string res outcome \<times> 'x"

record ('s, 'w, 'x, 'b) control_state =
  repo :: "'s config_repo"
  storage :: "'s storage_world"
  job_svc :: "'w job_service"
  cert_state :: 'x
  shutdown_timers :: "bool list"
  app :: "'b application"

section \<open>Node\<close>

text \<open>The check of the handlers that need the user: no user, or not an administrator.\<close>

definition require_admin :: "authorized_user option \<Rightarrow> goerror option" where
  "require_admin user =
     (case user of
        None \<Rightarrow> Some ErrAuthUserNotFound
      | Some u \<Rightarrow> if Roles u = None \<or> (case Roles u of None \<Rightarrow> True | Some m \<Rightarrow> m ''ADMIN'' \<noteq> Some True)
                  then Some ErrAuthWrongRole else None)"

definition cs_Node :: "authorized_user option \<Rightarrow> string \<Rightarrow> ('s, 'w, 'x, 'b) control_state
    \<Rightarrow> reply \<times> ('s, 'w, 'x, 'b) control_state" where
  "cs_Node user cmd t =
     (case require_admin user of
        Some e \<Rightarrow> (fail e, t)
      | None \<Rightarrow>
          if cmd = ''restart'' then (ok_reply ''OK'', t\<lparr>shutdown_timers := shutdown_timers t @ [True]\<rparr>)
          else if cmd = ''shutdown'' then (ok_reply ''OK'', t\<lparr>shutdown_timers := shutdown_timers t @ [False]\<rparr>)
          else (fail (Errorf (''unknown command '' @ cmd)), t))"

text \<open>A timer of \<open>Node\<close> fires.\<close>

definition cs_timer :: "('s, 'w, 'x, 'b) control_state \<Rightarrow> ('s, 'w, 'x, 'b) control_state" where
  "cs_timer t =
     (case shutdown_timers t of
        [] \<Rightarrow> t
      | r # rs \<Rightarrow> t\<lparr>shutdown_timers := rs, app := snd (app_Shutdown r (app t))\<rparr>)"

section \<open>Config\<close>

definition stars :: string where "stars = ''******''"

definition mask :: "string \<Rightarrow> string \<Rightarrow> string" where
  "mask key value = (if IsHiddenProperty key then stars else value)"

definition configGet :: "string list \<Rightarrow> 's config_repo \<Rightarrow> reply outcome" where
  "configGet args r =
     (case args of
        [] \<Rightarrow> Ret (fail (Errorf ''config get command needs key argument''))
      | key # _ \<Rightarrow>
          (case cfg_Get r key of
             Panic m \<Rightarrow> Panic m
           | Ret (Inl e) \<Rightarrow> Ret (fail (Errorf (''get config entry by key '' @ key @ '', '' @ error_text e)))
           | Ret (Inr value) \<Rightarrow> Ret (ok_reply (mask key value))))"

definition configSet :: "string list \<Rightarrow> 's config_repo \<Rightarrow> reply outcome \<times> 's config_repo" where
  "configSet args r =
     (case args of
        key # value # _ \<Rightarrow>
          (case cfg_put key value r of
             (Panic m, r) \<Rightarrow> (Panic m, r)
           | (Ret (Some e), r) \<Rightarrow> (Ret (fail (Errorf (''set config entry by key '' @ key @ '', '' @ error_text e))), r)
           | (Ret None, r) \<Rightarrow> (Ret (ok_reply ''OK''), r))
      | _ \<Rightarrow> (Ret (fail (Errorf ''config set command needs key and value arguments'')), r))"

definition entry_line :: "string \<Rightarrow> string \<Rightarrow> string" where
  "entry_line key value = key @ '': '' @ value @ [CHR 0x0A]"

definition configDump :: "string list \<Rightarrow> 's config_repo \<Rightarrow> reply outcome" where
  "configDump args r =
     (let pre = (case args of [] \<Rightarrow> '''' | p # _ \<Rightarrow> p)
      in case cfg_EnumerateAll r pre (\<lambda>key value out. (True, out @ entry_line key (mask key value))) '''' of
           Panic m \<Rightarrow> Panic m
         | Ret (err, txt) \<Rightarrow> Ret (Some txt, err))"

text \<open>
  \<open>value[:limit] + "..."\<close> panics for a negative limit; the callback then unwinds through the
  enumeration, which the accumulator records.
\<close>

definition shorten :: "int \<Rightarrow> string \<Rightarrow> string outcome" where
  "shorten limit value =
     (if limit < int (length value) then
        (if limit < 0 then Panic ''slice bounds out of range''
         else Ret (ReplaceAll (take (nat limit) value @ ''...'') [CHR 0x0A] '' ''))
      else Ret value)"

definition list_entry :: "int \<Rightarrow> string \<Rightarrow> string \<Rightarrow> string outcome \<Rightarrow> bool \<times> string outcome" where
  "list_entry limit key value acc =
     (case acc of
        Panic m \<Rightarrow> (False, Panic m)
      | Ret o' \<Rightarrow>
          (case shorten limit (mask key value) of
             Panic m \<Rightarrow> (False, Panic m)
           | Ret v \<Rightarrow> (True, Ret (o' @ entry_line key v))))"

definition configList :: "string list \<Rightarrow> 's config_repo \<Rightarrow> reply outcome" where
  "configList args r =
     (let pre = (case args of [] \<Rightarrow> '''' | p # _ \<Rightarrow> p)
      in case (case tl args of [] \<Rightarrow> Inr 80 | a # _ \<Rightarrow> Atoi a) of
           Inl e \<Rightarrow> Ret (fail (Errorf (''parsing limit '' @ hd (tl args) @ '', '' @ error_text e)))
         | Inr limit \<Rightarrow>
             (case cfg_EnumerateAll r pre (list_entry limit) (Ret '''') of
                Panic m \<Rightarrow> Panic m
              | Ret (err, Panic m) \<Rightarrow> Panic m
              | Ret (err, Ret txt) \<Rightarrow> Ret (Some txt, err)))"

definition recover_reply :: "reply outcome \<Rightarrow> reply" where
  "recover_reply r = (case r of Ret x \<Rightarrow> x | Panic m \<Rightarrow> (None, Some (Recovered m)))"

definition cs_Config :: "authorized_user option \<Rightarrow> string \<Rightarrow> string list \<Rightarrow> ('s, 'w, 'x, 'b) control_state
    \<Rightarrow> reply \<times> ('s, 'w, 'x, 'b) control_state" where
  "cs_Config user cmd args t =
     (case require_admin user of
        Some e \<Rightarrow> (fail e, t)
      | None \<Rightarrow>
          if cmd = ''get'' then (recover_reply (configGet args (repo t)), t)
          else if cmd = ''set'' then
            (let (r, repo') = configSet args (repo t) in (recover_reply r, t\<lparr>repo := repo'\<rparr>))
          else if cmd = ''dump'' then (recover_reply (configDump args (repo t)), t)
          else if cmd = ''list'' then (recover_reply (configList args (repo t)), t)
          else (fail (Errorf (''unknown command '' @ cmd)), t))"

section \<open>Certificates, jobs, storage\<close>

definition exec_reply :: "string res outcome \<Rightarrow> reply" where
  "exec_reply r = (case PanicToError r of Inl e \<Rightarrow> fail e | Inr content \<Rightarrow> ok_reply content)"

definition cs_Certificate :: "'x cert_exec option \<Rightarrow> 'x cert_exec option \<Rightarrow> authorized_user option
    \<Rightarrow> string \<Rightarrow> string list \<Rightarrow> ('s, 'w, 'x, 'b) control_state \<Rightarrow> reply \<times> ('s, 'w, 'x, 'b) control_state" where
  "cs_Certificate certManager certs user cmd args t =
     (case require_admin user of
        Some e \<Rightarrow> (fail e, t)
      | None \<Rightarrow>
          (case (if cmd = ''manager'' then certManager else certs) of
             Some exec \<Rightarrow>
               (let (r, x) = exec cmd args (cert_state t) in (exec_reply r, t\<lparr>cert_state := x\<rparr>))
           | None \<Rightarrow>
               (ok_reply (if cmd = ''manager'' then ''Error: certificate manager not found in context''
                          else ''Error: certificate service not found in context''), t)))"

definition cs_Job :: "bool \<Rightarrow> string \<Rightarrow> string list \<Rightarrow> ('s, 'w, 'x, 'b) control_state
    \<Rightarrow> reply \<times> ('s, 'w, 'x, 'b) control_state" where
  "cs_Job admin cmd args t =
     (if \<not> admin then (fail ErrAuthAdminRequired, t)
      else (let (r, js) = job_ExecuteCommand cmd args (job_svc t) in (exec_reply (Ret r), t\<lparr>job_svc := js\<rparr>)))"

definition cs_Storage :: "(string \<Rightarrow> float64 res) \<Rightarrow> bool \<Rightarrow> string \<Rightarrow> string list \<Rightarrow> ('s, 'w, 'x, 'b) control_state
    \<Rightarrow> reply \<times> ('s, 'w, 'x, 'b) control_state" where
  "cs_Storage pf admin cmd args t =
     (if \<not> admin then (fail ErrAuthAdminRequired, t)
      else (let (r, w) = storage_ExecuteCommand pf cmd args (storage t) in (exec_reply (Ret r), t\<lparr>storage := w\<rparr>)))"

definition cs_StorageConsole :: "bool \<Rightarrow> console_stream \<Rightarrow> ('s, 'w, 'x, 'b) control_state
    \<Rightarrow> goerror option \<times> console_stream \<times> ('s, 'w, 'x, 'b) control_state" where
  "cs_StorageConsole admin st t =
     (if \<not> admin then (Some ErrAuthAdminRequired, st, t)
      else (let (e, s, st) = Console (svc (storage t)) st
            in (e, st, t\<lparr>storage := (storage t)\<lparr>svc := s\<rparr>\<rparr>)))"

section \<open>Status\<close>

text \<open>A component: its name and the statistics it reports (or the panic of reporting them).\<close>

type_synonym component = "string \<times> (string \<times> string) list outcome"

definition put_stats :: "string \<Rightarrow> (string \<times> string) list \<Rightarrow> (string \<Rightarrow> string option) \<Rightarrow> (string \<Rightarrow> string option)" where
  "put_stats bean stats m = fold (\<lambda>(name, value) m. m(bean @ ''.'' @ name \<mapsto> value)) stats m"

fun cs_Status :: "component list \<Rightarrow> (string \<Rightarrow> string option) \<Rightarrow> (string \<Rightarrow> string option) \<times> goerror option" where
  "cs_Status [] m = (m, None)"
| "cs_Status ((bean, Panic e) # cs) m = (m, Some (Errorf e))"
| "cs_Status ((bean, Ret stats) # cs) m = cs_Status cs (put_stats bean stats m)"

text \<open>The statistics of the server itself; \<open>nat\<close> is the optional NAT service.\<close>

definition cs_GetStats :: "string \<Rightarrow> (string \<times> string res) option \<Rightarrow> (string \<times> string) list" where
  "cs_GetStats start natsvc =
     (''start'', start) #
     (case natsvc of
        None \<Rightarrow> []
      | Some (serviceName, ext) \<Rightarrow>
          (''nat'', serviceName) #
          (if serviceName \<noteq> ''no_nat'' then
             (case ext of Inl e \<Rightarrow> [(''nat.err'', error_text e)] | Inr ip \<Rightarrow> [(''nat.extip'', ip)])
           else []))"

section \<open>Lemmas\<close>

lemma require_admin_ok: "require_admin user = None \<longleftrightarrow> (\<exists>u m. user = Some u \<and> Roles u = Some m \<and> m ''ADMIN'' = Some True)"
  by (auto simp: require_admin_def split: option.splits)

lemma require_admin_role: "require_admin (GetUser lib now t ctx) = None \<longleftrightarrow> HasUserRole lib now t ctx ''ADMIN''"
  unfolding require_admin_ok by (simp add: auth.has_role_user)

lemma denied:
  assumes "require_admin user \<noteq> None"
  shows "\<exists>e. cs_Node user cmd t = (fail e, t)" and "\<exists>e. cs_Config user cmd args t = (fail e, t)"
    and "\<exists>e. cs_Certificate cm c user cmd args t = (fail e, t)"
  using assms by (auto simp: cs_Node_def cs_Config_def cs_Certificate_def)

lemma configSet_spec:
  assumes "cfg_inv r" and "configSet (key # value # rest) r = (x, r')"
  shows "cfg_inv r' \<and> (\<exists>y. x = Ret y \<and>
    (if y = ok_reply ''OK'' then cfg_view r' = (cfg_view r)(key := as_entry value)
     else snd y \<noteq> None \<and> cfg_view r' = cfg_view r))"
proof -
  obtain p r1 where p: "cfg_put key value r = (p, r1)" by (cases "cfg_put key value r")
  from cfgr.put_returns [OF assms(1) p] obtain e where e: "p = Ret e" "cfg_inv r1" by blast
  show ?thesis
  proof (cases e)
    case None
    with assms(2) p e cfgr.put_ok [OF assms(1), of key "value" r1] show ?thesis
      by (auto simp: configSet_def ok_reply_def)
  next
    case (Some a)
    with assms(2) p e cfgr.put_failed [OF assms(1), of key "value" a r1] show ?thesis
      by (auto simp: configSet_def fail_def ok_reply_def)
  qed
qed

lemma configGet_spec:
  assumes "cfg_inv r" and "configGet (key # rest) r = Ret (Some content, e)"
  shows "content = mask key (value_or_empty (cfg_view r key)) \<and> e = None"
  using assms cfgr.get_view [OF assms(1)]
  by (auto simp: configGet_def fail_def ok_reply_def split: outcome.splits sum.splits)

lemma configDump_spec:
  assumes "cfg_entries r (case args of [] \<Rightarrow> '''' | p # _ \<Rightarrow> p) = Ret (Inr es)"
  shows "configDump args r = Ret (Some (concat (map (\<lambda>(k, v). entry_line k (mask k v)) es)), None)"
proof -
  have "fold (\<lambda>(k, v) acc. acc @ entry_line k (mask k v)) es acc =
      acc @ concat (map (\<lambda>(k, v). entry_line k (mask k v)) es)" for acc
    by (induction es arbitrary: acc) auto
  with cfg_EnumerateAll_fold [OF _ assms, of "\<lambda>key value out. (True, out @ entry_line key (mask key value))" "''''"]
  show ?thesis by (simp add: configDump_def Let_def)
qed

lemma mask_hidden: "IsHiddenProperty k \<Longrightarrow> mask k v = mask k v'"
  by (simp add: mask_def)

lemma shorten_length: "shorten limit value = Ret v \<Longrightarrow> 0 \<le> limit \<Longrightarrow> limit < int (length value) \<or> v = value"
  by (auto simp: shorten_def split: if_splits)

section \<open>Properties\<close>

lemma require_admin_if: "require_admin user = (if \<exists>u m. user = Some u \<and> Roles u = Some m \<and> m ''ADMIN'' = Some True
    then None else Some (if user = None then ErrAuthUserNotFound else ErrAuthWrongRole))"
  by (auto simp: require_admin_def split: option.splits)

text \<open>
  C12: a set of a property that the server acknowledges is what a later get answers with:
  the new value for the key, the old one for every other key, and six stars instead of either
  when the property is hidden; both calls need an administrator; the get changes nothing and
  the set changes nothing but the repository.
\<close>

theorem config_set_get:
  assumes "cfg_inv (repo t)"
    and "cs_Config user ''set'' [key, val] t = ((Some reply, e), t')"
    and "cs_Config user2 ''get'' [key2] t' = ((Some content, e2), t2)"
  shows "content = (if IsHiddenProperty key2 then ''******''
      else if key2 = key then val else value_or_empty (cfg_view (repo t) key2)) \<and>
    reply = ''OK'' \<and> e = None \<and> e2 = None \<and> t2 = t' \<and> t' = t\<lparr>repo := repo t'\<rparr> \<and> cfg_inv (repo t') \<and>
    require_admin user = None \<and> require_admin user2 = None"
proof -
  have adm: "require_admin user = None" "require_admin user2 = None"
    using assms(2,3) by (cases "require_admin user", simp_all add: cs_Config_def fail_def,
        cases "require_admin user2", simp_all add: cs_Config_def fail_def)
  obtain x r' where s: "configSet [key, val] (repo t) = (x, r')" by (cases "configSet [key, val] (repo t)")
  from assms(2) adm(1) s have x: "recover_reply x = (Some reply, e)" and t': "t' = t\<lparr>repo := r'\<rparr>"
    by (simp_all add: cs_Config_def)
  from configSet_spec [OF assms(1) s] obtain y where y: "x = Ret y" "cfg_inv r'"
      "if y = ok_reply ''OK'' then cfg_view r' = (cfg_view (repo t))(key := as_entry val)
       else snd y \<noteq> None \<and> cfg_view r' = cfg_view (repo t)" by blast
  have ok: "y = ok_reply ''OK''"
    using s x y(1) by (auto simp: configSet_def recover_reply_def fail_def ok_reply_def
        split: prod.splits outcome.splits option.splits)
  with y x have v: "cfg_view r' = (cfg_view (repo t))(key := as_entry val)" and r: "reply = ''OK''" "e = None"
    by (simp_all add: recover_reply_def ok_reply_def)
  have g: "recover_reply (configGet [key2] (repo t')) = (Some content, e2)" and t2: "t2 = t'"
    using assms(3) adm(2) by (auto simp: cs_Config_def)
  then have "configGet [key2] (repo t') = Ret (Some content, e2)"
    by (auto simp: recover_reply_def split: outcome.splits)
  from configGet_spec [OF _ this] t' y(2)
  have "content = mask key2 (value_or_empty (cfg_view r' key2))" "e2 = None" by simp_all
  with adm r t' t2 v y(2) show ?thesis by (auto simp: mask_def stars_def)
qed

definition sample_admin :: "authorized_user option" where
  "sample_admin = Some (default_user ''ann'' 0)"

definition sample_control :: "((bytes \<times> bytes) list, unit, unit, unit) control_state" where
  "sample_control = \<lparr>repo = sample_repo,
     storage = \<lparr>svc = mem_service, osw = \<lparr>fs = Map.empty, umask = 0, deny = \<lambda>_. None\<rparr>\<rparr>,
     job_svc = JobService, cert_state = (), shutdown_timers = [], app = Application ''a'' []\<rparr>"

lemma sample_admin_ok: "require_admin sample_admin = None"
  by (simp add: require_admin_if sample_admin_def default_user_def)

theorem config_set_get_witness:
  "\<exists>t' t2. cs_Config sample_admin ''set'' [''a'', ''3''] sample_control = ((Some ''OK'', None), t') \<and>
     cs_Config sample_admin ''get'' [''a''] t' = ((Some ''3'', None), t2)"
proof -
  have i: "cfg_inv (repo sample_control)" by (simp add: sample_control_def sample_repo_inv)
  define r' where "r' = snd (cfg_put ''a'' ''3'' sample_repo)"
  define t' where "t' = sample_control\<lparr>repo := r'\<rparr>"
  have p: "cfg_put ''a'' ''3'' sample_repo = (Ret None, r')"
    unfolding r'_def by (subst sample_put, subst sample_put) simp
  have s: "cs_Config sample_admin ''set'' [''a'', ''3''] sample_control = ((Some ''OK'', None), t')"
    using p by (simp add: cs_Config_def sample_admin_ok configSet_def sample_control_def t'_def recover_reply_def ok_reply_def)
  have "\<exists>v. cfg_Get r' ''a'' = Ret (Inr v)"
    using sample_put [of "''a''" "CHR ''3''" "''''"] p
    by (auto simp: cfg_Get_def ds_get_def mem_ops_def sample_repo_def)
  then obtain c e2 t2 where g: "cs_Config sample_admin ''get'' [''a''] t' = ((Some c, e2), t2)"
    by (auto simp: cs_Config_def sample_admin_ok configGet_def t'_def recover_reply_def ok_reply_def)
  have "\<not> IsHiddenProperty ''a''" by code_simp
  with config_set_get [OF i s g] s g show ?thesis by auto
qed

end
