(* ===== verification/Control_Client.thy ===== *)
theory Control_Client
  imports Control_Server
begin

text \<open>
  \<open>sprintclient\<close>: the connection to a node, the remote commands, the remote storage console,
  and the factories of the connection and its TLS settings. A remote method is a parameter:
  the function from command and arguments to the server's answer.
\<close>

section \<open>The client\<close>

datatype transport = Plain | Tls | TlsInsecure

record control_client =
  cc_transport :: transport
  cc_target :: string
  cc_has_conn :: bool
  cc_closeOnce :: bool

definition cc_Destroy :: "goerror option \<Rightarrow> control_client \<Rightarrow> goerror option \<times> control_client" where
  "cc_Destroy closeErr t =
     (if cc_closeOnce t then (None, t)
      else (if cc_has_conn t then closeErr else None, t\<lparr>cc_closeOnce := True\<rparr>))"

definition wrapError :: "control_client \<Rightarrow> goerror \<Rightarrow> goerror" where
  "wrapError t err =
     StatusErr Unavailable
       (''grpc '' @ (case cc_transport t of Plain \<Rightarrow> ''plain'' | Tls \<Rightarrow> ''tls'' | TlsInsecure \<Rightarrow> ''tls insecure'')
        @ '' invocation '' @ cc_target t @ '', '' @ error_text err)"

text \<open>\<open>status.Code(err) == codes.Unavailable\<close>\<close>

definition is_unavailable :: "goerror \<Rightarrow> bool" where
  "is_unavailable e = (case e of StatusErr c m \<Rightarrow> c = Unavailable | _ \<Rightarrow> False)"

type_synonym 'w rpc = "string \<Rightarrow> string list \<Rightarrow> 'w \<Rightarrow> string res \<times> 'w"

text \<open>What every command of the client does with the answer.\<close>

definition invoke :: "control_client \<Rightarrow> 'w rpc \<Rightarrow> string \<Rightarrow> string list \<Rightarrow> 'w \<Rightarrow> string res \<times> 'w" where
  "invoke t rpc cmd args w =
     (case rpc cmd args w of (Inl err, w) \<Rightarrow> (Inl (wrapError t err), w) | (Inr content, w) \<Rightarrow> (Inr content, w))"

text \<open>\<open>Status\<close>: the keys of the answer's map in order; \<open>keys\<close> is the order the iteration gives.\<close>

definition status_lines :: "string list \<Rightarrow> (string \<Rightarrow> string option) \<Rightarrow> string" where
  "status_lines keys stats =
     concat (map (\<lambda>k. k @ '': '' @ (case stats k of Some v \<Rightarrow> v | None \<Rightarrow> '''') @ [CHR 0x0A]) (sort keys))"

definition cc_Status :: "control_client \<Rightarrow> string list \<Rightarrow> (string \<Rightarrow> string option) res \<Rightarrow> string res" where
  "cc_Status t keys resp =
     (case resp of Inl err \<Rightarrow> Inl (wrapError t err) | Inr stats \<Rightarrow> Inr (status_lines keys stats))"

definition cc_Shutdown :: "control_client \<Rightarrow> 'w rpc \<Rightarrow> bool \<Rightarrow> 'w \<Rightarrow> string res \<times> 'w" where
  "cc_Shutdown t rpc restart w = invoke t rpc (if restart then ''restart'' else ''shutdown'') [] w"

definition cc_ConfigCommand :: "control_client \<Rightarrow> 'w rpc \<Rightarrow> 'w rpc" where
  "cc_ConfigCommand t config = invoke t config"
definition cc_CertificateCommand :: "control_client \<Rightarrow> 'w rpc \<Rightarrow> 'w rpc" where
  "cc_CertificateCommand t cert = invoke t cert"
definition cc_JobCommand :: "control_client \<Rightarrow> 'w rpc \<Rightarrow> 'w rpc" where
  "cc_JobCommand t job = invoke t job"
definition cc_StorageCommand :: "control_client \<Rightarrow> 'w rpc \<Rightarrow> 'w rpc" where
  "cc_StorageCommand t stor = invoke t stor"

section \<open>The remote console\<close>

text \<open>
  The receiving goroutine: contents go to the writer, other statuses to the error writer, a
  marker releases the barrier. The result has what was written and how often it released.
\<close>

fun client_print :: "console_response list \<Rightarrow> console_output \<Rightarrow> console_output \<times> nat" where
  "client_print [] o' = (o', 0)"
| "client_print (r # rs) o' =
     (if Status r = 100 then (let (o'', n) = client_print rs o' in (o'', Suc n))
      else if Status r = 200 then client_print rs (say (Content r @ nl) o')
      else client_print rs (complain (''error: code '' @ Itoa (Status r) @ '', '' @ Content r @ nl) o'))"

text \<open>
  What happens after a query is sent: sending fails, or the server's messages arrive (at most
  one marker among them) and then the stream stays open, ends, or breaks.
\<close>

datatype stream_end = StillOpen | EndOfStream | RecvError goerror

datatype exchange = SendFailed goerror | Exchanged "console_response list" stream_end

text \<open>
  The loop of the console against a server: each query is sent, the server's messages are
  printed, and the barrier is awaited before the next prompt; the end of the stream releases
  it for good. \<open>serve\<close> is the exchange of one query. \<open>None\<close> while the console waits: for the
  next line, or for a marker on a stream that stays open.
\<close>

function client_console ::
    "(string \<Rightarrow> 'v \<Rightarrow> exchange \<times> 'v) \<Rightarrow> string list \<Rightarrow> 'v \<Rightarrow> console_output \<Rightarrow> (console_output \<times> 'v) option" where
  "client_console serve ls v o' =
     (case Prompt ls of
        None \<Rightarrow> None
      | Some (query, rest) \<Rightarrow>
          if query = '''' then client_console serve rest v o'
          else if query = ''exit'' then Some (o', v)
          else (case serve query v of
                  (SendFailed e, v) \<Rightarrow> Some (complain (''error: send i/o '' @ error_text e @ nl) o', v)
                | (Exchanged msgs fin, v) \<Rightarrow>
                    (let (o', n) = client_print msgs o';
                         o' = (case fin of RecvError e \<Rightarrow> complain (''error: recv i/o '' @ error_text e @ nl) o'
                               | _ \<Rightarrow> o')
                     in if n \<noteq> 0 then client_console serve rest v o'
                        else if fin = StillOpen then None else Some (o', v))))"
  by pat_completeness auto
termination
  by (relation "measure (\<lambda>(serve, ls, v, o'). length ls)") (auto dest: Prompt_shorter)

declare client_console.simps [simp del]

section \<open>Factories\<close>

definition getConnectFromBindAddress :: "string \<Rightarrow> string" where
  "getConnectFromBindAddress listenAddr =
     (if HasPrefix listenAddr ''0.0.0.0:'' then ''127.0.0.1'' @ drop 7 listenAddr
      else if HasPrefix listenAddr '':'' then ''127.0.0.1'' @ listenAddr
      else listenAddr)"

text \<open>\<open>prop\<close> are the properties; the empty string where there is none.\<close>

definition connect_address :: "(string \<Rightarrow> string) \<Rightarrow> string \<Rightarrow> string res" where
  "connect_address prop beanName =
     (let a = prop (beanName @ ''.connect-address'')
      in if a \<noteq> '''' then Inr a
         else (let serverBean = ReplaceAll beanName ''client'' ''server'';
                   l = prop (serverBean @ ''.bind-address'')
               in if l = '''' then
                    Inl (Errorf (''property '' @ beanName @ ''.connect-address is not found and property ''
                      @ serverBean @ ''.bind-address is not found too''))
                  else Inr (getConnectFromBindAddress l)))"

record dial_options =
  do_addr :: string
  do_tls :: bool
  do_maxMessageSize :: "int option"
  do_token :: "string option"

definition doDial :: "bool \<Rightarrow> int \<Rightarrow> string \<Rightarrow> string \<Rightarrow> dial_options" where
  "doDial tls maxMessageSize authToken addr =
     \<lparr>do_addr = addr, do_tls = tls,
      do_maxMessageSize = (if maxMessageSize \<noteq> 0 then Some maxMessageSize else None),
      do_token = (if authToken \<noteq> '''' then Some authToken else None)\<rparr>"

definition client_Object ::
    "(string \<Rightarrow> tcp_addr res) \<Rightarrow> (string \<Rightarrow> string) \<Rightarrow> int \<Rightarrow> bool \<Rightarrow> int \<Rightarrow> string \<Rightarrow> dial_options res" where
  "client_Object resolve prop maxMessageSize tls seq beanName =
     (case connect_address prop beanName of
        Inl e \<Rightarrow> Inl e
      | Inr connectAddr \<Rightarrow>
          (case ParseAndAdjustTCPAddr resolve connectAddr seq of
             Inl e \<Rightarrow> Inl e
           | Inr a \<Rightarrow> Inr (doDial tls maxMessageSize (prop ''application.auth'') (IP a @ '':'' @ Itoa (Port a)))))"

text \<open>The metadata a token adds to every call.\<close>

definition GetRequestMetadata :: "string \<Rightarrow> string list option option" where
  "GetRequestMetadata token = Some (Some [''Bearer '' @ token])"

definition call_metadata :: "dial_options \<Rightarrow> call_ctx" where
  "call_metadata d =
     \<lparr>metadata = (case do_token d of None \<Rightarrow> Some None | Some token \<Rightarrow> GetRequestMetadata token), ctx_user = None\<rparr>"

definition appendH2ToNextProtos :: "string list \<Rightarrow> string list" where
  "appendH2ToNextProtos ps = (if ''h2'' \<in> set ps then ps else ps @ [''h2''])"

record client_tls =
  ct_insecure :: bool
  ct_cert :: "(string \<times> string) option"
  ct_protos :: "string list"

definition any_tls_Object :: "bool \<Rightarrow> client_tls" where
  "any_tls_Object insecure = \<lparr>ct_insecure = insecure, ct_cert = None, ct_protos = appendH2ToNextProtos []\<rparr>"

text \<open>\<open>load\<close> is \<open>tls.LoadX509KeyPair\<close>, \<open>appDir\<close> the directory the properties library locates.\<close>

definition client_tls_Object :: "(string \<Rightarrow> string \<Rightarrow> goerror option) \<Rightarrow> string \<Rightarrow> bool \<Rightarrow> client_tls res" where
  "client_tls_Object load appDir insecure =
     (let certFile = path_Join [appDir, ''client.crt'']; keyFile = path_Join [appDir, ''client.key'']
      in case load certFile keyFile of
           Some e \<Rightarrow> Inl (Errorf (''LoadX509KeyPair for implControlClient SSL from '' @ certFile @ '' and ''
             @ keyFile @ '' failed, '' @ error_text e))
         | None \<Rightarrow> Inr \<lparr>ct_insecure = insecure, ct_cert = Some (certFile, keyFile), ct_protos = appendH2ToNextProtos []\<rparr>)"

section \<open>Queries print the same locally and remotely\<close>

lemma answer_rel:
  assumes "\<And>m c d. R c d \<Longrightarrow> fst (cb1 m c) = fst (cb2 m d) \<and> R (snd (cb1 m c)) (snd (cb2 m d))" and "R c d"
  shows "fst (answer cb1 m c) = fst (answer cb2 m d) \<and> R (snd (answer cb1 m c)) (snd (answer cb2 m d))"
  using assms(1) [OF assms(2), of m] by (auto simp: answer_def split_beta)

lemma enum_do_rel:
  assumes "\<And>e c d. R c d \<Longrightarrow> fst (f1 e c) = fst (f2 e d) \<and> R (snd (f1 e c)) (snd (f2 e d))" and "R c d"
  shows "fst (enum_do f1 es c) = fst (enum_do f2 es d) \<and> R (snd (enum_do f1 es c)) (snd (enum_do f2 es d))"
  using assms(2)
proof (induction es arbitrary: c d)
  case (Cons e es)
  from assms(1) [OF Cons.prems, of e] Cons.IH [of "snd (f1 e c)" "snd (f2 e d)"] show ?case
    by (auto simp: split_beta)
qed simp

lemma ds_enumerate_rel:
  assumes "\<And>e c d. R c d \<Longrightarrow> fst (f1 e c) = fst (f2 e d) \<and> R (snd (f1 e c)) (snd (f2 e d))" and "R c d"
  shows "fst (ds_enumerate s p f1 c) = fst (ds_enumerate s p f2 d) \<and>
    R (snd (ds_enumerate s p f1 c)) (snd (ds_enumerate s p f2 d))"
  using enum_do_rel [of R f1 f2, OF assms] by (simp add: ds_enumerate_def split_beta)

text \<open>
  Two callbacks that agree on whether to go on, and keep two states related, make a query
  give the same error and the same stores.
\<close>

lemma ExecuteQuery_rel:
  assumes cb: "\<And>m c d. R c d \<Longrightarrow> fst (cb1 m c) = fst (cb2 m d) \<and> R (snd (cb1 m c)) (snd (cb2 m d))" and R: "R c d"
    and q1: "ExecuteQuery name query cb1 t c = (r1, t1, c1)" and q2: "ExecuteQuery name query cb2 t d = (r2, t2, d2)"
  shows "r1 = r2 \<and> t1 = t2 \<and> R c1 d2"
proof (cases "StoreMap t name")
  case None
  with q1 q2 R show ?thesis by (simp add: ExecuteQuery_def)
next
  case (Some s)
  obtain cmd args where sq: "split_query query = (cmd, args)" by (cases "split_query query")
  have a: "fst (answer cb1 m c) = fst (answer cb2 m d) \<and> R (snd (answer cb1 m c)) (snd (answer cb2 m d))" for m
    by (rule answer_rel [of R, OF cb R])
  have e1: "fst (ds_enumerate s p (\<lambda>(k, v). cb1 (f k v)) c) = fst (ds_enumerate s p (\<lambda>(k, v). cb2 (f k v)) d) \<and>
      R (snd (ds_enumerate s p (\<lambda>(k, v). cb1 (f k v)) c)) (snd (ds_enumerate s p (\<lambda>(k, v). cb2 (f k v)) d))" for p f
    by (rule ds_enumerate_rel [of R, OF _ R]) (simp add: split_beta cb)
  have e2: "fst (ds_enumerate s p (\<lambda>(k, v) c. if f k then cb1 k c else (True, c)) c) =
        fst (ds_enumerate s p (\<lambda>(k, v) c. if f k then cb2 k c else (True, c)) d) \<and>
      R (snd (ds_enumerate s p (\<lambda>(k, v) c. if f k then cb1 k c else (True, c)) c))
        (snd (ds_enumerate s p (\<lambda>(k, v) c. if f k then cb2 k c else (True, c)) d))" for p f
    by (rule ds_enumerate_rel [of R, OF _ R]) (simp add: split_beta cb)
  have g: "fst (query_get args s cb1 c) = fst (query_get args s cb2 d) \<and>
      R (snd (query_get args s cb1 c)) (snd (query_get args s cb2 d))"
    using a R by (simp add: query_get_def split: sum.split)
  have st: "query_set name args s t cb1 c = (r1, t1, c1) \<Longrightarrow> query_set name args s t cb2 d = (r2, t2, d2) \<Longrightarrow> ?thesis"
    using a [of "''OK''"] R
    by (auto simp: query_set_def Let_def split_beta split: option.splits prod.splits)
  have rm: "query_rm name args s t cb1 c = (r1, t1, c1) \<Longrightarrow> query_rm name args s t cb2 d = (r2, t2, d2) \<Longrightarrow> ?thesis"
    using a [of "''OK''"] R
    by (auto simp: query_rm_def Let_def split_beta split: option.splits prod.splits)
  show ?thesis
    using q1 q2 st rm a g e1 [of _ "\<lambda>k v. k @ '', '' @ b64_encode False v"] e1 [of _ "\<lambda>k v. k"] e2 R
    by (simp add: ExecuteQuery_def Some sq Let_def split_beta split: if_splits) auto
qed

text \<open>What was printed from a list of messages, per writer.\<close>

lemma client_print_append:
  "client_print (xs @ ys) w = (let (w', n) = client_print xs w; (w'', m) = client_print ys w' in (w'', n + m))"
  by (induction xs arbitrary: w) (auto simp: split_beta Let_def)

text \<open>
  The states of the two consoles while a query runs: the stream holds messages whose
  printing gives exactly the local output.
\<close>

definition same_output :: "console_stream \<Rightarrow> console_output \<Rightarrow> console_stream \<Rightarrow> console_output \<Rightarrow> bool" where
  "same_output st0 w0 st w \<longleftrightarrow> send_ok st = send_ok st0 \<and>
     (\<exists>msgs. outbox st = outbox st0 @ msgs \<and> client_print msgs w0 = (w, 0))"

lemma same_output_say:
  assumes "same_output st0 w0 st w" and "\<forall>n. send_ok st0 n"
  shows "stream_Send \<lparr>Status = 200, Content = m\<rparr> st =
      (None, st\<lparr>outbox := outbox st @ [\<lparr>Status = 200, Content = m\<rparr>], sends := sends st + 1\<rparr>)"
    and "same_output st0 w0 (snd (stream_Send \<lparr>Status = 200, Content = m\<rparr> st)) (say (m @ nl) w)"
proof -
  from assms have ok: "send_ok st (sends st)" by (simp add: same_output_def)
  then show s: "stream_Send \<lparr>Status = 200, Content = m\<rparr> st =
      (None, st\<lparr>outbox := outbox st @ [\<lparr>Status = 200, Content = m\<rparr>], sends := sends st + 1\<rparr>)"
    by (simp add: stream_Send_def)
  from assms(1) obtain msgs where "outbox st = outbox st0 @ msgs" "client_print msgs w0 = (w, 0)"
      and so: "send_ok st = send_ok st0"
    by (auto simp: same_output_def)
  then show "same_output st0 w0 (snd (stream_Send \<lparr>Status = 200, Content = m\<rparr> st)) (say (m @ nl) w)"
    unfolding s same_output_def
    by (auto simp: client_print_append intro!: exI [of _ "msgs @ [\<lparr>Status = 200, Content = m\<rparr>]"])
qed

lemma query_same_output:
  assumes "\<forall>n. send_ok st n"
    and "ExecuteQuery name query
      (\<lambda>content st. let (e, st) = stream_Send \<lparr>Status = 200, Content = content\<rparr> st in (e = None, st)) t st = (r1, t1, st1)"
    and "ExecuteQuery name query (\<lambda>s w. (True, say (s @ nl) w)) t w = (r2, t2, w2)"
  shows "r1 = r2 \<and> t1 = t2 \<and> same_output st w st1 w2"
proof (rule ExecuteQuery_rel [of "same_output st w", OF _ _ assms(2,3)])
  show "same_output st w st w" by (auto simp: same_output_def)
next
  fix m c d assume R: "same_output st w c d"
  from same_output_say [OF this assms(1), of m]
  show "fst (let (e, st) = stream_Send \<lparr>Status = 200, Content = m\<rparr> c in (e = None, st)) = fst (True, say (m @ nl) d) \<and>
      same_output st w (snd (let (e, st) = stream_Send \<lparr>Status = 200, Content = m\<rparr> c in (e = None, st)))
        (snd (True, say (m @ nl) d))"
    by simp
qed

section \<open>Lemmas on the client\<close>

lemma invoke_error: "invoke t rpc cmd args w = (Inl e, w') \<Longrightarrow> is_unavailable e"
  by (auto simp: invoke_def wrapError_def is_unavailable_def split: prod.splits sum.splits)

lemma invoke_ok: "rpc cmd args w = (Inr content, w') \<Longrightarrow> invoke t rpc cmd args w = (Inr content, w')"
  by (simp add: invoke_def)

lemma getConnectFromBindAddress_port:
  "getConnectFromBindAddress (''0.0.0.0:'' @ p) = ''127.0.0.1:'' @ p"
  "getConnectFromBindAddress ('':'' @ p) = ''127.0.0.1:'' @ p"
  by (simp_all add: getConnectFromBindAddress_def HasPrefix_def)

section \<open>Properties\<close>

subsection \<open>The two consoles agree\<close>

text \<open>
  The server's side of one query of the remote console over a stream that works: the messages
  it sends and its default storage and stores afterwards.
\<close>

definition fresh_stream :: console_stream where
  "fresh_stream = \<lparr>inbox = [], outbox = [], send_ok = \<lambda>_. True, sends = 0\<rparr>"

definition console_server :: "string \<Rightarrow> string \<times> 's storage_service
    \<Rightarrow> exchange \<times> (string \<times> 's storage_service)" where
  "console_server query v =
     (let (d, t) = v; (err, d, t, st) = console_request query d t fresh_stream; (e, st) = console_finish err st
      in (Exchanged (outbox st) (case e of None \<Rightarrow> StillOpen | Some e \<Rightarrow> RecvError e), (d, t)))"

lemma console_server_exchanged: "\<exists>msgs fin d1 t1. console_server query v = (Exchanged msgs fin, (d1, t1))"
  by (simp add: console_server_def split_beta Let_def)

text \<open>The queries that a console gets from the lines of its input.\<close>

function session_queries :: "string list \<Rightarrow> string list" where
  "session_queries ls =
     (case Prompt ls of
        None \<Rightarrow> []
      | Some (query, rest) \<Rightarrow> if query = ''exit'' then [] else query # session_queries rest)"
  by pat_completeness auto
termination
  by (relation "measure length") (auto dest: Prompt_shorter)

declare session_queries.simps [simp del]

lemma client_print_count: "snd (client_print msgs w) = length (filter (\<lambda>r. Status r = 100) msgs)"
  by (induction msgs arbitrary: w) (auto simp: split_beta Let_def)

lemma client_print_cout:
  "cout w = cout w' \<Longrightarrow> cout (fst (client_print msgs w)) = cout (fst (client_print msgs w'))"
proof (induction msgs arbitrary: w w')
  case (Cons m msgs)
  have eq: "cout (say s w) = cout (say s w')" "cout (complain s w) = cout (complain s w')" for s
    using Cons.prems by (simp_all add: say_def complain_def)
  show ?case
    using Cons.IH [OF Cons.prems] Cons.IH [OF eq(1)] Cons.IH [OF eq(2)] by (simp add: split_beta Let_def)
qed simp

lemma stream_Send_fresh:
  "send_ok st = (\<lambda>_. True) \<Longrightarrow>
   stream_Send rec st = (None, st\<lparr>outbox := outbox st @ [rec], sends := sends st + 1\<rparr>)"
  by (simp add: stream_Send_def)

lemma console_server_finish:
  assumes "console_request query d t fresh_stream = (err, d1, t1, st)" and "send_ok st = (\<lambda>_. True)"
  shows "console_server query (d, t) =
    (Exchanged (outbox st @ (case err of None \<Rightarrow> [] | Some e \<Rightarrow> [\<lparr>Status = 501, Content = ''internal error, '' @ error_text e\<rparr>]) @ [marker])
      StillOpen, (d1, t1))"
  using assms
  by (simp add: console_server_def console_finish_def stream_Send_fresh Let_def marker_def split: option.split)

lemma query_step_agree:
  assumes "\<not> HasPrefix query ''use ''" and "query \<noteq> ''''" and "query \<noteq> ''list''"
    and "console_server query (d, t) = (Exchanged msgs fin, (d1, t1))"
    and "local_request query d t w = (d2, t2, w2)"
  shows "fin = StillOpen \<and> d1 = d2 \<and> t1 = t2 \<and> (\<exists>w3. client_print msgs w = (w3, 1) \<and> cout w3 = cout w2)"
proof -
  define cb where "cb = (\<lambda>content st. let (e, st) = stream_Send \<lparr>Status = 200, Content = content\<rparr> st in (e = None, st))"
  obtain e1 u1 st where q1: "ExecuteQuery d query cb t fresh_stream = (e1, u1, st)"
    by (cases "ExecuteQuery d query cb t fresh_stream")
  obtain e2 u2 w' where q2: "ExecuteQuery d query (\<lambda>s w. (True, say (s @ nl) w)) t w = (e2, u2, w')"
    by (cases "ExecuteQuery d query (\<lambda>s w. (True, say (s @ nl) w)) t w")
  have "\<forall>n. send_ok fresh_stream n" by (simp add: fresh_stream_def)
  from query_same_output [OF this q1 [unfolded cb_def] q2]
  have eq: "e1 = e2" "u1 = u2" and so: "send_ok st = (\<lambda>_. True)"
    and pr: "client_print (outbox st) w = (w', 0)" by (auto simp: same_output_def fresh_stream_def)
  have "console_request query d t fresh_stream = (e1, d, u1, st)"
    using assms(1) q1 by (simp add: console_request_def cb_def)
  from console_server_finish [OF this so] assms(4)
  have m: "fin = StillOpen" "d1 = d" "t1 = u1" "msgs = outbox st @
      (case e1 of None \<Rightarrow> [] | Some e \<Rightarrow> [\<lparr>Status = 501, Content = ''internal error, '' @ error_text e\<rparr>]) @ [marker]"
    by auto
  have "d2 = d" "t2 = u2" "cout w2 = cout w'"
    using assms(1-3,5) q2 by (auto simp: local_request_def complain_def split: option.splits)
  with m eq pr show ?thesis
    by (auto simp: client_print_append marker_def complain_def split: option.split)
qed

lemma other_step_agree:
  assumes "HasPrefix query ''use '' \<or> query = ''list''"
    and "console_server query (d, t) = (Exchanged msgs fin, (d1, t1))"
    and "local_request query d t w = (d2, t2, w2)"
  shows "fin = StillOpen \<and> d1 = d2 \<and> t1 = t2 \<and> (\<exists>w3. client_print msgs w = (w3, 1))"
proof (cases "HasPrefix query ''use ''")
  case True
  then have ne: "query \<noteq> ''''" "query \<noteq> ''list''" by (auto simp: HasPrefix_def)
  show ?thesis
    using True ne assms(2,3)
    by (auto simp: console_server_def console_request_def local_request_def console_finish_def Let_def
        stream_Send_def fresh_stream_def split: option.splits)
next
  case False
  with assms(1) have q: "query = ''list''" by simp
  have "split_query ''list'' = (''list'', '''')" by code_simp
  then have "\<exists>e st. console_request query d t fresh_stream = (e, d, t, st) \<and> send_ok st = (\<lambda>_. True) \<and>
      (\<exists>w'. client_print (outbox st) w = (w', 0))"
    using False q
    by (cases "StoreMap t d")
      (auto simp: console_request_def ExecuteQuery_def answer_def Let_def stream_Send_def fresh_stream_def)
  then obtain e st w' where c: "console_request query d t fresh_stream = (e, d, t, st)" "send_ok st = (\<lambda>_. True)"
      "client_print (outbox st) w = (w', 0)" by blast
  from console_server_finish [OF c(1,2)] assms(2,3) q c(3) show ?thesis
    by (auto simp: local_request_def client_print_append marker_def split: option.split)
qed

lemma console_step_agree:
  assumes "query \<noteq> ''''" and "console_server query (d, t) = (Exchanged msgs fin, (d1, t1))"
    and "local_request query d t w = (d2, t2, w2)"
  shows "fin = StillOpen \<and> d1 = d2 \<and> t1 = t2 \<and> (\<exists>w3. client_print msgs w = (w3, 1) \<and>
    (\<not> HasPrefix query ''use '' \<and> query \<noteq> ''list'' \<longrightarrow> cout w3 = cout w2))"
  using query_step_agree [OF _ assms(1) _ assms(2,3)] other_step_agree [OF _ assms(2,3)] by blast

lemma consoles_loop:
  "case local_loop ls d t w of
     None \<Rightarrow> client_console console_server ls (d, t) w' = None
   | Some (t1, w1) \<Rightarrow> \<exists>d2 w2. client_console console_server ls (d, t) w' = Some (w2, (d2, t1)) \<and>
       (cout w = cout w' \<and> (\<forall>q \<in> set (session_queries ls). \<not> HasPrefix q ''use '' \<and> q \<noteq> ''list'') \<longrightarrow> cout w1 = cout w2)"
proof (induction "length ls" arbitrary: ls d t w w' rule: less_induct)
  case less
  show ?case
  proof (cases "Prompt ls")
    case None
    then show ?thesis by (simp add: local_loop.simps client_console.simps)
  next
    case (Some a)
    obtain q rest where p: "Prompt ls = Some (q, rest)" using Some by (cases a) auto
    note IH = less.hyps [OF Prompt_shorter [OF p]]
    consider "q = ''exit''" | "q = ''''" | "q \<noteq> ''exit''" "q \<noteq> ''''" by blast
    then show ?thesis
    proof cases
      case 1
      with p show ?thesis by (simp add: local_loop.simps client_console.simps)
    next
      case 2
      have "local_loop ls d t w = local_loop rest d t w"
        "client_console console_server ls (d, t) w' = client_console console_server rest (d, t) w'"
        "session_queries ls = q # session_queries rest"
        by (subst local_loop.simps, simp add: p 2 local_request_def)
          (subst client_console.simps session_queries.simps, simp add: p 2)+
      with IH [where d = d and t = t and w = w and w' = w'] 2 show ?thesis
        by (auto simp: HasPrefix_def split: option.splits)
    next
      case 3
      obtain msgs fin d1 t1 where s: "console_server q (d, t) = (Exchanged msgs fin, (d1, t1))"
        using console_server_exchanged by blast
      obtain d2 t2 w2 where l: "local_request q d t w = (d2, t2, w2)" by (metis prod_cases3)
      from console_step_agree [OF 3(2) s l] obtain w3 where a: "fin = StillOpen" "d1 = d2" "t1 = t2" "client_print msgs w = (w3, 1)"
          "\<not> HasPrefix q ''use '' \<and> q \<noteq> ''list'' \<longrightarrow> cout w3 = cout w2" by blast
      obtain w4 n where cp: "client_print msgs w' = (w4, n)" by (cases "client_print msgs w'")
      have ll: "local_loop ls d t w = local_loop rest d2 t2 w2"
        by (subst local_loop.simps) (simp add: p 3 l)
      have n: "n = 1" using client_print_count [of msgs w] client_print_count [of msgs w'] a(4) cp by simp
      have cc: "client_console console_server ls (d, t) w' = client_console console_server rest (d2, t2) w4"
        by (subst client_console.simps) (simp add: p 3 s a cp n Let_def)
      have sq: "session_queries ls = q # session_queries rest"
        by (subst session_queries.simps) (simp add: p 3)
      have "cout w = cout w' \<Longrightarrow> cout w4 = cout w3"
        using client_print_cout [of w w' msgs] a(4) cp by simp
      with IH [where d = d2 and t = t2 and w = w2 and w' = w4] a(5) show ?thesis
        unfolding ll cc sq by (auto split: option.splits)
    qed
  qed
qed



end
