(* ===== verification/Cmd_Config.thy ===== *)
theory Cmd_Config
  imports Control_Client
begin

text \<open>
  The commands of the command line that act on a node: \<open>sprintcmd/config_cmd.go\<close>,
  \<open>storage_cmd.go\<close>, \<open>certs_cmd.go\<close>, \<open>job_cmd.go\<close> and \<open>doInCore\<close> of \<open>utils.go\<close>. A command
  asks the running node first and, when the error it gets has the code \<open>Unavailable\<close>, opens
  the node's core itself.
\<close>

section \<open>The process of a command\<close>

text \<open>What it wrote (\<open>println\<close> writes to the standard error), and everything else.\<close>

record 'w cli =
  con :: console_output
  outer :: 'w

definition println :: "string \<Rightarrow> 'w cli \<Rightarrow> 'w cli" where
  "println m s = s\<lparr>con := complain (m @ nl) (con s)\<rparr>"

definition printf :: "string \<Rightarrow> 'w cli \<Rightarrow> 'w cli" where
  "printf m s = s\<lparr>con := say m (con s)\<rparr>"

definition on_outer :: "'w rpc \<Rightarrow> 'w cli rpc" where
  "on_outer rpc cmd args s = (let (r, w) = rpc cmd args (outer s) in (r, s\<lparr>outer := w\<rparr>))"

text \<open>
  \<open>sprint.DoWithControlClient\<close> is third-party code: it runs the callback with a client, or
  fails before it does. What the callback assigns to captured variables is its result.
\<close>

type_synonym ('a, 's) with_client = "(control_client \<Rightarrow> 's \<Rightarrow> 'a res \<times> 's) \<Rightarrow> 's \<Rightarrow> 'a res \<times> 's"

definition with_client_laws :: "('a, 's) with_client \<Rightarrow> bool" where
  "with_client_laws dwc \<longleftrightarrow> (\<forall>cb s. (\<exists>e. dwc cb s = (Inl e, s)) \<or> (\<exists>c. dwc cb s = cb c s))"

definition unavailable :: "'a res \<Rightarrow> bool" where
  "unavailable r = (case r of Inl e \<Rightarrow> is_unavailable e | Inr _ \<Rightarrow> False)"

section \<open>doInCore\<close>

text \<open>
  A child context with the core role: creating it, the injection of the command's bean (which
  gives the bean's state), and closing it.
\<close>

record ('b, 's) core_child =
  child_Object :: "'s \<Rightarrow> 'b res \<times> 's"
  child_Inject :: "'b \<Rightarrow> goerror option"
  child_Close :: "'b \<Rightarrow> 's \<Rightarrow> 's"

definition doInCore :: "('b, 's) core_child list \<Rightarrow> ('b \<Rightarrow> 's \<Rightarrow> 'a res outcome \<times> 'b \<times> 's) \<Rightarrow> 's
    \<Rightarrow> 'a res outcome \<times> 's" where
  "doInCore children cb s =
     (if length children \<noteq> 1 then
        (Ret (Inl (Errorf (''expected only one core child context, but found '' @ Itoa (int (length children))))), s)
      else (let child = hd children in
        case child_Object child s of
          (Inl e, s) \<Rightarrow> (Ret (Inl (Errorf (''failed to create core context, '' @ error_text e))), s)
        | (Inr core, s) \<Rightarrow>
            (case child_Inject child core of
               Some e \<Rightarrow> (Ret (Inl e), child_Close child core s)
             | None \<Rightarrow> (let (r, core, s) = cb core s in (r, child_Close child core s)))))"

text \<open>The error of a command and what a success prints.\<close>

definition finish :: "'a res outcome \<times> 'w cli \<Rightarrow> ('a \<Rightarrow> 'w cli \<Rightarrow> 'w cli) \<Rightarrow> goerror option outcome \<times> 'w cli" where
  "finish x f =
     (case x of
        (Panic m, s) \<Rightarrow> (Panic m, s)
      | (Ret (Inl e), s) \<Rightarrow> (Ret (Some e), s)
      | (Ret (Inr a), s) \<Rightarrow> (Ret None, f a s))"

section \<open>config\<close>

definition getFromStorage :: "('s config_repo, 'w cli) core_child list \<Rightarrow> string \<Rightarrow> 'w cli
    \<Rightarrow> string res outcome \<times> 'w cli" where
  "getFromStorage children key = doInCore children (\<lambda>cr s. (cfg_Get cr key, cr, s))"

definition setInStorage :: "('s config_repo, 'w cli) core_child list \<Rightarrow> string \<Rightarrow> string \<Rightarrow> 'w cli
    \<Rightarrow> unit res outcome \<times> 'w cli" where
  "setInStorage children key value =
     doInCore children (\<lambda>cr s.
       (case cfg_put key value cr of
          (Panic m, cr) \<Rightarrow> (Panic m, cr, s)
        | (Ret (Some e), cr) \<Rightarrow> (Ret (Inl e), cr, s)
        | (Ret None, cr) \<Rightarrow> (Ret (Inr ()), cr, s)))"

definition getConfig :: "(string, 'w cli) with_client \<Rightarrow> 'w rpc \<Rightarrow> ('s config_repo, 'w cli) core_child list
    \<Rightarrow> string list \<Rightarrow> 'w cli \<Rightarrow> goerror option outcome \<times> 'w cli" where
  "getConfig dwc rpc children args s =
     (case args of
        [] \<Rightarrow> (Ret (Some (Errorf ''config get command expected key argument'')), s)
      | key # _ \<Rightarrow>
          (let (r, s) = dwc (\<lambda>client. cc_ConfigCommand client (on_outer rpc) ''get'' [key]) s
           in finish (if unavailable r then getFromStorage children key s else (Ret r, s)) println))"

definition os_ReadFile :: "os_world \<Rightarrow> string \<Rightarrow> bytes res" where
  "os_ReadFile w p = (case os_Open w p of Some e \<Rightarrow> Inl e | None \<Rightarrow> os_Read w p)"

text \<open>
  The value to set: an argument, or what is typed at the prompt its key calls for (\<open>None\<close>
  while the prompt waits), or the content of a file named after \<open>@\<close>. \<open>ls\<close> and \<open>typed\<close> are
  the input for the prompts.
\<close>

definition prompt_value :: "string list \<Rightarrow> string + string \<Rightarrow> string \<Rightarrow> string list \<Rightarrow> string res option" where
  "prompt_value ls typed key args =
     (case args of
        value # _ \<Rightarrow> Some (Inr value)
      | [] \<Rightarrow>
          if IsPEMProperty key then map_option fst (PromptPEM ls)
          else if IsPasswordProperty key then Some (Inr (PromptPassword typed))
          else map_option (\<lambda>(v, rest). Inr v) (Prompt ls))"

definition file_value :: "os_world \<Rightarrow> string \<Rightarrow> string res" where
  "file_value ow value =
     (if HasPrefix value ''@'' then
        (case os_ReadFile ow (drop 1 value) of
           Inl e \<Rightarrow> Inl (Errorf (''i/o error on reading value from file '' @ drop 1 value @ '', '' @ error_text e))
         | Inr binVal \<Rightarrow> Inr binVal)
      else Inr value)"

definition drop_content :: "'a res \<times> 's \<Rightarrow> unit res \<times> 's" where
  "drop_content x = (case x of (Inl e, s) \<Rightarrow> (Inl e, s) | (Inr _, s) \<Rightarrow> (Inr (), s))"

definition store_value :: "(unit, 'w cli) with_client \<Rightarrow> 'w rpc \<Rightarrow> ('s config_repo, 'w cli) core_child list
    \<Rightarrow> string \<Rightarrow> string \<Rightarrow> 'w cli \<Rightarrow> goerror option outcome \<times> 'w cli" where
  "store_value dwc rpc children key value s =
     (let (r, s) = dwc (\<lambda>client s. drop_content (cc_ConfigCommand client (on_outer rpc) ''set'' [key, value] s)) s
      in finish
           (case r of
              Inl e \<Rightarrow>
                if is_unavailable e
                then setInStorage children key value (printf (''Error on gRPC: '' @ error_text e @ nl) s)
                else (Ret r, s)
            | Inr _ \<Rightarrow> (Ret r, s))
           (\<lambda>_. println ''SUCCESS''))"

definition setConfig :: "(unit, 'w cli) with_client \<Rightarrow> 'w rpc \<Rightarrow> ('s config_repo, 'w cli) core_child list
    \<Rightarrow> os_world \<Rightarrow> string list \<Rightarrow> string + string \<Rightarrow> string list \<Rightarrow> 'w cli
    \<Rightarrow> (goerror option outcome \<times> 'w cli) option" where
  "setConfig dwc rpc children ow ls typed args s =
     (case args of
        [] \<Rightarrow> Some (Ret (Some (Errorf ''config set command expected key argument'')), s)
      | key # args \<Rightarrow>
          (case prompt_value ls typed key args of
             None \<Rightarrow> None
           | Some (Inl e) \<Rightarrow> Some (Ret (Some e), s)
           | Some (Inr value) \<Rightarrow>
               (case file_value ow value of
                  Inl e \<Rightarrow> Some (Ret (Some e), s)
                | Inr value \<Rightarrow> Some (store_value dwc rpc children key value s))))"

text \<open>A local dump masks nothing; a slice with a negative limit panics.\<close>

definition MaxInt64 :: int where "MaxInt64 = 2 ^ 63 - 1"

definition dump_args :: "string \<Rightarrow> string list \<Rightarrow> string \<times> int res" where
  "dump_args cmd args =
     (let pre = (case args of [] \<Rightarrow> '''' | p # _ \<Rightarrow> p)
      in (pre, case tl args of
                 [] \<Rightarrow> Inr (if cmd = ''list'' then 80 else MaxInt64)
               | a # _ \<Rightarrow> (case Atoi a of
                             Inl e \<Rightarrow> Inl (Errorf (''parsing limit '' @ a @ '', '' @ error_text e))
                           | Inr limit \<Rightarrow> Inr limit)))"

text \<open>Entries are written as they come: after an error or a panic, those before it are out.\<close>

definition dumpFromStorage :: "('s config_repo, 'w cli) core_child list \<Rightarrow> string \<Rightarrow> string list \<Rightarrow> 'w cli
    \<Rightarrow> goerror option outcome \<times> 'w cli" where
  "dumpFromStorage children cmd args s =
     (case dump_args cmd args of
        (pre, Inl e) \<Rightarrow> (Ret (Some e), s)
      | (pre, Inr limit) \<Rightarrow>
          finish (doInCore children (\<lambda>cr s.
            (case cfg_EnumerateAll cr pre
                    (\<lambda>k v (s, p). case shorten limit v of
                       Panic m \<Rightarrow> (False, s, Some m)
                     | Ret v \<Rightarrow> (True, printf (entry_line k v) s, p)) (s, None) of
               Panic m \<Rightarrow> (Panic m, cr, s)
             | Ret (err, s, Some m) \<Rightarrow> (Panic m, cr, s)
             | Ret (Some e, s, None) \<Rightarrow> (Ret (Inl e), cr, s)
             | Ret (None, s, None) \<Rightarrow> (Ret (Inr ()), cr, s))) s) (\<lambda>_ s. s))"

definition print_content :: "string res \<times> 'w cli \<Rightarrow> unit res \<times> 'w cli" where
  "print_content x = (case x of (Inl e, s) \<Rightarrow> (Inl e, s) | (Inr content, s) \<Rightarrow> (Inr (), println content s))"

definition dumpConfig :: "(unit, 'w cli) with_client \<Rightarrow> 'w rpc \<Rightarrow> ('s config_repo, 'w cli) core_child list
    \<Rightarrow> string \<Rightarrow> string list \<Rightarrow> 'w cli \<Rightarrow> goerror option outcome \<times> 'w cli" where
  "dumpConfig dwc rpc children cmd args s =
     (let (r, s) = dwc (\<lambda>client s. print_content (cc_ConfigCommand client (on_outer rpc) cmd args s)) s
      in if unavailable r then dumpFromStorage children cmd args s
         else finish (Ret r, s) (\<lambda>_ s. s))"

definition config_Run :: "(string, 'w cli) with_client \<Rightarrow> (unit, 'w cli) with_client \<Rightarrow> 'w rpc
    \<Rightarrow> ('s config_repo, 'w cli) core_child list \<Rightarrow> os_world \<Rightarrow> string list \<Rightarrow> string + string
    \<Rightarrow> string list \<Rightarrow> 'w cli \<Rightarrow> (goerror option outcome \<times> 'w cli) option" where
  "config_Run dwc dwc' rpc children ow ls typed args s =
     (case args of
        [] \<Rightarrow> Some (Ret (Some (Errorf ''config command needs argument, config commands: [get, set, dump, list]'')), s)
      | cmd # args \<Rightarrow>
          if cmd = ''get'' then Some (getConfig dwc rpc children args s)
          else if cmd = ''set'' then setConfig dwc' rpc children ow ls typed args s
          else if cmd = ''dump'' \<or> cmd = ''list'' then Some (dumpConfig dwc' rpc children cmd args s)
          else Some (Ret (Some (Errorf (''unknown sub-command for config '' @ cmd))), s))"

section \<open>storage\<close>

text \<open>
  The remote console of a command: the error of opening the stream, or the console's run, and
  whether it ended (it may still wait for input).
\<close>

definition cc_StorageConsole :: "control_client \<Rightarrow> goerror option
    \<Rightarrow> (string \<Rightarrow> 'w \<Rightarrow> exchange \<times> 'w) \<Rightarrow> string list \<Rightarrow> 'w cli \<Rightarrow> bool res \<times> 'w cli" where
  "cc_StorageConsole client openErr serve ls s =
     (case openErr of
        Some e \<Rightarrow> (Inl (wrapError client e), s)
      | None \<Rightarrow>
          (case client_console serve ls (outer s) (con s) of
             None \<Rightarrow> (Inr False, s)
           | Some (c, w) \<Rightarrow> (Inr True, s\<lparr>con := c, outer := w\<rparr>)))"

definition storage_remote :: "'w rpc \<Rightarrow> goerror option
    \<Rightarrow> (string \<Rightarrow> 'w \<Rightarrow> exchange \<times> 'w) \<Rightarrow> string list \<Rightarrow> string \<Rightarrow> string list
    \<Rightarrow> control_client \<Rightarrow> 'w cli \<Rightarrow> bool res \<times> 'w cli" where
  "storage_remote rpc openErr serve ls cmd args client s =
     (if cmd = ''console'' then cc_StorageConsole client openErr serve ls s
      else case cc_StorageCommand client (on_outer rpc) cmd args s of
             (Inl e, s) \<Rightarrow> (Inl e, s)
           | (Inr output, s) \<Rightarrow> (Inr True, println output s))"

definition storage_local :: "(string \<Rightarrow> float64 res) \<Rightarrow> string list \<Rightarrow> string \<Rightarrow> string list
    \<Rightarrow> 's storage_world \<Rightarrow> 'w cli \<Rightarrow> bool res outcome \<times> 's storage_world \<times> 'w cli" where
  "storage_local pf ls cmd args w s =
     (if cmd = ''console'' then
        (case LocalConsole ls (svc w) (con s) of
           None \<Rightarrow> (Ret (Inr False), w, s)
         | Some (t, c) \<Rightarrow> (Ret (Inr True), w\<lparr>svc := t\<rparr>, s\<lparr>con := c\<rparr>))
      else case storage_ExecuteCommand pf cmd args w of
             (Inl e, w) \<Rightarrow> (Ret (Inl e), w, s)
           | (Inr content, w) \<Rightarrow> (Ret (Inr True), w, println content s))"

definition storage_Run :: "(string \<Rightarrow> float64 res) \<Rightarrow> (bool, 'w cli) with_client \<Rightarrow> 'w rpc \<Rightarrow> goerror option
    \<Rightarrow> (string \<Rightarrow> 'w \<Rightarrow> exchange \<times> 'w) \<Rightarrow> ('s storage_world, 'w cli) core_child list
    \<Rightarrow> string list \<Rightarrow> string list \<Rightarrow> 'w cli \<Rightarrow> (goerror option outcome \<times> 'w cli) option" where
  "storage_Run pf dwc rpc openErr serve children ls args s =
     (case args of
        [] \<Rightarrow> Some (Ret (Some (Errorf ''storage needs command'')), s)
      | cmd # args \<Rightarrow>
          (case dwc (storage_remote rpc openErr serve ls cmd args) s of
             (Inr ended, s) \<Rightarrow> if ended then Some (Ret None, s) else None
           | (Inl e, s) \<Rightarrow>
               if \<not> is_unavailable e then Some (Ret (Some e), s)
               else (case doInCore children (storage_local pf ls cmd args) s of
                       (Ret (Inr False), s) \<Rightarrow> None
                     | x \<Rightarrow> Some (finish x (\<lambda>_ s. s)))))"

section \<open>certs and jobs\<close>

text \<open>The bean of \<open>certs\<close> has the optional certificate service, with its state.\<close>

definition certs_Run :: "(unit, 'w cli) with_client \<Rightarrow> 'w rpc \<Rightarrow> ('x cert_exec option \<times> 'x, 'w cli) core_child list
    \<Rightarrow> string list \<Rightarrow> 'w cli \<Rightarrow> goerror option outcome \<times> 'w cli" where
  "certs_Run dwc rpc children args s =
     (case args of
        [] \<Rightarrow> (Ret (Some (Errorf ''cert command needs argument'')), s)
      | cmd # args \<Rightarrow>
          (case dwc (\<lambda>client s. print_content (cc_CertificateCommand client (on_outer rpc) cmd args s)) s of
             (Inr _, s) \<Rightarrow> (Ret None, s)
           | (Inl e, s) \<Rightarrow>
               if \<not> is_unavailable e then (Ret (Some e), s)
               else if cmd = ''manager'' then
                 (Ret (Some (Errorf ''cert manager command available only on running server'')), s)
               else finish (doInCore children (\<lambda>(certs, x) s.
                      (case certs of
                         Some exec \<Rightarrow>
                           (case exec cmd args x of
                              (Panic m, x) \<Rightarrow> (Panic m, (certs, x), s)
                            | (Ret (Inl e), x) \<Rightarrow> (Ret (Inl e), (certs, x), s)
                            | (Ret (Inr content), x) \<Rightarrow> (Ret (Inr ()), (certs, x), println content s))
                       | None \<Rightarrow>
                           (Ret (Inr ()), (certs, x),
                            println ''Error: cert.CertificateService not found in core context'' s))) s) (\<lambda>_ s. s)))"

definition jobs_Run :: "(unit, 'w cli) with_client \<Rightarrow> 'w rpc \<Rightarrow> string list \<Rightarrow> 'w cli
    \<Rightarrow> goerror option outcome \<times> 'w cli" where
  "jobs_Run dwc rpc args s =
     (case args of
        [] \<Rightarrow> (Ret (Some (Errorf ''job command needs argument'')), s)
      | command # args \<Rightarrow>
          (let (r, s) = dwc (\<lambda>client s. print_content (cc_JobCommand client (on_outer rpc) command args s)) s
           in finish (Ret r, s) (\<lambda>_ s. s)))"

section \<open>Lemmas\<close>

lemma finish_ok: "finish x f = (Ret None, s') \<Longrightarrow> \<exists>a s. x = (Ret (Inr a), s) \<and> s' = f a s"
  by (auto simp: finish_def split: prod.splits outcome.splits sum.splits)

lemma doInCore_one:
  assumes "child_Object child s = (Inr core, s1)" and "child_Inject child core = None"
  shows "doInCore [child] cb s = (let (r, core, s) = cb core s1 in (r, child_Close child core s))"
  using assms by (simp add: doInCore_def)

lemma doInCore_ok:
  assumes "doInCore children cb s = (Ret (Inr a), s')"
  shows "\<exists>child core s1 core' s2. children = [child] \<and> child_Object child s = (Inr core, s1) \<and>
    child_Inject child core = None \<and> cb core s1 = (Ret (Inr a), core', s2) \<and> s' = child_Close child core' s2"
proof -
  have one: "length children = 1" using assms by (auto simp: doInCore_def split: if_splits)
  then obtain child where c: "children = [child]" by (auto simp: length_Suc_conv)
  with assms show ?thesis
    by (auto simp: doInCore_def split: prod.splits sum.splits option.splits)
qed

text \<open>
  A core whose repository keeps its properties from one opening to the next: closing a core
  that works on the same kind of store leaves what the next opening finds.
\<close>

definition same_ops :: "'s config_repo \<Rightarrow> 's config_repo \<Rightarrow> bool" where
  "same_ops a b \<longleftrightarrow> map_option ops (Store a) = map_option ops (Store b)"

definition repo_child_laws :: "('s config_repo, 'w cli) core_child \<Rightarrow> bool" where
  "repo_child_laws child \<longleftrightarrow>
     (\<forall>s cr s1. child_Object child s = (Inr cr, s1) \<longrightarrow> cfg_inv cr) \<and>
     (\<forall>s0 cr0 t0 cr s c cr' s1.
        child_Object child s0 = (Inr cr0, t0) \<longrightarrow> same_ops cr cr0 \<longrightarrow>
        child_Object child ((child_Close child cr s)\<lparr>con := c\<rparr>) = (Inr cr', s1) \<longrightarrow> cfg_view cr' = cfg_view cr)"

lemma repo_child_inv: "repo_child_laws child \<Longrightarrow> child_Object child s = (Inr cr, s1) \<Longrightarrow> cfg_inv cr"
  unfolding repo_child_laws_def by blast

lemma repo_child_reopen: "repo_child_laws child \<Longrightarrow> child_Object child s0 = (Inr cr0, t0) \<Longrightarrow> same_ops cr cr0 \<Longrightarrow>
  child_Object child ((child_Close child cr s)\<lparr>con := c\<rparr>) = (Inr cr', s1) \<Longrightarrow> cfg_view cr' = cfg_view cr"
  unfolding repo_child_laws_def by blast

lemma cfg_put_ops: "cfg_put k v cr = (r, cr') \<Longrightarrow> same_ops cr' cr"
  by (auto simp: cfg_put_doSet cfg_doSet_def same_ops_def split: option.splits prod.splits dest: ds_update_ops)

text \<open>A core over an in-memory store that the process keeps, for witnesses.\<close>

definition mem_child :: "((bytes \<times> bytes) list config_repo, (bytes \<times> bytes) list cli) core_child" where
  "mem_child =
     \<lparr>child_Object = (\<lambda>s. (Inr (ConfigRepository 0 (Some \<lparr>ops = mem_ops, state = outer s\<rparr>)), s)),
      child_Inject = (\<lambda>_. None),
      child_Close = (\<lambda>cr s. s\<lparr>outer := (case Store cr of Some d \<Rightarrow> state d | None \<Rightarrow> [])\<rparr>)\<rparr>"

lemma mem_child_laws: "repo_child_laws mem_child"
  by (auto simp: repo_child_laws_def mem_child_def cfg_inv_def ConfigRepository_def mem_ops_laws
      same_ops_def cfg_view_def fun_eq_iff contents_def)

text \<open>What a successful local set leaves: the core that is opened next has the value.\<close>

lemma setInStorage_view:
  assumes "repo_child_laws child" and "setInStorage [child] key value s = (Ret (Inr ()), s')"
    and "child_Object child (s'\<lparr>con := c\<rparr>) = (Inr cr, s1)"
  shows "cfg_inv cr \<and> cfg_view cr key = as_entry value"
proof -
  from doInCore_ok [OF assms(2) [unfolded setInStorage_def]] obtain core t1 core' t2 where
      o: "child_Object child s = (Inr core, t1)" and s': "s' = child_Close child core' t2"
      and cb: "(case cfg_put key value core of
          (Panic m, cr) \<Rightarrow> (Panic m, cr, t1)
        | (Ret (Some e), cr) \<Rightarrow> (Ret (Inl e), cr, t1)
        | (Ret None, cr) \<Rightarrow> (Ret (Inr ()), cr, t1)) = (Ret (Inr ()), core', t2)" by auto
  from cb have p: "cfg_put key value core = (Ret None, core')"
    by (auto split: prod.splits outcome.splits option.splits)
  have "cfg_inv core" using assms(1) o by (rule repo_child_inv)
  from cfgr.put_ok [OF this p] have "cfg_view core' key = as_entry value" by simp
  moreover have "cfg_view cr = cfg_view core'" "cfg_inv cr"
    using repo_child_reopen [OF assms(1) o cfg_put_ops [OF p]] repo_child_inv [OF assms(1)] assms(3) s' by blast+
  ultimately show ?thesis by simp
qed

lemma getFromStorage_view:
  assumes "getFromStorage [child] key s = (Ret (Inr v), s')" and "repo_child_laws child"
  shows "\<exists>cr s1. child_Object child s = (Inr cr, s1) \<and> v = value_or_empty (cfg_view cr key)"
proof -
  from doInCore_ok [OF assms(1) [unfolded getFromStorage_def]] obtain core t1 where
      o: "child_Object child s = (Inr core, t1)" and g: "cfg_Get core key = Ret (Inr v)" by auto
  moreover have "cfg_inv core" using assms(2) o by (rule repo_child_inv)
  ultimately show ?thesis using cfgr.get_view by blast
qed

section \<open>Properties\<close>

text \<open>A client that is connected, and one that cannot be had.\<close>

definition connected :: "control_client \<Rightarrow> ('a, 's) with_client" where
  "connected client cb s = cb client s"

definition unreachable :: "goerror \<Rightarrow> ('a, 's) with_client" where
  "unreachable e cb s = (Inl e, s)"

lemma with_client_instances: "with_client_laws (connected client)" "with_client_laws (unreachable e)"
  by (auto simp: with_client_laws_def connected_def unreachable_def)

lemma config_set_eq:
  assumes "\<not> HasPrefix val ''@''"
  shows "config_Run dwc dwc' rpc children ow ls typed [''set'', key, val] s = Some (store_value dwc' rpc children key val s)"
  using assms by (simp add: config_Run_def setConfig_def prompt_value_def file_value_def)

lemma config_get_eq:
  "config_Run dwc dwc' rpc children ow ls typed [''get'', key] s = Some (getConfig dwc rpc children [key] s)"
  by (simp add: config_Run_def)

lemma store_value_fallback:
  assumes "dwc (\<lambda>client s. drop_content (cc_ConfigCommand client (on_outer rpc) ''set'' [key, val] s)) s = (Inl e, s1)"
    and "is_unavailable e" and "repo_child_laws child"
    and "store_value dwc rpc [child] key val s = (Ret None, s')"
    and "child_Object child (s'\<lparr>con := c\<rparr>) = (Inr cr, s2)"
  shows "cfg_inv cr \<and> cfg_view cr key = as_entry val"
proof -
  from assms(1,2,4) have "finish (setInStorage [child] key val (printf (''Error on gRPC: '' @ error_text e @ nl) s1))
      (\<lambda>_. println ''SUCCESS'') = (Ret None, s')"
    by (simp add: store_value_def)
  from finish_ok [OF this] obtain s3 where
      "setInStorage [child] key val (printf (''Error on gRPC: '' @ error_text e @ nl) s1) = (Ret (Inr ()), s3)"
      and s': "s' = println ''SUCCESS'' s3" by auto
  from setInStorage_view [OF assms(3) this(1), of c cr s2] assms(5) s' show ?thesis
    by (simp add: println_def)
qed

text \<open>
  C28: when the server that the command reaches refuses a set of a property, for whatever
  reason (the wrong role, say), the command does not report the refusal: it writes the
  property to the local core, and if it reports success the core that is opened next has the
  value. So too the get: every refusal is answered from the local core.
\<close>

theorem fallback_after_refusal:
  assumes "\<not> HasPrefix val ''@''" and "rpc ''set'' [key, val] (outer s) = (Inl e, w)"
    and "rpc ''get'' [key] (outer s) = (Inl e', w')" and "repo_child_laws child"
  shows "config_Run dwc (connected client) rpc children ow ls typed [''set'', key, val] s =
      Some (finish (setInStorage children key val
        (printf (''Error on gRPC: '' @ error_text (wrapError client e) @ nl) (s\<lparr>outer := w\<rparr>))) (\<lambda>_. println ''SUCCESS'')) \<and>
    (\<forall>s1 c cr s2. config_Run dwc (connected client) rpc [child] ow ls typed [''set'', key, val] s = Some (Ret None, s1) \<and>
      child_Object child (s1\<lparr>con := c\<rparr>) = (Inr cr, s2) \<longrightarrow> cfg_view cr key = as_entry val) \<and>
    config_Run (connected client) dwc' rpc children ow ls typed [''get'', key] s =
      Some (finish (getFromStorage children key (s\<lparr>outer := w'\<rparr>)) println)"
proof -
  let ?cb = "\<lambda>client s. drop_content (cc_ConfigCommand client (on_outer rpc) ''set'' [key, val] s)"
  have un: "is_unavailable (wrapError client x)" for x by (simp add: wrapError_def is_unavailable_def)
  have c: "connected client ?cb s = (Inl (wrapError client e), s\<lparr>outer := w\<rparr>)"
    using assms(2) by (simp add: connected_def cc_ConfigCommand_def invoke_def on_outer_def drop_content_def)
  have one: "config_Run dwc (connected client) rpc children ow ls typed [''set'', key, val] s =
      Some (finish (setInStorage children key val
        (printf (''Error on gRPC: '' @ error_text (wrapError client e) @ nl) (s\<lparr>outer := w\<rparr>))) (\<lambda>_. println ''SUCCESS''))"
    unfolding config_set_eq [OF assms(1)] store_value_def c by (simp add: un)
  have two: "cfg_view cr key = as_entry val"
    if "config_Run dwc (connected client) rpc [child] ow ls typed [''set'', key, val] s = Some (Ret None, s1)"
      and "child_Object child (s1\<lparr>con := co\<rparr>) = (Inr cr, s2)" for s1 co cr s2
    using store_value_fallback [where dwc = "connected client" and s = s and rpc = rpc and key = key and val = val
        and s' = s1 and c = co, OF c un assms(4) _ that(2)] that(1) by (simp add: config_set_eq [OF assms(1)])
  have three: "config_Run (connected client) dwc' rpc children ow ls typed [''get'', key] s =
      Some (finish (getFromStorage children key (s\<lparr>outer := w'\<rparr>)) println)"
    using assms(3) un unfolding config_get_eq
    by (simp add: getConfig_def connected_def cc_ConfigCommand_def invoke_def on_outer_def unavailable_def)
  from one two three show ?thesis by blast
qed

definition sample_client :: control_client where
  "sample_client = \<lparr>cc_transport = Tls, cc_target = ''127.0.0.1:8441'', cc_has_conn = True, cc_closeOnce = False\<rparr>"

definition refusing :: "'w rpc" where
  "refusing cmd args w = (Inl ErrAuthWrongRole, w)"

definition sample_cli :: "(bytes \<times> bytes) list cli" where
  "sample_cli = \<lparr>con = \<lparr>cout = '''', cerr = ''''\<rparr>, outer = []\<rparr>"

definition empty_os :: os_world where
  "empty_os = \<lparr>fs = Map.empty, umask = 0, deny = \<lambda>_. None\<rparr>"

lemma mem_child_set:
  "setInStorage [mem_child] ''a'' ''1'' s =
     (Ret (Inr ()), s\<lparr>outer := AList.update (bucket_key ''a'') ''1'' (outer s)\<rparr>)"
  by (simp add: setInStorage_def doInCore_def mem_child_def cfg_put_doSet cfg_doSet_def ConfigRepository_def
      ds_update_def mem_ops_def)

theorem fallback_after_refusal_witness:
  "\<exists>s1. config_Run (connected sample_client) (connected sample_client) refusing [mem_child] empty_os [] (Inl '''')
     [''set'', ''a'', ''1''] sample_cli = Some (Ret None, s1) \<and> outer s1 = [(bucket_key ''a'', ''1'')]"
proof -
  have v: "\<not> HasPrefix ''1'' ''@''" by code_simp
  have r: "refusing ''set'' [''a'', ''1''] (outer sample_cli) = (Inl ErrAuthWrongRole, outer sample_cli)"
    "refusing ''get'' [''a''] (outer sample_cli) = (Inl ErrAuthWrongRole, outer sample_cli)"
    by (simp_all add: refusing_def)
  note f = fallback_after_refusal [where val = "''1''" and rpc = refusing and key = "''a''" and s = sample_cli
      and client = sample_client and children = "[mem_child]" and ow = empty_os and ls = "[]" and typed = "Inl ''''"
      and dwc = "connected sample_client", OF v r mem_child_laws]
  from f [THEN conjunct1] show ?thesis
    unfolding mem_child_set finish_def by (simp add: println_def printf_def sample_cli_def)
qed

text \<open>
  C30: on a node that does not run, a \<open>config set\<close> that reports success followed by a
  \<open>config get\<close> of the same key that does prints the value, to the letter.
\<close>

theorem local_set_get:
  assumes "is_unavailable e" and "repo_child_laws child" and "\<not> HasPrefix val ''@''"
    and "config_Run (unreachable e) (unreachable e) rpc [child] ow ls typed [''set'', key, val] s = Some (Ret None, s1)"
    and "config_Run (unreachable e) (unreachable e) rpc [child] ow ls typed [''get'', key] s1 = Some (Ret None, s2)"
  shows "\<exists>s3. s2 = println val s3"
proof -
  have u: "unreachable e (\<lambda>client s. drop_content (cc_ConfigCommand client (on_outer rpc) ''set'' [key, val] s)) s = (Inl e, s)"
    by (simp add: unreachable_def)
  have st: "store_value (unreachable e) rpc [child] key val s = (Ret None, s1)"
    using assms(4) by (simp add: config_set_eq [OF assms(3)])
  have "finish (getFromStorage [child] key s1) println = (Ret None, s2)"
    using assms(1,5) by (simp add: config_get_eq getConfig_def unreachable_def unavailable_def)
  from finish_ok [OF this] obtain v s3 where g: "getFromStorage [child] key s1 = (Ret (Inr v), s3)" "s2 = println v s3" by blast
  from getFromStorage_view [OF g(1) assms(2)] obtain cr s4 where
      o: "child_Object child s1 = (Inr cr, s4)" "v = value_or_empty (cfg_view cr key)" by blast
  from store_value_fallback [where dwc = "unreachable e" and s = s and rpc = rpc and key = key and val = val
      and s' = s1 and c = "con s1" and cr = cr, OF u assms(1,2) st] o g(2) show ?thesis by auto
qed

theorem local_set_get_witness:
  "\<exists>s1 s2 s3. config_Run (unreachable (StatusErr Unavailable ''down'')) (unreachable (StatusErr Unavailable ''down'')) refusing
       [mem_child] empty_os [] (Inl '''') [''set'', ''a'', ''1''] sample_cli = Some (Ret None, s1) \<and>
     config_Run (unreachable (StatusErr Unavailable ''down'')) (unreachable (StatusErr Unavailable ''down'')) refusing
       [mem_child] empty_os [] (Inl '''') [''get'', ''a''] s1 = Some (Ret None, s2) \<and> s2 = println ''1'' s3"
proof -
  let ?e = "StatusErr Unavailable ''down''"
  have u: "is_unavailable ?e" by (simp add: is_unavailable_def)
  have v: "\<not> HasPrefix ''1'' ''@''" by code_simp
  obtain s1 where s: "config_Run (unreachable ?e) (unreachable ?e) refusing [mem_child] empty_os [] (Inl '''')
      [''set'', ''a'', ''1''] sample_cli = Some (Ret None, s1)" "outer s1 = [(bucket_key ''a'', ''1'')]"
    unfolding config_set_eq [OF v] store_value_def
    by (simp add: unreachable_def u mem_child_set finish_def println_def printf_def sample_cli_def)
  have "\<exists>w s. getFromStorage [mem_child] ''a'' s1 = (Ret (Inr w), s)"
    using s(2) by (simp add: getFromStorage_def doInCore_def mem_child_def cfg_Get_def ds_get_def mem_ops_def ConfigRepository_def)
  then obtain w s where "getFromStorage [mem_child] ''a'' s1 = (Ret (Inr w), s)" by blast
  then have g: "config_Run (unreachable ?e) (unreachable ?e) refusing [mem_child] empty_os [] (Inl '''') [''get'', ''a''] s1 =
      Some (Ret None, println w s)"
    by (simp add: config_get_eq getConfig_def unreachable_def unavailable_def u finish_def)
  from local_set_get [OF u mem_child_laws v s(1) g] s(1) g show ?thesis by metis
qed

end
