(* ===== verification/Factories.thy ===== *)
theory Factories
  imports Utils_Files Utils_Tokens App_Property Paths
begin

text \<open>
  The factories of \<open>sprintcore\<close> that prepare directories and files before they hand over to
  a third-party constructor: the badger, bolt, bbolt and cache stores, the rotating log file
  and the logger. A third-party constructor (\<open>new\<close>) is a parameter. \<open>PanicToError\<close> around
  the bodies catches panics of those constructors.
\<close>

section \<open>Directories\<close>

text \<open>What the factories get injected of the application and its flags.\<close>

record app_info =
  ai_home :: string
  ai_name :: string
  ai_node :: int
  ai_daemon :: bool
  ai_dev :: bool

definition getNodeName :: "app_info \<Rightarrow> string" where
  "getNodeName a = AppendNodeSequence (ai_name a) (ai_node a)"

text \<open>The data directory: the configured one, or \<open>db/<node name>\<close> below the home.\<close>

definition data_dir :: "app_info \<Rightarrow> string \<Rightarrow> file_mode \<Rightarrow> os_world \<Rightarrow> string res \<times> os_world" where
  "data_dir a dataDir perm w =
     (let create = (\<lambda>d w. case CreateDirIfNeeded d perm w of (Some e, w) \<Rightarrow> (Inl e, w) | (None, w) \<Rightarrow> (Inr d, w))
      in if dataDir = '''' then
           (let d = path_Join [ai_home a, ''db'']
            in case create d w of
                 (Inl e, w) \<Rightarrow> (Inl e, w)
               | (Inr _, w) \<Rightarrow> create (path_Join [d, getNodeName a]) w)
         else create dataDir w)"

text \<open>The log directory and file: \<open><dir>/<node name>/<application>.log\<close>.\<close>

definition log_file :: "app_info \<Rightarrow> string \<Rightarrow> file_mode \<Rightarrow> file_mode \<Rightarrow> os_world \<Rightarrow> string res \<times> os_world" where
  "log_file a logDir dirPerm filePerm w =
     (let d = (if logDir = '''' then path_Join [ai_home a, ''log''] else logDir)
      in case CreateDirIfNeeded d dirPerm w of
           (Some e, w) \<Rightarrow> (Inl e, w)
         | (None, w) \<Rightarrow>
             (let d = path_Join [d, getNodeName a]
              in case CreateDirIfNeeded d dirPerm w of
                   (Some e, w) \<Rightarrow> (Inl e, w)
                 | (None, w) \<Rightarrow>
                     (let f = path_Join [d, ai_name a @ ''.log'']
                      in case CreateFileIfNeeded f filePerm w of
                           (Some e, w) \<Rightarrow> (Inl e, w)
                         | (None, w) \<Rightarrow> (Inr f, w))))"

section \<open>Stores\<close>

definition call_new :: "(os_world \<Rightarrow> 'o res outcome \<times> os_world) \<Rightarrow> os_world \<Rightarrow> 'o res \<times> os_world" where
  "call_new new w = (let (r, w) = new w in (PanicToError r, w))"

definition bolt_Object ::
    "(string \<Rightarrow> string \<Rightarrow> file_mode \<Rightarrow> os_world \<Rightarrow> 'o res outcome \<times> os_world) \<Rightarrow> app_info \<Rightarrow> string \<Rightarrow> string
     \<Rightarrow> file_mode \<Rightarrow> file_mode \<Rightarrow> os_world \<Rightarrow> 'o res \<times> os_world" where
  "bolt_Object new a beanName dataDir dirPerm filePerm w =
     (case data_dir a dataDir dirPerm w of
        (Inl e, w) \<Rightarrow> (Inl e, w)
      | (Inr d, w) \<Rightarrow> call_new (new beanName (path_Join [d, beanName @ ''.db'']) filePerm) w)"

definition bbolt_Object ::
    "(string \<Rightarrow> string \<Rightarrow> file_mode \<Rightarrow> os_world \<Rightarrow> 'o res outcome \<times> os_world) \<Rightarrow> app_info \<Rightarrow> string \<Rightarrow> string
     \<Rightarrow> file_mode \<Rightarrow> file_mode \<Rightarrow> os_world \<Rightarrow> 'o res \<times> os_world" where
  "bbolt_Object new a beanName dataDir dirPerm filePerm w =
     (case data_dir a dataDir dirPerm w of
        (Inl e, w) \<Rightarrow> (Inl e, w)
      | (Inr d, w) \<Rightarrow> call_new (new beanName (path_Join [d, beanName @ ''.db'']) filePerm) w)"

definition cache_Object :: "(string \<Rightarrow> 'o outcome) \<Rightarrow> string \<Rightarrow> 'o res" where
  "cache_Object new beanName =
     PanicToError (case new beanName of Ret x \<Rightarrow> Ret (Inr x) | Panic m \<Rightarrow> Panic m)"

text \<open>The options of a badger store; \<open>KeyValueDir\<close> where keys and values are split.\<close>

datatype badger_dir = DataDir string | KeyValueDir string

record badger_options =
  opt_dir :: badger_dir
  opt_timeout :: int
  opt_dev :: bool
  opt_key :: bytes
  opt_indexCacheSize :: int
  opt_valueLogMaxEntries :: int

text \<open>The properties the factory reads; \<open>bp_boot\<close> is \<open>application.boot\<close>.\<close>

record badger_properties =
  bp_boot :: string
  bp_split :: bool
  bp_indexCacheSize :: int
  bp_valueLogMaxEntries :: int
  bp_timeout :: int

text \<open>The bootstrap token: the property, or what the environment or the terminal gives.\<close>

definition badger_token :: "(string \<Rightarrow> string) \<Rightarrow> string + string \<Rightarrow> string \<Rightarrow> env_resolver \<Rightarrow> string res \<times> env_resolver" where
  "badger_token env typed boot r =
     (if boot \<noteq> '''' then (Inr boot, r)
      else (let ((v, ok), r) = env_PromptProperty env typed ''application.boot'' r
            in if \<not> ok \<or> v = '''' then (Inl (Errorf ''application.boot bootstrap token is required''), r)
               else (Inr v, r)))"

definition badger_dirs :: "app_info \<Rightarrow> string \<Rightarrow> string \<Rightarrow> bool \<Rightarrow> file_mode \<Rightarrow> os_world \<Rightarrow> string res \<times> os_world" where
  "badger_dirs a beanName dataDir split perm w =
     (case data_dir a dataDir perm w of
        (Inl e, w) \<Rightarrow> (Inl e, w)
      | (Inr d, w) \<Rightarrow>
          (let d = path_Join [d, beanName]
           in case CreateDirIfNeeded d perm w of
                (Some e, w) \<Rightarrow> (Inl e, w)
              | (None, w) \<Rightarrow>
                  if split then
                    (case CreateDirIfNeeded (path_Join [d, ''key'']) perm w of
                       (Some e, w) \<Rightarrow> (Inl e, w)
                     | (None, w) \<Rightarrow>
                         (case CreateDirIfNeeded (path_Join [d, ''value'']) perm w of
                            (Some e, w) \<Rightarrow> (Inl e, w)
                          | (None, w) \<Rightarrow> (Inr d, w)))
                  else (Inr d, w)))"

definition badger_Object ::
    "(string \<Rightarrow> string \<Rightarrow> badger_options \<Rightarrow> os_world \<Rightarrow> 'o res outcome \<times> os_world)
     \<Rightarrow> (string \<Rightarrow> string) \<Rightarrow> string + string \<Rightarrow> app_info \<Rightarrow> badger_properties \<Rightarrow> string \<Rightarrow> string \<Rightarrow> file_mode
     \<Rightarrow> env_resolver \<Rightarrow> os_world \<Rightarrow> 'o res \<times> env_resolver \<times> os_world" where
  "badger_Object new env typed a props beanName dataDir perm r w =
     (case badger_token env typed (bp_boot props) r of
        (Inl e, r) \<Rightarrow> (Inl e, r, w)
      | (Inr bootstrapToken, r) \<Rightarrow>
          (case badger_dirs a beanName dataDir (bp_split props) perm w of
             (Inl e, w) \<Rightarrow> (Inl e, r, w)
           | (Inr d, w) \<Rightarrow>
               (case ParseToken bootstrapToken of
                  Inl e \<Rightarrow> (Inl e, r, w)
                | Inr storageKey \<Rightarrow>
                    (let (x, w) = call_new (new beanName d
                       \<lparr>opt_dir = (if bp_split props then KeyValueDir d else DataDir d),
                        opt_timeout = bp_timeout props, opt_dev = ai_dev a, opt_key = storageKey,
                        opt_indexCacheSize = bp_indexCacheSize props,
                        opt_valueLogMaxEntries = bp_valueLogMaxEntries props mod 2 ^ 32\<rparr>) w
                     in (x, r, w)))))"

section \<open>Logs\<close>

record lumberjack =
  Filename :: string
  MaxSize :: int
  MaxBackups :: int
  MaxAge :: int
  Compress :: bool

text \<open>\<open>rot\<close> is the third-party \<open>Logger.Rotate\<close>.\<close>

definition lumberjack_Object ::
    "(string \<Rightarrow> os_world \<Rightarrow> goerror option \<times> os_world) \<Rightarrow> app_info \<Rightarrow> string \<Rightarrow> file_mode \<Rightarrow> file_mode
     \<Rightarrow> bool \<Rightarrow> int \<times> int \<times> int \<times> bool \<Rightarrow> os_world \<Rightarrow> lumberjack res \<times> os_world" where
  "lumberjack_Object rot a logDir dirPerm filePerm rotateOnStart settings w =
     (case log_file a logDir dirPerm filePerm w of
        (Inl e, w) \<Rightarrow> (Inl e, w)
      | (Inr f, w) \<Rightarrow>
          (let (maxSize, maxBackups, maxAge, compress) = settings;
               inst = \<lparr>Filename = f, MaxSize = maxSize, MaxBackups = maxBackups, MaxAge = maxAge, Compress = compress\<rparr>
           in if rotateOnStart \<and> ai_daemon a then
                (case os_Stat w f of
                   Inr (FileNode m (c # cs)) \<Rightarrow>
                     (case rot f w of (Some e, w) \<Rightarrow> (Inl e, w) | (None, w) \<Rightarrow> (Inr inst, w))
                 | _ \<Rightarrow> (Inr inst, w))
              else (Inr inst, w)))"

datatype zap_logger = ZapRotating lumberjack | ZapFile string | ZapDevelopment

text \<open>\<open>build\<close>: the result of building a logger from a configuration.\<close>

definition zap_Object ::
    "(zap_logger \<Rightarrow> goerror option outcome) \<Rightarrow> app_info \<Rightarrow> lumberjack option \<Rightarrow> string \<Rightarrow> file_mode \<Rightarrow> file_mode
     \<Rightarrow> os_world \<Rightarrow> zap_logger res \<times> os_world" where
  "zap_Object build a rotateLogger logDir dirPerm filePerm w =
     (let make = (\<lambda>l. PanicToError (case build l of Panic m \<Rightarrow> Panic m | Ret (Some e) \<Rightarrow> Ret (Inl e)
                                    | Ret None \<Rightarrow> Ret (Inr l)))
      in if ai_daemon a then
           (case rotateLogger of
              Some lj \<Rightarrow> (Inr (ZapRotating lj), w)
            | None \<Rightarrow>
                (case log_file a logDir dirPerm filePerm w of
                   (Inl e, w) \<Rightarrow> (Inl e, w)
                 | (Inr f, w) \<Rightarrow> (make (ZapFile f), w)))
         else (make ZapDevelopment, w))"

section \<open>Where the files are\<close>

lemma create_dir_cases:
  assumes "CreateDirIfNeeded d perm w = (None, w')"
  shows "fs w' d \<noteq> None"
  using CreateDirIfNeeded_ok [OF assms] by (simp split: option.splits)

lemma data_dir_path:
  assumes "data_dir a dataDir perm w = (Inr d, w')"
  shows "d = (if dataDir = '''' then path_Join [path_Join [ai_home a, ''db''], getNodeName a] else dataDir)"
    and "fs w' d \<noteq> None"
  using assms
  by (auto simp: data_dir_def Let_def split: prod.splits option.splits if_splits dest: create_dir_cases)

lemma plain_db: "plain_name ''db''" "plain_name ''log''"
  by (simp_all add: plain_name_def slash_def)

text \<open>The data directories of nodes with different sequence numbers differ.\<close>

lemma data_dir_elems:
  assumes "data_dir a '''' perm w = (Inr d, w')" and "rooted (ai_home a)" and "plain_name (getNodeName a)"
  shows "elems d = elems (ai_home a) @ [''db'', getNodeName a] \<and> rooted d"
  using data_dir_path(1) [OF assms(1)] elems_path_Join [OF assms(2) plain_db(1)]
    elems_path_Join [OF _ assms(3), of "path_Join [ai_home a, ''db'']"] by simp

lemma getNodeName_inj: "getNodeName a = getNodeName (a\<lparr>ai_node := n\<rparr>) \<Longrightarrow> n = ai_node a"
  by (auto simp: getNodeName_def dest: AppendNodeSequence_inj)

lemma log_file_path:
  assumes "log_file a logDir dp fp w = (Inr f, w')"
  shows "f = path_Join [path_Join [if logDir = '''' then path_Join [ai_home a, ''log''] else logDir, getNodeName a],
             ai_name a @ ''.log'']"
  using assms
  by (auto simp: log_file_def Let_def split: prod.splits option.splits)

section \<open>Properties\<close>

text \<open>
  C39: the default data directories of two nodes of one application with different sequence
  numbers differ and neither is inside the other: they have the same number of elements and
  share all but the last one, the node's name.
\<close>

theorem node_dirs_disjoint:
  assumes "data_dir a '''' perm w = (Inr d, w')" and "data_dir (a\<lparr>ai_node := n\<rparr>) '''' perm2 w2 = (Inr d2, w2')"
    and "n \<noteq> ai_node a" and "rooted (ai_home a)"
    and "plain_name (getNodeName a)" "plain_name (getNodeName (a\<lparr>ai_node := n\<rparr>))"
  shows "elems d \<noteq> elems d2 \<and> length (elems d) = length (elems d2) \<and> butlast (elems d) = butlast (elems d2) \<and>
    fs w' d \<noteq> None \<and> fs w2' d2 \<noteq> None"
proof -
  have "getNodeName a \<noteq> getNodeName (a\<lparr>ai_node := n\<rparr>)" using getNodeName_inj [of a n] assms(3) by auto
  then show ?thesis
    using data_dir_elems [OF assms(1,4,5)] data_dir_elems [OF assms(2) _ assms(6)] assms(4)
      data_dir_path(2) [OF assms(1)] data_dir_path(2) [OF assms(2)]
    by (simp add: butlast_append)
qed

definition sample_app :: app_info where
  "sample_app = \<lparr>ai_home = ''/h'', ai_name = ''app'', ai_node = 0, ai_daemon = True, ai_dev = False\<rparr>"

definition empty_fs :: os_world where
  "empty_fs = \<lparr>fs = Map.empty, umask = 0, deny = (\<lambda>_. None)\<rparr>"

lemma create_dir_empty: "deny w = (\<lambda>_. None) \<Longrightarrow> \<exists>w'. CreateDirIfNeeded d perm w = (None, w') \<and> deny w' = (\<lambda>_. None)"
  by (auto simp: CreateDirIfNeeded_def os_defs split: option.splits)

lemma data_dir_empty:
  assumes "deny w = (\<lambda>_. None)"
  shows "\<exists>d w'. data_dir a '''' perm w = (Inr d, w')"
proof -
  let ?d = "path_Join [ai_home a, ''db'']"
  obtain w1 where 1: "CreateDirIfNeeded ?d perm w = (None, w1)" "deny w1 = (\<lambda>_. None)"
    using create_dir_empty [OF assms] by blast
  obtain w2 where "CreateDirIfNeeded (path_Join [?d, getNodeName a]) perm w1 = (None, w2)"
    using create_dir_empty [OF 1(2)] by blast
  with 1 show ?thesis by (simp add: data_dir_def Let_def)
qed

theorem node_dirs_disjoint_witness:
  "\<exists>d d2 w w2. data_dir sample_app '''' 0 empty_fs = (Inr d, w) \<and>
     data_dir (sample_app\<lparr>ai_node := 1\<rparr>) '''' 0 empty_fs = (Inr d2, w2) \<and> elems d \<noteq> elems d2"
proof -
  have e: "deny empty_fs = (\<lambda>_. None)" by (simp add: empty_fs_def)
  obtain d w d2 w2 where d: "data_dir sample_app '''' 0 empty_fs = (Inr d, w)"
      "data_dir (sample_app\<lparr>ai_node := 1\<rparr>) '''' 0 empty_fs = (Inr d2, w2)"
    using data_dir_empty [OF e] by metis
  have "rooted (ai_home sample_app)" "1 \<noteq> ai_node sample_app"
    by (simp_all add: sample_app_def rooted_def HasPrefix_def)
  moreover have "plain_name (getNodeName sample_app)" "plain_name (getNodeName (sample_app\<lparr>ai_node := 1\<rparr>))"
    by code_simp+
  ultimately show ?thesis using node_dirs_disjoint [OF d] d by blast
qed

end
