(* ===== verification/Servers.thy ===== *)
theory Servers
  imports Utils_Node Auth_Middleware
begin

text \<open>
  \<open>sprintserver/grpc_server.go\<close>, \<open>http_server.go\<close> and \<open>grpc_server_factory.go\<close>: binding,
  serving and shutting down the two kinds of servers. \<open>listen\<close> stands for \<open>net.Listen\<close> and
  \<open>resolve\<close> for the name service; what the third-party servers return is a parameter. The
  shutdown contract both keep is the locale \<open>server\<close>, which \<open>listening_server\<close> extends.
\<close>

section \<open>The contract of a server\<close>

locale server =
  fixes shutdown :: "'s \<Rightarrow> goerror option \<times> 's"
    and is_shut :: "'s \<Rightarrow> bool"
    and closes :: "'s \<Rightarrow> nat"
    and inv :: "'s \<Rightarrow> bool"
  assumes shutdown_inv: "inv s \<Longrightarrow> shutdown s = (e, s') \<Longrightarrow> inv s' \<and> is_shut s'"
    and shutdown_again: "is_shut s \<Longrightarrow> shutdown s = (None, s)"
    and closes_once: "inv s \<Longrightarrow> closes s = (if is_shut s then 1 else 0)"
begin

fun shutdowns :: "nat \<Rightarrow> 's \<Rightarrow> 's" where
  "shutdowns 0 s = s"
| "shutdowns (Suc n) s = shutdowns n (snd (shutdown s))"

lemma shutdowns_again: "is_shut s \<Longrightarrow> shutdowns n s = s"
  by (induction n) (auto simp: shutdown_again)

text \<open>However often it is called, a server shuts down once and closes its channel once.\<close>

lemma shutdowns_once:
  assumes "inv s" and "0 < n"
  shows "shutdowns n s = snd (shutdown s)" and "closes (shutdowns n s) = 1"
proof -
  obtain m where n: "n = Suc m" using assms(2) by (cases n) auto
  obtain e s' where sh: "shutdown s = (e, s')" by (cases "shutdown s")
  note s' = shutdown_inv [OF assms(1) sh]
  show "shutdowns n s = snd (shutdown s)"
    using s' by (simp add: n sh shutdowns_again)
  then show "closes (shutdowns n s) = 1"
    using s' closes_once by (simp add: sh)
qed

end

text \<open>A server that listens: shutting it down releases the listener it has bound.\<close>

locale listening_server = server shutdown is_shut closes inv
  for shutdown :: "'s \<Rightarrow> goerror option \<times> 's" and is_shut :: "'s \<Rightarrow> bool" and closes :: "'s \<Rightarrow> nat"
    and inv :: "'s \<Rightarrow> bool" +
  fixes bound :: "'s \<Rightarrow> bool"
    and released :: "'s \<Rightarrow> bool"
  assumes shutdown_releases: "inv s \<Longrightarrow> \<not> is_shut s \<Longrightarrow> bound s \<Longrightarrow> shutdown s = (e, s') \<Longrightarrow> released s'"
begin

lemma first_shutdown:
  assumes "inv s" and "\<not> is_shut s"
  shows "closes (snd (shutdown s)) = 1 \<and> shutdown (snd (shutdown s)) = (None, snd (shutdown s)) \<and>
    (bound s \<longrightarrow> released (snd (shutdown s)))"
proof -
  obtain e s' where sh: "shutdown s = (e, s')" by (cases "shutdown s")
  with shutdown_inv [OF assms(1) sh] closes_once [of s'] shutdown_again [of s']
    shutdown_releases [OF assms _ sh] show ?thesis by auto
qed

end

section \<open>The gRPC server\<close>

text \<open>
  \<open>chan_closes\<close> counts the closes of the channel (a second one would panic in Go);
  \<open>graceful_stops\<close> and \<open>hard_stops\<close> the calls of the third-party server.
\<close>

record grpc_server =
  listenAddr :: string
  listener :: "(string \<times> bool) option"  \<comment> \<open>address, and whether it is wrapped by TLS\<close>
  listener_closed :: bool
  use_tls :: bool
  grpc_alive :: bool
  grpc_shutdownOnce :: bool
  chan_closes :: nat
  graceful_stops :: nat
  hard_stops :: nat

definition NewGrpcServer :: "bool \<Rightarrow> grpc_server" where
  "NewGrpcServer tls =
     \<lparr>listenAddr = '''', listener = None, listener_closed = False, use_tls = tls, grpc_alive = False,
      grpc_shutdownOnce = False, chan_closes = 0, graceful_stops = 0, hard_stops = 0\<rparr>"

definition addr_text :: "tcp_addr \<Rightarrow> string" where
  "addr_text a = IP a @ '':'' @ Itoa (Port a)"

definition grpc_Bind :: "(string \<Rightarrow> tcp_addr res) \<Rightarrow> (string \<Rightarrow> goerror option) \<Rightarrow> string \<Rightarrow> string \<Rightarrow> int
    \<Rightarrow> grpc_server \<Rightarrow> goerror option \<times> grpc_server" where
  "grpc_Bind resolve listen beanName bindAddress seq t =
     (let t = t\<lparr>listenAddr := bindAddress\<rparr>
      in if bindAddress = '''' then
           (Some (Errorf (''property '' @ beanName @ ''.bind-address not found in server context'')), t)
         else case ParseAndAdjustTCPAddr resolve bindAddress seq of
                Inl e \<Rightarrow> (Some e, t)
              | Inr tcpAddr \<Rightarrow>
                  (let t = t\<lparr>listenAddr := addr_text tcpAddr\<rparr>
                   in case listen (listenAddr t) of
                        Some e \<Rightarrow> (Some e, t\<lparr>listener := None\<rparr>)
                      | None \<Rightarrow> (None, t\<lparr>listener := Some (listenAddr t, use_tls t)\<rparr>)))"

definition ListenAddress :: "(string \<times> bool) option \<Rightarrow> string" where
  "ListenAddress l = (case l of Some (a, tls) \<Rightarrow> a | None \<Rightarrow> '''')"

text \<open>Whether the server stopped before the time limit.\<close>

definition doGracefulStop :: "bool \<Rightarrow> grpc_server \<Rightarrow> bool \<times> grpc_server" where
  "doGracefulStop inTime t = (inTime, t\<lparr>graceful_stops := graceful_stops t + 1\<rparr>)"

definition doStop :: "grpc_server \<Rightarrow> grpc_server" where
  "doStop t = t\<lparr>hard_stops := hard_stops t + 1\<rparr>"

definition grpc_Shutdown :: "bool \<Rightarrow> grpc_server \<Rightarrow> goerror option \<times> grpc_server" where
  "grpc_Shutdown inTime t =
     (if grpc_shutdownOnce t then (None, t)
      else (let t = t\<lparr>grpc_shutdownOnce := True, chan_closes := chan_closes t + 1\<rparr>;
                (graceful, t) = doGracefulStop inTime t;
                t = (if \<not> graceful then doStop t else t);
                t = (if listener t \<noteq> None then t\<lparr>listener_closed := True\<rparr> else t)
            in (None, t)))"

definition grpc_Destroy :: "bool \<Rightarrow> grpc_server \<Rightarrow> grpc_server" where
  "grpc_Destroy inTime t = snd (grpc_Shutdown inTime t)"

text \<open>
  \<open>Serve\<close>: the flag is set, the third-party \<open>Serve\<close> runs until it returns or panics, the
  flag is reset. \<open>serving\<close> is the state another goroutine sees meanwhile.
\<close>

definition grpc_serving :: "grpc_server \<Rightarrow> grpc_server" where
  "grpc_serving t = t\<lparr>grpc_alive := True\<rparr>"

definition serve_result :: "goerror option \<Rightarrow> goerror option" where
  "serve_result err = (case err of None \<Rightarrow> None | Some e \<Rightarrow> if Contains (error_text e) ''closed'' then None else Some e)"

definition grpc_Serve :: "goerror option outcome \<Rightarrow> grpc_server \<Rightarrow> goerror option \<times> grpc_server" where
  "grpc_Serve run t =
     (let t = grpc_serving t
      in case run of
           Panic m \<Rightarrow> (Some (Recovered m), t)
         | Ret err \<Rightarrow> (serve_result err, t\<lparr>grpc_alive := False\<rparr>))"

definition grpc_ok :: "grpc_server \<Rightarrow> bool" where
  "grpc_ok t \<longleftrightarrow> chan_closes t = (if grpc_shutdownOnce t then 1 else 0)"

interpretation grpcs: listening_server "grpc_Shutdown inTime" grpc_shutdownOnce chan_closes grpc_ok
  "\<lambda>t. listener t \<noteq> None" listener_closed for inTime
  by unfold_locales
    (auto simp: grpc_Shutdown_def grpc_ok_def doGracefulStop_def doStop_def Let_def split: if_splits)

section \<open>The HTTP server\<close>

record http_srv =
  srv_Addr :: string
  srv_tls :: bool
  http_listener :: "(string \<times> bool) option"  \<comment> \<open>address, and whether it is wrapped by TLS\<close>
  http_listener_closed :: bool
  srv_closed :: bool
  http_alive :: bool
  http_shutdownOnce :: bool
  http_chan_closes :: nat

definition NewHttpServer :: "string \<Rightarrow> bool \<Rightarrow> http_srv" where
  "NewHttpServer addr tls =
     \<lparr>srv_Addr = addr, srv_tls = tls, http_listener = None, http_listener_closed = False, srv_closed = False,
      http_alive = False, http_shutdownOnce = False, http_chan_closes = 0\<rparr>"

definition http_Bind :: "(string \<Rightarrow> tcp_addr res) \<Rightarrow> (string \<Rightarrow> goerror option) \<Rightarrow> int
    \<Rightarrow> http_srv \<Rightarrow> goerror option \<times> http_srv" where
  "http_Bind resolve listen seq t =
     (case ParseAndAdjustTCPAddr resolve (srv_Addr t) seq of
        Inl e \<Rightarrow> (Some e, t)
      | Inr tcpAddr \<Rightarrow>
          (let t = t\<lparr>srv_Addr := addr_text tcpAddr\<rparr>
           in case listen (srv_Addr t) of
                Some e \<Rightarrow>
                  (Some (Errorf (''can not bind to port '' @ srv_Addr t @ '', '' @ error_text e)), t\<lparr>http_listener := None\<rparr>)
              | None \<Rightarrow> (None, t\<lparr>http_listener := Some (srv_Addr t, False)\<rparr>)))"

text \<open>\<open>closeErr\<close> is what the third-party \<open>Close\<close> returns.\<close>

definition http_Shutdown :: "goerror option \<Rightarrow> http_srv \<Rightarrow> goerror option \<times> http_srv" where
  "http_Shutdown closeErr t =
     (if http_shutdownOnce t then (None, t)
      else (let t = t\<lparr>http_shutdownOnce := True, http_chan_closes := http_chan_closes t + 1, srv_closed := True\<rparr>;
                t = (if http_listener t \<noteq> None then t\<lparr>http_listener_closed := True\<rparr> else t)
            in (closeErr, t)))"

definition http_Destroy :: "goerror option \<Rightarrow> http_srv \<Rightarrow> http_srv" where
  "http_Destroy closeErr t = snd (http_Shutdown closeErr t)"

definition http_serving :: "http_srv \<Rightarrow> http_srv" where
  "http_serving t =
     (if srv_tls t then t\<lparr>http_listener := map_option (\<lambda>(a, w). (a, True)) (http_listener t), http_alive := True\<rparr>
      else t\<lparr>http_alive := True\<rparr>)"

definition http_Serve :: "goerror option outcome \<Rightarrow> http_srv \<Rightarrow> goerror option \<times> http_srv" where
  "http_Serve run t =
     (let t = http_serving t
      in case run of
           Panic m \<Rightarrow> (Some (Recovered m), t)
         | Ret err \<Rightarrow> (serve_result err, t\<lparr>http_alive := False\<rparr>))"

definition http_ok :: "http_srv \<Rightarrow> bool" where
  "http_ok t \<longleftrightarrow> http_chan_closes t = (if http_shutdownOnce t then 1 else 0)"

interpretation https: listening_server "http_Shutdown closeErr" http_shutdownOnce http_chan_closes http_ok
  "\<lambda>t. http_listener t \<noteq> None" http_listener_closed for closeErr
  by unfold_locales (auto simp: http_Shutdown_def http_ok_def Let_def split: if_splits)

section \<open>The interceptors\<close>

text \<open>
  \<open>grpc_server_factory.go\<close>: both kinds of calls go through \<open>Authenticate\<close>, whose context
  the handler gets.
\<close>

definition intercepted :: "jwt_lib \<Rightarrow> int \<Rightarrow> auth_middleware \<Rightarrow> (call_ctx \<Rightarrow> 'a) \<Rightarrow> call_ctx \<Rightarrow> 'a" where
  "intercepted lib now mw handler ctx = handler (Authenticate lib now ctx mw)"

section \<open>Lemmas\<close>

lemma grpc_Bind_listener:
  assumes "grpc_Bind resolve listen bean addr seq t = (e, t')"
  shows "e = None \<longleftrightarrow> (\<exists>a. ParseAndAdjustTCPAddr resolve addr seq = Inr a \<and> addr \<noteq> '''' \<and>
      listen (addr_text a) = None \<and> listener t' = Some (addr_text a, use_tls t))"
  using assms by (auto simp: grpc_Bind_def Let_def split: if_splits sum.splits option.splits)

lemma http_Bind_listener:
  assumes "http_Bind resolve listen seq t = (e, t')"
  shows "e = None \<longleftrightarrow> (\<exists>a. ParseAndAdjustTCPAddr resolve (srv_Addr t) seq = Inr a \<and>
      listen (addr_text a) = None \<and> http_listener t' = Some (addr_text a, False))"
  using assms by (auto simp: http_Bind_def Let_def split: if_splits sum.splits option.splits)

lemma grpc_shutdown_effect:
  assumes "\<not> grpc_shutdownOnce t" and "grpc_Shutdown inTime t = (e, t')"
  shows "graceful_stops t' = graceful_stops t + 1 \<and> hard_stops t' = hard_stops t + (if inTime then 0 else 1)
    \<and> listener_closed t' = (listener_closed t \<or> listener t \<noteq> None)"
  using assms by (auto simp: grpc_Shutdown_def doGracefulStop_def doStop_def Let_def split: if_splits)

section \<open>Properties\<close>

text \<open>Only the first of several shutdowns counts.\<close>

lemma grpc_shutdowns_first:
  assumes "grpc_ok t"
  shows "fold (\<lambda>b s. snd (grpc_Shutdown b s)) (b # bs) t = snd (grpc_Shutdown b t)"
proof -
  have "fold (\<lambda>b s. snd (grpc_Shutdown b s)) bs s = s" if "grpc_shutdownOnce s" for bs s
    by (induction bs) (simp_all add: grpcs.shutdown_again [OF that])
  moreover have "grpc_shutdownOnce (snd (grpc_Shutdown b t))"
    using grpcs.shutdown_inv [OF assms] by (metis prod.collapse)
  ultimately show ?thesis by simp
qed

lemma http_shutdowns_first:
  assumes "http_ok t"
  shows "fold (\<lambda>e s. snd (http_Shutdown e s)) (e # es) t = snd (http_Shutdown e t)"
proof -
  have "fold (\<lambda>e s. snd (http_Shutdown e s)) es s = s" if "http_shutdownOnce s" for es s
    by (induction es) (simp_all add: https.shutdown_again [OF that])
  moreover have "http_shutdownOnce (snd (http_Shutdown e t))"
    using https.shutdown_inv [OF assms] by (metis prod.collapse)
  ultimately show ?thesis by simp
qed

lemma grpc_bound:
  assumes "grpc_Bind resolve listen bean addr seq (NewGrpcServer tls) = (None, g)"
  shows "grpc_ok g \<and> \<not> grpc_shutdownOnce g \<and> graceful_stops g = 0 \<and> hard_stops g = 0 \<and> listener g \<noteq> None"
  using assms
  by (auto simp: grpc_Bind_def NewGrpcServer_def grpc_ok_def Let_def split: if_splits sum.splits option.splits)

lemma http_bound:
  assumes "http_Bind resolve listen seq (NewHttpServer addr tls) = (None, h)"
  shows "http_ok h \<and> \<not> http_shutdownOnce h \<and> http_listener h \<noteq> None"
  using assms
  by (auto simp: http_Bind_def NewHttpServer_def http_ok_def Let_def split: sum.splits option.splits)

text \<open>
  C31: however many goroutines shut a bound server down (the error group, the context's destroy
  method), only the first call has an effect: the channel is closed once (a second close would
  panic), the listener is closed, the gRPC server is stopped gracefully once and hard at most
  once, exactly when the graceful stop timed out, and every later call reports no error and
  changes nothing.
\<close>

theorem servers_close_once:
  assumes "grpc_Bind resolve listen bean baddr seq (NewGrpcServer tls) = (None, g0)"
    and "http_Bind resolve' listen' seq' (NewHttpServer addr tls') = (None, h0)"
    and "g = fold (\<lambda>b s. snd (grpc_Shutdown b s)) (b # bs) g0"
    and "h = fold (\<lambda>e s. snd (http_Shutdown e s)) (e # es) h0"
  shows "chan_closes g = 1 \<and> graceful_stops g = 1 \<and> hard_stops g = (if b then 0 else 1) \<and> listener_closed g \<and>
    (\<forall>b. grpc_Shutdown b g = (None, g)) \<and>
    http_chan_closes h = 1 \<and> srv_closed h \<and> http_listener_closed h \<and> (\<forall>e. http_Shutdown e h = (None, h))"
proof -
  note g0 = grpc_bound [OF assms(1)] and h0 = http_bound [OF assms(2)]
  have g: "g = snd (grpc_Shutdown b g0)" and h: "h = snd (http_Shutdown e h0)"
    using assms(3,4) g0 h0 by (simp_all only: grpc_shutdowns_first http_shutdowns_first)
  have "grpc_shutdownOnce g" "http_shutdownOnce h"
    using g0 h0 grpcs.shutdown_inv https.shutdown_inv unfolding g h by (metis prod.collapse)+
  then have again: "grpc_Shutdown b g = (None, g)" "http_Shutdown e h = (None, h)" for b e
    by (simp_all add: grpcs.shutdown_again https.shutdown_again)
  have "graceful_stops g = 1" "hard_stops g = (if b then 0 else 1)"
    using g0 grpc_shutdown_effect [of g0 b "fst (grpc_Shutdown b g0)" g] g by simp_all
  moreover have "srv_closed h"
    using h0 by (simp add: h http_Shutdown_def Let_def)
  ultimately show ?thesis
    using grpcs.first_shutdown [of g0 b] https.first_shutdown [of h0 e] g0 h0 again
    by (simp add: g h)
qed

definition fixed_addr :: "string \<Rightarrow> tcp_addr res" where
  "fixed_addr a = Inr \<lparr>IP = ''h'', Port = 1\<rparr>"

theorem servers_close_once_witness:
  "\<exists>g0. grpc_Bind fixed_addr (\<lambda>_. None) ''b'' (''h'' @ '':'' @ ''1'') 0 (NewGrpcServer True) = (None, g0) \<and>
     hard_stops (fold (\<lambda>b s. snd (grpc_Shutdown b s)) [False, True] g0) = 1 \<and>
     listener_closed (fold (\<lambda>b s. snd (grpc_Shutdown b s)) [False, True] g0)"
proof -
  have "ParseAndAdjustTCPAddr fixed_addr (''h'' @ '':'' @ ''1'') 0 = Inr \<lparr>IP = ''h'', Port = 1\<rparr>"
    using SplitHostPort_plain [of "''h''" "''1''"] by (simp add: ParseAndAdjustTCPAddr_def fixed_addr_def)
  then obtain g0 h0 where
      g0: "grpc_Bind fixed_addr (\<lambda>_. None) ''b'' (''h'' @ '':'' @ ''1'') 0 (NewGrpcServer True) = (None, g0)"
      and h0: "http_Bind fixed_addr (\<lambda>_. None) 0 (NewHttpServer (''h'' @ '':'' @ ''1'') False) = (None, h0)"
    by (simp add: grpc_Bind_def http_Bind_def NewHttpServer_def Let_def)
  from servers_close_once [OF g0 h0 refl refl, of False "[True]" None "[None]"] g0 show ?thesis by auto
qed

end
