(* ===== verification/Cmd_Node.thy ===== *)
theory Cmd_Node
  imports Cmd_Config Factories Servers
begin

text \<open>
  The node commands of \<open>sprintcmd\<close>: \<open>start_node.go\<close> (the daemon is started with the flags of
  this process, a pid file is written, an update may be installed first), \<open>stop_node.go\<close>,
  \<open>restart_node.go\<close>, \<open>status_node.go\<close>, \<open>run_node.go\<close>, \<open>node_cmd.go\<close>, and \<open>doWithServers\<close> and
  \<open>runServers\<close> of \<open>utils.go\<close>.
\<close>

section \<open>The machine of a command\<close>

text \<open>The file system, the processes started (program, arguments, environment), the kill commands.\<close>

record node_world =
  nos :: os_world
  started :: "(string \<times> string list \<times> string list) list"
  kills :: "string list list"

section \<open>start\<close>

record start_node =
  sn_info :: app_info
  sn_RunDir :: string
  sn_RunDirPerm :: file_mode
  sn_ExeFilePerm :: file_mode
  sn_PidFilePerm :: file_mode
  sn_Autoupdate :: bool
  sn_BootstrapTokens :: "string list"

definition run_dir :: "app_info \<Rightarrow> string \<Rightarrow> string" where
  "run_dir a runDir = (if runDir = '''' then path_Join [ai_home a, ''run''] else runDir)"

definition pid_file :: "app_info \<Rightarrow> string \<Rightarrow> string" where
  "pid_file a runDir = path_Join [run_dir a runDir, getNodeName a @ ''.pid'']"

definition executableNext :: "app_info \<Rightarrow> string \<Rightarrow> string" where
  "executableNext a current =
     (let odd_name = ''.'' @ getNodeName a @ ''.odd''; even_name = ''.'' @ getNodeName a @ ''.even''
      in if current = odd_name then even_name else odd_name)"

text \<open>\<open>alive\<close> tells whether signal 0 can be sent to a process.\<close>

definition check_running :: "(int \<Rightarrow> bool) \<Rightarrow> string \<Rightarrow> os_world \<Rightarrow> goerror option" where
  "check_running alive pidFile w =
     (case os_ReadFile w pidFile of
        Inl e \<Rightarrow> Some (Errorf (''io error on '' @ pidFile @ '', '' @ error_text e))
      | Inr pidContent \<Rightarrow>
          (case ParseInt (TrimSpace pidContent) 10 64 of
             Inl e \<Rightarrow> Some (Errorf (''invalid pid number in '' @ pidFile @ '', '' @ error_text e))
           | Inr pid \<Rightarrow>
               if alive pid
               then Some (Errorf (''found already running process under pid '' @ Itoa pid @ '' from file '' @ pidFile))
               else None))"

record platform =
  GOOS :: string
  GOARCH :: string

definition autoupdate_names :: "platform \<Rightarrow> string \<Rightarrow> string list" where
  "autoupdate_names pl name =
     [name, name @ ''_'' @ GOOS pl, name @ ''_'' @ GOARCH pl @ ''_'' @ GOOS pl]"

definition file_exists :: "os_world \<Rightarrow> string \<Rightarrow> bool" where
  "file_exists w p = (case os_Stat w p of Inr _ \<Rightarrow> True | Inl _ \<Rightarrow> False)"

text \<open>The program to start, the arguments an installed update adds, and the file system.\<close>

definition prepare_exe :: "start_node \<Rightarrow> platform \<Rightarrow> string \<Rightarrow> os_world \<Rightarrow> string \<times> string list \<times> os_world" where
  "prepare_exe t pl exe w =
     (if \<not> sn_Autoupdate t then (exe, [], w)
      else (let dir = Dir exe;
                nextExePath = path_Join [dir, executableNext (sn_info t) (Base exe)]
            in case find (file_exists w) (map (\<lambda>n. path_Join [dir, n]) (autoupdate_names pl (ai_name (sn_info t)))) of
                 None \<Rightarrow> (nextExePath, [], w)
               | Some autoupdatePath \<Rightarrow>
                   (case CopyFile autoupdatePath nextExePath (sn_ExeFilePerm t) (snd (RemoveFileIfExist nextExePath w)) of
                      (Inl e, w) \<Rightarrow> (autoupdatePath, [], w)
                    | (Inr cnt, w) \<Rightarrow> (nextExePath, [''-p'', ''autoupdate.file='' @ autoupdatePath], w))))"

definition write_pid :: "string \<Rightarrow> int \<Rightarrow> bool \<Rightarrow> file_mode \<Rightarrow> os_world \<Rightarrow> os_world" where
  "write_pid pidFile pid pidFileExist perm w =
     (case os_WriteFile pidFile (Itoa pid) 438 w of
        (Some e, w) \<Rightarrow> w
      | (None, w) \<Rightarrow> if \<not> pidFileExist then snd (os_Chmod pidFile perm w) else w)"

text \<open>
  \<open>regs\<close> are the registrars of arguments, \<open>exec\<close> starts a process and gives its pid, \<open>env\<close> is
  its environment, \<open>released\<close> the result of detaching it.
\<close>

definition Start :: "(string \<Rightarrow> string list \<Rightarrow> int res) \<Rightarrow> goerror option \<Rightarrow> (int \<Rightarrow> bool) \<Rightarrow> platform \<Rightarrow> string
    \<Rightarrow> (string list \<Rightarrow> string list) list \<Rightarrow> string list \<Rightarrow> start_node \<Rightarrow> bool \<Rightarrow> node_world
    \<Rightarrow> goerror option \<times> node_world" where
  "Start exec released alive pl exe regs env t restart w =
     (let pidFile = pid_file (sn_info t) (sn_RunDir t)
      in case CreateDirIfNeeded (run_dir (sn_info t) (sn_RunDir t)) (sn_RunDirPerm t) (nos w) of
           (Some e, o1) \<Rightarrow> (Some e, w\<lparr>nos := o1\<rparr>)
         | (None, o1) \<Rightarrow>
             (let pidFileExist = file_exists o1 pidFile
              in case (if \<not> restart \<and> pidFileExist then check_running alive pidFile o1 else None) of
                   Some e \<Rightarrow> (Some e, w\<lparr>nos := o1\<rparr>)
                 | None \<Rightarrow>
                     (let args = fold (\<lambda>reg args. reg args) regs [''-d''];
                          (nextExePath, extra, o2) = prepare_exe t pl exe o1;
                          args = args @ extra @ [''node'', ''run'']
                      in case exec nextExePath args of
                           Inl e \<Rightarrow> (Some e, w\<lparr>nos := o2\<rparr>)
                         | Inr pid \<Rightarrow>
                             (released, w\<lparr>nos := write_pid pidFile pid pidFileExist (sn_PidFilePerm t) o2,
                                          started := started w @ [(nextExePath, args, env)]\<rparr>))))"

text \<open>The tokens are prompted for first; \<open>typed\<close> is what is typed for each.\<close>

fun prompt_tokens :: "(string \<Rightarrow> string) \<Rightarrow> (string \<Rightarrow> string + string) \<Rightarrow> string list \<Rightarrow> env_resolver \<Rightarrow> env_resolver" where
  "prompt_tokens env typed [] r = r"
| "prompt_tokens env typed (tok # toks) r =
     prompt_tokens env typed toks (snd (env_PromptProperty env (typed tok) (''application.'' @ tok) r))"

text \<open>\<open>environ\<close> is \<open>os.Environ\<close>, \<open>order\<close> the iteration order of the resolver's cache.\<close>

definition start_Run :: "goerror option \<Rightarrow> (string \<Rightarrow> string) \<Rightarrow> string list \<Rightarrow> (env_resolver \<Rightarrow> string list)
    \<Rightarrow> (string \<Rightarrow> string + string) \<Rightarrow> (string \<Rightarrow> string list \<Rightarrow> int res) \<Rightarrow> goerror option \<Rightarrow> (int \<Rightarrow> bool) \<Rightarrow> platform
    \<Rightarrow> string \<Rightarrow> (string list \<Rightarrow> string list) list \<Rightarrow> start_node \<Rightarrow> env_resolver \<Rightarrow> node_world
    \<Rightarrow> goerror option \<times> env_resolver \<times> node_world" where
  "start_Run loggerErr env environ order_of typed exec released alive pl exe regs t r w =
     (case loggerErr of
        Some e \<Rightarrow> (Some e, r, w)
      | None \<Rightarrow>
          (let r = prompt_tokens env typed (sn_BootstrapTokens t) r;
               (e, w) = Start exec released alive pl exe regs (environ @ env_Environ (order_of r) True r) t False w
           in (e, r, w)))"

section \<open>stop, restart, status\<close>

text \<open>\<open>kill\<close> starts the command \<open>kill\<close>, \<open>wait\<close> is how it ends.\<close>

definition KillServer :: "(string list \<Rightarrow> goerror option) \<Rightarrow> goerror option \<Rightarrow> app_info \<Rightarrow> string \<Rightarrow> node_world
    \<Rightarrow> goerror option \<times> node_world" where
  "KillServer kill wait a runDir w =
     (let pidFile = pid_file a runDir
      in case os_ReadFile (nos w) pidFile of
           Inl e \<Rightarrow> (Some e, w)
         | Inr pid \<Rightarrow>
             (case Atoi pid of
                Inl e \<Rightarrow> (Some (Errorf (''Invalid pid '' @ pid @ '', '' @ error_text e)), w)
              | Inr _ \<Rightarrow>
                  (case kill [''kill'', ''-2'', pid] of
                     Some e \<Rightarrow> (Some e, w)
                   | None \<Rightarrow>
                       (let w = w\<lparr>kills := kills w @ [[''kill'', ''-2'', pid]]\<rparr>
                        in case os_Remove pidFile (nos w) of
                             (Some e, o1) \<Rightarrow>
                               (Some (Errorf (''Can not remove file '' @ pidFile @ '', '' @ error_text e)), w\<lparr>nos := o1\<rparr>)
                           | (None, o1) \<Rightarrow> (wait, w\<lparr>nos := o1\<rparr>)))))"

definition stop_Run :: "(unit, 'w cli) with_client \<Rightarrow> 'w rpc \<Rightarrow> (string list \<Rightarrow> goerror option) \<Rightarrow> goerror option
    \<Rightarrow> app_info \<Rightarrow> string \<Rightarrow> 'w cli \<Rightarrow> node_world \<Rightarrow> goerror option \<times> 'w cli \<times> node_world" where
  "stop_Run dwc rpc kill wait a runDir s w =
     (case dwc (\<lambda>client s. print_content (cc_Shutdown client (on_outer rpc) False s)) s of
        (Inr _, s) \<Rightarrow> (None, s, w)
      | (Inl _, s) \<Rightarrow> (let (e, w) = KillServer kill wait a runDir w in (e, s, w)))"

definition restart_Run :: "(unit, 'w cli) with_client \<Rightarrow> 'w rpc \<Rightarrow> 'w cli \<Rightarrow> goerror option \<times> 'w cli" where
  "restart_Run dwc rpc s =
     (case dwc (\<lambda>client s. print_content (cc_Shutdown client (on_outer rpc) True s)) s of
        (Inr _, s) \<Rightarrow> (None, s) | (Inl e, s) \<Rightarrow> (Some e, s))"

text \<open>\<open>status_rpc\<close> is the remote method; \<open>keys\<close> the iteration order of its answer.\<close>

definition status_Run :: "(unit, 'w cli) with_client \<Rightarrow> ('w \<Rightarrow> (string \<Rightarrow> string option) res \<times> 'w)
    \<Rightarrow> ((string \<Rightarrow> string option) \<Rightarrow> string list) \<Rightarrow> 'w cli \<Rightarrow> goerror option \<times> 'w cli" where
  "status_Run dwc status_rpc keys s =
     (case dwc (\<lambda>client s.
              (let (resp, w) = status_rpc (outer s);
                   ks = (case resp of Inr m \<Rightarrow> keys m | Inl _ \<Rightarrow> [])
               in print_content (cc_Status client ks resp, s\<lparr>outer := w\<rparr>))) s of
        (Inr _, s) \<Rightarrow> (None, s) | (Inl e, s) \<Rightarrow> (Some e, s))"

section \<open>doWithServers and runServers\<close>

text \<open>
  A server context, created by third-party code: its beans of the three classes, in order
  (\<open>None\<close> where the object has not the expected type; the wrapped servers with the error of
  their injection), and the result of closing it.
\<close>

record 'v server_ctx =
  ctx_name :: string
  sprintBeans :: "'v option list"
  grpcBeans :: "('v \<times> goerror option) option list"
  httpBeans :: "('v \<times> goerror option) option list"
  ctx_Close :: "goerror option"

fun create_contexts :: "'v server_ctx res list \<Rightarrow> 'v server_ctx list \<Rightarrow> goerror option \<times> 'v server_ctx list" where
  "create_contexts [] acc = (None, acc)"
| "create_contexts (child # children) acc =
     (case child of
        Inl e \<Rightarrow> (Some (Errorf (''server creation context failed by '' @ error_text e)), acc)
      | Inr ctx \<Rightarrow> create_contexts children (acc @ [ctx]))"

fun plain_servers :: "nat \<Rightarrow> 'v option list \<Rightarrow> 'v list res" where
  "plain_servers i [] = Inr []"
| "plain_servers i (b # bs) =
     (case b of
        None \<Rightarrow> Inl (Errorf (''invalid object found for sprint.Server on position '' @ Itoa (int i)))
      | Some v \<Rightarrow> (case plain_servers (Suc i) bs of Inl e \<Rightarrow> Inl e | Inr vs \<Rightarrow> Inr (v # vs)))"

fun wrapped_servers :: "string \<Rightarrow> nat \<Rightarrow> ('v \<times> goerror option) option list \<Rightarrow> 'v list res" where
  "wrapped_servers kind i [] = Inr []"
| "wrapped_servers kind i (b # bs) =
     (case b of
        None \<Rightarrow> Inl (Errorf (''invalid object found for '' @ kind @ '' on position '' @ Itoa (int i)))
      | Some (v, Some e) \<Rightarrow>
          Inl (Errorf (''injection error for server of '' @ kind @ '' on position '' @ Itoa (int i) @ '', '' @ error_text e))
      | Some (v, None) \<Rightarrow> (case wrapped_servers kind (Suc i) bs of Inl e \<Rightarrow> Inl e | Inr vs \<Rightarrow> Inr (v # vs)))"

definition append_res :: "'v list res \<Rightarrow> 'v list res \<Rightarrow> 'v list res" where
  "append_res a b = (case a of Inl e \<Rightarrow> Inl e | Inr xs \<Rightarrow> (case b of Inl e \<Rightarrow> Inl e | Inr ys \<Rightarrow> Inr (xs @ ys)))"

fun collect_servers :: "'v server_ctx list \<Rightarrow> 'v list res" where
  "collect_servers [] = Inr []"
| "collect_servers (c # cs) =
     append_res (append_res (plain_servers 0 (sprintBeans c))
       (append_res (wrapped_servers ''*grpc.Server'' 0 (grpcBeans c)) (wrapped_servers ''*http.Server'' 0 (httpBeans c))))
       (collect_servers cs)"

text \<open>The deferred function: every created context is closed; errors of closing replace the result.\<close>

definition close_contexts :: "'v server_ctx list \<Rightarrow> goerror option outcome \<Rightarrow> goerror option" where
  "close_contexts ctxs r =
     (let listErr = (case r of Panic m \<Rightarrow> [''recovered on error: '' @ m] | Ret _ \<Rightarrow> [])
                    @ List.map_filter (\<lambda>c. map_option error_text (ctx_Close c)) ctxs
      in if listErr \<noteq> [] then Some (Errorf (''['' @ Join listErr '' '' @ '']''))
         else case r of Ret e \<Rightarrow> e | Panic m \<Rightarrow> None)"

text \<open>The result has the contexts that were closed.\<close>

definition doWithServers :: "'v server_ctx res list \<Rightarrow> ('v list \<Rightarrow> 'w \<Rightarrow> goerror option outcome \<times> 'w) \<Rightarrow> 'w
    \<Rightarrow> goerror option \<times> 'v server_ctx list \<times> 'w" where
  "doWithServers children cb w =
     (if children = [] then
        (Some (Errorf ''no one server child context found in core context''), [], w)
      else case create_contexts children [] of
             (Some e, ctxs) \<Rightarrow> (close_contexts ctxs (Ret (Some e)), ctxs, w)
           | (None, ctxs) \<Rightarrow>
               (case collect_servers ctxs of
                  Inl e \<Rightarrow> (close_contexts ctxs (Ret (Some e)), ctxs, w)
                | Inr serverList \<Rightarrow>
                    (let (r, w) = cb serverList w in (close_contexts ctxs r, ctxs, w))))"

text \<open>
  The goroutine that waits for signals, given the events it sees in order: with rotating
  loggers a hangup rotates them and it waits again; otherwise the first event shuts the
  application down. The result has the loggers rotated.
\<close>

datatype sig_event = SigInt | SigTerm | SigHup | AppDone

fun signal_loop :: "string list \<Rightarrow> sig_event list \<Rightarrow> 'b application \<Rightarrow> string list \<times> 'b application" where
  "signal_loop loggers [] ap = ([], ap)"
| "signal_loop loggers (ev # evs) ap =
     (if ev = SigHup then
        (if loggers \<noteq> [] then (let (rs, ap) = signal_loop loggers evs ap in (loggers @ rs, ap))
         else ([], snd (app_Shutdown True ap)))
      else ([], snd (app_Shutdown False ap)))"

definition bound_servers :: "('v \<Rightarrow> goerror option \<times> 'v) \<Rightarrow> 'v list \<Rightarrow> 'v list" where
  "bound_servers bind servers =
     List.map_filter (\<lambda>s. case bind s of (None, s) \<Rightarrow> Some s | (Some e, s) \<Rightarrow> None) servers"

text \<open>
  The callback of \<open>runServers\<close>. The third-party error group runs \<open>Serve\<close> of all bound servers
  and, when its context ends, \<open>Shutdown\<close> of all: \<open>waitg\<close> is what \<open>Wait\<close> returns (or the panic
  of the body), \<open>evs\<close> the events the signal goroutine saw until then.
\<close>

definition run_callback :: "('v \<Rightarrow> goerror option \<times> 'v) \<Rightarrow> ('v list \<Rightarrow> goerror option outcome) \<Rightarrow> string list
    \<Rightarrow> sig_event list \<Rightarrow> 'v list \<Rightarrow> 'b application \<Rightarrow> goerror option outcome \<times> 'b application" where
  "run_callback bind waitg loggers evs servers ap =
     (if servers = [] then
        (Ret (Some (Errorf ''sprint.Server instances are not found in server context'')), ap)
      else (Ret (recover_error (waitg (bound_servers bind servers))), snd (signal_loop loggers evs ap)))"

definition runServers :: "('v \<Rightarrow> goerror option \<times> 'v) \<Rightarrow> ('v list \<Rightarrow> goerror option outcome) \<Rightarrow> string list
    \<Rightarrow> sig_event list \<Rightarrow> 'v server_ctx res list \<Rightarrow> 'b application
    \<Rightarrow> goerror option \<times> 'v server_ctx list \<times> 'b application" where
  "runServers bind waitg loggers evs children ap =
     doWithServers children (run_callback bind waitg loggers evs) ap"

section \<open>run\<close>

datatype log_target = LogStderr | LogFile string

record run_node =
  rn_startLog :: "log_target option"
  rn_logFile :: "string option"

definition createLogFile :: "app_info \<Rightarrow> string \<Rightarrow> file_mode \<Rightarrow> os_world \<Rightarrow> string res \<times> os_world" where
  "createLogFile a logDir perm w =
     (let logDir = (if logDir = '''' then path_Join [ai_home a, ''log''] else logDir)
      in case CreateDirIfNeeded logDir perm w of
           (Some e, w) \<Rightarrow> (Inl e, w)
         | (None, w) \<Rightarrow>
             (let logDir = path_Join [logDir, getNodeName a]
              in case CreateDirIfNeeded logDir perm w of
                   (Some e, w) \<Rightarrow> (Inl e, w)
                 | (None, w) \<Rightarrow> (Inr (path_Join [logDir, ai_name a @ ''-start.log'']), w)))"

text \<open>Opening with \<open>O_CREATE|O_WRONLY|O_APPEND\<close>.\<close>

definition os_OpenAppend :: "string \<Rightarrow> file_mode \<Rightarrow> os_world \<Rightarrow> goerror option \<times> os_world" where
  "os_OpenAppend p perm w =
     (case deny w (OsCreate p) of Some e \<Rightarrow> (Some e, w)
      | None \<Rightarrow>
          (case fs w p of
             None \<Rightarrow> (None, w\<lparr>fs := (fs w)(p \<mapsto> FileNode (perm AND NOT (umask w)) [])\<rparr>)
           | Some (FileNode _ _) \<Rightarrow> (None, w)
           | Some (DirNode _) \<Rightarrow> (Some ErrIsDir, w)))"

definition lazyStartLog :: "app_info \<Rightarrow> string \<Rightarrow> file_mode \<Rightarrow> file_mode \<Rightarrow> run_node \<Rightarrow> os_world
    \<Rightarrow> log_target \<times> run_node \<times> os_world" where
  "lazyStartLog a logDir dirPerm filePerm t w =
     (case rn_startLog t of
        Some l \<Rightarrow> (l, t, w)
      | None \<Rightarrow>
          (let stderr = (LogStderr, t\<lparr>rn_startLog := Some LogStderr\<rparr>) in
           if ai_daemon a then
             (case createLogFile a logDir dirPerm w of
                (Inl e, w) \<Rightarrow> (fst stderr, snd stderr, w)
              | (Inr fileName, w) \<Rightarrow>
                  (case os_OpenAppend fileName filePerm w of
                     (Some e, w) \<Rightarrow> (fst stderr, snd stderr, w)
                   | (None, w) \<Rightarrow>
                       (LogFile fileName, t\<lparr>rn_startLog := Some (LogFile fileName), rn_logFile := Some fileName\<rparr>, w)))
           else (fst stderr, snd stderr, w)))"

definition run_Destroy :: "(string \<Rightarrow> goerror option) \<Rightarrow> run_node \<Rightarrow> goerror option" where
  "run_Destroy close t = (case rn_logFile t of Some f \<Rightarrow> close f | None \<Rightarrow> None)"

text \<open>
  The core contexts among the children: the result of creating each. \<open>serve\<close> is \<open>runServers\<close>
  on the core and the application, \<open>close\<close> closes the core, \<open>start\<close> starts the next process.
\<close>

record 'b run_frame =
  rs_app :: "'b application"
  rs_run :: run_node
  rs_machine :: node_world

definition start_log :: "app_info \<Rightarrow> string \<Rightarrow> file_mode \<Rightarrow> file_mode \<Rightarrow> 'b run_frame \<Rightarrow> 'b run_frame" where
  "start_log a logDir dirPerm filePerm s =
     (let (l, rn, w) = lazyStartLog a logDir dirPerm filePerm (rs_run s) (nos (rs_machine s))
      in s\<lparr>rs_run := rn, rs_machine := (rs_machine s)\<lparr>nos := w\<rparr>\<rparr>)"

definition run_Run :: "app_info \<Rightarrow> string \<Rightarrow> file_mode \<Rightarrow> file_mode \<Rightarrow> bool \<Rightarrow> (bool \<times> 'k res) list
    \<Rightarrow> ('k \<Rightarrow> 'b application \<Rightarrow> goerror option \<times> 'b application) \<Rightarrow> ('k \<Rightarrow> goerror option outcome)
    \<Rightarrow> (node_world \<Rightarrow> goerror option \<times> node_world) \<Rightarrow> 'b run_frame \<Rightarrow> goerror option \<times> 'b run_frame" where
  "run_Run a logDir dirPerm filePerm verb children serve close start s =
     (let s = (if verb then start_log a logDir dirPerm filePerm s else s)
      in case find fst children of
           None \<Rightarrow> (Some (Errorf ''core context not found''), s)
         | Some (_, Inl e) \<Rightarrow>
             (Some (Errorf (''core creation context failed by '' @ error_text e)),
              start_log a logDir dirPerm filePerm s)
         | Some (_, Inr core) \<Rightarrow>
             (let (err, ap) = serve core (rs_app s); s = s\<lparr>rs_app := ap\<rparr>
              in case close core of
                   Panic m \<Rightarrow> (err, s)
                 | Ret err \<Rightarrow>
                     if app_restarting (rs_app s) then
                       (let (e, w) = start (rs_machine s) in (e, s\<lparr>rs_machine := w\<rparr>))
                     else (err, s)))"

section \<open>The node command\<close>

text \<open>The five commands it holds, over a state of theirs.\<close>

record 'w node_commands =
  nc_run :: "'w \<Rightarrow> goerror option \<times> 'w"
  nc_start :: "'w \<Rightarrow> goerror option \<times> 'w"
  nc_stop :: "'w \<Rightarrow> goerror option \<times> 'w"
  nc_restart :: "'w \<Rightarrow> goerror option \<times> 'w"
  nc_status :: "'w \<Rightarrow> goerror option \<times> 'w"

definition node_Run :: "'w node_commands \<Rightarrow> string list \<Rightarrow> 'w \<Rightarrow> goerror option \<times> 'w" where
  "node_Run t args w =
     (case args of
        [] \<Rightarrow> (Some (Errorf ''node command needs argument, node commands: [run, start, stop, restart, status]''), w)
      | cmd # _ \<Rightarrow>
          if cmd = ''run'' then nc_run t w
          else if cmd = ''start'' then nc_start t w
          else if cmd = ''stop'' then nc_stop t w
          else if cmd = ''restart'' then nc_restart t w
          else if cmd = ''status'' then nc_status t w
          else (Some (Errorf (''unknown sub-command for config '' @ cmd)), w))"

section \<open>Lemmas\<close>

lemma executableNext_other: "executableNext a current \<noteq> current"
  by (auto simp: executableNext_def Let_def)

lemma executableNext_alternates:
  "executableNext a (executableNext a (executableNext a current)) = executableNext a current"
  by (simp add: executableNext_def Let_def)

lemma plain_name_append: "slash \<notin> set n \<Longrightarrow> slash \<notin> set s \<Longrightarrow> 3 \<le> length s \<Longrightarrow> plain_name (n @ s)"
  by (auto simp: plain_name_def append_eq_Cons_conv)

lemma plain_next: "slash \<notin> set (getNodeName a) \<Longrightarrow> plain_name (executableNext a current)"
  by (auto simp: executableNext_def Let_def plain_name_def slash_def)

text \<open>The program that is replaced by an update is not the one that runs.\<close>

lemma prepare_exe_frame:
  assumes "prepare_exe t pl exe w = (nextExePath, extra, w')"
  shows "frame {path_Join [Dir exe, executableNext (sn_info t) (Base exe)]} w w'"
proof -
  have rm: "frame {p} w (snd (RemoveFileIfExist p w))" for p w
    by (auto simp: RemoveFileIfExist_def split: sum.splits) (metis os_Remove_frame prod.collapse)
  have cp: "frame {d} w w'" if "CopyFile s d m w = (r, w')" for s d m w r w'
    using that
    by (auto simp: CopyFile_def copyFile_def split: sum.splits prod.splits option.splits
        dest!: os_frames intro: frame_trans)
  show ?thesis
    using assms frame_trans [OF rm cp]
    by (auto simp: prepare_exe_def Let_def split: if_splits option.splits prod.splits sum.splits)
qed

definition no_dir :: "string \<Rightarrow> os_world \<Rightarrow> bool" where
  "no_dir p w \<longleftrightarrow> (\<forall>m. fs w p \<noteq> Some (DirNode m))"

lemma no_dir_ops:
  "os_Create q perm w = (r, w') \<Longrightarrow> no_dir p w \<Longrightarrow> no_dir p w'"
  "os_Write q b w = (r, w') \<Longrightarrow> no_dir p w \<Longrightarrow> no_dir p w'"
  "os_Remove q w = (r, w') \<Longrightarrow> no_dir p w \<Longrightarrow> no_dir p w'"
  "os_Chmod q perm w = (r, w') \<Longrightarrow> no_dir p w \<Longrightarrow> no_dir p w'"
  by (auto simp: os_defs no_dir_def split: option.splits fnode.splits if_splits)
    (metis set_mode.elims fnode.distinct(1) fnode.simps)

lemma ParseInt_Itoa:
  assumes "0 \<le> n" and "n < 2 ^ 63"
  shows "ParseInt (Itoa n) 10 64 = Inr n" and "Atoi (Itoa n) = Inr n"
proof -
  define s where "s = itoa_nat (nat n)"
  have I: "Itoa n = s" using assms by (simp add: Itoa_def s_def)
  have "hd s \<in> set s" by (simp add: s_def)
  then have hd: "hd s \<noteq> CHR ''-''" "hd s \<noteq> CHR ''+''"
    using itoa_nat_no_sign [of "hd s" "nat n"] by (simp_all add: s_def)
  have "int (nat n) \<le> 2 ^ 64 - 1" using assms by simp
  from uint_loop_itoa [OF this] have "ParseUint s 10 64 = Inr n"
    using assms(1) by (simp add: ParseUint_def s_def)
  with hd assms show "ParseInt (Itoa n) 10 64 = Inr n"
    by (simp add: I ParseInt_def s_def)
  then show "Atoi (Itoa n) = Inr n" by (simp add: Atoi_def)
qed

lemma Start_started:
  assumes "Start exec released alive pl exe regs env t restart w = (e, w')" and "started w' \<noteq> started w"
  obtains o1 nextExe extra o2 pid where
    "CreateDirIfNeeded (run_dir (sn_info t) (sn_RunDir t)) (sn_RunDirPerm t) (nos w) = (None, o1)"
    "prepare_exe t pl exe o1 = (nextExe, extra, o2)"
    "exec nextExe (fold (\<lambda>reg args. reg args) regs [''-d''] @ extra @ [''node'', ''run'']) = Inr pid"
    "e = released"
    "nos w' = write_pid (pid_file (sn_info t) (sn_RunDir t)) pid
       (file_exists o1 (pid_file (sn_info t) (sn_RunDir t))) (sn_PidFilePerm t) o2"
    "started w' = started w @ [(nextExe, fold (\<lambda>reg args. reg args) regs [''-d''] @ extra @ [''node'', ''run''], env)]"
    "restart \<or> \<not> file_exists o1 (pid_file (sn_info t) (sn_RunDir t)) \<or>
       check_running alive (pid_file (sn_info t) (sn_RunDir t)) o1 = None"
  using assms
  by (auto simp: Start_def Let_def split: prod.splits option.splits sum.splits if_splits)

lemma RegisterServerArgs_append: "RegisterServerArgs ks t args = args @ RegisterServerArgs ks t []"
  by (simp add: RegisterServerArgs_def Let_def)

lemma prepare_exe_extra:
  assumes "prepare_exe t pl exe w = (nextExe, extra, w')"
  shows "extra = [] \<or> (\<exists>p. extra = [''-p'', ''autoupdate.file='' @ p])"
  using assms
  by (auto simp: prepare_exe_def Let_def split: if_splits option.splits prod.splits sum.splits)

lemma prepare_exe_no_dir:
  assumes "prepare_exe t pl exe w = (nextExe, extra, w')" and "no_dir p w"
  shows "no_dir p w'"
proof -
  have rm: "no_dir p (snd (RemoveFileIfExist q w))" for q
    using assms(2) no_dir_ops(3) [OF surjective_pairing, of p w q]
    by (auto simp: RemoveFileIfExist_def split: sum.split)
  have cp: "no_dir p w1 \<Longrightarrow> CopyFile s d m w1 = (r, w2) \<Longrightarrow> no_dir p w2" for s d m w1 r w2
    by (auto simp: CopyFile_def copyFile_def split: sum.splits prod.splits option.splits)
      (metis no_dir_ops)+
  show ?thesis
    using assms cp [OF rm]
    by (auto simp: prepare_exe_def Let_def split: if_splits option.splits prod.splits sum.splits)
qed

lemma write_pid_file:
  assumes "no_dir p w" and "deny w = (\<lambda>_. None)"
  shows "\<exists>m. fs (write_pid p pid b perm w) p = Some (FileNode m (Itoa pid))"
    and "deny (write_pid p pid b perm w) = (\<lambda>_. None)"
  using assms
  by (auto simp: write_pid_def os_WriteFile_def os_defs no_dir_def split: option.splits fnode.splits)

section \<open>Properties\<close>

subsection \<open>The arguments of a started node\<close>

lemma passed_on_sel:
  "daemon (passed_on t u) = daemon u" "verbose (passed_on t u) = Some (Verbose t)"
  "node (passed_on t u) = Some (max 0 (flags_Node t))" "prop_map (passed_on t u) = (prop_map t)('''' := None)"
  by (simp_all add: passed_on_def prop_map_def)

lemma prop_map_upd: "prop_map (t\<lparr>properties := Some m\<rparr>) = m"
  by (simp add: prop_map_def)

lemma started_flags:
  assumes "Start exec released alive pl exe [RegisterServerArgs ord fl] env t restart w = (e, w')"
    and "started w' \<noteq> started w"
    and "map_order ord (prop_map fl)" and "\<forall>k \<in> dom (prop_map fl). CHR ''='' \<notin> set k" and "flags_Node fl < 2 ^ 63"
  shows "\<exists>prog args fl'. started w' = started w @ [(prog, args, env)] \<and>
    FlagParse args (RegisterFlags (ApplicationFlags p)) = (Inr [''node'', ''run''], fl') \<and>
    Daemon fl' \<and> Verbose fl' = Verbose fl \<and> flags_Node fl' = max 0 (flags_Node fl) \<and>
    (\<forall>k. k \<noteq> '''' \<and> k \<noteq> ''autoupdate.file'' \<longrightarrow> prop_map fl' k = prop_map fl k)"
proof -
  obtain o1 prog extra o2 where
      pe: "prepare_exe t pl exe o1 = (prog, extra, o2)" and
      st: "started w' = started w @ [(prog, RegisterServerArgs ord fl [''-d''] @ extra @ [''node'', ''run''], env)]"
    by (rule Start_started [OF assms(1,2)]) (rule that, assumption, simp)
  let ?u = "(RegisterFlags (ApplicationFlags p))\<lparr>daemon := Some True\<rparr>"
  have "RegisterServerArgs ord fl [''-d''] = ''-d'' # RegisterServerArgs ord fl []"
    by (subst RegisterServerArgs_append) simp
  then have a: "FlagParse (RegisterServerArgs ord fl [''-d''] @ extra @ [''node'', ''run'']) (RegisterFlags (ApplicationFlags p)) =
      FlagParse (extra @ [''node'', ''run'']) (passed_on fl ?u)"
    using FlagParse_RegisterServerArgs [OF assms(3-5) refl] by (simp add: FlagParse_d)
  have "\<exists>fl'. FlagParse (extra @ [''node'', ''run'']) (passed_on fl ?u) = (Inr [''node'', ''run''], fl') \<and>
      (fl' = passed_on fl ?u \<or> (\<exists>v. fl' = (passed_on fl ?u)\<lparr>properties := Some ((prop_map (passed_on fl ?u))(''autoupdate.file'' \<mapsto> v))\<rparr>))"
    using prepare_exe_extra [OF pe] FlagParse_p [of "''autoupdate.file''"] by (auto simp: FlagParse_stop)
  then obtain fl' where f: "FlagParse (extra @ [''node'', ''run'']) (passed_on fl ?u) = (Inr [''node'', ''run''], fl')"
      "fl' = passed_on fl ?u \<or> (\<exists>v. fl' = (passed_on fl ?u)\<lparr>properties := Some ((prop_map (passed_on fl ?u))(''autoupdate.file'' \<mapsto> v))\<rparr>)"
    by blast
  have flags: "daemon fl' = Some True" "verbose fl' = Some (Verbose fl)" "node fl' = Some (max 0 (flags_Node fl))"
    using f(2) by (elim disjE exE; simp add: passed_on_sel RegisterFlags_def)+
  have "\<forall>k. k \<noteq> '''' \<and> k \<noteq> ''autoupdate.file'' \<longrightarrow> prop_map fl' k = prop_map fl k"
    using f(2) by (elim disjE exE; simp add: passed_on_sel prop_map_upd)
  moreover have "Daemon fl'" "Verbose fl' = Verbose fl" "flags_Node fl' = max 0 (flags_Node fl)"
    by (simp_all only: flags Daemon_def Verbose_def flags_Node_def option.case)
  ultimately show ?thesis using st a f(1) by (intro exI conjI) (assumption | simp)+
qed

text \<open>
  C6: a node that is started parses its command line back to the flags of the process that
  started it: it is a daemon, has the same verbosity, the same node number (zero for a negative
  one) and the same properties, except that one key more may name the update it was started
  from; and what is left of the command line is \<open>node run\<close>.
\<close>

theorem start_flags:
  assumes "Start exec released alive pl exe [RegisterServerArgs ord fl] env t restart w = (e, w')"
    and "started w' \<noteq> started w"
    and "map_order ord (prop_map fl)" and "\<forall>k \<in> dom (prop_map fl). CHR ''='' \<notin> set k" and "flags_Node fl < 2 ^ 63"
  shows "\<exists>prog args fl'. started w' = started w @ [(prog, args, env)] \<and>
    FlagParse args (RegisterFlags (ApplicationFlags p)) = (Inr [''node'', ''run''], fl') \<and>
    Daemon fl' \<and> Verbose fl' = Verbose fl \<and> flags_Node fl' = max 0 (flags_Node fl) \<and>
    (\<forall>k. k \<noteq> '''' \<and> k \<noteq> ''autoupdate.file'' \<longrightarrow> prop_map fl' k = prop_map fl k)"
  by (rule started_flags [OF assms])

definition sample_start :: start_node where
  "sample_start = \<lparr>sn_info = sample_app, sn_RunDir = ''/h/run'', sn_RunDirPerm = 493, sn_ExeFilePerm = 493,
     sn_PidFilePerm = 420, sn_Autoupdate = False, sn_BootstrapTokens = []\<rparr>"

definition empty_world :: node_world where
  "empty_world = \<lparr>nos = empty_fs, started = [], kills = []\<rparr>"

definition linux :: platform where
  "linux = \<lparr>GOOS = ''linux'', GOARCH = ''amd64''\<rparr>"

definition sample_flags :: app_flags where
  "sample_flags = \<lparr>daemon = None, verbose = Some True, node = Some 2, flags_priority = 0,
     properties = Some [''a'' \<mapsto> ''b=c'']\<rparr>"

lemma sample_start_runs:
  "\<exists>w'. Start (\<lambda>_ _. Inr 77) None alive linux ''/h/bin/app'' regs env sample_start restart empty_world = (None, w') \<and>
     started w' \<noteq> started empty_world \<and> deny (nos w') = (\<lambda>_. None)"
proof -
  obtain o1 where o1: "CreateDirIfNeeded ''/h/run'' 493 empty_fs = (None, o1)" "deny o1 = (\<lambda>_. None)"
    using create_dir_empty [of empty_fs "''/h/run''" 493] by (auto simp: empty_fs_def)
  have fr: "frame {''/h/run''} empty_fs o1" using CreateDirIfNeeded_frame [OF o1(1)] .
  have "pid_file sample_app ''/h/run'' \<noteq> ''/h/run''" by code_simp
  then have none: "fs o1 (pid_file sample_app ''/h/run'') = None" using fr by (simp add: frame_def empty_fs_def)
  then have "\<not> file_exists o1 (pid_file sample_app ''/h/run'')"
    by (simp add: file_exists_def os_Stat_def split: option.split)
  moreover have "no_dir (pid_file sample_app ''/h/run'') o1" using none by (simp add: no_dir_def)
  ultimately show ?thesis
    using o1 write_pid_file(2) [of "pid_file sample_app ''/h/run''" o1]
    by (simp add: Start_def Let_def sample_start_def run_dir_def empty_world_def prepare_exe_def)
qed

theorem start_flags_witness:
  "\<exists>w' prog args fl'. Start (\<lambda>_ _. Inr 77) None (\<lambda>_. False) linux ''/h/bin/app'' [RegisterServerArgs [''a''] sample_flags] []
       sample_start False empty_world = (None, w') \<and> started w' = [(prog, args, [])] \<and>
     FlagParse args (RegisterFlags (ApplicationFlags 0)) = (Inr [''node'', ''run''], fl') \<and>
     flags_Node fl' = 2 \<and> prop_map fl' ''a'' = Some ''b=c''"
proof -
  obtain w' where s: "Start (\<lambda>_ _. Inr 77) None (\<lambda>_. False) linux ''/h/bin/app'' [RegisterServerArgs [''a''] sample_flags] []
      sample_start False empty_world = (None, w')" "started w' \<noteq> started empty_world"
    using sample_start_runs by blast
  have "map_order [''a''] (prop_map sample_flags)" "\<forall>k \<in> dom (prop_map sample_flags). CHR ''='' \<notin> set k"
    "flags_Node sample_flags < 2 ^ 63"
    by (auto simp: map_order_def prop_map_def sample_flags_def flags_Node_def split: if_splits)
  from start_flags [OF s this, where p = 0] obtain prog args fl' where
      "started w' = [(prog, args, [])]" "FlagParse args (RegisterFlags (ApplicationFlags 0)) = (Inr [''node'', ''run''], fl')"
      "flags_Node fl' = max 0 (flags_Node sample_flags)"
      "\<forall>k. k \<noteq> '''' \<and> k \<noteq> ''autoupdate.file'' \<longrightarrow> prop_map fl' k = prop_map sample_flags k"
    by (auto simp: empty_world_def)
  with s(1) show ?thesis
    by (intro exI [of _ w'] exI [of _ prog] exI [of _ args] exI [of _ fl'])
      (simp add: flags_Node_def prop_map_def sample_flags_def)
qed

subsection \<open>The pid file\<close>

lemma TrimSpace_Itoa: "0 \<le> n \<Longrightarrow> TrimSpace (Itoa n) = Itoa n"
proof -
  assume n: "0 \<le> n"
  define s where "s = itoa_nat (nat n)"
  have s: "s \<noteq> []" "set s \<subseteq> digit_char ` {..<10}" using itoa_nat_digits by (simp_all add: s_def)
  have d: "(32 :: nat) < of_char c \<and> of_char c < (128 :: nat)" if "c \<in> set s" for c
    using that s(2) by (auto simp: digit_char_def)
  have "no_space_front s" using d s(1) by (cases s) (auto intro: no_space_front_char)
  moreover have "no_space_back ([] @ s)" using d s(1) by (intro no_space_back_append) auto
  ultimately have "TrimSpace s = s" by (intro TrimSpace_keep) simp_all
  with n show ?thesis by (simp add: s_def Itoa_def)
qed

lemma pid_file_outside:
  assumes "rooted (run_dir a runDir)" and "slash \<notin> set (getNodeName a)"
  shows "pid_file a runDir \<noteq> run_dir a runDir"
proof
  assume e: "pid_file a runDir = run_dir a runDir"
  have "plain_name (getNodeName a @ ''.pid'')"
    using assms(2) by (intro plain_name_append) (simp_all add: slash_def)
  from elems_path_Join(1) [OF assms(1) this] e show False by (simp add: pid_file_def)
qed

text \<open>What a start that worked leaves: the pid of the process it started, in the pid file.\<close>

lemma Start_pid_file:
  assumes "Start exec released alive pl exe regs env t restart w = (e, w')" and "started w' \<noteq> started w"
    and "deny (nos w) = (\<lambda>_. None)" and "no_dir (pid_file (sn_info t) (sn_RunDir t)) (nos w)"
    and "rooted (run_dir (sn_info t) (sn_RunDir t))" and "slash \<notin> set (getNodeName (sn_info t))"
  shows "\<exists>prog args pid m. exec prog args = Inr pid \<and> started w' = started w @ [(prog, args, env)] \<and>
    fs (nos w') (pid_file (sn_info t) (sn_RunDir t)) = Some (FileNode m (Itoa pid)) \<and>
    deny (nos w') = (\<lambda>_. None)"
proof -
  let ?p = "pid_file (sn_info t) (sn_RunDir t)" and ?d = "run_dir (sn_info t) (sn_RunDir t)"
  obtain o1 prog extra o2 pid where
      cd: "CreateDirIfNeeded ?d (sn_RunDirPerm t) (nos w) = (None, o1)" and
      pe: "prepare_exe t pl exe o1 = (prog, extra, o2)" and
      ex: "exec prog (fold (\<lambda>reg args. reg args) regs [''-d''] @ extra @ [''node'', ''run'']) = Inr pid" and
      wp: "nos w' = write_pid ?p pid (file_exists o1 ?p) (sn_PidFilePerm t) o2" and
      st: "started w' = started w @ [(prog, fold (\<lambda>reg args. reg args) regs [''-d''] @ extra @ [''node'', ''run''], env)]"
    by (rule Start_started [OF assms(1,2)]) (rule that; assumption)
  have f1: "frame {?d} (nos w) o1" using CreateDirIfNeeded_frame [OF cd] .
  have f2: "frame {path_Join [Dir exe, executableNext (sn_info t) (Base exe)]} o1 o2" using prepare_exe_frame [OF pe] .
  have "no_dir ?p o1"
    using f1 assms(4) pid_file_outside [OF assms(5,6)] by (simp add: frame_def no_dir_def)
  then have "no_dir ?p o2" by (rule prepare_exe_no_dir [OF pe])
  moreover have d: "deny o2 = (\<lambda>_. None)" using f1 f2 assms(3) by (simp add: frame_def)
  ultimately have "\<exists>m. fs (nos w') ?p = Some (FileNode m (Itoa pid))" "deny (nos w') = (\<lambda>_. None)"
    using write_pid_file [of ?p o2] by (simp_all add: wp)
  then show ?thesis using ex st by blast
qed

text \<open>
  C9: where the file system refuses nothing and the run directory is absolute, a start that
  worked followed by a stop that has to kill (no server answers) sends the interrupt to the
  process that was started, and removes the pid file and nothing else.
\<close>

theorem start_stop_pid:
  assumes "Start (\<lambda>prog args. Inr pid) released alive pl exe regs env t restart w = (e, w1)" and "started w1 \<noteq> started w"
    and "deny (nos w) = (\<lambda>_. None)" and "no_dir (pid_file (sn_info t) (sn_RunDir t)) (nos w)"
    and "rooted (run_dir (sn_info t) (sn_RunDir t))" and "slash \<notin> set (getNodeName (sn_info t))"
    and "0 \<le> pid" and "pid < 2 ^ 63"
  shows "\<exists>w2. KillServer (\<lambda>_. None) waited (sn_info t) (sn_RunDir t) w1 = (waited, w2) \<and>
    kills w2 = kills w1 @ [[''kill'', ''-2'', Itoa pid]] \<and> started w2 = started w1 \<and>
    fs (nos w2) = (fs (nos w1))(pid_file (sn_info t) (sn_RunDir t) := None)"
proof -
  from Start_pid_file [OF assms(1-6)] obtain m where
      f: "fs (nos w1) (pid_file (sn_info t) (sn_RunDir t)) = Some (FileNode m (Itoa pid))" "deny (nos w1) = (\<lambda>_. None)"
    by auto
  then have "os_ReadFile (nos w1) (pid_file (sn_info t) (sn_RunDir t)) = Inr (Itoa pid)"
    by (simp add: os_ReadFile_def os_Open_def os_Read_def)
  with f ParseInt_Itoa(2) [OF assms(7,8)] show ?thesis
    by (simp add: KillServer_def Let_def os_Remove_def)
qed

lemma sample_start_paths:
  "no_dir (pid_file (sn_info sample_start) (sn_RunDir sample_start)) (nos empty_world)"
  "rooted (run_dir (sn_info sample_start) (sn_RunDir sample_start))"
  "slash \<notin> set (getNodeName (sn_info sample_start))" "deny (nos empty_world) = (\<lambda>_. None)"
  by (simp_all add: no_dir_def empty_world_def empty_fs_def sample_start_def run_dir_def rooted_def HasPrefix_def
      getNodeName_def sample_app_def AppendNodeSequence_def slash_def)

theorem start_stop_pid_witness:
  "\<exists>w1 w2. Start (\<lambda>_ _. Inr 77) None (\<lambda>_. False) linux ''/h/bin/app'' [] [] sample_start False empty_world = (None, w1) \<and>
     KillServer (\<lambda>_. None) None sample_app ''/h/run'' w1 = (None, w2) \<and> kills w2 = kills w1 @ [[''kill'', ''-2'', ''77'']]"
proof -
  obtain w1 where s: "Start (\<lambda>_ _. Inr 77) None (\<lambda>_. False) linux ''/h/bin/app'' [] [] sample_start False empty_world = (None, w1)"
      "started w1 \<noteq> started empty_world"
    using sample_start_runs by blast
  have "Itoa 77 = ''77''" by code_simp
  with start_stop_pid [OF s sample_start_paths(4,1,2,3), where waited = None] s(1) show ?thesis
    by (auto simp: sample_start_def)
qed

text \<open>
  a node that was started and still runs is not started a second time: a further start
  reports an error and starts nothing; but a start for a restart goes ahead, and so does one
  when the process has ended.
\<close>

theorem refuse_second_start:
  assumes "Start (\<lambda>prog args. Inr pid) released alive pl exe regs env t restart w = (e, w1)" and "started w1 \<noteq> started w"
    and "deny (nos w) = (\<lambda>_. None)" and "no_dir (pid_file (sn_info t) (sn_RunDir t)) (nos w)"
    and "rooted (run_dir (sn_info t) (sn_RunDir t))" and "slash \<notin> set (getNodeName (sn_info t))"
    and "0 \<le> pid" and "pid < 2 ^ 63"
    and "Start exec2 released2 alive2 pl2 exe2 regs2 env2 t again w1 = (e2, w2)" and "exec2 = (\<lambda>prog args. Inr pid2)"
  shows "if \<not> again \<and> alive2 pid then e2 \<noteq> None \<and> started w2 = started w1
    else e2 = released2 \<and> (\<exists>prog args. started w2 = started w1 @ [(prog, args, env2)])"
proof -
  let ?p = "pid_file (sn_info t) (sn_RunDir t)" and ?d = "run_dir (sn_info t) (sn_RunDir t)"
  from Start_pid_file [OF assms(1-6)] obtain m where
      f: "fs (nos w1) ?p = Some (FileNode m (Itoa pid))" "deny (nos w1) = (\<lambda>_. None)" by auto
  obtain o1 where o1: "CreateDirIfNeeded ?d (sn_RunDirPerm t) (nos w1) = (None, o1)" "deny o1 = (\<lambda>_. None)"
    using create_dir_empty [OF f(2)] by blast
  have p: "fs o1 ?p = Some (FileNode m (Itoa pid))"
    using CreateDirIfNeeded_frame [OF o1(1)] pid_file_outside [OF assms(5,6)] f(1) by (simp add: frame_def)
  then have ex: "file_exists o1 ?p" and rd: "os_ReadFile o1 ?p = Inr (Itoa pid)"
    using o1(2) by (simp_all add: file_exists_def os_Stat_def os_ReadFile_def os_Open_def os_Read_def)
  have cr: "check_running alive2 ?p o1 = None \<longleftrightarrow> \<not> alive2 pid"
    using ParseInt_Itoa(1) [OF assms(7,8)] TrimSpace_Itoa [OF assms(7)] by (simp add: check_running_def rd)
  note start2 = assms(9) [unfolded Start_def assms(10) Let_def o1(1), simplified]
  show ?thesis
  proof (cases "\<not> again \<and> alive2 pid")
    case True
    with cr obtain x where x: "check_running alive2 ?p o1 = Some x" by (cases "check_running alive2 ?p o1") auto
    from start2 True ex have "(Some x, w1\<lparr>nos := o1\<rparr>) = (e2, w2)" by (simp add: x)
    with True show ?thesis by auto
  next
    case False
    obtain prog extra o2 where "prepare_exe t pl2 exe2 o1 = (prog, extra, o2)" by (metis prod_cases3)
    moreover have "(if \<not> again \<and> file_exists o1 ?p then check_running alive2 ?p o1 else None) = None"
      using False cr by auto
    ultimately show ?thesis using False start2 by auto
  qed
qed

theorem refuse_second_start_witness:
  "\<exists>w1 e w2. Start (\<lambda>_ _. Inr 77) None (\<lambda>_. False) linux ''/h/bin/app'' [] [] sample_start False empty_world = (None, w1) \<and>
     Start (\<lambda>_ _. Inr 78) None (\<lambda>p. p = 77) linux ''/h/bin/app'' [] [] sample_start False w1 = (Some e, w2) \<and>
     started w2 = started w1"
proof -
  obtain w1 where s: "Start (\<lambda>_ _. Inr 77) None (\<lambda>_. False) linux ''/h/bin/app'' [] [] sample_start False empty_world = (None, w1)"
      "started w1 \<noteq> started empty_world"
    using sample_start_runs by blast
  obtain e w2 where s2: "Start (\<lambda>_ _. Inr 78) None (\<lambda>p. p = 77) linux ''/h/bin/app'' [] [] sample_start False w1 = (e, w2)"
    by (cases "Start (\<lambda>_ _. Inr 78) None (\<lambda>p. p = 77) linux ''/h/bin/app'' [] [] sample_start False w1")
  from refuse_second_start [OF s sample_start_paths(4,1,2,3) _ _ s2 refl] s(1) s2 show ?thesis by auto
qed

subsection \<open>Updates\<close>

lemma rooted_Clean: "rooted p \<Longrightarrow> rooted (Clean p)"
  by (simp add: rooted_def Clean_def Let_def HasPrefix_def)

lemma Join_snoc: "ws \<noteq> [] \<Longrightarrow> Join (ws @ [w]) sep = Join ws sep @ sep @ w"
proof (induction ws)
  case (Cons v ws)
  then show ?case by (cases "ws = []") (simp_all add: Join_Cons)
qed simp

text \<open>For an absolute path \<open>exe = d/b\<close>, other names in its directory give other paths.\<close>

lemma beside_exe:
  assumes "rooted d" and "plain_name b" and "exe = path_Join [d, b]"
  shows "Base exe = b" and "rooted (Dir exe)"
proof -
  have e: "exe = ''/'' @ Join (elems d @ [b]) ''/''" using path_Join_rooted [OF assms(1,2)] assms(3) by simp
  obtain u where u: "exe = u @ [slash] @ b"
  proof (cases "elems d = []")
    case True
    with e show thesis by (intro that [of "[]"]) (simp add: slash_def)
  next
    case False
    with e Join_snoc [of "elems d" b "''/''"] show thesis by (intro that [of "''/'' @ Join (elems d) ''/''"]) (simp add: slash_def)
  qed
  have b: "b \<noteq> ''''" "slash \<notin> set b" using assms(2) by (auto simp: plain_name_def)
  show "Base exe = b" unfolding u using b by (rule Base_plain)
  have "LastIndexByte exe slash = Some (length u)"
    using LastIndexByte_append [OF b(2), of u] by (simp add: u)
  moreover have "rooted (take (length u + 1) exe)"
    using e u by (cases u) (auto simp: rooted_def HasPrefix_def slash_def)
  ultimately show "rooted (Dir exe)" by (simp add: Dir_def rooted_Clean)
qed

lemma hd_next: "hd (executableNext a current) = CHR ''.''"
  by (simp add: executableNext_def Let_def)

lemma prepare_exe_update:
  assumes "prepare_exe t pl exe w = (prog, extra, w')" and "extra \<noteq> []"
  shows "\<exists>p cnt. find (file_exists w) (map (\<lambda>n. path_Join [Dir exe, n]) (autoupdate_names pl (ai_name (sn_info t)))) = Some p \<and>
    CopyFile p (path_Join [Dir exe, executableNext (sn_info t) (Base exe)]) (sn_ExeFilePerm t)
      (snd (RemoveFileIfExist (path_Join [Dir exe, executableNext (sn_info t) (Base exe)]) w)) = (Inr cnt, w') \<and>
    extra = [''-p'', ''autoupdate.file='' @ p] \<and> prog = path_Join [Dir exe, executableNext (sn_info t) (Base exe)]"
proof (cases "find (file_exists w) (map (\<lambda>n. path_Join [Dir exe, n]) (autoupdate_names pl (ai_name (sn_info t))))")
  case None
  with assms show ?thesis by (simp add: prepare_exe_def Let_def split: if_splits)
next
  case (Some p)
  let ?next = "path_Join [Dir exe, executableNext (sn_info t) (Base exe)]"
  obtain r w1 where c: "CopyFile p ?next (sn_ExeFilePerm t) (snd (RemoveFileIfExist ?next w)) = (r, w1)"
    by (cases "CopyFile p ?next (sn_ExeFilePerm t) (snd (RemoveFileIfExist ?next w))")
  show ?thesis
  proof (cases r)
    case (Inl e)
    with assms Some c show ?thesis by (simp add: prepare_exe_def Let_def split: if_splits)
  next
    case (Inr cnt)
    with assms Some c show ?thesis by (simp add: prepare_exe_def Let_def split: if_splits)
  qed
qed

lemma join_inj:
  assumes "rooted d" "plain_name a" "plain_name b" "path_Join [d, a] = path_Join [d, b]"
  shows "a = b"
proof -
  have "elems d @ [a] = elems (path_Join [d, a])" by (rule elems_path_Join(1) [OF assms(1,2), symmetric])
  also have "\<dots> = elems (path_Join [d, b])" by (simp only: assms(4))
  also have "\<dots> = elems d @ [b]" by (rule elems_path_Join(1) [OF assms(1,3)])
  finally show ?thesis by (simp only: append1_eq_conv)
qed

lemma exe_elsewhere:
  assumes "rooted d" and "plain_name b" and "exe = path_Join [d, b]" and "plain_name n" and "n \<noteq> b"
  shows "path_Join [Dir exe, n] \<noteq> exe"
proof
  assume "path_Join [Dir exe, n] = exe"
  then have "elems (Dir exe) @ [n] = elems d @ [b]"
    using elems_path_Join(1) [OF beside_exe(2) [OF assms(1-3)] assms(4)] elems_path_Join(1) [OF assms(1,2)] assms(3) by simp
  with assms(5) show False by simp
qed

text \<open>
  C27: preparing the program of the next process never touches the program that runs: the only
  path that changes is a hidden name beside it, other than its own (the two names alternate),
  and when the arguments name an update then the prepared program is a copy of that update.
\<close>

theorem update_keeps_running_exe:
  assumes "prepare_exe t pl exe w = (prog, extra, w')"
    and "rooted d" and "plain_name b" and "exe = path_Join [d, b]"
    and "slash \<notin> set (getNodeName (sn_info t))"
    and "\<forall>n \<in> set (autoupdate_names pl (ai_name (sn_info t))). plain_name n \<and> hd n \<noteq> CHR ''.''"
  shows "fs w' exe = fs w exe \<and> (\<forall>q. q \<noteq> path_Join [Dir exe, executableNext (sn_info t) b] \<longrightarrow> fs w' q = fs w q) \<and>
    (extra = [] \<or> (\<exists>p m c. extra = [''-p'', ''autoupdate.file='' @ p] \<and> prog \<noteq> exe \<and>
      fs w p = Some (FileNode m c) \<and> fs w' prog = Some (FileNode (sn_ExeFilePerm t) c)))"
proof -
  note base = beside_exe [OF assms(2-4)]
  let ?next = "path_Join [Dir exe, executableNext (sn_info t) b]"
  have fr: "frame {?next} w w'" using prepare_exe_frame [OF assms(1)] base(1) by simp
  have ne: "?next \<noteq> exe"
    using exe_elsewhere [OF assms(2-4) plain_next [OF assms(5)] executableNext_other] .
  have "\<exists>p m c. extra = [''-p'', ''autoupdate.file='' @ p] \<and> prog \<noteq> exe \<and>
      fs w p = Some (FileNode m c) \<and> fs w' prog = Some (FileNode (sn_ExeFilePerm t) c)" if "extra \<noteq> []"
  proof -
    from prepare_exe_update [OF assms(1) that] obtain p cnt where
        p: "find (file_exists w) (map (\<lambda>n. path_Join [Dir exe, n]) (autoupdate_names pl (ai_name (sn_info t)))) = Some p"
        and c: "CopyFile p ?next (sn_ExeFilePerm t) (snd (RemoveFileIfExist ?next w)) = (Inr cnt, w')"
        and x: "extra = [''-p'', ''autoupdate.file='' @ p]" "prog = ?next" unfolding base(1) by blast
    from p obtain n where n: "n \<in> set (autoupdate_names pl (ai_name (sn_info t)))" "p = path_Join [Dir exe, n]"
      unfolding find_Some_iff by (metis length_map nth_map nth_mem)
    then have "p \<noteq> ?next"
      using assms(6) join_inj [OF base(2) _ plain_next [OF assms(5)], of n b] hd_next [of "sn_info t" b] by metis
    moreover from this have "fs (snd (RemoveFileIfExist ?next w)) p = fs w p"
      by (auto simp: RemoveFileIfExist_def os_Remove_def split: sum.split option.split)
    ultimately show ?thesis using CopyFile_ok [OF c] x ne by auto
  qed
  with fr ne show ?thesis by (auto simp: frame_def)
qed

theorem update_keeps_running_exe_witness:
  "\<exists>prog w' p c. prepare_exe (sample_start\<lparr>sn_Autoupdate := True\<rparr>) linux ''/h/bin/app-1''
       (empty_fs\<lparr>fs := [''/h/bin/app-1'' \<mapsto> FileNode 493 ''old'', ''/h/bin/app_linux'' \<mapsto> FileNode 420 ''new'']\<rparr>) =
       (prog, [''-p'', p], w') \<and> fs w' ''/h/bin/app-1'' = Some (FileNode 493 ''old'') \<and> fs w' prog = Some (FileNode 493 ''new'')"
proof -
  let ?t = "sample_start\<lparr>sn_Autoupdate := True\<rparr>"
  let ?w = "empty_fs\<lparr>fs := [''/h/bin/app-1'' \<mapsto> FileNode 493 ''old'', ''/h/bin/app_linux'' \<mapsto> FileNode 420 ''new'']\<rparr>"
  have paths: "Dir ''/h/bin/app-1'' = ''/h/bin''" "Base ''/h/bin/app-1'' = ''app-1''"
    "path_Join [''/h/bin'', ''app'']  = ''/h/bin/app''" "path_Join [''/h/bin'', ''app_linux'']  = ''/h/bin/app_linux''"
    "path_Join [''/h/bin'', ''.app.odd'']  = ''/h/bin/.app.odd''" "path_Join [''/h/bin'', ''app-1''] = ''/h/bin/app-1''"
    "path_Join [''/h/bin'', ''app_amd64_linux'']  = ''/h/bin/app_amd64_linux''"
    by code_simp+
  obtain prog extra w' where p: "prepare_exe ?t linux ''/h/bin/app-1'' ?w = (prog, extra, w')"
      by (metis prod_cases3)
  have x: "extra = [''-p'', ''autoupdate.file=/h/bin/app_linux'']"
    using p by (simp add: prepare_exe_def sample_start_def sample_app_def Let_def paths executableNext_def getNodeName_def
        AppendNodeSequence_def autoupdate_names_def linux_def file_exists_def os_defs empty_fs_def RemoveFileIfExist_def
        CopyFile_def copyFile_def)
  have "rooted ''/h/bin''" "plain_name ''app-1''" "slash \<notin> set (getNodeName (sn_info ?t))"
    "\<forall>n \<in> set (autoupdate_names linux (ai_name (sn_info ?t))). plain_name n \<and> hd n \<noteq> CHR ''.''"
    by (simp_all add: rooted_def HasPrefix_def plain_name_def slash_def getNodeName_def AppendNodeSequence_def
        sample_start_def sample_app_def autoupdate_names_def linux_def)
  from update_keeps_running_exe [OF p this(1,2) paths(6) [symmetric] this(3,4)] x
  obtain m c where f: "fs w' ''/h/bin/app-1'' = fs ?w ''/h/bin/app-1''" "fs ?w ''/h/bin/app_linux'' = Some (FileNode m c)"
      "fs w' prog = Some (FileNode (sn_ExeFilePerm ?t) c)" by auto
  then show ?thesis using p x by (auto simp: sample_start_def)
qed

subsection \<open>Servers and restarts\<close>

lemma signal_loop_closed: "shutdownOnce ap \<Longrightarrow> snd (signal_loop loggers evs ap) = ap"
  by (induction evs) (auto simp: app_Shutdown_def split_beta)

lemma signal_loop_int:
  assumes "ev \<noteq> SigHup" and "\<not> shutdownOnce ap"
  shows "\<not> app_restarting (snd (signal_loop loggers (ev # evs) ap))"
  using assms by (simp add: app_Shutdown_def Let_def)

lemma run_callback_app:
  "snd (run_callback bind waitg loggers evs servers ap) = (if servers = [] then ap else snd (signal_loop loggers evs ap))"
  by (simp add: run_callback_def)

lemma doWithServers_app:
  assumes "\<And>vs. snd (cb vs ap) \<in> A" and "ap \<in> A"
  shows "snd (snd (doWithServers children cb ap)) \<in> A"
proof (cases "create_contexts children []")
  case (Pair e ctxs)
  show ?thesis
  proof (cases "collect_servers ctxs")
    case (Inl a)
    with Pair assms(2) show ?thesis by (auto simp: doWithServers_def split: option.split)
  next
    case (Inr vs)
    with Pair assms show ?thesis by (auto simp: doWithServers_def split_beta Let_def split: option.split)
  qed
qed

text \<open>
  C21: a restart that was asked for through the control service (its timer calls
  \<open>Shutdown(true)\<close> while the servers run) survives the goroutine that waits for signals, which
  calls \<open>Shutdown(false)\<close> when the application is done: whatever events it sees, and whatever
  the servers return, the node starts its successor after the core was closed. A node whose
  first event is an interrupt or a termination starts none.
\<close>

theorem restart_survives:
  assumes "find fst children = Some (b, Inr core)" and "close core = Ret ce" and "\<not> shutdownOnce (rs_app s)"
    and "verb = False"
    and "serve = (\<lambda>core ap. let (e, cs, ap') = runServers bind waitg loggers evs (contexts core)
           (if asked then snd (app_Shutdown True ap) else ap) in (e, ap'))"
    and "run_Run a logDir dp fp verb children serve close starter s = (r, s')"
  shows "(asked \<longrightarrow> starter (rs_machine s) = (r, rs_machine s') \<and> app_shuttingDown (rs_app s')) \<and>
    (\<not> asked \<and> \<not> app_restarting (rs_app s) \<and> evs \<noteq> [] \<and> hd evs \<noteq> SigHup \<longrightarrow> r = ce \<and> rs_machine s' = rs_machine s)"
proof -
  define ap1 where "ap1 = (if asked then snd (app_Shutdown True (rs_app s)) else rs_app s)"
  define ap2 where "ap2 = snd (snd (runServers bind waitg loggers evs (contexts core) ap1))"
  have serve: "serve core (rs_app s) = (fst (runServers bind waitg loggers evs (contexts core) ap1), ap2)"
    by (simp add: assms(5) ap1_def ap2_def split_beta Let_def)
  have run: "(r, s') = (if app_restarting ap2
      then (fst (starter (rs_machine s)), s\<lparr>rs_app := ap2, rs_machine := snd (starter (rs_machine s))\<rparr>)
      else (ce, s\<lparr>rs_app := ap2\<rparr>))"
    using assms(6) by (auto simp: run_Run_def assms(1,2,4) serve split_beta Let_def)
  have asked: "app_restarting ap2 \<and> app_shuttingDown ap2" if "asked"
  proof -
    have c: "shutdownOnce ap1" "app_restarting ap1" "app_shuttingDown ap1"
      using assms(3) that by (simp_all add: ap1_def app_Shutdown_def Let_def)
    have "ap2 \<in> {ap1}"
      unfolding ap2_def runServers_def
      by (rule doWithServers_app) (simp_all add: run_callback_app signal_loop_closed [OF c(1)])
    with c show ?thesis by simp
  qed
  have int: "\<not> app_restarting ap2" if h: "\<not> asked" "\<not> app_restarting (rs_app s)" "evs \<noteq> []" "hd evs \<noteq> SigHup"
  proof -
    obtain ev es where ev: "evs = ev # es" "ev \<noteq> SigHup" using h(3,4) by (cases evs) auto
    have "ap2 \<in> {x. \<not> app_restarting x}"
      unfolding ap2_def runServers_def ap1_def using h(1,2) assms(3) ev
      by (intro doWithServers_app) (simp_all add: run_callback_app signal_loop_int del: signal_loop.simps)
    then show ?thesis by simp
  qed
  from run asked int show ?thesis by (cases "starter (rs_machine s)") auto
qed

definition sample_frame :: "unit run_frame" where
  "sample_frame = \<lparr>rs_app = Application ''app'' [], rs_run = \<lparr>rn_startLog = None, rn_logFile = None\<rparr>, rs_machine = empty_world\<rparr>"

theorem restart_survives_witness:
  "\<exists>s'. run_Run sample_app '''' 493 420 False [(True, Inr ())]
       (\<lambda>core ap. let (e, cs, ap') = runServers (\<lambda>v. (None, v)) (\<lambda>_. Ret None) [] [SigInt]
          [Inr \<lparr>ctx_name = ''s'', sprintBeans = [Some ()], grpcBeans = [], httpBeans = [], ctx_Close = None\<rparr>]
          (if True then snd (app_Shutdown True ap) else ap) in (e, ap'))
       (\<lambda>_. Ret None) (\<lambda>w. (None, w\<lparr>started := [(''next'', [], [])]\<rparr>)) sample_frame = (None, s') \<and>
     started (rs_machine s') = [(''next'', [], [])]"
proof -
  let ?serve = "\<lambda>core ap. let (e, cs, ap') = runServers (\<lambda>v. (None, v)) (\<lambda>_. Ret None) [] [SigInt]
          [Inr \<lparr>ctx_name = ''s'', sprintBeans = [Some ()], grpcBeans = [], httpBeans = [], ctx_Close = None\<rparr>]
          (if True then snd (app_Shutdown True ap) else ap) in (e, ap')"
  let ?start = "\<lambda>w :: node_world. (None :: goerror option, w\<lparr>started := [(''next'', [], [])]\<rparr>)"
  obtain r s' where run: "run_Run sample_app '''' 493 420 False [(True, Inr ())] ?serve (\<lambda>_. Ret None) ?start sample_frame = (r, s')"
    by fastforce
  have c: "find fst [(True, Inr ())] = Some (True, Inr ())" "\<not> shutdownOnce (rs_app sample_frame)"
    by (simp_all add: sample_frame_def Application_def new_application_def AppendBeans_def)
  from restart_survives [where contexts = "\<lambda>_. [Inr \<lparr>ctx_name = ''s'', sprintBeans = [Some ()], grpcBeans = [], httpBeans = [], ctx_Close = None\<rparr>]"
      and asked = True and bind = "\<lambda>v. (None, v)" and waitg = "\<lambda>_. Ret None" and loggers = "[]" and evs = "[SigInt]",
      OF c(1) refl c(2) refl refl run]
  have "?start (rs_machine sample_frame) = (r, rs_machine s')" by simp
  then have "r = None" "started (rs_machine s') = started ((rs_machine sample_frame)\<lparr>started := [(''next'', [], [])]\<rparr>)"
    by (auto simp only: prod.inject)
  with run show ?thesis by auto
qed

lemma create_contexts_spec:
  "create_contexts children acc = (e, ctxs) \<Longrightarrow>
   \<exists>made. ctxs = acc @ made \<and> prefix (map Inr made) children \<and> (e = None \<longleftrightarrow> map Inr made = children)"
proof (induction children acc arbitrary: ctxs rule: create_contexts.induct)
  case (2 child children acc)
  show ?case
  proof (cases child)
    case (Inl x)
    with "2.prems" show ?thesis by (intro exI [of _ "[]"]) auto
  next
    case (Inr ctx)
    with "2.prems" have "create_contexts children (acc @ [ctx]) = (e, ctxs)" by simp
    from "2.IH" [OF Inr this] obtain made where
        "ctxs = (acc @ [ctx]) @ made" "prefix (map Inr made) children" "e = None \<longleftrightarrow> map Inr made = children" by blast
    with Inr show ?thesis by (intro exI [of _ "ctx # made"]) auto
  qed
qed simp

lemma close_contexts_None:
  "close_contexts ctxs r = None \<longleftrightarrow> r = Ret None \<and> (\<forall>c \<in> set ctxs. ctx_Close c = None)"
proof -
  have "List.map_filter (\<lambda>c. map_option error_text (ctx_Close c)) ctxs = [] \<longleftrightarrow> (\<forall>c \<in> set ctxs. ctx_Close c = None)"
    by (induction ctxs) (auto simp: List.map_filter_simps split: option.splits)
  then show ?thesis by (auto simp: close_contexts_def Let_def split: outcome.splits)
qed



end
