(* ===== verification/Cmd_Setup.thy ===== *)
theory Cmd_Setup
  imports Cmd_Config App_Resources
begin

text \<open>
  The remaining commands of \<open>sprintcmd\<close>: \<open>keygen_cmd.go\<close>, \<open>setup_cmd.go\<close>,
  \<open>resources_cmd.go\<close>, \<open>help_cmd.go\<close> and \<open>version_cmd.go\<close>. Reads of the random source are a list;
  a result \<open>None\<close> means that a token is still waiting for another read.
\<close>

section \<open>keygen\<close>

definition context_entry :: "string \<Rightarrow> (string \<Rightarrow> string option) \<Rightarrow> (string \<Rightarrow> string option)" where
  "context_entry pair m =
     (case IndexByte pair (CHR ''='') of
        None \<Rightarrow> m(pair \<mapsto> '''')
      | Some i \<Rightarrow> m(take i pair \<mapsto> drop (i + 1) pair))"

definition context_map :: "string \<Rightarrow> (string \<Rightarrow> string option)" where
  "context_map context = fold context_entry (SplitByte context (CHR '','')) Map.empty"

definition role_map :: "string \<Rightarrow> (string \<Rightarrow> bool option)" where
  "role_map roles = fold (\<lambda>role m. m(TrimSpace role \<mapsto> True)) (SplitByte roles (CHR '','')) Map.empty"

datatype keygen_output = PrintedToken string | PrintedUser authorized_user

definition generateBootstrapToken :: "bytes res list \<Rightarrow> keygen_output res option" where
  "generateBootstrapToken rds =
     (case GenerateToken rds of
        None \<Rightarrow> None
      | Some (Inl e, _) \<Rightarrow> Some (Inl e)
      | Some (Inr token, _) \<Rightarrow> Some (Inr (PrintedToken token)))"

text \<open>\<open>typed\<close> is what is typed as the secret, \<open>role_order\<close> the iteration order of the role map.\<close>

definition generateAuthToken :: "jwt_lib \<Rightarrow> ((string \<Rightarrow> bool option) \<Rightarrow> string list) \<Rightarrow> string + string \<Rightarrow> int
    \<Rightarrow> string list \<Rightarrow> keygen_output res" where
  "generateAuthToken lib role_order typed now args =
     (case args of
        username # roles # context # ttlDaysStr # _ \<Rightarrow>
          (case b64_decode True (PromptPassword typed) of
             (_, Some e) \<Rightarrow> Inl e
           | (key, None) \<Rightarrow>
               (case ParseInt ttlDaysStr 10 64 of
                  Inl e \<Rightarrow> Inl (Errorf (''error on parsing days '' @ ttlDaysStr @ '', '' @ error_text e))
                | Inr ttlDays \<Rightarrow>
                    (case GenerateAuthToken lib (role_order (role_map roles)) (Some key)
                            (Some \<lparr>Username = username, Roles = Some (role_map roles),
                                   user_Context = Some (context_map context),
                                   ExpiresAt = wrap64 (now + ttlDays * 24 * 3600), Token = ''''\<rparr>) of
                       Inl e \<Rightarrow> Inl e
                     | Inr token \<Rightarrow> Inr (PrintedToken token))))
      | _ \<Rightarrow> Inl (Errorf ''Usage: keygen auth username roles context ttl-in-days''))"

text \<open>
  \<open>prop\<close> is the property lookup. The error of the verification is built and dropped: the user
  is nil then, and printing it panics.
\<close>

definition keygen_verify :: "jwt_lib \<Rightarrow> (string \<Rightarrow> string) \<Rightarrow> string \<Rightarrow> string + string \<Rightarrow> int
    \<Rightarrow> string list \<Rightarrow> keygen_output res outcome" where
  "keygen_verify lib prop name typed now args =
     (let authToken = (case args of a # _ \<Rightarrow> a | [] \<Rightarrow> prop (ToUpper (name @ ''_auth'')))
      in if authToken = '''' then Ret (Inl (Errorf ''auth token not found''))
         else case b64_decode True (PromptPassword typed) of
                (_, Some e) \<Rightarrow> Ret (Inl e)
              | (key, None) \<Rightarrow>
                  (case VerifyAuthToken lib now (Some key) authToken of
                     Inl e \<Rightarrow> Panic nil_deref
                   | Inr user \<Rightarrow> Ret (Inr (PrintedUser user))))"

definition keygen_Run :: "jwt_lib \<Rightarrow> ((string \<Rightarrow> bool option) \<Rightarrow> string list) \<Rightarrow> (string \<Rightarrow> string) \<Rightarrow> string
    \<Rightarrow> string + string \<Rightarrow> int \<Rightarrow> bytes res list \<Rightarrow> string list \<Rightarrow> keygen_output res option" where
  "keygen_Run lib role_order prop name typed now rds args =
     (case args of
        [] \<Rightarrow> Some (Inl (Errorf ''keygen command needs argument: keygen commands [boot, auth, verify]''))
      | cmd # args \<Rightarrow>
          if cmd = ''boot'' then generateBootstrapToken rds
          else if cmd = ''auth'' then Some (generateAuthToken lib role_order typed now args)
          else if cmd = ''verify'' then Some (PanicToError (keygen_verify lib prop name typed now args))
          else Some (Inl (Errorf (''unknown sub-command '' @ cmd @ '' for token command''))))"

section \<open>setup\<close>

definition setup_key :: "string \<Rightarrow> 's config_repo \<Rightarrow> 'w cli \<Rightarrow> bytes option res outcome \<times> 's config_repo \<times> 'w cli" where
  "setup_key secret cr s =
     (let (key, err) = b64_decode True secret; s = printf (''JWT secret key '' @ key @ nl) s
      in (Ret (case err of Some e \<Rightarrow> Inl e | None \<Rightarrow> Inr (Some key)), cr, s))"

definition setup_core :: "bytes res list \<Rightarrow> 's config_repo \<Rightarrow> 'w cli
    \<Rightarrow> bytes option res outcome \<times> 's config_repo \<times> 'w cli" where
  "setup_core rds cr s =
     (case cfg_Get cr ''jwt.secret.key'' of
        Panic m \<Rightarrow> (Panic m, cr, s)
      | Ret (Inl e) \<Rightarrow> (Ret (Inl e), cr, s)
      | Ret (Inr secret) \<Rightarrow>
          if secret \<noteq> '''' then setup_key secret cr s
          else (case GenerateToken rds of
                  None \<Rightarrow> (Ret (Inr None), cr, s)
                | Some (Inl e, _) \<Rightarrow> (Ret (Inl e), cr, s)
                | Some (Inr secret, _) \<Rightarrow>
                    (case cfg_put ''jwt.secret.key'' secret cr of
                       (Panic m, cr) \<Rightarrow> (Panic m, cr, s)
                     | (Ret (Some e), cr) \<Rightarrow> (Ret (Inl e), cr, s)
                     | (Ret None, cr) \<Rightarrow> setup_key secret cr s)))"

definition setup_user :: "string \<Rightarrow> int \<Rightarrow> authorized_user" where
  "setup_user name now =
     \<lparr>Username = name, Roles = Some [''USER'' \<mapsto> True, ''ADMIN'' \<mapsto> True], user_Context = None,
      ExpiresAt = now + 356 * 24 * 3600, Token = ''''\<rparr>"

definition export_line :: "string \<Rightarrow> string \<Rightarrow> string \<Rightarrow> string" where
  "export_line name var v = ''export '' @ ToUpper (name @ ''_'' @ var) @ ''='' @ v @ nl"

text \<open>\<open>set_property\<close> is the properties library's \<open>Set\<close>; \<open>roles\<close> the iteration order of the map.\<close>

definition setup_auth :: "jwt_lib \<Rightarrow> string list \<Rightarrow> string res \<Rightarrow> int \<Rightarrow> string \<Rightarrow> bytes \<Rightarrow> 'w cli
    \<Rightarrow> goerror option outcome \<times> 'w cli" where
  "setup_auth lib roles currentUser now name key s =
     (case currentUser of
        Inl e \<Rightarrow> (Ret (Some e), s)
      | Inr username \<Rightarrow>
          (case GenerateAuthToken lib roles (Some key) (Some (setup_user username now)) of
             Inl e \<Rightarrow> (Ret (Some e), s)
           | Inr auth \<Rightarrow> (Ret None, printf (export_line name ''auth'' auth) s)))"

definition setup_Run :: "jwt_lib \<Rightarrow> string list \<Rightarrow> string res \<Rightarrow> int \<Rightarrow> (string \<Rightarrow> string \<Rightarrow> 'w \<Rightarrow> 'w)
    \<Rightarrow> ('s config_repo, 'w cli) core_child list \<Rightarrow> string \<Rightarrow> bytes res list \<Rightarrow> 'w cli
    \<Rightarrow> (goerror option outcome \<times> 'w cli) option" where
  "setup_Run lib roles currentUser now set_property children name rds s =
     (case GenerateToken rds of
        None \<Rightarrow> None
      | Some (Inl e, _) \<Rightarrow> Some (Ret (Some e), s)
      | Some (Inr boot, rds) \<Rightarrow>
          (let s = printf (export_line name ''boot'' boot) s;
               s = s\<lparr>outer := set_property ''application.boot'' boot (outer s)\<rparr>
           in case doInCore children (setup_core rds) s of
                (Panic m, s) \<Rightarrow> Some (Panic m, s)
              | (Ret (Inl e), s) \<Rightarrow> Some (Ret (Some e), s)
              | (Ret (Inr None), s) \<Rightarrow> None
              | (Ret (Inr (Some key)), s) \<Rightarrow> Some (setup_auth lib roles currentUser now name key s)))"

section \<open>resources, help, version\<close>

text \<open>What is printed, or the error.\<close>

definition resources_Run :: "(string \<Rightarrow> bytes res outcome option) \<Rightarrow> string \<Rightarrow> resource_source list \<Rightarrow> string list \<Rightarrow> string res" where
  "resources_Run resource packageName sources args =
     (case args of
        [] \<Rightarrow> Inl (Errorf ''resources command needs argument, resources commands: [licenses, openapi]'')
      | cmd # _ \<Rightarrow>
          if cmd = ''licenses'' then GetLicenses resource packageName ''resources:licenses.txt''
          else if cmd = ''openapi'' then Inr (GetOpenAPI resource sources ''resources'')
          else Inl (Errorf (''unknown sub-command for resources '' @ cmd)))"

text \<open>\<open>help\<close> gives a command's help text, \<open>defaults\<close> is what the flag set prints of its flags.\<close>

definition help_Run :: "string \<Rightarrow> ('w command \<Rightarrow> string) \<Rightarrow> string \<Rightarrow> 'w command list \<Rightarrow> string list \<Rightarrow> string res" where
  "help_Run exe help defaults cmds args =
     (let flags = nl @ ''Flags:'' @ nl @ defaults
      in case args of
           [] \<Rightarrow>
             Inr (''Usage: ./'' @ exe @ '' help [command]'' @ nl
                  @ concat (map (\<lambda>c. ''    '' @ BeanName c @ '' - '' @ Synopsis c @ nl) cmds) @ flags)
         | commandName # _ \<Rightarrow>
             (case find (\<lambda>c. BeanName c = commandName) cmds of
                Some c \<Rightarrow> Inr (help c @ nl @ flags)
              | None \<Rightarrow> Inl (Errorf (''command '' @ commandName @ '' not found''))))"

definition version_Run :: "'b application \<Rightarrow> string \<Rightarrow> string" where
  "version_Run t copyright =
     applicationName t @ '' [Version '' @ applicationVersion t @ '', Build '' @ applicationBuild t @ '']'' @ nl
     @ (if copyright \<noteq> '''' then copyright @ nl else '''')"

section \<open>Lemmas\<close>

lemma setup_key_ret: "setup_key secret cr s = (x, cr', s') \<Longrightarrow> cr' = cr"
  by (auto simp: setup_key_def split: prod.splits)

text \<open>The random source gives as many bytes as it is asked for.\<close>

definition reads_ok :: "bytes res list \<Rightarrow> bool" where
  "reads_ok rds \<longleftrightarrow> (\<forall>nonce. Inr nonce \<in> set rds \<longrightarrow> length nonce = DefaultTokenSize)"

lemma GenerateToken_ne:
  assumes "reads_ok rds" and "GenerateToken rds = Some (Inr key, rest)"
  shows "key \<noteq> ''''"
proof -
  from GenerateToken_Inr [OF assms(2)] obtain nonce where n: "Inr nonce \<in> set rds" "key = b64_encode True nonce"
    by blast
  with assms(1) have "length nonce = 32" by (simp add: reads_ok_def DefaultTokenSize_def)
  then have "nonce \<noteq> []" by auto
  then show ?thesis using b64_encode_ne n(2) by simp
qed

lemma setup_core_key:
  assumes "cfg_inv cr" and "reads_ok rds" and "setup_core rds cr s = (Ret (Inr (Some key)), cr', s')"
  shows "\<exists>secret. secret \<noteq> '''' \<and> cfg_inv cr' \<and> cfg_view cr' ''jwt.secret.key'' = Some secret \<and>
    b64_decode True secret = (key, None)"
proof -
  obtain sec where g: "cfg_Get cr ''jwt.secret.key'' = Ret (Inr sec)"
    using assms(3) by (auto simp: setup_core_def split: outcome.splits sum.splits)
  have v: "sec = value_or_empty (cfg_view cr ''jwt.secret.key'')"
    using cfgr.get_view [OF assms(1) g] .
  show ?thesis
  proof (cases "sec = ''''")
    case False
    with assms(3) g have k: "setup_key sec cr s = (Ret (Inr (Some key)), cr', s')" by (simp add: setup_core_def)
    then have "b64_decode True sec = (key, None)" "cr' = cr"
      by (auto simp: setup_key_def split: prod.splits option.splits)
    with False v assms(1) show ?thesis
      by (intro exI [of _ sec]) (auto simp: value_or_empty_def split: option.splits)
  next
    case True
    with assms(3) g obtain secret rest cr1 where
        t: "GenerateToken rds = Some (Inr secret, rest)" and p: "cfg_put ''jwt.secret.key'' secret cr = (Ret None, cr1)"
        and k: "setup_key secret cr1 s = (Ret (Inr (Some key)), cr', s')"
      by (auto simp: setup_core_def split: option.splits prod.splits sum.splits outcome.splits)
    from k have d: "b64_decode True secret = (key, None)" "cr' = cr1"
      by (auto simp: setup_key_def split: prod.splits option.splits)
    from d GenerateToken_ne [OF assms(2) t] cfgr.put_ok [OF assms(1) p] cfgr.put_returns [OF assms(1) p]
    show ?thesis
      by (intro exI [of _ secret]) (auto simp: as_entry_def)
  qed
qed

end
