(* ===== verification/Cmd_Help.thy ===== *)
theory Cmd_Help
  imports Cmd_Node Cmd_Setup Job_Service Trim_Lemmas "HOL-Library.Multiset"
begin

text \<open>
  What the commands of \<open>sprintcmd\<close> say of themselves: names, synopses and help pages, with the
  subcommands the pages document, and \<open>sprintcmd/scan.go\<close>, the list of commands. The pages are
  string literals in the source that share one layout; \<open>help_text\<close> is this layout, and the
  parts that differ are the fields of a \<open>command_text\<close>. The theorems compare the documented
  subcommands with those that the commands' \<open>Run\<close> and the services behind them accept.
\<close>

section \<open>Names, synopses and help pages\<close>

record command_text =
  ct_BeanName :: string
  ct_usage :: string  \<comment> \<open>what follows the name of the program\<close>
  ct_description :: string
  ct_width :: nat  \<comment> \<open>of the column of subcommands\<close>
  ct_commands :: "(string \<times> string) list"
  ct_Synopsis :: string

text \<open>The literal after the name of the program; then the whole, and what \<open>Help\<close> makes of it.\<close>

definition help_rest :: "command_text \<Rightarrow> string" where
  "help_rest c =
     ct_usage c @ nl @ nl @ [CHR 0x09] @ ct_description c @ nl @ nl
     @ (if ct_commands c = [] then ''''
        else ''Commands:'' @ nl @ nl
             @ concat (map (\<lambda>(cmd, d). ''  '' @ cmd @ replicate (ct_width c - length cmd) (CHR '' '') @ d @ nl @ nl)
                 (ct_commands c)))"

definition help_text :: "command_text \<Rightarrow> string \<Rightarrow> string" where
  "help_text c exe = nl @ ''Usage: ./'' @ exe @ help_rest c"

definition ct_Help :: "command_text \<Rightarrow> string \<Rightarrow> string" where
  "ct_Help c exe = TrimSpace (help_text c exe)"

definition documented :: "command_text \<Rightarrow> string list" where
  "documented c = map fst (ct_commands c)"

definition VersionCommand_text :: command_text where
  "VersionCommand_text =
     \<lparr>ct_BeanName = ''version'', ct_usage = '' version'',
      ct_description = ''Display the current version and build of the application.'',
      ct_width = 0, ct_commands =
       [],
      ct_Synopsis = ''show version''\<rparr>"

definition SetupCommand_text :: command_text where
  "SetupCommand_text =
     \<lparr>ct_BeanName = ''setup'', ct_usage = '' setup'',
      ct_description = ''Setups the application node for the first time.'',
      ct_width = 0, ct_commands =
       [],
      ct_Synopsis = ''setup command''\<rparr>"

definition HelpCommand_text :: command_text where
  "HelpCommand_text =
     \<lparr>ct_BeanName = ''help'', ct_usage = '' help [command]'',
      ct_description = ''Displays full text help for the command.'',
      ct_width = 0, ct_commands =
       [],
      ct_Synopsis = ''help command''\<rparr>"

definition ResourcesCommand_text :: command_text where
  "ResourcesCommand_text =
     \<lparr>ct_BeanName = ''resources'', ct_usage = '' resources [command]'',
      ct_description = ''Provides management functionality over resources.'',
      ct_width = 25, ct_commands =
       [(''licenses'', ''Display the list of open source licenses using by the application.''),
        (''openapi'', ''Display Open API interfaces available in the application.'')],
      ct_Synopsis = ''resources commands: [licenses, openapi]''\<rparr>"

definition ConfigCommand_text :: command_text where
  "ConfigCommand_text =
     \<lparr>ct_BeanName = ''config'', ct_usage = '' config [command]'',
      ct_description = ''Provides management functionality for the internal config.'',
      ct_width = 25, ct_commands =
       [(''get'', ''Gets the config entry by key.''),
        (''set'', ''Sets the config entry value by key.''),
        (''list'', ''List all config entries, hides the passwords and keys.''),
        (''dump'', ''Dumps all config entries to move to another system. Needs admin permissions.'')],
      ct_Synopsis = ''config commands: [get, set, dump, list]''\<rparr>"

definition CertsCommand_text :: command_text where
  "CertsCommand_text =
     \<lparr>ct_BeanName = ''certs'', ct_usage = '' certs [command]'',
      ct_description = ''Provides management functionality over certificates.'',
      ct_width = 25, ct_commands =
       [(''list'', ''Display list of all certificates in the system.''),
        (''dump'', ''Dumps the particular certificate to the console in PEM format.''),
        (''upload'', ''Uploads the certificate to the system.''),
        (''create'', ''Created the certificate.''),
        (''renew'', ''Renew certificate.''),
        (''remove'', ''Removed certificate from the system.''),
        (''client'', ''Client operations over certificates.''),
        (''acme'', ''ACME operations over certificates.''),
        (''self'', ''Self-signed certificates.''),
        (''manager'', ''Invoke certificate manager console.'')],
      ct_Synopsis = ''certs commands: [list, dump, upload, create, renew, remove, client, acme, self, manager]''\<rparr>"

definition StorageCommand_text :: command_text where
  "StorageCommand_text =
     \<lparr>ct_BeanName = ''storage'', ct_usage = '' storage [command]'',
      ct_description = ''Provides management functionality for the internal storage(s).'',
      ct_width = 25, ct_commands =
       [(''console'', ''Runs interactive storage console.''),
        (''list'', ''Lists available internal storages.''),
        (''dump'', ''Dumps the internal storage to the file.''),
        (''restore'', ''Restore internal storage from the file.''),
        (''compact'', ''Runs compaction background process on internal storage.''),
        (''drop'', ''Non-reversible operation of deleting all records in the internal storage.''),
        (''clean'', ''Clean the storage.'')],
      ct_Synopsis = ''storage management commands: [console, list, dump, restore, compact, drop, clean]''\<rparr>"

definition JobsCommand_text :: command_text where
  "JobsCommand_text =
     \<lparr>ct_BeanName = ''jobs'', ct_usage = '' jobs [command]'',
      ct_description = ''Provides management functionality for scheduled jobs.'',
      ct_width = 26, ct_commands =
       [(''list'', ''Gets the schedule list of all jobs.''),
        (''run'', ''Run a job by name.''),
        (''cancel'', ''Cancel the running job and remove from schedule list.'')],
      ct_Synopsis = ''jobs management - [list, run, cancel]''\<rparr>"

definition KeygenCommand_text :: command_text where
  "KeygenCommand_text =
     \<lparr>ct_BeanName = ''keygen'', ct_usage = '' keygen [command]'',
      ct_description = ''Issues token and keys using on startup or in rpc calls.'',
      ct_width = 26, ct_commands =
       [(''boot'', ''Generates the bootstrap token using for decryption of configs and databases.''),
        (''auth'', ''Generates JWT authorization token using in gRPC and HTTPS.''),
        (''verify'', ''Verify the JWT token and decodes arguments.'')],
      ct_Synopsis = ''keygen commands [boot, auth, verify]''\<rparr>"

definition NodeCommand_text :: command_text where
  "NodeCommand_text =
     \<lparr>ct_BeanName = ''node'', ct_usage = '' node [command]'',
      ct_description = ''Provides management functionality for the running node.'',
      ct_width = 25, ct_commands =
       [(''run'', ''Runs the application node as a foreground process.''),
        (''start'', ''Starts the application node in the background mode.''),
        (''stop'', ''Stops the already running node in the background mode.''),
        (''restart'', ''Restarts the application node in the background mode.''),
        (''status'', ''Returns the status of the running node application.'')],
      ct_Synopsis = ''node commands: [run, start, stop, restart, status]''\<rparr>"

definition RestartNode_text :: command_text where
  "RestartNode_text =
     \<lparr>ct_BeanName = ''restart'', ct_usage = '' restart'',
      ct_description = ''Restarts the application node.'',
      ct_width = 0, ct_commands =
       [],
      ct_Synopsis = ''restart server''\<rparr>"

text \<open>
  \<open>scan.go\<close> lists the commands. \<open>RunNode\<close>, \<open>StartNode\<close>, \<open>StopNode\<close> and \<open>StatusNode\<close>, which it
  lists too, have neither a name nor a help page: they are no commands of their own.
\<close>

definition command_texts :: "command_text list" where
  "command_texts =
     [VersionCommand_text, SetupCommand_text, HelpCommand_text, ResourcesCommand_text, ConfigCommand_text,
      CertsCommand_text, StorageCommand_text, JobsCommand_text, KeygenCommand_text, NodeCommand_text,
      RestartNode_text]"

section \<open>Lemmas\<close>

lemmas text_defs = VersionCommand_text_def SetupCommand_text_def HelpCommand_text_def ResourcesCommand_text_def
  ConfigCommand_text_def CertsCommand_text_def StorageCommand_text_def JobsCommand_text_def
  KeygenCommand_text_def NodeCommand_text_def RestartNode_text_def

lemma command_names_distinct: "distinct (map ct_BeanName command_texts)"
  by (simp add: command_texts_def text_defs)

text \<open>Every page ends with a full stop and two line breaks, and starts with the command's name.\<close>

definition page_ok :: "command_text \<Rightarrow> bool" where
  "page_ok c \<longleftrightarrow> (let r = rev (help_rest c) in
     take 3 r = [CHR 0x0A, CHR 0x0A, CHR ''.''] \<and> take (length (ct_BeanName c) + 1) (rev r) = '' '' @ ct_BeanName c)"

lemma pages_ok: "list_all page_ok command_texts"
  by code_simp

lemma page_shape:
  assumes "c \<in> set command_texts"
  obtains t where "help_rest c = '' '' @ ct_BeanName c @ t" "\<exists>u. help_rest c = (u @ ''.'') @ nl @ nl"
proof -
  have p: "take 3 (rev (help_rest c)) = [CHR 0x0A, CHR 0x0A, CHR ''.'']"
      "take (length (ct_BeanName c) + 1) (help_rest c) = '' '' @ ct_BeanName c"
    using pages_ok assms by (auto simp: list_all_iff page_ok_def Let_def)
  have "rev (help_rest c) = [CHR 0x0A, CHR 0x0A, CHR ''.''] @ drop 3 (rev (help_rest c))"
    by (metis append_take_drop_id p(1))
  then have "help_rest c = (rev (drop 3 (rev (help_rest c))) @ ''.'') @ nl @ nl"
    by (metis (no_types, lifting) append.assoc append_Cons append_Nil nl_def rev_append rev_rev_ident rev.simps)
  moreover have "help_rest c = '' '' @ ct_BeanName c @ drop (length (ct_BeanName c) + 1) (help_rest c)"
    by (metis append.assoc append_take_drop_id p(2))
  ultimately show ?thesis using that by blast
qed

lemma trim_back_nl: "trim_front (map rev space_seqs) (CHR 0x0A # s) = trim_front (map rev space_seqs) s"
  by (subst trim_front.simps) (simp add: space_seqs_def)

lemma trim_front_nl: "trim_front space_seqs (CHR 0x0A # s) = trim_front space_seqs s"
  by (subst trim_front.simps) (simp add: space_seqs_def)

lemma TrimSpace_page: "TrimSpace (nl @ (CHR ''U'' # s @ ''.'') @ nl @ nl) = CHR ''U'' # s @ ''.''"
proof -
  have "no_space_front (CHR ''U'' # s @ ''.'' @ nl @ nl)" by (rule no_space_front_char) simp_all
  then have f: "trim_front space_seqs (CHR ''U'' # s @ ''.'' @ nl @ nl) = CHR ''U'' # s @ ''.'' @ nl @ nl"
    by (intro trim_front_keep) (auto simp: no_space_front_def)
  have "no_space_back ((CHR ''U'' # s) @ ''.'')" by (rule no_space_back_append) simp_all
  then have "trim_front (map rev space_seqs) (rev ((CHR ''U'' # s) @ ''.'')) = rev ((CHR ''U'' # s) @ ''.'')"
    by (intro trim_front_keep) (auto simp: no_space_back_def suffix_to_prefix)
  with f show ?thesis by (simp add: TrimSpace_def nl_def trim_front_nl trim_back_nl)
qed

lemma prefix_before: "c \<notin> set s \<Longrightarrow> prefix s (t @ c # r) \<longleftrightarrow> prefix s t"
  by (induction t arbitrary: s) (auto simp: prefix_Cons)

lemma help_page:
  assumes "c \<in> set command_texts"
  shows "\<exists>t. ct_Help c exe = ''Usage: ./'' @ exe @ '' '' @ ct_BeanName c @ t \<and> help_text c exe = nl @ ct_Help c exe @ nl @ nl"
proof -
  obtain t u where r: "help_rest c = '' '' @ ct_BeanName c @ t" "help_rest c = (u @ ''.'') @ nl @ nl"
    using page_shape [OF assms] by metis
  have h: "help_text c exe = nl @ (CHR ''U'' # (''sage: ./'' @ exe @ u) @ ''.'') @ nl @ nl"
    by (simp add: help_text_def r(2))
  have p: "ct_Help c exe = ''Usage: ./'' @ exe @ u @ ''.''"
    unfolding ct_Help_def h TrimSpace_page by simp
  have "prefix ('' '' @ ct_BeanName c) (u @ ''.'')"
  proof -
    have "'' '' @ ct_BeanName c @ t = (u @ ''.'') @ nl @ nl" using r by simp
    then have "prefix ('' '' @ ct_BeanName c) ((u @ ''.'') @ nl @ nl)" by (metis append.assoc prefixI)
    moreover have "CHR 0x0A \<notin> set ('' '' @ ct_BeanName c)"
      using assms by (auto simp: command_texts_def text_defs)
    ultimately show ?thesis
      using prefix_before [of "CHR 0x0A" "'' '' @ ct_BeanName c" "u @ ''.''" nl] by (simp add: nl_def)
  qed
  then obtain t' where "u @ ''.'' = '' '' @ ct_BeanName c @ t'" by (auto simp: prefix_def)
  with p h show ?thesis by (intro exI [of _ t']) simp
qed

section \<open>Properties\<close>

text \<open>The subcommands that a synopsis lists between brackets.\<close>

definition synopsis_commands :: "string \<Rightarrow> string list" where
  "synopsis_commands s =
     (case IndexByte s (CHR ''['') of
        None \<Rightarrow> []
      | Some i \<Rightarrow> SplitByte (filter (\<lambda>c. c \<notin> {CHR '' '', CHR '']''}) (drop (i + 1) s)) (CHR '',''))"

lemma synopses_agree:
  "list_all (\<lambda>c. set (synopsis_commands (ct_Synopsis c)) = set (documented c)) command_texts"
  by code_simp

lemma documented_simps:
  "documented NodeCommand_text = [''run'', ''start'', ''stop'', ''restart'', ''status'']"
  "documented ConfigCommand_text = [''get'', ''set'', ''list'', ''dump'']"
  "documented KeygenCommand_text = [''boot'', ''auth'', ''verify'']"
  "documented ResourcesCommand_text = [''licenses'', ''openapi'']"
  "documented JobsCommand_text = [''list'', ''run'', ''cancel'']"
  "documented StorageCommand_text = [''console'', ''list'', ''dump'', ''restore'', ''compact'', ''drop'', ''clean'']"
  by (simp_all add: documented_def text_defs)

lemma storage_undocumented:
  assumes "ToLower cmd \<notin> set (documented StorageCommand_text)"
  shows "\<exists>e. storage_ExecuteCommand pf cmd args sw = (Inl e, sw)"
proof -
  have l: "ToLower ''list'' = ''list''" by code_simp
  have "cmd \<noteq> ''list''" using assms l by (auto simp: documented_simps)
  with assms show ?thesis
    by (auto simp: storage_ExecuteCommand_def documented_simps Let_def split: list.splits option.splits)
qed



text \<open>
  every command of \<open>scan.go\<close> is reached by its name: as first argument after the flags it
  runs with the remaining arguments, whichever order the container injects the commands in, and
  \<open>help\<close> followed by the name prints its own page, which is trimmed and starts with its usage.
\<close>

theorem command_reached:
  assumes "c \<in> set cmds" and "x \<in> set command_texts" and "BeanName c = ct_BeanName x"
    and "mset (map BeanName cmds) = mset (map ct_BeanName command_texts)"
    and "Commands dep = map_of (map (\<lambda>c. (BeanName c, c)) cmds)" and "help c = ct_Help x exe"
    and "FlagParse args (dep_flags dep) = (Inr (ct_BeanName x # rest), flags)"
  shows "run_body t args dep s = run_command c flags rest s \<and>
    help_Run exe help defaults cmds (ct_BeanName x # rest) = Inr (ct_Help x exe @ nl @ nl @ ''Flags:'' @ nl @ defaults) \<and>
    prefix (''Usage: ./'' @ exe @ '' '' @ ct_BeanName x) (ct_Help x exe) \<and>
    help_text x exe = nl @ ct_Help x exe @ nl @ nl"
proof -
  have d: "distinct (map BeanName cmds)"
    using command_names_distinct assms(4) by (metis mset_eq_imp_distinct_iff)
  then have "map_of (map (\<lambda>c. (BeanName c, c)) cmds) (BeanName c) = Some c"
    using assms(1) by (intro map_of_is_SomeI) (auto simp: comp_def)
  moreover have "find (\<lambda>c'. BeanName c' = BeanName c) cmds = Some c"
    using d assms(1) by (auto simp: find_Some_iff in_set_conv_nth distinct_conv_nth)
  ultimately show ?thesis
    using run_body_command [of args dep "ct_BeanName x" rest flags c t s] assms(3,5,6,7) help_page [OF assms(2), of exe]
    by (auto simp: help_Run_def Let_def)
qed

definition sample_command :: "command_text \<Rightarrow> nat command" where
  "sample_command x = \<lparr>BeanName = ct_BeanName x, Synopsis = ct_Synopsis x, cmd_Run = \<lambda>_ args n. (Ret None, n + length args)\<rparr>"

theorem command_reached_witness:
  "\<exists>fl. run_body (Application ''app'' [] :: unit application) [''node'', ''run'']
      \<lparr>dep_flags = RegisterFlags (ApplicationFlags 0),
       Commands = map_of (map (\<lambda>c. (BeanName c, c)) (map sample_command command_texts)), order = []\<rparr>
      \<lparr>world = 4, out = [], ctx_closed = 0\<rparr> =
    run_command (sample_command NodeCommand_text) fl [''run''] \<lparr>world = 4, out = [], ctx_closed = 0\<rparr>"
proof -
  let ?dep = "\<lparr>dep_flags = RegisterFlags (ApplicationFlags 0),
    Commands = map_of (map (\<lambda>c. (BeanName c, c)) (map sample_command command_texts)), order = []\<rparr>"
  have x: "NodeCommand_text \<in> set command_texts" by (simp add: command_texts_def)
  then have c: "sample_command NodeCommand_text \<in> set (map sample_command command_texts)" by simp
  have b: "BeanName (sample_command x) = ct_BeanName x" for x by (simp add: sample_command_def)
  have m: "mset (map BeanName (map sample_command command_texts)) = mset (map ct_BeanName command_texts)"
    by (simp add: b comp_def)
  have n: "ct_BeanName NodeCommand_text = ''node''" by (simp add: NodeCommand_text_def)
  have f: "FlagParse [''node'', ''run''] (dep_flags ?dep) =
      (Inr (ct_BeanName NodeCommand_text # [''run'']), RegisterFlags (ApplicationFlags 0))"
    by (simp add: n FlagParse_stop)
  have "Commands ?dep = map_of (map (\<lambda>c. (BeanName c, c)) (map sample_command command_texts))" by simp
  from command_reached [OF c x b m this refl f, of "Application ''app'' []" "\<lparr>world = 4, out = [], ctx_closed = 0\<rparr>"]
  show ?thesis by blast
qed

end
