(* ===== verification/Beans.thy ===== *)
theory Beans
  imports Cmd_Help
begin

text \<open>
  The beans of the framework as the dependency injection library (\<open>github.com/codeallergy/glue\<close>,
  third-party code) sees them: for every constructor the types its object is injected as, its
  name, the fields that are injected (\<open>inject\<close> tags) and the properties they are filled with
  (\<open>value\<close> tags), and for a factory the type, name and scope of the object it makes. The types
  are named after the names they have in Go, without punctuation (\<open>ZapLogger\<close> is \<open>*zap.Logger\<close>,
  \<open>SprintZapLogClass\<close> the class constant \<open>sprint.ZapLogClass\<close>, \<open>BoltstoreObjectType\<close> the result of
  \<open>boltstore.ObjectType()\<close>); \<open>bd_types\<close> has the result type of the constructor and the interfaces
  that other beans ask for and the type implements.
\<close>

section \<open>Beans\<close>

datatype (plugins only: code) go_type =
  AutocertManager | BadgerstoreObjectType | BboltstoreObjectType | BoltstoreObjectType
| CachestoreObjectType | CertCertificateManager | CertCertificateService | FlagFlagSet
| GlueChildContext | GlueContext | GlueProperties | GlueResourceSource | GrpcClientConn
| GrpcServer | HttpServer | ImplRestartNode | ImplRunNode | ImplStartNode | ImplStatusNode
| ImplStopNode | LumberjackLogger | NatNatService | SprintApplication | SprintApplicationFlags
| SprintAuthorizationMiddleware | SprintAutoupdateService | SprintCommand | SprintComponent
| SprintConfigRepository | SprintControlClient | SprintFlagSetClass | SprintFlagSetRegistrar
| SprintGrpcClientConnClass | SprintGrpcServerClass | SprintHCLogClass
| SprintHealthCheckerClass | SprintHttpServerClass | SprintJobService | SprintLumberjackClass
| SprintMailService | SprintNodeService | SprintResourceService | SprintRouter | SprintServer
| SprintStorageService | SprintSystemEnvironmentPropertyResolver | SprintTlsConfigClass
| SprintZapLogClass | StoreDataStore | StoreManagedDataStore | TlsConfig | ZapLogger

text \<open>
  An injected field: its type (of the elements, for a slice or a map), whether it collects all
  beans of the type, and the options of its tag.
\<close>

record injection =
  in_type :: go_type
  in_many :: bool
  in_bean :: "string option"
  in_optional :: bool
  in_lazy :: bool
  in_level :: int

definition need :: "go_type \<Rightarrow> injection" where
  "need t = \<lparr>in_type = t, in_many = False, in_bean = None, in_optional = False, in_lazy = False, in_level = 0\<rparr>"

definition needs :: "go_type \<Rightarrow> injection" where
  "needs t = (need t)\<lparr>in_many := True\<rparr>"

record factory_bean =
  ObjectType :: go_type
  ObjectName :: string
  Singleton :: bool

text \<open>
  A \<open>value\<close> tag is the property and its default. Pages have a pattern, property resolvers a
  priority.
\<close>

record bean_def =
  bd_types :: "go_type list"
  bd_name :: string
  bd_factory :: "factory_bean option"
  bd_injects :: "injection list"
  bd_values :: "(string \<times> string) list"
  bd_pattern :: "string option"
  bd_priority :: "int option"

definition component :: "go_type list \<Rightarrow> string \<Rightarrow> injection list \<Rightarrow> bean_def" where
  "component types name injects =
     \<lparr>bd_types = types, bd_name = name, bd_factory = None, bd_injects = injects, bd_values = [],
      bd_pattern = None, bd_priority = None\<rparr>"

definition factory :: "factory_bean \<Rightarrow> injection list \<Rightarrow> bean_def" where
  "factory f injects = (component [] '''' injects)\<lparr>bd_factory := Some f\<rparr>"

text \<open>The name under which other beans find it.\<close>

definition bean_name :: "bean_def \<Rightarrow> string" where
  "bean_name b = (case bd_factory b of Some f \<Rightarrow> ObjectName f | None \<Rightarrow> bd_name b)"

section \<open>The constructors\<close>

definition ApplicationFlags_bean :: "int \<Rightarrow> bean_def" where
  "ApplicationFlags_bean priority =
     (component [SprintApplicationFlags, SprintFlagSetRegistrar] '''' [])\<lparr>bd_priority := Some priority\<rparr>"

definition FlagSetFactory_object :: factory_bean where
  "FlagSetFactory_object = \<lparr>ObjectType = SprintFlagSetClass, ObjectName = '''', Singleton = True\<rparr>"

definition FlagSetFactory_bean :: bean_def where
  "FlagSetFactory_bean =
     factory FlagSetFactory_object [needs SprintFlagSetRegistrar]"

definition ResourceService_bean :: bean_def where
  "ResourceService_bean =
     component [SprintResourceService] ''''
       [need GlueContext,
        (needs GlueResourceSource)\<lparr>in_optional := True\<rparr>]"

definition Application_bean :: bean_def where
  "Application_bean =
     component [SprintApplication] ''application'' []"

definition applicationDep_bean :: bean_def where
  "applicationDep_bean =
     component [] ''''
       [need SprintApplicationFlags,
        need FlagFlagSet,
        needs SprintCommand]"

definition SystemEnvironmentPropertyResolver_bean :: "int \<Rightarrow> bean_def" where
  "SystemEnvironmentPropertyResolver_bean priority =
     (component [SprintSystemEnvironmentPropertyResolver] '''' [])\<lparr>bd_priority := Some priority\<rparr>"

definition VersionCommand_bean :: bean_def where
  "VersionCommand_bean =
     (component [SprintCommand] (ct_BeanName VersionCommand_text)
       [need SprintApplication,
        need GlueProperties])\<lparr>bd_values :=
       [(''application.copyright'', '''')]\<rparr>"

definition SetupCommand_bean :: bean_def where
  "SetupCommand_bean =
     component [SprintCommand] (ct_BeanName SetupCommand_text)
       [need GlueContext,
        need SprintApplication,
        need GlueProperties]"

definition coreSetupContext_bean :: bean_def where
  "coreSetupContext_bean =
     component [] '''' [need SprintConfigRepository]"

definition HelpCommand_bean :: bean_def where
  "HelpCommand_bean =
     component [SprintCommand] (ct_BeanName HelpCommand_text)
       [need SprintApplication,
        need FlagFlagSet,
        (needs SprintCommand)\<lparr>in_lazy := True\<rparr>]"

definition ResourcesCommand_bean :: bean_def where
  "ResourcesCommand_bean =
     component [SprintCommand] (ct_BeanName ResourcesCommand_text)
       [need GlueContext,
        need SprintApplication,
        need SprintResourceService]"

definition ConfigCommand_bean :: bean_def where
  "ConfigCommand_bean =
     component [SprintCommand] (ct_BeanName ConfigCommand_text)
       [need GlueContext,
        need SprintApplication]"

definition coreConfigContext_bean :: bean_def where
  "coreConfigContext_bean =
     component [] '''' [need SprintConfigRepository]"

definition CertsCommand_bean :: bean_def where
  "CertsCommand_bean =
     component [SprintCommand] (ct_BeanName CertsCommand_text)
       [need GlueContext,
        need SprintApplication]"

definition coreDomainContext_bean :: bean_def where
  "coreDomainContext_bean =
     component [] '''' [(need CertCertificateService)\<lparr>in_optional := True\<rparr>]"

definition StorageCommand_bean :: bean_def where
  "StorageCommand_bean =
     component [SprintCommand] (ct_BeanName StorageCommand_text)
       [need SprintApplication,
        need GlueContext]"

definition coreStorageContext_bean :: bean_def where
  "coreStorageContext_bean =
     component [] '''' [need SprintStorageService]"

definition JobsCommand_bean :: bean_def where
  "JobsCommand_bean =
     component [SprintCommand] (ct_BeanName JobsCommand_text)
       [need SprintApplication,
        need GlueContext]"

definition KeygenCommand_bean :: bean_def where
  "KeygenCommand_bean =
     component [SprintCommand] (ct_BeanName KeygenCommand_text)
       [need SprintApplication,
        need SprintApplicationFlags,
        need GlueProperties]"

definition NodeCommand_bean :: bean_def where
  "NodeCommand_bean =
     component [SprintCommand] (ct_BeanName NodeCommand_text)
       [need GlueContext,
        need SprintApplication,
        need ImplRunNode,
        need ImplStartNode,
        need ImplStopNode,
        need ImplRestartNode,
        need ImplStatusNode]"

definition RunNode_bean :: bean_def where
  "RunNode_bean =
     (component [ImplRunNode] ''''
       [need SprintApplication,
        need SprintApplicationFlags,
        need SprintSystemEnvironmentPropertyResolver,
        need GlueContext,
        need ImplStartNode,
        needs GlueChildContext])\<lparr>bd_values :=
       [(''application.log.dir'', ''''),
        (''application.perm.log.dir'', ''-rwxrwxr-x''),
        (''application.perm.log.file'', ''-rw-rw-r--'')]\<rparr>"

definition StartNode_bean :: bean_def where
  "StartNode_bean =
     (component [ImplStartNode] ''''
       [need SprintApplication,
        need SprintApplicationFlags,
        need GlueProperties,
        needs SprintFlagSetRegistrar,
        need SprintSystemEnvironmentPropertyResolver])\<lparr>bd_values :=
       [(''application.bootstrap-tokens'', ''''),
        (''application.autoupdate'', ''false''),
        (''application.run.dir'', ''''),
        (''application.perm.run.dir'', ''-rwxrwxr-x''),
        (''application.perm.exe.file'', ''-rwxrwxr-x''),
        (''application.perm.pid.file'', ''-rw-rw-rw-'')]\<rparr>"

definition StopNode_bean :: bean_def where
  "StopNode_bean =
     (component [ImplStopNode] ''''
       [need SprintApplication,
        need SprintApplicationFlags,
        need GlueContext])\<lparr>bd_values :=
       [(''application.run.dir'', '''')]\<rparr>"

definition RestartNode_bean :: bean_def where
  "RestartNode_bean =
     component [ImplRestartNode, SprintCommand] (ct_BeanName RestartNode_text)
       [need SprintApplication,
        need GlueContext]"

definition StatusNode_bean :: bean_def where
  "StatusNode_bean =
     component [ImplStatusNode] '''' [need SprintApplication, need GlueContext]"

definition ZapLogFactory_object :: factory_bean where
  "ZapLogFactory_object = \<lparr>ObjectType = SprintZapLogClass, ObjectName = ''zap_logger'', Singleton = True\<rparr>"

definition ZapLogFactory_bean :: bean_def where
  "ZapLogFactory_bean =
     (factory ZapLogFactory_object
       [need SprintApplication,
        need SprintApplicationFlags,
        need GlueProperties,
        (need LumberjackLogger)\<lparr>in_optional := True\<rparr>])\<lparr>bd_values :=
       [(''application.log.dir'', ''''),
        (''application.perm.log.dir'', ''-rwxrwxr-x''),
        (''application.perm.log.file'', ''-rw-rw-r--'')]\<rparr>"

definition HCLogFactory_object :: factory_bean where
  "HCLogFactory_object = \<lparr>ObjectType = SprintHCLogClass, ObjectName = ''hclog_logger'', Singleton = True\<rparr>"

definition HCLogFactory_bean :: bean_def where
  "HCLogFactory_bean =
     factory HCLogFactory_object [need ZapLogger]"

definition NodeService_bean :: bean_def where
  "NodeService_bean =
     (component [SprintNodeService] ''node_service''
       [need SprintApplication,
        need SprintApplicationFlags,
        need GlueProperties,
        need SprintConfigRepository])\<lparr>bd_values :=
       [(''node.local'', ''''),
        (''node.lan'', ''''),
        (''node.wan'', ''''),
        (''node.dc'', ''default'')]\<rparr>"

definition ConfigRepository_bean :: "int \<Rightarrow> bean_def" where
  "ConfigRepository_bean priority =
     (component [SprintConfigRepository] ''''
       [(need StoreDataStore)\<lparr>in_bean := Some ''config-store''\<rparr>,
        need ZapLogger])\<lparr>bd_priority := Some priority\<rparr>"

definition JobService_bean :: bean_def where
  "JobService_bean =
     component [SprintJobService] '''' [need ZapLogger]"

definition StorageService_bean :: bean_def where
  "StorageService_bean =
     (component [SprintStorageService] ''''
       [need SprintApplication,
        need GlueProperties,
        needs StoreManagedDataStore,
        need ZapLogger])\<lparr>bd_values :=
       [(''application.perm.backup.file'', ''-rw-rw-r--'')]\<rparr>"

definition MailService_bean :: bean_def where
  "MailService_bean =
     component [SprintMailService] ''mail_service''
       [need GlueProperties,
        need SprintResourceService,
        need ZapLogger]"

definition BoltStoreFactory_object :: "string \<Rightarrow> factory_bean" where
  "BoltStoreFactory_object beanName = \<lparr>ObjectType = BoltstoreObjectType, ObjectName = beanName, Singleton = True\<rparr>"

definition BoltStoreFactory_bean :: "string \<Rightarrow> bean_def" where
  "BoltStoreFactory_bean beanName =
     (factory (BoltStoreFactory_object beanName)
       [need SprintApplication,
        need SprintApplicationFlags,
        need GlueProperties])\<lparr>bd_values :=
       [(''application.data.dir'', ''''),
        (''application.perm.data.dir'', ''-rwxrwx---''),
        (''application.perm.data.file'', ''-rw-rw-r--'')]\<rparr>"

definition BBoltStoreFactory_object :: "string \<Rightarrow> factory_bean" where
  "BBoltStoreFactory_object beanName = \<lparr>ObjectType = BboltstoreObjectType, ObjectName = beanName, Singleton = True\<rparr>"

definition BBoltStoreFactory_bean :: "string \<Rightarrow> bean_def" where
  "BBoltStoreFactory_bean beanName =
     (factory (BBoltStoreFactory_object beanName)
       [need SprintApplication,
        need SprintApplicationFlags,
        need GlueProperties])\<lparr>bd_values :=
       [(''application.data.dir'', ''''),
        (''application.perm.data.dir'', ''-rwxrwx---''),
        (''application.perm.data.file'', ''-rw-rw-r--'')]\<rparr>"

definition BadgerStoreFactory_object :: "string \<Rightarrow> factory_bean" where
  "BadgerStoreFactory_object beanName = \<lparr>ObjectType = BadgerstoreObjectType, ObjectName = beanName, Singleton = True\<rparr>"

definition BadgerStoreFactory_bean :: "string \<Rightarrow> bean_def" where
  "BadgerStoreFactory_bean beanName =
     (factory (BadgerStoreFactory_object beanName)
       [need ZapLogger,
        need SprintApplication,
        need SprintApplicationFlags,
        need GlueProperties,
        need SprintSystemEnvironmentPropertyResolver])\<lparr>bd_values :=
       [(''application.data.dir'', ''''),
        (''application.perm.data.dir'', ''-rwxrwx---'')]\<rparr>"

definition CacheStoreFactory_object :: "string \<Rightarrow> factory_bean" where
  "CacheStoreFactory_object beanName = \<lparr>ObjectType = CachestoreObjectType, ObjectName = beanName, Singleton = True\<rparr>"

definition CacheStoreFactory_bean :: "string \<Rightarrow> bean_def" where
  "CacheStoreFactory_bean beanName =
     factory (CacheStoreFactory_object beanName) []"

definition AutoupdateService_bean :: bean_def where
  "AutoupdateService_bean =
     (component [SprintAutoupdateService] ''''
       [need ZapLogger,
        need SprintApplication])\<lparr>bd_values :=
       [(''autoupdate.file'', '''')]\<rparr>"

definition LumberjackFactory_object :: factory_bean where
  "LumberjackFactory_object = \<lparr>ObjectType = SprintLumberjackClass, ObjectName = ''lumberjack'', Singleton = True\<rparr>"

definition LumberjackFactory_bean :: bean_def where
  "LumberjackFactory_bean =
     (factory LumberjackFactory_object
       [need SprintApplication,
        need SprintApplicationFlags,
        need GlueProperties])\<lparr>bd_values :=
       [(''application.log.dir'', ''''),
        (''application.perm.log.dir'', ''-rwxrwxr-x''),
        (''application.perm.log.file'', ''-rw-rw-r--''),
        (''lumberjack.max-size'', ''500''),
        (''lumberjack.max-backups'', ''10''),
        (''lumberjack.max-age'', ''28''),
        (''lumberjack.compress'', ''false''),
        (''lumberjack.rotate-on-start'', ''false'')]\<rparr>"

definition AuthorizationMiddleware_bean :: bean_def where
  "AuthorizationMiddleware_bean =
     component [SprintAuthorizationMiddleware] ''''
       [need SprintApplication,
        need GlueProperties,
        need SprintConfigRepository,
        need ZapLogger]"

definition GrpcServerFactory_object :: "string \<Rightarrow> factory_bean" where
  "GrpcServerFactory_object beanName = \<lparr>ObjectType = SprintGrpcServerClass, ObjectName = beanName, Singleton = True\<rparr>"

definition GrpcServerFactory_bean :: "string \<Rightarrow> bean_def" where
  "GrpcServerFactory_bean beanName =
     factory (GrpcServerFactory_object beanName)
       [need GlueProperties,
        need ZapLogger,
        need SprintAuthorizationMiddleware]"

definition ControlServer_bean :: bean_def where
  "ControlServer_bean =
     component [SprintComponent] ''control_server''
       [(need GrpcServer)\<lparr>in_bean := Some ''control-grpc-server''\<rparr>,
        (need HttpServer)\<lparr>in_bean := Some ''control-gateway-server'', in_optional := True\<rparr>,
        (needs SprintComponent)\<lparr>in_optional := True, in_level := -1\<rparr>,
        need SprintApplication,
        need GlueProperties,
        need SprintAuthorizationMiddleware,
        need ZapLogger,
        need SprintNodeService,
        need SprintJobService,
        need SprintStorageService,
        need SprintConfigRepository,
        (need CertCertificateService)\<lparr>in_optional := True\<rparr>,
        (need CertCertificateManager)\<lparr>in_optional := True\<rparr>,
        (need NatNatService)\<lparr>in_optional := True\<rparr>]"

definition HttpServerFactory_object :: "string \<Rightarrow> factory_bean" where
  "HttpServerFactory_object beanName = \<lparr>ObjectType = SprintHttpServerClass, ObjectName = beanName, Singleton = True\<rparr>"

definition HttpServerFactory_bean :: "string \<Rightarrow> bean_def" where
  "HttpServerFactory_bean beanName =
     factory (HttpServerFactory_object beanName)
       [need ZapLogger,
        need GlueProperties,
        (needs SprintRouter)\<lparr>in_optional := True, in_level := 1\<rparr>,
        (needs GlueResourceSource)\<lparr>in_optional := True\<rparr>,
        (need AutocertManager)\<lparr>in_optional := True\<rparr>,
        (need TlsConfig)\<lparr>in_optional := True\<rparr>]"

definition TemplatePage_bean :: "string \<Rightarrow> bean_def" where
  "TemplatePage_bean pattern =
     (component [SprintRouter] '''' [need SprintResourceService])\<lparr>bd_pattern := Some pattern\<rparr>"

definition RedirectHttpsPage_bean :: "string \<Rightarrow> bean_def" where
  "RedirectHttpsPage_bean beanName =
     (component [SprintRouter] beanName [need GlueProperties])\<lparr>bd_pattern := Some ''/''\<rparr>"

definition HealthcheckerFactory_object :: factory_bean where
  "HealthcheckerFactory_object = \<lparr>ObjectType = SprintHealthCheckerClass, ObjectName = '''', Singleton = True\<rparr>"

definition HealthcheckerFactory_bean :: bean_def where
  "HealthcheckerFactory_bean =
     factory HealthcheckerFactory_object [need GrpcServer]"

definition ServerTlsConfigFactory_object :: "string \<Rightarrow> factory_bean" where
  "ServerTlsConfigFactory_object beanName = \<lparr>ObjectType = SprintTlsConfigClass, ObjectName = beanName, Singleton = True\<rparr>"

definition ServerTlsConfigFactory_bean :: "string \<Rightarrow> bean_def" where
  "ServerTlsConfigFactory_bean beanName =
     factory (ServerTlsConfigFactory_object beanName)
       [need GlueProperties,
        need SprintNodeService,
        (need CertCertificateManager)\<lparr>in_optional := True\<rparr>]"

definition GrpcServer_bean :: bean_def where
  "GrpcServer_bean =
     component [SprintServer] ''''
       [need GlueProperties,
        need ZapLogger,
        (need TlsConfig)\<lparr>in_optional := True\<rparr>,
        need SprintNodeService]"

definition HttpServer_bean :: bean_def where
  "HttpServer_bean =
     component [SprintServer] '''' [need ZapLogger, need SprintNodeService]"

definition GrpcClientFactory_object :: "string \<Rightarrow> factory_bean" where
  "GrpcClientFactory_object beanName = \<lparr>ObjectType = SprintGrpcClientConnClass, ObjectName = beanName, Singleton = True\<rparr>"

definition GrpcClientFactory_bean :: "string \<Rightarrow> bean_def" where
  "GrpcClientFactory_bean beanName =
     factory (GrpcClientFactory_object beanName)
       [need SprintApplication,
        need SprintApplicationFlags,
        need GlueProperties,
        (need TlsConfig)\<lparr>in_optional := True\<rparr>]"

definition ControlClient_bean :: bean_def where
  "ControlClient_bean =
     component [SprintControlClient] ''''
       [need GrpcClientConn,
        (need TlsConfig)\<lparr>in_optional := True\<rparr>]"

definition AnyTlsConfigFactory_object :: "string \<Rightarrow> factory_bean" where
  "AnyTlsConfigFactory_object beanName = \<lparr>ObjectType = SprintTlsConfigClass, ObjectName = beanName, Singleton = True\<rparr>"

definition AnyTlsConfigFactory_bean :: "string \<Rightarrow> bean_def" where
  "AnyTlsConfigFactory_bean beanName =
     factory (AnyTlsConfigFactory_object beanName) [need GlueProperties]"

definition ClientTlsConfigFactory_object :: "string \<Rightarrow> factory_bean" where
  "ClientTlsConfigFactory_object beanName = \<lparr>ObjectType = SprintTlsConfigClass, ObjectName = beanName, Singleton = True\<rparr>"

definition ClientTlsConfigFactory_bean :: "string \<Rightarrow> bean_def" where
  "ClientTlsConfigFactory_bean beanName =
     (factory (ClientTlsConfigFactory_object beanName)
       [need SprintApplication,
        need GlueProperties])\<lparr>bd_values :=
       [(''application.company'', ''sprint'')]\<rparr>"

end
