(* ===== verification/Bindata.thy ===== *)
theory Bindata
  imports Paths Utils_Files
begin

text \<open>
  The packages \<open>pkg/resources\<close>, \<open>pkg/assets\<close> and \<open>pkg/assetsgz\<close> hold files that are embedded
  into the program. Their functions are the same code over two tables: \<open>_bindata\<close> maps the names
  of the files to the assets, \<open>_bintree\<close> is the tree of directories. Here are the functions,
  over any pair of tables; the tables of the three packages are in Embedded.

  A Go map is an association list with distinct keys, and the order of an iteration over it is a
  parameter: \<open>ord d names\<close> is the order in which the iteration for \<open>d\<close> gives the keys.
\<close>

unbundle bit_operations_syntax

section \<open>Assets\<close>

text \<open>Times are seconds since 1970; \<open>time.Time{}\<close> is the first of January of the year 1.\<close>

record bindataFileInfo =
  fi_name :: string
  fi_size :: int
  fi_mode :: file_mode
  fi_modTime :: int

definition zero_time :: int where "zero_time = - 62135596800"

definition ModeDir :: file_mode where "ModeDir = push_bit 31 1"

definition fi_IsDir :: "bindataFileInfo \<Rightarrow> bool" where
  "fi_IsDir fi = (fi_mode fi AND ModeDir \<noteq> 0)"

record asset =
  asset_bytes :: bytes
  asset_info :: bindataFileInfo

text \<open>The string's own bytes, without a copy.\<close>

definition bindataRead :: "bytes \<Rightarrow> string \<Rightarrow> bytes res" where
  "bindataRead data name = Inr data"

datatype bintree = Bintree (Func: "asset res option") (Children: "(string \<times> bintree) list")

record package =
  pk_bindata :: "(string \<times> asset res) list"
  pk_bintree :: bintree

type_synonym map_range = "string \<Rightarrow> string list \<Rightarrow> string list"

text \<open>\<open>strings.Replace(name, "\\", "/", -1)\<close>.\<close>

definition canonicalName :: "string \<Rightarrow> string" where
  "canonicalName name = ReplaceAll name [CHR 0x5C] ''/''"

definition Asset :: "package \<Rightarrow> string \<Rightarrow> bytes res" where
  "Asset pk name =
     (case map_of (pk_bindata pk) (canonicalName name) of
        Some f \<Rightarrow>
          (case f of
             Inl err \<Rightarrow> Inl (Errorf (''Asset '' @ name @ '' can't read by error: '' @ error_text err))
           | Inr a \<Rightarrow> Inr (asset_bytes a))
      | None \<Rightarrow> Inl (Errorf (''Asset '' @ name @ '' not found'')))"

definition MustAsset :: "package \<Rightarrow> string \<Rightarrow> bytes outcome" where
  "MustAsset pk name =
     (case Asset pk name of
        Inl err \<Rightarrow> Panic (''asset: Asset('' @ name @ ''): '' @ error_text err)
      | Inr a \<Rightarrow> Ret a)"

definition AssetInfo :: "package \<Rightarrow> string \<Rightarrow> bindataFileInfo res" where
  "AssetInfo pk name =
     (case map_of (pk_bindata pk) (canonicalName name) of
        Some f \<Rightarrow>
          (case f of
             Inl err \<Rightarrow> Inl (Errorf (''AssetInfo '' @ name @ '' can't read by error: '' @ error_text err))
           | Inr a \<Rightarrow> Inr (asset_info a))
      | None \<Rightarrow> Inl (Errorf (''AssetInfo '' @ name @ '' not found'')))"

definition bindata_names :: "map_range \<Rightarrow> package \<Rightarrow> string list" where
  "bindata_names ord pk = ord '''' (map fst (pk_bindata pk))"

text \<open>The loop of \<open>AssetDir\<close> over the elements of the path; a missing child is \<open>nil\<close>.\<close>

fun walk :: "bintree \<Rightarrow> string list \<Rightarrow> bintree option" where
  "walk node [] = Some node"
| "walk node (p # ps) = (case map_of (Children node) p of None \<Rightarrow> None | Some n \<Rightarrow> walk n ps)"

definition AssetDir :: "map_range \<Rightarrow> package \<Rightarrow> string \<Rightarrow> string list res" where
  "AssetDir ord pk name =
     (case walk (pk_bintree pk) (if name = '''' then [] else SplitByte (canonicalName name) slash) of
        None \<Rightarrow> Inl (Errorf (''Asset '' @ name @ '' not found''))
      | Some node \<Rightarrow>
          if Func node \<noteq> None then Inl (Errorf (''Asset '' @ name @ '' not found''))
          else Inr (ord name (map fst (Children node))))"

section \<open>The file system interface\<close>

text \<open>An open file: a reader over the content of a file (\<open>None\<close>: a directory), or the children.\<close>

record assetFile =
  af_Reader :: "bytes option"
  af_name :: string
  childInfos :: "bindataFileInfo list"
  childInfoOffset :: int

definition newDirFileInfo :: "string \<Rightarrow> bindataFileInfo" where
  "newDirFileInfo name = \<lparr>fi_name = name, fi_size = 0, fi_mode = 2147484068, fi_modTime = zero_time\<rparr>"

definition child_info :: "package \<Rightarrow> string \<Rightarrow> string \<Rightarrow> bindataFileInfo" where
  "child_info pk name child =
     (case AssetInfo pk (path_Join [name, child]) of
        Inr info \<Rightarrow> info
      | Inl _ \<Rightarrow> newDirFileInfo (path_Join [name, child]))"

definition bindata_Open :: "map_range \<Rightarrow> package \<Rightarrow> string \<Rightarrow> assetFile res" where
  "bindata_Open ord pk path =
     (let name = (if 0 < length path \<and> path ! 0 = slash then drop 1 path else path)
      in case Asset pk name of
           Inr content \<Rightarrow> Inr \<lparr>af_Reader = Some content, af_name = name, childInfos = [], childInfoOffset = 0\<rparr>
         | Inl _ \<Rightarrow>
             (case AssetDir ord pk name of
                Inr children \<Rightarrow>
                  Inr \<lparr>af_Reader = None, af_name = name, childInfos = map (child_info pk name) children, childInfoOffset = 0\<rparr>
              | Inl err \<Rightarrow> if Contains (error_text err) ''not found'' then Inl ErrNotExist else Inl err))"

text \<open>
  \<open>Readdir\<close> counts in 64-bit integers. A slice whose upper bound is below its lower one panics,
  after the offset has moved.
\<close>

definition Readdir :: "int \<Rightarrow> assetFile \<Rightarrow> bindataFileInfo list res outcome \<times> assetFile" where
  "Readdir count f =
     (if childInfos f = [] then (Ret (Inl ErrNotExist), f)
      else if count \<le> 0 then (Ret (Inr (childInfos f)), f)
      else (let n = int (length (childInfos f));
                offset = childInfoOffset f;
                count = (if n < wrap64 (offset + count) then n - offset else count);
                hi = wrap64 (offset + count);
                f = f\<lparr>childInfoOffset := hi\<rparr>
            in if offset < 0 \<or> hi < offset \<or> n < hi then (Panic ''slice bounds out of range'', f)
               else (Ret (Inr (take (nat (hi - offset)) (drop (nat offset) (childInfos f)))), f)))"

definition af_Stat :: "package \<Rightarrow> assetFile \<Rightarrow> bindataFileInfo res" where
  "af_Stat pk f =
     (if length (childInfos f) \<noteq> 0 then Inr (newDirFileInfo (af_name f)) else AssetInfo pk (af_name f))"

section \<open>Restoring\<close>

text \<open>\<open>os.MkdirAll\<close>: \<open>parent\<close> is the path before the last element, without the separator.\<close>

definition parent :: "string \<Rightarrow> string" where
  "parent path =
     (let p = rev (dropWhile (\<lambda>c. c = slash) (rev path));
          q = rev (dropWhile (\<lambda>c. c \<noteq> slash) (rev p))
      in take (length q - 1) q)"

lemma parent_length: "parent path \<noteq> '''' \<Longrightarrow> length (parent path) < length path"
proof -
  have "length (rev (dropWhile (\<lambda>c. c \<noteq> slash) (dropWhile (\<lambda>c. c = slash) (rev path)))) \<le> length path"
    by (metis length_dropWhile_le length_rev order_trans)
  then show "parent path \<noteq> '''' \<Longrightarrow> length (parent path) < length path"
    by (auto simp: parent_def Let_def)
qed

function os_MkdirAll :: "string \<Rightarrow> file_mode \<Rightarrow> os_world \<Rightarrow> goerror option \<times> os_world" where
  "os_MkdirAll path perm w =
     (case os_Stat w path of
        Inr (DirNode _) \<Rightarrow> (None, w)
      | Inr (FileNode _ _) \<Rightarrow> (Some (Errorf ''not a directory''), w)
      | Inl _ \<Rightarrow>
          (let (e, w) = (if parent path \<noteq> '''' then os_MkdirAll (parent path) perm w else (None, w))
           in case e of
                Some e \<Rightarrow> (Some e, w)
              | None \<Rightarrow>
                  (case os_Mkdir path perm w of
                     (None, w) \<Rightarrow> (None, w)
                   | (Some e, w) \<Rightarrow> (case os_Stat w path of Inr (DirNode _) \<Rightarrow> (None, w) | _ \<Rightarrow> (Some e, w)))))"
  by pat_completeness auto
termination
  by (relation "measure (\<lambda>(path, perm, w). length path)") (auto dest: parent_length)

declare os_MkdirAll.simps [simp del]

text \<open>The file system with the times of its files; \<open>deny_times\<close> refuses \<open>os.Chtimes\<close>.\<close>

record restore_world =
  rw_os :: os_world
  rw_times :: "string \<Rightarrow> int option"
  deny_times :: "string \<Rightarrow> goerror option"

definition os_Chtimes :: "string \<Rightarrow> int \<Rightarrow> restore_world \<Rightarrow> goerror option \<times> restore_world" where
  "os_Chtimes p t w =
     (case deny_times w p of Some e \<Rightarrow> (Some e, w)
      | None \<Rightarrow>
          (case fs (rw_os w) p of None \<Rightarrow> (Some ErrNotExist, w)
           | Some _ \<Rightarrow> (None, w\<lparr>rw_times := (rw_times w)(p \<mapsto> t)\<rparr>)))"

definition filePath :: "string \<Rightarrow> string \<Rightarrow> string" where
  "filePath dir name = path_Join (dir # SplitByte (canonicalName name) slash)"

definition RestoreAsset :: "package \<Rightarrow> string \<Rightarrow> string \<Rightarrow> restore_world \<Rightarrow> goerror option \<times> restore_world" where
  "RestoreAsset pk dir name w =
     (case Asset pk name of
        Inl err \<Rightarrow> (Some err, w)
      | Inr data \<Rightarrow>
          (case AssetInfo pk name of
             Inl err \<Rightarrow> (Some err, w)
           | Inr info \<Rightarrow>
               (case os_MkdirAll (filePath dir (Dir name)) 493 (rw_os w) of
                  (Some err, o') \<Rightarrow> (Some err, w\<lparr>rw_os := o'\<rparr>)
                | (None, o') \<Rightarrow>
                    (case os_WriteFile (filePath dir name) data (fi_mode info) o' of
                       (Some err, o') \<Rightarrow> (Some err, w\<lparr>rw_os := o'\<rparr>)
                     | (None, o') \<Rightarrow> os_Chtimes (filePath dir name) (fi_modTime info) (w\<lparr>rw_os := o'\<rparr>)))))"

text \<open>A loop that ends with the first error; \<open>None\<close> when a step does not end.\<close>

fun for_each :: "('a \<Rightarrow> 's \<Rightarrow> (goerror option \<times> 's) option) \<Rightarrow> 'a list \<Rightarrow> 's \<Rightarrow> (goerror option \<times> 's) option" where
  "for_each f [] w = Some (None, w)"
| "for_each f (x # xs) w =
     (case f x w of
        None \<Rightarrow> None
      | Some (Some err, w) \<Rightarrow> Some (Some err, w)
      | Some (None, w) \<Rightarrow> for_each f xs w)"

text \<open>The recursion follows the directories; it is given fuel, and \<open>None\<close> is running out of it.\<close>

fun RestoreAssets :: "nat \<Rightarrow> map_range \<Rightarrow> package \<Rightarrow> string \<Rightarrow> string \<Rightarrow> restore_world
    \<Rightarrow> (goerror option \<times> restore_world) option" where
  "RestoreAssets 0 ord pk dir name w = None"
| "RestoreAssets (Suc n) ord pk dir name w =
     (case AssetDir ord pk name of
        Inl _ \<Rightarrow> Some (RestoreAsset pk dir name w)
      | Inr children \<Rightarrow> for_each (\<lambda>child. RestoreAssets n ord pk dir (path_Join [name, child])) children w)"

section \<open>Tables that belong together\<close>

text \<open>The assets below a node, with their paths.\<close>

fun bt_leaves :: "bintree \<Rightarrow> (string list \<times> asset res) list" where
  "bt_leaves (Bintree f cs) =
     (case f of Some a \<Rightarrow> [([], a)] | None \<Rightarrow> []) @
     concat (map (\<lambda>(c, t). map (\<lambda>(ps, a). (c # ps, a)) (bt_leaves t)) cs)"

fun bt_depth :: "bintree \<Rightarrow> nat" where
  "bt_depth (Bintree f cs) = Suc (foldr max (map (\<lambda>(c, t). bt_depth t) cs) 0)"

text \<open>
  A node is a file without children or a directory with some; the names of the children are
  distinct single elements of a path.
\<close>

fun bt_ok :: "bintree \<Rightarrow> bool" where
  "bt_ok (Bintree f cs) \<longleftrightarrow>
     (f = None \<longleftrightarrow> cs \<noteq> []) \<and> distinct (map fst cs) \<and>
     list_all (\<lambda>(c, t). plain_name c \<and> CHR 0x5C \<notin> set c \<and> bt_ok t) cs"

text \<open>
  What the generator promises: the tree is well formed, its root is a directory, the assets of
  the table are the files of the tree under their paths, and every asset is there, with its
  path as its name and the length of its content as its size.
\<close>

definition asset_ok :: "string \<Rightarrow> asset res \<Rightarrow> bool" where
  "asset_ok name f \<longleftrightarrow>
     (case f of Inl _ \<Rightarrow> False
      | Inr a \<Rightarrow> fi_name (asset_info a) = name \<and> fi_size (asset_info a) = int (length (asset_bytes a)) \<and>
          \<not> fi_IsDir (asset_info a))"

definition package_ok :: "package \<Rightarrow> bool" where
  "package_ok pk \<longleftrightarrow>
     bt_ok (pk_bintree pk) \<and> Func (pk_bintree pk) = None \<and>
     distinct (map fst (pk_bindata pk)) \<and>
     set (pk_bindata pk) = set (map (\<lambda>(ps, a). (Join ps ''/'', a)) (bt_leaves (pk_bintree pk))) \<and>
     list_all (\<lambda>(name, f). asset_ok name f) (pk_bindata pk)"

definition range_ok :: "map_range \<Rightarrow> bool" where
  "range_ok ord \<longleftrightarrow> (\<forall>d names. set (ord d names) = set names \<and> length (ord d names) = length names)"

section \<open>Lemmas\<close>

lemma canonicalName_id: "CHR 0x5C \<notin> set name \<Longrightarrow> canonicalName name = name"
proof -
  have "ReplaceAll s [c] t = s" if "c \<notin> set s" for s c t
    using that by (induction s) auto
  then show "CHR 0x5C \<notin> set name \<Longrightarrow> canonicalName name = name" by (simp add: canonicalName_def)
qed

definition bt_name :: "string \<Rightarrow> bool" where
  "bt_name c \<longleftrightarrow> plain_name c \<and> CHR 0x5C \<notin> set c"

lemma bt_ok_child:
  assumes "bt_ok t" and "map_of (Children t) c = Some n"
  shows "bt_name c" and "bt_ok n" and "Func t = None"
  using assms by (cases t; auto dest!: map_of_SomeD simp: list_all_iff bt_name_def)+

lemma walk_ok:
  "bt_ok t \<Longrightarrow> walk t ps = Some n \<Longrightarrow> bt_ok n \<and> (\<forall>p \<in> set ps. bt_name p)"
proof (induction ps arbitrary: t)
  case (Cons p ps)
  from Cons.prems(2) obtain m where m: "map_of (Children t) p = Some m" "walk m ps = Some n"
    by (auto split: option.splits)
  with bt_ok_child [OF Cons.prems(1) m(1)] Cons.IH [of m] show ?case by auto
qed simp

lemma walk_append: "walk t (ps @ qs) = (case walk t ps of None \<Rightarrow> None | Some n \<Rightarrow> walk n qs)"
  by (induction ps arbitrary: t) (auto split: option.splits)

lemma leaves_walk:
  "bt_ok t \<Longrightarrow> (ps, a) \<in> set (bt_leaves t) \<longleftrightarrow> (\<exists>n. walk t ps = Some n \<and> Func n = Some a)"
proof (induction ps arbitrary: t)
  case Nil
  then show ?case by (cases t) (auto split: option.splits)
next
  case (Cons p ps)
  obtain f cs where t: "t = Bintree f cs" by (cases t)
  have d: "distinct (map fst cs)" using Cons.prems t by auto
  have "(p # ps, a) \<in> set (bt_leaves t) \<longleftrightarrow> (\<exists>m. (p, m) \<in> set cs \<and> (ps, a) \<in> set (bt_leaves m))"
    by (force simp: t split: option.splits)
  also have "\<dots> \<longleftrightarrow> (\<exists>m. map_of cs p = Some m \<and> (ps, a) \<in> set (bt_leaves m))"
    using map_of_eq_Some_iff [OF d, of p] by auto
  also have "\<dots> \<longleftrightarrow> (\<exists>m. map_of cs p = Some m \<and> (\<exists>n. walk m ps = Some n \<and> Func n = Some a))"
    using Cons.IH bt_ok_child(2) [OF Cons.prems, of p] t by auto
  finally show ?case by (auto simp: t split: option.splits)
qed

text \<open>The elements of a name, and the node it names.\<close>

definition name_elems :: "string \<Rightarrow> string list" where
  "name_elems name = (if name = '''' then [] else SplitByte name slash)"

definition node_at :: "package \<Rightarrow> string \<Rightarrow> bintree option" where
  "node_at pk name = walk (pk_bintree pk) (name_elems name)"

lemma Join_name_elems: "Join (name_elems name) ''/'' = name"
  using Join_SplitByte [of name slash] by (simp add: name_elems_def slash_def)

lemma name_elems_inj: "name_elems k = name_elems l \<Longrightarrow> k = l"
  by (metis Join_name_elems)

lemma name_elems_Join:
  assumes "\<forall>p \<in> set ps. plain_name p"
  shows "name_elems (Join ps ''/'') = ps"
proof (cases "ps = []")
  case False
  then obtain p qs where ps: "ps = p # qs" by (cases ps) auto
  with assms have "Join ps ''/'' \<noteq> ''''" by (cases qs) (auto simp: plain_name_def)
  then show ?thesis
    using SplitByte_Join [OF False, of slash] assms by (auto simp: name_elems_def plain_name_def slash_def)
qed (simp add: name_elems_def)

lemma table_node:
  assumes "package_ok pk"
  shows "map_of (pk_bindata pk) name = Some f \<longleftrightarrow> (\<exists>n. node_at pk name = Some n \<and> Func n = Some f)"
proof -
  let ?t = "pk_bintree pk"
  have ok: "bt_ok ?t" "distinct (map fst (pk_bindata pk))"
    and s: "set (pk_bindata pk) = (\<lambda>(ps, a). (Join ps ''/'', a)) ` set (bt_leaves ?t)"
    using assms by (auto simp: package_ok_def)
  have "map_of (pk_bindata pk) name = Some f \<longleftrightarrow> (\<exists>ps. name = Join ps ''/'' \<and> (ps, f) \<in> set (bt_leaves ?t))"
    unfolding map_of_eq_Some_iff [OF ok(2)] s by auto
  also have "\<dots> \<longleftrightarrow> (\<exists>ps n. name = Join ps ''/'' \<and> walk ?t ps = Some n \<and> Func n = Some f)"
    using leaves_walk [OF ok(1)] by auto
  also have "\<dots> \<longleftrightarrow> (\<exists>n. node_at pk name = Some n \<and> Func n = Some f)"
  proof
    assume "\<exists>ps n. name = Join ps ''/'' \<and> walk ?t ps = Some n \<and> Func n = Some f"
    then obtain ps n where n: "name = Join ps ''/''" "walk ?t ps = Some n" "Func n = Some f" by auto
    with walk_ok [OF ok(1) n(2)] have "name_elems name = ps"
      by (simp add: name_elems_Join bt_name_def)
    with n show "\<exists>n. node_at pk name = Some n \<and> Func n = Some f" by (auto simp: node_at_def)
  next
    assume "\<exists>n. node_at pk name = Some n \<and> Func n = Some f"
    then show "\<exists>ps n. name = Join ps ''/'' \<and> walk ?t ps = Some n \<and> Func n = Some f"
      using Join_name_elems [of name, symmetric] by (auto simp: node_at_def)
  qed
  finally show ?thesis .
qed

lemma table_asset:
  assumes "package_ok pk" and "map_of (pk_bindata pk) name = Some f"
  shows "\<exists>a. f = Inr a \<and> fi_name (asset_info a) = name \<and>
    fi_size (asset_info a) = int (length (asset_bytes a)) \<and> \<not> fi_IsDir (asset_info a)"
proof -
  have "(name, f) \<in> set (pk_bindata pk)" using assms(2) by (rule map_of_SomeD)
  moreover have "list_all (\<lambda>(name, f). asset_ok name f) (pk_bindata pk)" using assms(1) by (simp add: package_ok_def)
  ultimately have "asset_ok name f" by (auto simp: list_all_iff)
  then show ?thesis by (auto simp: asset_ok_def split: sum.splits)
qed

lemma node_file:
  assumes "package_ok pk" and "node_at pk name = Some n" and "Func n = Some f"
  obtains a where "f = Inr a" "fi_name (asset_info a) = name"
    "fi_size (asset_info a) = int (length (asset_bytes a))" "\<not> fi_IsDir (asset_info a)"
  using table_asset [OF assms(1)] table_node [OF assms(1), of name f] assms(2,3) by auto

lemma Asset_node:
  assumes "package_ok pk" and "CHR 0x5C \<notin> set name"
  shows "Asset pk name = (case node_at pk name of
        Some (Bintree (Some (Inr a)) _) \<Rightarrow> Inr (asset_bytes a)
      | _ \<Rightarrow> Inl (Errorf (''Asset '' @ name @ '' not found'')))"
    and "AssetInfo pk name = (case node_at pk name of
        Some (Bintree (Some (Inr a)) _) \<Rightarrow> Inr (asset_info a)
      | _ \<Rightarrow> Inl (Errorf (''AssetInfo '' @ name @ '' not found'')))"
proof -
  have t: "map_of (pk_bindata pk) name = (case node_at pk name of Some n \<Rightarrow> Func n | None \<Rightarrow> None)"
  proof (cases "map_of (pk_bindata pk) name")
    case None
    then have "Func n = None" if "node_at pk name = Some n" for n
      using table_node [OF assms(1), of name "the (Func n)"] that by (cases "Func n") auto
    with None show ?thesis by (auto split: option.splits)
  next
    case (Some f)
    then show ?thesis using table_node [OF assms(1), of name f] by auto
  qed
  have a: "\<exists>a. f = Inr a" if "node_at pk name = Some n" "Func n = Some f" for n f
    using node_file [OF assms(1) that] by blast
  show "Asset pk name = (case node_at pk name of
        Some (Bintree (Some (Inr a)) _) \<Rightarrow> Inr (asset_bytes a)
      | _ \<Rightarrow> Inl (Errorf (''Asset '' @ name @ '' not found'')))"
    "AssetInfo pk name = (case node_at pk name of
        Some (Bintree (Some (Inr a)) _) \<Rightarrow> Inr (asset_info a)
      | _ \<Rightarrow> Inl (Errorf (''AssetInfo '' @ name @ '' not found'')))"
    using a unfolding Asset_def AssetInfo_def canonicalName_id [OF assms(2)] t
    by (force split: option.splits bintree.splits sum.splits)+
qed

lemma AssetDir_node:
  assumes "CHR 0x5C \<notin> set name"
  shows "AssetDir ord pk name = (case node_at pk name of
        Some (Bintree None cs) \<Rightarrow> Inr (ord name (map fst cs))
      | _ \<Rightarrow> Inl (Errorf (''Asset '' @ name @ '' not found'')))"
  unfolding AssetDir_def node_at_def name_elems_def canonicalName_id [OF assms]
  by (auto split: option.splits bintree.splits)

text \<open>A child of a directory.\<close>

lemma path_Join_child:
  assumes "\<forall>p \<in> set (name_elems name). plain_name p" and "plain_name c"
  shows "path_Join [name, c] = Join (name_elems name @ [c]) ''/''"
proof -
  define es where "es = name_elems name @ [c]"
  have pl: "\<forall>p \<in> set es. plain_name p" "es \<noteq> []" using assms by (auto simp: es_def)
  have j: "Join (filter (\<lambda>e. e \<noteq> '''') [name, c]) ''/'' = Join es ''/''"
  proof (cases "name = ''''")
    case True
    then show ?thesis using assms(2) by (simp add: es_def name_elems_def plain_name_def)
  next
    case False
    have "Join (ws @ [c]) ''/'' = Join ws ''/'' @ ''/'' @ c" if "ws \<noteq> []" for ws
      using that by (induction ws "''/''" rule: Join.induct) auto
    moreover have "name_elems name \<noteq> []" using False by (simp add: name_elems_def)
    ultimately have "Join es ''/'' = name @ ''/'' @ c"
      by (simp add: es_def Join_name_elems)
    with False assms(2) show ?thesis by (simp add: plain_name_def)
  qed
  have sp: "SplitByte (Join es ''/'') slash = es"
    using SplitByte_Join [OF pl(2), of slash] pl(1) by (auto simp: plain_name_def slash_def)
  have "\<not> HasPrefix (Join es ''/'') ''/''"
  proof
    assume "HasPrefix (Join es ''/'') ''/''"
    then obtain r where "Join es ''/'' = slash # r"
      by (auto simp: HasPrefix_def prefix_def slash_def)
    then have "'''' \<in> set es" using sp by (metis SplitByte.simps(2) list.set_intros(1))
    with pl(1) show False by (auto simp: plain_name_def)
  qed
  moreover have "clean_parts False [] es = es"
    using clean_parts_fixed [of es False "[]"] pl(1) by (auto simp: plain_name_def)
  ultimately have "Clean (Join es ''/'') = Join es ''/''"
    using pl(2) by (simp add: Clean_def sp)
  moreover have "filter (\<lambda>e. e \<noteq> '''') [name, c] \<noteq> []"
    using assms(2) by (auto simp: plain_name_def)
  ultimately show ?thesis unfolding path_Join_def Let_def j es_def [symmetric] by simp
qed

lemma node_at_ok:
  assumes "package_ok pk" and "node_at pk name = Some n"
  shows "bt_ok n" and "\<forall>p \<in> set (name_elems name). plain_name p"
  using walk_ok assms by (fastforce simp: package_ok_def node_at_def bt_name_def)+

lemma child_node:
  assumes "package_ok pk" and "node_at pk name = Some n" and "(c, t) \<in> set (Children n)"
  shows "node_at pk (path_Join [name, c]) = Some t" and "plain_name c" and "CHR 0x5C \<notin> set c"
    and "name_elems (path_Join [name, c]) = name_elems name @ [c]"
proof -
  note ok = node_at_ok [OF assms(1,2)]
  have m: "map_of (Children n) c = Some t"
    using ok(1) assms(3) by (cases n) (auto intro: map_of_is_SomeI)
  show c: "plain_name c" and "CHR 0x5C \<notin> set c"
    using bt_ok_child(1) [OF ok(1) m] by (auto simp: bt_name_def)
  show e: "name_elems (path_Join [name, c]) = name_elems name @ [c]"
    unfolding path_Join_child [OF ok(2) c] by (rule name_elems_Join) (use ok(2) c in auto)
  show "node_at pk (path_Join [name, c]) = Some t"
    using assms(2) m by (simp add: node_at_def e walk_append)
qed

lemma set_Join: "set (Join ps ''/'') \<subseteq> \<Union> (set ` set ps) \<union> {slash}"
  by (induction ps "''/''" rule: Join.induct) (auto simp: slash_def)

lemma node_name_plain:
  assumes "package_ok pk" and "node_at pk name = Some n"
  shows "CHR 0x5C \<notin> set name"
proof -
  have "\<forall>p \<in> set (name_elems name). bt_name p"
    using walk_ok assms by (fastforce simp: package_ok_def node_at_def)
  then have "CHR 0x5C \<notin> \<Union> (set ` set (name_elems name)) \<union> {slash}" by (auto simp: bt_name_def slash_def)
  then show ?thesis using set_Join [of "name_elems name"] Join_name_elems [of name] by auto
qed

section \<open>Reading directories\<close>

text \<open>One call after the other.\<close>

fun read_pieces :: "int list \<Rightarrow> assetFile \<Rightarrow> bindataFileInfo list res outcome list" where
  "read_pieces [] f = []"
| "read_pieces (count # counts) f = (let (r, f) = Readdir count f in r # read_pieces counts f)"

lemma read_pieces_from:
  assumes "childInfos f \<noteq> []" and "childInfoOffset f = int k" and "k \<le> length (childInfos f)"
    and "\<forall>c \<in> set counts. 0 < c \<and> c < 2 ^ 63 - int (length (childInfos f))"
  shows "\<exists>pieces. read_pieces counts f = map (\<lambda>p. Ret (Inr p)) pieces \<and>
    concat pieces = take (nat (sum_list counts)) (drop k (childInfos f))"
  using assms
proof (induction counts arbitrary: f k)
  case (Cons c cs)
  define n where "n = length (childInfos f)"
  define m where "m = min (nat c) (n - k)"
  have c: "0 < c" "c < 2 ^ 63 - int n" using Cons.prems(4) by (auto simp: n_def)
  have kn: "k \<le> n" using Cons.prems(3) by (simp add: n_def)
  have w: "wrap64 (int k + c) = int k + c" using c kn by (intro wrap64_id) auto
  have hi: "wrap64 (int k + (if int n < int k + c then int n - int k else c)) = int (k + m)"
    using w c kn by (auto simp: m_def wrap64_id)
  define f' where "f' = f\<lparr>childInfoOffset := int (k + m)\<rparr>"
  have r: "Readdir c f = (Ret (Inr (take m (drop k (childInfos f)))), f')"
    using c Cons.prems(1,2) w hi kn
    by (simp add: Readdir_def Let_def n_def [symmetric] f'_def m_def)
  have cs0: "0 \<le> sum_list cs" using Cons.prems(4) by (intro sum_list_nonneg) force
  obtain pieces where p: "read_pieces cs f' = map (\<lambda>p. Ret (Inr p)) pieces"
      "concat pieces = take (nat (sum_list cs)) (drop (k + m) (childInfos f'))"
  proof -
    have "\<exists>pieces. read_pieces cs f' = map (\<lambda>p. Ret (Inr p)) pieces \<and>
        concat pieces = take (nat (sum_list cs)) (drop (k + m) (childInfos f'))"
      by (rule Cons.IH) (use Cons.prems kn in \<open>auto simp: f'_def m_def n_def\<close>)
    then show thesis using that by blast
  qed
  have "take m (drop k (childInfos f)) @ take (nat (sum_list cs)) (drop (k + m) (childInfos f)) =
      take (nat (c + sum_list cs)) (drop k (childInfos f))"
  proof (cases "nat c \<le> n - k")
    case True
    then show ?thesis using c cs0
      by (simp add: m_def nat_add_distrib take_add add.commute [of k])
  next
    case False
    then show ?thesis using c cs0 kn by (simp add: m_def n_def)
  qed
  with r p show ?case
    by (intro exI [of _ "take m (drop k (childInfos f)) # pieces"]) (simp add: f'_def)
qed simp

text \<open>The information about the children of a directory.\<close>

lemma child_info_node:
  assumes "package_ok pk" and "node_at pk name = Some n" and "(c, t) \<in> set (Children n)"
  shows "fi_name (child_info pk name c) = path_Join [name, c] \<and>
    (fi_IsDir (child_info pk name c) \<longleftrightarrow> Func t = None)"
proof -
  let ?p = "path_Join [name, c]"
  note c = child_node [OF assms]
  have "AssetInfo pk ?p = (case t of Bintree (Some (Inr a)) _ \<Rightarrow> Inr (asset_info a)
      | _ \<Rightarrow> Inl (Errorf (''AssetInfo '' @ ?p @ '' not found'')))"
    using Asset_node(2) [OF assms(1) node_name_plain [OF assms(1) c(1)]] c(1)
    by (simp split: bintree.splits)
  moreover have "fi_IsDir (newDirFileInfo ?p)"
    by (simp add: fi_IsDir_def newDirFileInfo_def ModeDir_def)
  note calculation = this calculation
  show ?thesis
  proof (cases "Func t")
    case None
    then show ?thesis using calculation by (cases t) (auto simp: child_info_def newDirFileInfo_def)
  next
    case (Some f)
    then obtain a where "f = Inr a" "fi_name (asset_info a) = ?p" "\<not> fi_IsDir (asset_info a)"
      using node_file [OF assms(1) c(1)] by blast
    with Some show ?thesis using calculation by (cases t) (auto simp: child_info_def)
  qed
qed

section \<open>Properties\<close>

lemma Open_name: "(if 0 < length path \<and> path ! 0 = slash then drop 1 path else path) = TrimPrefix path ''/''"
  by (cases path) (auto simp: TrimPrefix_def HasPrefix_def slash_def)

lemma not_found: "Contains (''Asset '' @ name @ '' not found'') ''not found''"
proof -
  have "''Asset '' @ name @ '' not found'' = (''Asset '' @ name @ '' '') @ ''not found'' @ ''''" by simp
  then show ?thesis unfolding Contains_def by (metis sublist_appendI)
qed

lemma Open_dir:
  assumes "package_ok pk" and "range_ok ord" and "node_at pk name = Some (Bintree None cs)"
  defines "f \<equiv> \<lparr>af_Reader = None, af_name = name, childInfos = map (child_info pk name) (ord name (map fst cs)), childInfoOffset = 0\<rparr>"
  shows "af_Stat pk f = Inr (newDirFileInfo name)"
    and "map fi_name (childInfos f) = map (\<lambda>c. path_Join [name, c]) (ord name (map fst cs))"
    and "(c, t) \<in> set cs \<Longrightarrow> \<exists>i \<in> set (childInfos f). fi_name i = path_Join [name, c] \<and> (fi_IsDir i \<longleftrightarrow> Func t = None)"
    and "\<forall>k \<in> set counts. 0 < k \<and> k < 2 ^ 63 - int (length cs) \<Longrightarrow>
      \<exists>pieces. read_pieces counts f = map (\<lambda>p. Ret (Inr p)) pieces \<and>
        concat pieces = take (nat (sum_list counts)) (childInfos f)"
proof -
  have ord: "set (ord name (map fst cs)) = fst ` set cs" "length (ord name (map fst cs)) = length cs"
    using assms(2) by (simp_all add: range_ok_def)
  have ne: "cs \<noteq> []" using node_at_ok(1) [OF assms(1,3)] by simp
  then have ne': "ord name (map fst cs) \<noteq> []" using ord(2) by auto
  show "af_Stat pk f = Inr (newDirFileInfo name)" using ne' by (simp add: f_def af_Stat_def)
  have info: "fi_name (child_info pk name c) = path_Join [name, c]"
    "fi_IsDir (child_info pk name c) \<longleftrightarrow> Func t = None" if "(c, t) \<in> set cs" for c t
    using child_info_node [OF assms(1,3)] that by simp_all
  have n: "fi_name (child_info pk name c) = path_Join [name, c]" if "c \<in> set (ord name (map fst cs))" for c
    using that info(1) unfolding ord(1) by auto
  show "map fi_name (childInfos f) = map (\<lambda>c. path_Join [name, c]) (ord name (map fst cs))"
    unfolding f_def by (simp add: n)
  show "(c, t) \<in> set cs \<Longrightarrow> \<exists>i \<in> set (childInfos f). fi_name i = path_Join [name, c] \<and> (fi_IsDir i \<longleftrightarrow> Func t = None)"
  proof -
    assume c: "(c, t) \<in> set cs"
    then have "c \<in> set (ord name (map fst cs))" unfolding ord(1) by (rule image_eqI [rotated]) simp
    then have "child_info pk name c \<in> set (childInfos f)" by (simp add: f_def)
    with info [OF c] show ?thesis by (intro bexI [of _ "child_info pk name c"]) simp_all
  qed
  show "\<forall>k \<in> set counts. 0 < k \<and> k < 2 ^ 63 - int (length cs) \<Longrightarrow>
      \<exists>pieces. read_pieces counts f = map (\<lambda>p. Ret (Inr p)) pieces \<and>
        concat pieces = take (nat (sum_list counts)) (childInfos f)"
  proof -
    assume h: "\<forall>k \<in> set counts. 0 < k \<and> k < 2 ^ 63 - int (length cs)"
    have "\<exists>pieces. read_pieces counts f = map (\<lambda>p. Ret (Inr p)) pieces \<and>
        concat pieces = take (nat (sum_list counts)) (drop 0 (childInfos f))"
      by (rule read_pieces_from) (use ne' ord(2) h in \<open>simp_all add: f_def\<close>)
    then show ?thesis by simp
  qed
qed

text \<open>
  C25: what opening a path of an embedded package gives, whatever the order of its maps: for a
  file its whole content, with its size; for a directory the information about exactly its
  children, under their full paths, of which the directories are marked; and \<open>ErrNotExist\<close> for
  every other path. Reading a directory in pieces of positive counts gives its children from the
  first on, each once; after the last one a piece is empty and still no error (\<open>http.File\<close> asks
  for \<open>io.EOF\<close>).
\<close>

theorem embedded_open:
  assumes "package_ok pk" and "range_ok ord" and "CHR 0x5C \<notin> set path"
  shows "case node_at pk (TrimPrefix path ''/'') of
      None \<Rightarrow> bindata_Open ord pk path = Inl ErrNotExist
    | Some (Bintree (Some r) _) \<Rightarrow>
        (\<exists>a f. r = Inr a \<and> bindata_Open ord pk path = Inr f \<and> af_Reader f = Some (asset_bytes a) \<and>
           af_Stat pk f = Inr (asset_info a) \<and> fi_name (asset_info a) = TrimPrefix path ''/'' \<and>
           fi_size (asset_info a) = int (length (asset_bytes a)) \<and> \<not> fi_IsDir (asset_info a))
    | Some (Bintree None cs) \<Rightarrow>
        (\<exists>f. bindata_Open ord pk path = Inr f \<and> af_Reader f = None \<and>
           af_Stat pk f = Inr (newDirFileInfo (TrimPrefix path ''/'')) \<and>
           map fi_name (childInfos f) =
             map (\<lambda>c. path_Join [TrimPrefix path ''/'', c]) (ord (TrimPrefix path ''/'') (map fst cs)) \<and>
           (\<forall>(c, t) \<in> set cs. \<exists>i \<in> set (childInfos f).
              fi_name i = path_Join [TrimPrefix path ''/'', c] \<and> (fi_IsDir i \<longleftrightarrow> Func t = None)) \<and>
           (\<forall>counts. (\<forall>k \<in> set counts. 0 < k \<and> k < 2 ^ 63 - int (length cs)) \<longrightarrow>
              (\<exists>pieces. read_pieces counts f = map (\<lambda>p. Ret (Inr p)) pieces \<and>
                 concat pieces = take (nat (sum_list counts)) (childInfos f))))"
proof -
  let ?n = "TrimPrefix path ''/''"
  have bs: "CHR 0x5C \<notin> set ?n" using assms(3) by (auto simp: TrimPrefix_def dest: in_set_dropD)
  note open_def = bindata_Open_def [of ord pk path, unfolded Open_name Let_def Asset_node(1) [OF assms(1) bs] AssetDir_node [OF bs]]
  show ?thesis
  proof (cases "node_at pk ?n")
    case None
    then show ?thesis using not_found [of ?n] by (simp add: open_def)
  next
    case (Some n)
    then obtain fn cs where n: "node_at pk ?n = Some (Bintree fn cs)" by (cases n) auto
    show ?thesis
    proof (cases fn)
      case None
      let ?f = "\<lparr>af_Reader = None, af_name = ?n, childInfos = map (child_info pk ?n) (ord ?n (map fst cs)), childInfoOffset = 0\<rparr>"
      have o: "bindata_Open ord pk path = Inr ?f" "af_Reader ?f = None" by (simp_all add: open_def n None)
      note dir = Open_dir [OF assms(1,2) n [unfolded None]]
      have c: "\<forall>(c, t) \<in> set cs. \<exists>i \<in> set (childInfos ?f). fi_name i = path_Join [?n, c] \<and> (fi_IsDir i \<longleftrightarrow> Func t = None)"
        using dir(3) by blast
      show ?thesis unfolding n None option.case bintree.case
        by (intro exI [of _ ?f] conjI allI impI o dir(1,2) c) (rule dir(4))
    next
      case (Some r)
      obtain a where a: "r = Inr a" "fi_name (asset_info a) = ?n"
        "fi_size (asset_info a) = int (length (asset_bytes a))" "\<not> fi_IsDir (asset_info a)"
        using node_file [OF assms(1) n] Some by auto
      then show ?thesis unfolding open_def n Some
        by (simp add: af_Stat_def Asset_node(2) [OF assms(1) bs] n Some)
    qed
  qed
qed

text \<open>A package with a file and a directory.\<close>

definition sample_asset :: "string \<Rightarrow> bytes \<Rightarrow> asset res" where
  "sample_asset name content =
     Inr \<lparr>asset_bytes = content,
       asset_info = \<lparr>fi_name = name, fi_size = int (length content), fi_mode = 420, fi_modTime = 0\<rparr>\<rparr>"

definition sample_package :: package where
  "sample_package =
     \<lparr>pk_bindata = [(''g'', sample_asset ''g'' ''1''), (''d/f'', sample_asset ''d/f'' ''22'')],
      pk_bintree = Bintree None
        [(''g'', Bintree (Some (sample_asset ''g'' ''1'')) []),
         (''d'', Bintree None [(''f'', Bintree (Some (sample_asset ''d/f'' ''22'')) [])])]\<rparr>"

lemma sample_package_ok: "package_ok sample_package"
  by (auto simp: package_ok_def sample_package_def sample_asset_def asset_ok_def fi_IsDir_def ModeDir_def
      plain_name_def slash_def)

lemma range_ok_id: "range_ok (\<lambda>_ xs. xs)"
  by (simp add: range_ok_def)

theorem embedded_open_witness:
  "\<exists>f. bindata_Open (\<lambda>_ xs. xs) sample_package ''/d'' = Inr f \<and>
     map fi_name (childInfos f) = [path_Join [''d'', ''f'']] \<and>
     read_pieces [1, 1] f = [Ret (Inr (childInfos f)), Ret (Inr [])]"
proof -
  have t: "TrimPrefix ''/d'' ''/'' = ''d''" by (simp add: TrimPrefix_def HasPrefix_def)
  have n: "node_at sample_package ''d'' = Some (Bintree None [(''f'', Bintree (Some (sample_asset ''d/f'' ''22'')) [])])"
    by (simp add: node_at_def name_elems_def sample_package_def slash_def)
  have "CHR 0x5C \<notin> set ''/d''" by simp
  from embedded_open [OF sample_package_ok range_ok_id this] obtain f where
      f: "bindata_Open (\<lambda>_ xs. xs) sample_package ''/d'' = Inr f" "map fi_name (childInfos f) = [path_Join [''d'', ''f'']]"
    unfolding t n by auto
  from f(2) obtain i where i: "childInfos f = [i]" by (cases "childInfos f") auto
  from f(1) have "childInfoOffset f = 0"
    by (auto simp: bindata_Open_def Let_def split: sum.splits if_splits)
  then have "read_pieces [1, 1] f = [Ret (Inr [i]), Ret (Inr [])]"
    by (simp add: Readdir_def i Let_def wrap64_def)
  with f i show ?thesis by auto
qed

end
