(* ===== verification/Bindata_Restore.thy ===== *)
theory Bindata_Restore
  imports Bindata
begin

text \<open>
  \<open>RestoreAsset\<close> and \<open>RestoreAssets\<close> of the embedded packages (defined in Bindata) over the file
  system of Utils_Files: what they leave, that they end, and when they succeed.
\<close>

section \<open>Restoring files\<close>

lemma MkdirAll_effect:
  assumes "os_MkdirAll path perm w = (e, w')"
  shows "umask w' = umask w \<and> deny w' = deny w \<and>
    (\<forall>q. fs w' q = fs w q \<or> fs w q = None \<and> fs w' q = Some (DirNode (perm AND NOT (umask w))))"
  using assms
proof (induction path perm w arbitrary: e w' rule: os_MkdirAll.induct)
  case (1 path perm w)
  obtain e1 w1 where p: "(if parent path \<noteq> '''' then os_MkdirAll (parent path) perm w else (None, w)) = (e1, w1)"
    by fastforce
  show ?case
  proof (cases "os_Stat w path")
    case (Inr n)
    then show ?thesis using "1.prems" by (auto simp: os_MkdirAll.simps [of path] split: fnode.splits)
  next
    case (Inl x)
    have i: "umask w1 = umask w \<and> deny w1 = deny w \<and>
      (\<forall>q. fs w1 q = fs w q \<or> fs w q = None \<and> fs w1 q = Some (DirNode (perm AND NOT (umask w))))"
      using "1.IH" [OF Inl] p by (auto split: if_splits)
    have mk: "umask (snd (os_Mkdir path perm w1)) = umask w1" "deny (snd (os_Mkdir path perm w1)) = deny w1"
        "fs (snd (os_Mkdir path perm w1)) q = fs w1 q \<or>
         fs w1 q = None \<and> fs (snd (os_Mkdir path perm w1)) q = Some (DirNode (perm AND NOT (umask w1)))" for q
      by (auto simp: os_Mkdir_def split: option.splits)
    from "1.prems" have "e1 \<noteq> None \<and> w' = w1 \<or> e1 = None \<and> w' = snd (os_Mkdir path perm w1)"
      unfolding os_MkdirAll.simps [of path] Inl p
      by (auto split: option.splits prod.splits sum.splits fnode.splits)
    then show ?thesis
    proof (elim disjE conjE)
      assume w': "w' = snd (os_Mkdir path perm w1)"
      have "fs w' q = fs w q \<or> fs w q = None \<and> fs w' q = Some (DirNode (perm AND NOT (umask w)))" for q
      proof (cases "fs w' q = fs w1 q")
        case False
        then show ?thesis using mk(3) [of q] i unfolding w' by (metis option.distinct(1))
      qed (use i in simp)
      then show ?thesis using mk(1,2) i unfolding w' by simp
    qed (use i in simp)
  qed
qed

text \<open>A file that is written keeps its mode when it was there.\<close>

definition kept_mode :: "fnode option \<Rightarrow> file_mode \<Rightarrow> file_mode" where
  "kept_mode n m = (case n of Some (FileNode m' _) \<Rightarrow> m' | _ \<Rightarrow> m)"

lemma kept_mode_dir:
  "n' = n \<or> n = None \<and> n' = Some (DirNode d) \<Longrightarrow> kept_mode n' m = kept_mode n m"
  by (auto simp: kept_mode_def)

lemma kept_mode_file [simp]: "kept_mode (Some (FileNode m' b)) m = m'"
  by (simp add: kept_mode_def)

lemma WriteFile_effect:
  assumes "os_WriteFile p b perm w = (None, w')"
  shows "umask w' = umask w" and "deny w' = deny w"
    and "fs w' = (fs w)(p \<mapsto> FileNode (kept_mode (fs w p) (perm AND NOT (umask w))) b)"
  using assms by (auto simp: kept_mode_def os_WriteFile_def os_defs split: option.splits fnode.splits)

text \<open>
  What restoring the assets with the names in \<open>ks\<close> leaves: each is a file with its content and
  time, which keeps its mode when it was there; other paths stay, apart from new directories.
\<close>

definition file_left :: "package \<Rightarrow> string \<Rightarrow> restore_world \<Rightarrow> restore_world \<Rightarrow> string \<Rightarrow> bool" where
  "file_left pk dir w w' k \<longleftrightarrow> (\<exists>a. map_of (pk_bindata pk) k = Some (Inr a) \<and>
     fs (rw_os w') (filePath dir k) = Some (FileNode
       (kept_mode (fs (rw_os w) (filePath dir k)) (fi_mode (asset_info a) AND NOT (umask (rw_os w))))
       (asset_bytes a)) \<and>
     rw_times w' (filePath dir k) = Some (fi_modTime (asset_info a)))"

definition restored :: "package \<Rightarrow> string \<Rightarrow> string set \<Rightarrow> restore_world \<Rightarrow> restore_world \<Rightarrow> bool" where
  "restored pk dir ks w w' \<longleftrightarrow>
     umask (rw_os w') = umask (rw_os w) \<and>
     (\<forall>k \<in> ks. file_left pk dir w w' k) \<and>
     (\<forall>p. p \<notin> filePath dir ` ks \<longrightarrow>
        rw_times w' p = rw_times w p \<and>
        (fs (rw_os w') p = fs (rw_os w) p \<or>
         fs (rw_os w) p = None \<and> fs (rw_os w') p = Some (DirNode (493 AND NOT (umask (rw_os w))))))"

lemma restored_empty: "restored pk dir {} w w"
  by (simp add: restored_def)

lemma SplitByte_app: "SplitByte (d @ c # u) c = SplitByte d c @ SplitByte u c"
  by (induction d) (auto split: list.splits)

lemma clean_parts_app:
  "\<forall>p \<in> set ps. plain_name p \<Longrightarrow> clean_parts r acc (xs @ ps) = clean_parts r acc xs @ ps"
  by (induction xs arbitrary: acc) (auto simp: clean_parts_fixed plain_name_def)

lemma elems_Join:
  assumes "ws \<noteq> []" and "\<forall>w \<in> set ws. plain_name w"
  shows "elems (''/'' @ Join ws ''/'') = ws"
  using Join_elems [OF assms] clean_parts_app [OF assms(2), of True "[]" "['''']"] by (simp add: elems_def)

lemma filePath_Join:
  assumes "rooted dir" and "CHR 0x5C \<notin> set k" and "k \<noteq> ''''" and "\<forall>p \<in> set (name_elems k). plain_name p"
  shows "filePath dir k = ''/'' @ Join (elems dir @ name_elems k) ''/''"
proof -
  let ?ps = "name_elems k"
  have sp: "SplitByte (canonicalName k) slash = ?ps"
    using assms(2,3) by (simp add: canonicalName_id name_elems_def)
  have ne: "?ps \<noteq> []" using assms(3) by (simp add: name_elems_def)
  have "dir \<noteq> ''''" using assms(1) by (auto simp: rooted_def HasPrefix_def)
  moreover have "\<forall>p \<in> set ?ps. p \<noteq> ''''" using assms(4) by (simp add: plain_name_def)
  ultimately have "filter (\<lambda>e. e \<noteq> '''') (dir # ?ps) = dir # ?ps" by (simp add: filter_id_conv)
  moreover have "Join (dir # ?ps) ''/'' = dir @ slash # k"
    using ne by (simp add: Join_Cons Join_name_elems slash_def)
  ultimately have "filePath dir k = Clean (dir @ slash # k)"
    by (simp add: filePath_def path_Join_def sp)
  moreover have "HasPrefix (dir @ slash # k) ''/''"
    using assms(1) by (auto simp: rooted_def HasPrefix_def prefix_def)
  moreover have "SplitByte (dir @ slash # k) slash = SplitByte dir slash @ ?ps"
    using assms(3) by (simp add: SplitByte_app name_elems_def)
  moreover have "clean_parts True [] (SplitByte dir slash @ ?ps) = elems dir @ ?ps"
    unfolding elems_def by (rule clean_parts_app [OF assms(4)])
  ultimately show ?thesis by (simp add: Clean_def)
qed

lemma filePath_elems:
  assumes "rooted dir" and "CHR 0x5C \<notin> set k" and "k \<noteq> ''''" and "\<forall>p \<in> set (name_elems k). plain_name p"
  shows "elems (filePath dir k) = elems dir @ name_elems k"
  unfolding filePath_Join [OF assms]
  by (rule elems_Join) (use assms(3,4) elems_plain in \<open>auto simp: name_elems_def\<close>)

lemma table_key:
  assumes "package_ok pk" and "map_of (pk_bindata pk) k = Some f"
  shows "CHR 0x5C \<notin> set k" and "k \<noteq> ''''" and "\<forall>p \<in> set (name_elems k). plain_name p"
proof -
  obtain n where n: "node_at pk k = Some n" "Func n = Some f" using table_node [OF assms(1)] assms(2) by auto
  show "CHR 0x5C \<notin> set k" by (rule node_name_plain [OF assms(1) n(1)])
  show "\<forall>p \<in> set (name_elems k). plain_name p" by (rule node_at_ok(2) [OF assms(1) n(1)])
  show "k \<noteq> ''''" using n assms(1) by (auto simp: node_at_def name_elems_def package_ok_def)
qed

lemma filePath_inj:
  assumes "package_ok pk" and "rooted dir"
    and "map_of (pk_bindata pk) k = Some f" and "map_of (pk_bindata pk) l = Some g"
    and "filePath dir k = filePath dir l"
  shows "k = l"
proof -
  have "elems dir @ name_elems k = elems dir @ name_elems l"
    using filePath_elems [OF assms(2) table_key [OF assms(1,3)]] filePath_elems [OF assms(2) table_key [OF assms(1,4)]]
      assms(5) by simp
  then show ?thesis by (auto intro: name_elems_inj)
qed

lemma restored_comp:
  assumes "package_ok pk" and "rooted dir" and "restored pk dir ks w w1" and "restored pk dir ls w1 w2"
  shows "restored pk dir (ks \<union> ls) w w2"
proof -
  have u: "umask (rw_os w1) = umask (rw_os w)" "umask (rw_os w2) = umask (rw_os w)"
    using assms(3,4) by (auto simp: restored_def)
  have key: "\<exists>a. map_of (pk_bindata pk) k = Some (Inr a)" if "k \<in> ks \<union> ls" for k
    using that assms(3,4) by (auto simp: restored_def file_left_def)
  have inj: "k = l" if "k \<in> ks \<union> ls" "l \<in> ks \<union> ls" "filePath dir k = filePath dir l" for k l
    using key [OF that(1)] key [OF that(2)] filePath_inj [OF assms(1,2) _ _ that(3)] by blast
  have "file_left pk dir w w2 k" if k: "k \<in> ks \<union> ls" for k
  proof (cases "k \<in> ls")
    case True
    then have l: "file_left pk dir w1 w2 k" using assms(4) by (auto simp: restored_def)
    show ?thesis
    proof (cases "k \<in> ks")
      case True
      then have "file_left pk dir w w1 k" using assms(3) by (auto simp: restored_def)
      with l show ?thesis by (auto simp: file_left_def)
    next
      case False
      then have "filePath dir k \<notin> filePath dir ` ks" using inj k by blast
      then have "fs (rw_os w1) (filePath dir k) = fs (rw_os w) (filePath dir k) \<or>
          fs (rw_os w) (filePath dir k) = None \<and>
          fs (rw_os w1) (filePath dir k) = Some (DirNode (493 AND NOT (umask (rw_os w))))"
        using assms(3) by (simp add: restored_def)
      then show ?thesis using l u kept_mode_dir by (fastforce simp: file_left_def)
    qed
  next
    case False
    with k have "file_left pk dir w w1 k" using assms(3) by (auto simp: restored_def)
    moreover have "filePath dir k \<notin> filePath dir ` ls" using inj k False by blast
    ultimately show ?thesis using assms(4) unfolding restored_def file_left_def by fastforce
  qed
  moreover have "rw_times w2 p = rw_times w p \<and>
      (fs (rw_os w2) p = fs (rw_os w) p \<or>
       fs (rw_os w) p = None \<and> fs (rw_os w2) p = Some (DirNode (493 AND NOT (umask (rw_os w)))))"
    if "p \<notin> filePath dir ` (ks \<union> ls)" for p
    using that assms(3,4) u unfolding restored_def by (metis UnI1 UnI2 image_Un)
  ultimately show ?thesis using u by (simp add: restored_def)
qed

lemma RestoreAsset_restored:
  assumes "package_ok pk" and "CHR 0x5C \<notin> set name" and "RestoreAsset pk dir name w = (None, w')"
  shows "restored pk dir {name} w w'"
proof -
  have c: "canonicalName name = name" using assms(2) by (rule canonicalName_id)
  from assms(3) obtain a where a: "map_of (pk_bindata pk) name = Some (Inr a)"
    by (auto simp: RestoreAsset_def Asset_def c split: option.splits sum.splits)
  obtain e1 o1 where m: "os_MkdirAll (filePath dir (Dir name)) 493 (rw_os w) = (e1, o1)" by fastforce
  obtain e2 o2 where f: "os_WriteFile (filePath dir name) (asset_bytes a) (fi_mode (asset_info a)) o1 = (e2, o2)" by fastforce
  from assms(3) a m f have e: "e1 = None" "e2 = None"
      "os_Chtimes (filePath dir name) (fi_modTime (asset_info a)) (w\<lparr>rw_os := o2\<rparr>) = (None, w')"
    by (auto simp: RestoreAsset_def Asset_def AssetInfo_def c split: option.splits)
  note M = MkdirAll_effect [OF m] and F = WriteFile_effect [OF f [unfolded e(2)]]
  from e(3) have w': "w' = w\<lparr>rw_os := o2, rw_times := (rw_times w)(filePath dir name \<mapsto> fi_modTime (asset_info a))\<rparr>"
    by (auto simp: os_Chtimes_def split: option.splits)
  have k: "kept_mode (fs o1 p) m = kept_mode (fs (rw_os w) p) m" for p m using M kept_mode_dir by blast
  have "file_left pk dir w w' name"
    using M F a by (simp add: file_left_def w' k)
  with M F show ?thesis by (auto simp: restored_def w')
qed

text \<open>The assets below a name, and the recursion over them.\<close>

definition below :: "package \<Rightarrow> string \<Rightarrow> string set" where
  "below pk name = {k \<in> fst ` set (pk_bindata pk). prefix (name_elems name) (name_elems k)}"

lemma below_file:
  assumes "package_ok pk" and "node_at pk name = Some n" and "Func n = Some f"
  shows "below pk name = {name}"
proof -
  have cs: "Children n = []" using node_at_ok(1) [OF assms(1,2)] assms(3) by (cases n) auto
  have "k = name" if k: "k \<in> below pk name" for k
  proof -
    obtain g qs where g: "map_of (pk_bindata pk) k = Some g" "name_elems k = name_elems name @ qs"
      using k by (auto simp: below_def prefix_def dest: weak_map_of_SomeI)
    then obtain m where "walk n qs = Some m"
      using table_node [OF assms(1), of k] assms(2) by (auto simp: node_at_def walk_append)
    with cs have "qs = []" by (cases qs) auto
    with g(2) show ?thesis by (auto intro: name_elems_inj)
  qed
  moreover have "name \<in> below pk name"
    using table_node [OF assms(1), of name f] assms(2,3) by (force simp: below_def dest: map_of_SomeD)
  ultimately show ?thesis by auto
qed

lemma below_dir:
  assumes "package_ok pk" and "node_at pk name = Some n" and "Func n = None"
  shows "below pk name = (\<Union>c \<in> fst ` set (Children n). below pk (path_Join [name, c]))"
proof (intro set_eqI iffI)
  fix k assume k: "k \<in> below pk name"
  then obtain g qs where g: "map_of (pk_bindata pk) k = Some g" "name_elems k = name_elems name @ qs"
    by (auto simp: below_def prefix_def dest: weak_map_of_SomeI)
  then obtain m where m: "walk n qs = Some m" "Func m = Some g"
    using table_node [OF assms(1), of k] assms(2) by (auto simp: node_at_def walk_append)
  with assms(3) obtain c rs where c: "qs = c # rs" by (cases qs) auto
  with m(1) obtain t where t: "(c, t) \<in> set (Children n)" by (auto dest: map_of_SomeD split: option.splits)
  have "k \<in> below pk (path_Join [name, c])"
    using k g(2) child_node(4) [OF assms(1,2) t] c by (auto simp: below_def)
  with t show "k \<in> (\<Union>c \<in> fst ` set (Children n). below pk (path_Join [name, c]))" by force
next
  fix k assume "k \<in> (\<Union>c \<in> fst ` set (Children n). below pk (path_Join [name, c]))"
  then obtain c t where t: "(c, t) \<in> set (Children n)" "k \<in> below pk (path_Join [name, c])" by auto
  then show "k \<in> below pk name"
    using child_node(4) [OF assms(1,2) t(1)] by (auto simp: below_def dest: append_prefixD)
qed

lemma for_each_restored:
  assumes "package_ok pk" and "rooted dir"
    and "\<And>x w w'. x \<in> set xs \<Longrightarrow> f x w = Some (None, w') \<Longrightarrow> restored pk dir (g x) w w'"
    and "for_each f xs w = Some (None, w')"
  shows "restored pk dir (\<Union>x \<in> set xs. g x) w w'"
  using assms(3,4)
proof (induction xs arbitrary: w)
  case (Cons x xs)
  from Cons.prems(2) obtain w1 where w1: "f x w = Some (None, w1)" "for_each f xs w1 = Some (None, w')"
    by (auto split: option.splits)
  have "restored pk dir (g x) w w1" using Cons.prems(1) w1(1) by auto
  moreover have "restored pk dir (\<Union>x \<in> set xs. g x) w1 w'" using Cons w1(2) by auto
  ultimately show ?case using restored_comp [OF assms(1,2)] by fastforce
qed (simp add: restored_empty)

lemma RestoreAssets_restored:
  assumes "package_ok pk" and "range_ok ord" and "rooted dir" and "CHR 0x5C \<notin> set name"
    and "RestoreAssets n ord pk dir name w = Some (None, w')"
  shows "restored pk dir (below pk name) w w'"
  using assms(4,5)
proof (induction n arbitrary: name w w')
  case (Suc n)
  show ?case
  proof (cases "\<exists>cs. node_at pk name = Some (Bintree None cs)")
    case True
    then obtain cs where cs: "node_at pk name = Some (Bintree None cs)" by auto
    have each: "for_each (\<lambda>child. RestoreAssets n ord pk dir (path_Join [name, child])) (ord name (map fst cs)) w = Some (None, w')"
      using Suc.prems AssetDir_node [of name ord pk] cs by simp
    have "restored pk dir (below pk (path_Join [name, c])) v v'"
      if "c \<in> set (ord name (map fst cs))" "RestoreAssets n ord pk dir (path_Join [name, c]) v = Some (None, v')" for c v v'
    proof -
      from that(1) assms(2) obtain t where "(c, t) \<in> set (Children (Bintree None cs))" by (auto simp: range_ok_def)
      then have "CHR 0x5C \<notin> set (path_Join [name, c])"
        using child_node(1) [OF assms(1) cs] node_name_plain [OF assms(1)] by blast
      then show ?thesis by (rule Suc.IH [OF _ that(2)])
    qed
    from for_each_restored [OF assms(1,3) this each] show ?thesis
      using below_dir [OF assms(1) cs] assms(2) by (simp add: range_ok_def)
  next
    case False
    then have "RestoreAsset pk dir name w = (None, w')"
      using Suc.prems AssetDir_node [of name ord pk] by (auto split: option.splits bintree.splits)
    then have r: "restored pk dir {name} w w'" by (rule RestoreAsset_restored [OF assms(1) Suc.prems(1)])
    then obtain a where "map_of (pk_bindata pk) name = Some (Inr a)" by (auto simp: restored_def file_left_def)
    then show ?thesis using r table_node [OF assms(1)] below_file [OF assms(1)] by metis
  qed
qed simp

text \<open>Termination: the fuel needed is the depth of the tree.\<close>

lemma for_each_ends:
  "(\<And>x w. x \<in> set xs \<Longrightarrow> f x w \<noteq> None) \<Longrightarrow> for_each f xs w \<noteq> None"
  by (induction xs arbitrary: w) (force split: option.splits)+

lemma bt_depth_child: "(c, t) \<in> set (Children n) \<Longrightarrow> bt_depth t < bt_depth n"
proof -
  have m: "x \<in> set xs \<Longrightarrow> x \<le> foldr max xs (0 :: nat)" for x xs by (induction xs) auto
  assume c: "(c, t) \<in> set (Children n)"
  then have "bt_depth t \<in> set (map (\<lambda>(c, t). bt_depth t) (Children n))" by force
  from m [OF this] show "bt_depth t < bt_depth n" by (cases n) simp
qed

lemma walk_depth: "walk t ps = Some n \<Longrightarrow> bt_depth n \<le> bt_depth t"
proof (induction ps arbitrary: t)
  case (Cons p ps)
  then obtain m where m: "map_of (Children t) p = Some m" "walk m ps = Some n" by (auto split: option.splits)
  then show ?case using Cons.IH [OF m(2)] bt_depth_child [OF map_of_SomeD [OF m(1)]] by simp
qed simp

lemma RestoreAssets_ends:
  assumes "package_ok pk" and "range_ok ord" and "CHR 0x5C \<notin> set name"
    and "0 < n" and "\<And>t. node_at pk name = Some t \<Longrightarrow> bt_depth t \<le> n"
  shows "RestoreAssets n ord pk dir name w \<noteq> None"
  using assms(3-5)
proof (induction n arbitrary: name w)
  case (Suc n)
  show ?case
  proof (cases "\<exists>cs. node_at pk name = Some (Bintree None cs)")
    case True
    then obtain cs where cs: "node_at pk name = Some (Bintree None cs)" by auto
    have "RestoreAssets n ord pk dir (path_Join [name, c]) v \<noteq> None" if "c \<in> set (ord name (map fst cs))" for c v
    proof -
      from that assms(2) obtain t where t: "(c, t) \<in> set (Children (Bintree None cs))" by (auto simp: range_ok_def)
      note ch = child_node(1) [OF assms(1) cs t]
      have d: "bt_depth t \<le> n" using Suc.prems(3) [OF cs] bt_depth_child [OF t] by simp
      moreover have "0 < bt_depth t" by (cases t) simp
      ultimately show ?thesis using Suc.IH [of "path_Join [name, c]"] node_name_plain [OF assms(1) ch] ch by simp
    qed
    then have "for_each (\<lambda>child. RestoreAssets n ord pk dir (path_Join [name, child])) (ord name (map fst cs)) w \<noteq> None"
      by (rule for_each_ends)
    then show ?thesis using AssetDir_node [OF Suc.prems(1), of ord pk] cs by simp
  next
    case False
    then show ?thesis using AssetDir_node [OF Suc.prems(1), of ord pk] by (auto split: option.splits bintree.splits)
  qed
qed simp

section \<open>Restoring succeeds\<close>

text \<open>The absolute path of some elements.\<close>

definition abs_path :: "string list \<Rightarrow> string" where
  "abs_path es = ''/'' @ Join es ''/''"

lemma abs_path_inj:
  assumes "\<forall>p \<in> set ds. plain_name p" and "\<forall>p \<in> set es. plain_name p" and "abs_path ds = abs_path es"
  shows "ds = es"
proof -
  have "Join ds ''/'' = Join es ''/''" using assms(3) by (simp add: abs_path_def)
  then show ?thesis using name_elems_Join [OF assms(1)] name_elems_Join [OF assms(2)] by metis
qed

lemma Join_snoc1: "ws \<noteq> [] \<Longrightarrow> Join (ws @ [w]) sep = Join ws sep @ sep @ w"
  by (induction ws sep rule: Join.induct) auto

lemma parent_abs_path:
  assumes "\<forall>p \<in> set (ds @ [e]). plain_name p"
  shows "parent (abs_path (ds @ [e])) = (if ds = [] then '''' else abs_path ds)"
proof -
  have e: "slash \<notin> set e" "e \<noteq> ''''" using assms by (auto simp: plain_name_def)
  have p: "abs_path (ds @ [e]) = (if ds = [] then '''' else abs_path ds) @ slash # e"
    by (simp add: abs_path_def Join_snoc1 slash_def)
  obtain c r where r: "rev e = c # r" "c \<noteq> slash" using e by (cases "rev e") (auto simp: rev_eq_Cons_iff)
  have "dropWhile (\<lambda>c. c = slash) (rev (d @ slash # e)) = rev (d @ slash # e)" for d
    using r by simp
  moreover have "dropWhile (\<lambda>c. c \<noteq> slash) (rev (d @ slash # e)) = slash # rev d" for d
    using e(1) by (simp add: dropWhile_append)
  ultimately show ?thesis unfolding p parent_def Let_def by (simp del: rev_append)
qed

lemma MkdirAll_ok:
  assumes "\<forall>p \<in> set es. plain_name p" and "\<And>c. deny w c = None"
    and "\<And>ds m b. prefix ds es \<Longrightarrow> fs w (abs_path ds) \<noteq> Some (FileNode m b)"
  shows "\<exists>w'. os_MkdirAll (abs_path es) perm w = (None, w') \<and>
    (\<forall>q. fs w' q \<noteq> fs w q \<longrightarrow> (\<exists>ds. prefix ds es \<and> q = abs_path ds))"
  using assms
proof (induction es rule: rev_induct)
  case Nil
  have "parent (abs_path []) = ''''" by (simp add: abs_path_def parent_def slash_def)
  then show ?case using Nil
    by (cases "fs w (abs_path [])") (auto simp: os_MkdirAll.simps [of "abs_path []"] os_defs split: fnode.splits)
next
  case (snoc e es)
  note pa = parent_abs_path [OF snoc.prems(1)]
  have st: "os_Stat w (abs_path (es @ [e])) = (case fs w (abs_path (es @ [e])) of None \<Rightarrow> Inl ErrNotExist | Some n \<Rightarrow> Inr n)"
    using snoc.prems(2) by (simp add: os_Stat_def)
  show ?case
  proof (cases "fs w (abs_path (es @ [e]))")
    case (Some n)
    then obtain m where "n = DirNode m" using snoc.prems(3) [of "es @ [e]"] by (cases n) auto
    then have "os_MkdirAll (abs_path (es @ [e])) perm w = (None, w)"
      unfolding os_MkdirAll.simps [of "abs_path (es @ [e])"] st Some by simp
    then show ?thesis by auto
  next
    case None
    have "\<exists>w1. (if parent (abs_path (es @ [e])) \<noteq> '''' then os_MkdirAll (parent (abs_path (es @ [e]))) perm w else (None, w)) = (None, w1) \<and>
        (\<forall>q. fs w1 q \<noteq> fs w q \<longrightarrow> (\<exists>ds. prefix ds es \<and> q = abs_path ds))"
    proof (cases "es = []")
      case True
      then show ?thesis using pa by simp
    next
      case False
      then have "parent (abs_path (es @ [e])) = abs_path es" "abs_path es \<noteq> ''''" using pa by (simp_all add: abs_path_def)
      moreover have "\<exists>w'. os_MkdirAll (abs_path es) perm w = (None, w') \<and>
          (\<forall>q. fs w' q \<noteq> fs w q \<longrightarrow> (\<exists>ds. prefix ds es \<and> q = abs_path ds))"
        by (rule snoc.IH) (use snoc.prems in auto)
      ultimately show ?thesis by simp
    qed
    then obtain w1 where w1: "(if parent (abs_path (es @ [e])) \<noteq> '''' then os_MkdirAll (parent (abs_path (es @ [e]))) perm w else (None, w)) = (None, w1)"
      and ch: "\<forall>q. fs w1 q \<noteq> fs w q \<longrightarrow> (\<exists>ds. prefix ds es \<and> q = abs_path ds)" by blast
    have d1: "deny w1 = deny w" using w1 MkdirAll_effect by (auto split: if_splits)
    have "fs w1 (abs_path (es @ [e])) = None"
    proof (rule ccontr)
      assume "fs w1 (abs_path (es @ [e])) \<noteq> None"
      then obtain ds where ds: "prefix ds es" "abs_path (es @ [e]) = abs_path ds" using ch None by metis
      then have "es @ [e] = ds" using snoc.prems(1) by (intro abs_path_inj) (auto dest: set_mono_prefix)
      with ds(1) show False by (auto dest: prefix_length_le)
    qed
    then have mk: "os_Mkdir (abs_path (es @ [e])) perm w1 =
        (None, w1\<lparr>fs := (fs w1)(abs_path (es @ [e]) \<mapsto> DirNode (perm AND NOT (umask w1)))\<rparr>)"
      using d1 snoc.prems(2) by (simp add: os_Mkdir_def)
    have "os_MkdirAll (abs_path (es @ [e])) perm w =
        (None, w1\<lparr>fs := (fs w1)(abs_path (es @ [e]) \<mapsto> DirNode (perm AND NOT (umask w1)))\<rparr>)"
      unfolding os_MkdirAll.simps [of "abs_path (es @ [e])"] st None by (simp add: w1 mk)
    moreover have "\<exists>ds. prefix ds (es @ [e]) \<and> q = abs_path ds"
      if "((fs w1)(abs_path (es @ [e]) \<mapsto> DirNode (perm AND NOT (umask w1)))) q \<noteq> fs w q" for q
    proof (cases "q = abs_path (es @ [e])")
      case False
      with that ch show ?thesis by (metis fun_upd_apply prefix_prefix)
    qed auto
    ultimately show ?thesis by auto
  qed
qed

lemma filePath_abs:
  assumes "package_ok pk" and "rooted dir" and "map_of (pk_bindata pk) k = Some f"
  shows "filePath dir k = abs_path (elems dir @ name_elems k)"
  using filePath_Join [OF assms(2) table_key [OF assms(1,3)]] by (simp add: abs_path_def)

lemma LastIndexByte_last: "c \<notin> set n \<Longrightarrow> LastIndexByte (d @ c # n) c = Some (length d)"
  using IndexByte_append [of c "rev n" "rev d"] by (simp add: LastIndexByte_def)

lemma LastIndexByte_none: "c \<notin> set n \<Longrightarrow> LastIndexByte n c = None"
proof -
  have "c \<notin> set s \<Longrightarrow> IndexByte s c = None" for s by (induction s) auto
  then show "c \<notin> set n \<Longrightarrow> LastIndexByte n c = None" by (simp add: LastIndexByte_def)
qed

lemma not_HasPrefix_Join:
  assumes "ps \<noteq> []" and "\<forall>p \<in> set ps. plain_name p"
  shows "\<not> HasPrefix (Join ps ''/'' @ r) ''/''"
proof -
  obtain p qs where ps: "ps = p # qs" using assms(1) by (cases ps) auto
  then obtain c u where "p = c # u" "c \<noteq> slash" using assms(2) by (cases p) (auto simp: plain_name_def)
  with ps show ?thesis by (cases qs) (auto simp: HasPrefix_def slash_def)
qed

lemma Dir_Join:
  assumes "ps \<noteq> []" and "\<forall>p \<in> set ps. plain_name p" and "slash \<notin> set f"
  shows "Dir (Join ps ''/'' @ slash # f) = Join ps ''/''"
proof -
  have sp: "SplitByte (Join ps ''/'' @ [slash]) slash = ps @ ['''']"
    using SplitByte_app [of "Join ps ''/''" slash "''''"] SplitByte_Join [OF assms(1), of slash] assms(2)
    by (auto simp: plain_name_def slash_def)
  have "clean_parts False [] (ps @ [''''] ) = ps"
    using clean_parts_fixed [of ps False "[]"] assms(2)
  proof -
    have "clean_parts r acc (xs @ ['''']) = clean_parts r acc xs" for r acc and xs :: "string list"
      by (induction xs arbitrary: acc) auto
    then show ?thesis using clean_parts_fixed [of ps False "[]"] assms(2) by (auto simp: plain_name_def)
  qed
  then have "Clean (Join ps ''/'' @ [slash]) = Join ps ''/''"
    using not_HasPrefix_Join [OF assms(1,2), of "[slash]"] assms(1) by (simp add: Clean_def sp)
  then show ?thesis by (simp add: Dir_def LastIndexByte_last [OF assms(3)])
qed

lemma filePath_dot:
  assumes "rooted dir"
  shows "filePath dir ''.'' = abs_path (elems dir)"
proof -
  have c: "canonicalName ''.'' = ''.''" by (rule canonicalName_id) simp
  have "dir \<noteq> ''''" using assms by (auto simp: rooted_def HasPrefix_def)
  then have "filePath dir ''.'' = Clean (dir @ slash # ''.'')"
    by (simp add: filePath_def path_Join_def c slash_def)
  moreover have "HasPrefix (dir @ slash # ''.'') ''/''"
    using assms by (auto simp: rooted_def HasPrefix_def prefix_def)
  moreover have "SplitByte (dir @ slash # ''.'') slash = SplitByte dir slash @ [''.'']"
    by (rule SplitByte_snoc) (simp add: slash_def)
  moreover have "clean_parts True acc (xs @ [''.'']) = clean_parts True acc xs" for acc xs
    by (induction xs arbitrary: acc) auto
  ultimately show ?thesis by (simp add: Clean_def elems_def abs_path_def)
qed

lemma filePath_Dir:
  assumes "package_ok pk" and "rooted dir" and "map_of (pk_bindata pk) k = Some f"
  shows "filePath dir (Dir k) = abs_path (elems dir @ butlast (name_elems k))"
proof -
  note key = table_key [OF assms(1,3)]
  have ne: "name_elems k \<noteq> []" using key(2) by (simp add: name_elems_def)
  define ps l where "ps = butlast (name_elems k)" and "l = last (name_elems k)"
  have es: "name_elems k = ps @ [l]" using ne by (simp add: ps_def l_def)
  have pl: "\<forall>p \<in> set ps. plain_name p" "slash \<notin> set l" "plain_name l"
    using key(3) unfolding es by (auto simp: plain_name_def)
  show ?thesis
  proof (cases "ps = []")
    case True
    then have "k = l" using es Join_name_elems [of k] by simp
    with pl(2) have "Dir k = ''.''" by (simp add: Dir_def LastIndexByte_none Clean_def HasPrefix_def)
    then show ?thesis using filePath_dot [OF assms(2)] True by (simp add: ps_def [symmetric])
  next
    case False
    then have k: "k = Join ps ''/'' @ slash # l"
      using es Join_name_elems [of k] by (simp add: Join_snoc1 slash_def)
    have d: "Dir k = Join ps ''/''" unfolding k by (rule Dir_Join [OF False pl(1,2)])
    have n: "name_elems (Join ps ''/'') = ps" by (rule name_elems_Join [OF pl(1)])
    have "filePath dir (Join ps ''/'') = ''/'' @ Join (elems dir @ name_elems (Join ps ''/'')) ''/''"
    proof (rule filePath_Join [OF assms(2)])
      show "CHR 0x5C \<notin> set (Join ps ''/'')" using key(1) k by auto
      show "Join ps ''/'' \<noteq> ''''" using n False by (auto simp: name_elems_def)
      show "\<forall>p \<in> set (name_elems (Join ps ''/'')). plain_name p" using n pl(1) by simp
    qed
    then have "filePath dir (Dir k) = abs_path (elems dir @ ps)" by (simp only: d n abs_path_def)
    then show ?thesis by (simp add: ps_def)
  qed
qed

text \<open>
  A world in which restoring the assets \<open>ks\<close> meets no obstacle: nothing is refused, no file is
  where a directory has to be, and no directory where a file has to be.
\<close>

definition unobstructed :: "package \<Rightarrow> string \<Rightarrow> string set \<Rightarrow> restore_world \<Rightarrow> bool" where
  "unobstructed pk dir ks w \<longleftrightarrow>
     (\<forall>c. deny (rw_os w) c = None) \<and> (\<forall>p. deny_times w p = None) \<and>
     (\<forall>k \<in> ks.
        (\<forall>ds m b. prefix ds (elems dir @ butlast (name_elems k)) \<longrightarrow>
           fs (rw_os w) (abs_path ds) \<noteq> Some (FileNode m b)) \<and>
        (\<forall>m. fs (rw_os w) (filePath dir k) \<noteq> Some (DirNode m)))"

lemma keys_apart:
  assumes "package_ok pk" and "map_of (pk_bindata pk) k = Some f" and "map_of (pk_bindata pk) l = Some g"
    and "prefix (name_elems k) (name_elems l)"
  shows "k = l"
proof -
  obtain n where "node_at pk k = Some n" "Func n = Some f" using table_node [OF assms(1)] assms(2) by auto
  then have "below pk k = {k}" by (rule below_file [OF assms(1)])
  moreover have "l \<in> below pk k" using assms(3,4) by (force simp: below_def dest: map_of_SomeD)
  ultimately show ?thesis by simp
qed

lemma in_table: "k \<in> ks \<Longrightarrow> ks \<subseteq> fst ` set xs \<Longrightarrow> \<exists>f. map_of xs k = Some f"
  by (metis map_of_eq_None_iff not_None_eq subsetD)

lemma not_prefix_butlast: "es \<noteq> [] \<Longrightarrow> \<not> prefix es (butlast es)"
  by (cases es rule: rev_cases) (auto dest: prefix_length_le)

lemma RestoreAsset_ok:
  assumes "package_ok pk" and "rooted dir" and "unobstructed pk dir ks w" and "name \<in> ks"
    and "ks \<subseteq> fst ` set (pk_bindata pk)"
  shows "\<exists>w'. RestoreAsset pk dir name w = (None, w') \<and> unobstructed pk dir ks w'"
proof -
  obtain f where f: "map_of (pk_bindata pk) name = Some f" using in_table [OF assms(4,5)] by blast
  then obtain a where a: "map_of (pk_bindata pk) name = Some (Inr a)" using table_asset [OF assms(1) f] by blast
  note key = table_key [OF assms(1) a]
  let ?es = "elems dir @ butlast (name_elems name)" and ?p = "filePath dir name"
  have c: "canonicalName name = name" by (rule canonicalName_id [OF key(1)])
  have ne: "name_elems name \<noteq> []" using key(2) by (simp add: name_elems_def)
  have pl: "\<forall>p \<in> set ?es. plain_name p" using key(3) elems_plain by (auto dest: in_set_butlastD)
  have deny: "deny (rw_os w) x = None" "deny_times w q = None" for x q using assms(3) by (auto simp: unobstructed_def)
  have p: "?p = abs_path (elems dir @ name_elems name)" by (rule filePath_abs [OF assms(1,2) a])
  have "\<exists>o1. os_MkdirAll (abs_path ?es) 493 (rw_os w) = (None, o1) \<and>
      (\<forall>q. fs o1 q \<noteq> fs (rw_os w) q \<longrightarrow> (\<exists>ds. prefix ds ?es \<and> q = abs_path ds))"
    by (rule MkdirAll_ok [OF pl]) (use assms(3,4) deny in \<open>auto simp: unobstructed_def\<close>)
  then obtain o1 where m: "os_MkdirAll (filePath dir (Dir name)) 493 (rw_os w) = (None, o1)"
      and ch: "\<And>q. fs o1 q \<noteq> fs (rw_os w) q \<Longrightarrow> \<exists>ds. prefix ds ?es \<and> q = abs_path ds"
    unfolding filePath_Dir [OF assms(1,2) a] by blast
  note M = MkdirAll_effect [OF m]
  have o1p: "fs o1 (filePath dir k) = fs (rw_os w) (filePath dir k)" if k: "k \<in> ks" for k
  proof (rule ccontr)
    assume "fs o1 (filePath dir k) \<noteq> fs (rw_os w) (filePath dir k)"
    then obtain ds where ds: "prefix ds ?es" "filePath dir k = abs_path ds" using ch by blast
    obtain g where g: "map_of (pk_bindata pk) k = Some g" using in_table [OF k assms(5)] by blast
    have "\<forall>p \<in> set ds. plain_name p" using ds(1) pl set_mono_prefix by blast
    then have "elems dir @ name_elems k = ds"
      by (intro abs_path_inj) (use ds filePath_abs [OF assms(1,2) g] table_key(3) [OF assms(1) g] elems_plain in auto)
    with ds(1) have "prefix (elems dir @ name_elems k) ?es" by simp
    then have pre: "prefix (name_elems k) (butlast (name_elems name))" by simp
    then have "prefix (name_elems k) (name_elems name)" using prefix_order.trans prefixeq_butlast by blast
    then have "k = name" by (rule keys_apart [OF assms(1) g a])
    with pre ne show False using not_prefix_butlast by blast
  qed
  have "fs o1 ?p \<noteq> Some (DirNode d)" for d
    using o1p [OF assms(4)] assms(3,4) by (auto simp: unobstructed_def)
  then have "\<exists>o2. os_WriteFile ?p (asset_bytes a) (fi_mode (asset_info a)) o1 = (None, o2)"
    using M deny by (auto simp: os_WriteFile_def os_defs split: option.splits fnode.splits)
  then obtain o2 where o2: "os_WriteFile ?p (asset_bytes a) (fi_mode (asset_info a)) o1 = (None, o2)" ..
  note F = WriteFile_effect [OF o2]
  define w' where "w' = w\<lparr>rw_os := o2, rw_times := (rw_times w)(?p \<mapsto> fi_modTime (asset_info a))\<rparr>"
  have "RestoreAsset pk dir name w = (None, w')"
    using a m o2 F deny by (simp add: RestoreAsset_def Asset_def AssetInfo_def c os_Chtimes_def w'_def)
  moreover have "unobstructed pk dir ks w'"
    unfolding unobstructed_def
  proof (intro conjI allI ballI impI)
    fix k ds m b assume k: "k \<in> ks" and ds: "prefix ds (elems dir @ butlast (name_elems k))"
    obtain g where g: "map_of (pk_bindata pk) k = Some g" using in_table [OF k assms(5)] by blast
    note gk = table_key [OF assms(1) g]
    have "abs_path ds \<noteq> ?p"
    proof
      assume "abs_path ds = ?p"
      moreover have "\<forall>p \<in> set (elems dir @ butlast (name_elems k)). plain_name p"
        using gk(3) elems_plain by (auto dest: in_set_butlastD)
      then have "\<forall>p \<in> set ds. plain_name p" using ds set_mono_prefix by blast
      ultimately have "ds = elems dir @ name_elems name"
        by (intro abs_path_inj) (use p key(3) elems_plain in auto)
      with ds have "prefix (elems dir @ name_elems name) (elems dir @ butlast (name_elems k))" by simp
      then have pre: "prefix (name_elems name) (butlast (name_elems k))" by simp
      then have "prefix (name_elems name) (name_elems k)" using prefix_order.trans prefixeq_butlast by blast
      then have "name = k" by (rule keys_apart [OF assms(1) a g])
      with pre ne show False using not_prefix_butlast by blast
    qed
    then have "fs (rw_os w') (abs_path ds) = fs o1 (abs_path ds)" using F by (simp add: w'_def)
    moreover have "fs (rw_os w) (abs_path ds) \<noteq> Some (FileNode m b)" using assms(3) k ds by (auto simp: unobstructed_def)
    ultimately show "fs (rw_os w') (abs_path ds) \<noteq> Some (FileNode m b)" using M by (metis fnode.distinct(1) option.inject)
  next
    fix k m assume k: "k \<in> ks"
    show "fs (rw_os w') (filePath dir k) \<noteq> Some (DirNode m)"
      using o1p [OF k] F assms(3) k by (auto simp: w'_def unobstructed_def)
  qed (use deny M F in \<open>simp_all add: w'_def\<close>)
  ultimately show ?thesis by blast
qed

lemma for_each_ok:
  assumes "\<And>x w. x \<in> set xs \<Longrightarrow> I w \<Longrightarrow> \<exists>w'. f x w = Some (None, w') \<and> I w'" and "I w"
  shows "\<exists>w'. for_each f xs w = Some (None, w') \<and> I w'"
  using assms
proof (induction xs arbitrary: w)
  case (Cons x xs)
  then obtain w1 where "f x w = Some (None, w1)" "I w1" by force
  moreover have "\<exists>w'. for_each f xs w1 = Some (None, w') \<and> I w'" by (rule Cons.IH) (use Cons.prems calculation in auto)
  ultimately show ?case by simp
qed simp

lemma RestoreAssets_ok:
  assumes "package_ok pk" and "range_ok ord" and "rooted dir" and "ks \<subseteq> fst ` set (pk_bindata pk)"
    and "node_at pk name = Some t" and "bt_depth t \<le> n" and "below pk name \<subseteq> ks" and "unobstructed pk dir ks w"
  shows "\<exists>w'. RestoreAssets n ord pk dir name w = Some (None, w') \<and> unobstructed pk dir ks w'"
  using assms(5-8)
proof (induction n arbitrary: name t w)
  case 0
  then show ?case by (cases t) simp
next
  case (Suc n)
  note bs = node_name_plain [OF assms(1) Suc.prems(1)]
  obtain f cs where t: "t = Bintree f cs" by (cases t)
  show ?case
  proof (cases f)
    case None
    have step: "\<exists>w'. RestoreAssets n ord pk dir (path_Join [name, c]) v = Some (None, w') \<and> unobstructed pk dir ks w'"
      if "c \<in> set (ord name (map fst cs))" "unobstructed pk dir ks v" for c v
    proof -
      from that(1) assms(2) obtain u where u: "(c, u) \<in> set (Children t)" by (auto simp: range_ok_def t)
      show ?thesis
      proof (rule Suc.IH [OF child_node(1) [OF assms(1) Suc.prems(1) u] _ _ that(2)])
        show "bt_depth u \<le> n" using bt_depth_child [OF u] Suc.prems(2) by simp
        show "below pk (path_Join [name, c]) \<subseteq> ks"
          using below_dir [OF assms(1) Suc.prems(1)] Suc.prems(3) u by (force simp: t None)
      qed
    qed
    have "\<exists>w'. for_each (\<lambda>child. RestoreAssets n ord pk dir (path_Join [name, child])) (ord name (map fst cs)) w = Some (None, w')
        \<and> unobstructed pk dir ks w'"
      by (rule for_each_ok [OF step Suc.prems(4)])
    then show ?thesis using AssetDir_node [OF bs, of ord pk] Suc.prems(1) by (simp add: t None)
  next
    case (Some r)
    then have "below pk name = {name}" using below_file [OF assms(1) Suc.prems(1)] by (simp add: t)
    then show ?thesis
      using RestoreAsset_ok [OF assms(1,3) Suc.prems(4) _ assms(4), of name] Suc.prems(3)
        AssetDir_node [OF bs, of ord pk] Suc.prems(1) by (auto simp: t Some)
  qed
qed

section \<open>Properties\<close>

text \<open>
  C26: restoring the embedded files below a name ends, with fuel for the depth of the tree. When
  it succeeds, each of these files is in the file system below the directory, with its content
  and time, and with its mode unless it was there before; nothing else has changed but for new
  directories. It does succeed when nothing is refused, no file is where a directory has to be and
  no directory where a file has to be; then reading a restored file gives the asset again. A name
  that is neither a file nor a directory is an error that changes nothing.
\<close>

theorem restore_assets:
  assumes "package_ok pk" and "range_ok ord" and "rooted dir" and "CHR 0x5C \<notin> set name"
    and "bt_depth (pk_bintree pk) \<le> n"
  shows "case node_at pk name of
      None \<Rightarrow> RestoreAssets n ord pk dir name w = Some (Some (Errorf (''Asset '' @ name @ '' not found'')), w)
    | Some _ \<Rightarrow> \<exists>e w'. RestoreAssets n ord pk dir name w = Some (e, w') \<and>
        (e = None \<longrightarrow> restored pk dir (below pk name) w w') \<and>
        (unobstructed pk dir (below pk name) w \<longrightarrow>
           e = None \<and> (\<forall>k \<in> below pk name. os_Read (rw_os w') (filePath dir k) = Asset pk k))"
proof -
  have "0 < bt_depth (pk_bintree pk)" by (cases "pk_bintree pk") simp
  with assms(5) obtain m where n: "n = Suc m" by (cases n) auto
  show ?thesis
  proof (cases "node_at pk name")
    case None
    then show ?thesis
      by (simp add: n RestoreAsset_def AssetDir_node [OF assms(4)] Asset_node [OF assms(1,4)])
  next
    case (Some t)
    then have d: "bt_depth t \<le> n" using walk_depth assms(5) unfolding node_at_def by fastforce
    from RestoreAssets_ends [OF assms(1,2,4), of n] obtain e w' where e: "RestoreAssets n ord pk dir name w = Some (e, w')"
      using Some d n by fastforce
    have r: "restored pk dir (below pk name) w w'" if "e = None"
      using RestoreAssets_restored [OF assms(1-4)] e that by blast
    have "e = None \<and> (\<forall>k \<in> below pk name. os_Read (rw_os w') (filePath dir k) = Asset pk k)"
      if u: "unobstructed pk dir (below pk name) w"
    proof -
      from RestoreAssets_ok [OF assms(1-3) _ Some d order.refl u] e
      have ok: "e = None" "unobstructed pk dir (below pk name) w'" by (auto simp: below_def)
      have "os_Read (rw_os w') (filePath dir k) = Asset pk k" if k: "k \<in> below pk name" for k
      proof -
        from r [OF ok(1)] k have "file_left pk dir w w' k" by (simp add: restored_def)
        then obtain a where a: "map_of (pk_bindata pk) k = Some (Inr a)"
            "\<exists>m. fs (rw_os w') (filePath dir k) = Some (FileNode m (asset_bytes a))"
          by (auto simp: file_left_def)
        then show ?thesis
          using ok(2) table_key(1) [OF assms(1) a(1)]
          by (auto simp: os_Read_def Asset_def canonicalName_id unobstructed_def)
      qed
      with ok(1) show ?thesis by blast
    qed
    with Some e r show ?thesis by auto
  qed
qed

definition empty_target :: restore_world where
  "empty_target = \<lparr>rw_os = \<lparr>fs = Map.empty, umask = 18, deny = \<lambda>_. None\<rparr>, rw_times = Map.empty, deny_times = \<lambda>_. None\<rparr>"

theorem restore_assets_witness:
  "\<exists>w'. RestoreAssets 3 (\<lambda>_ xs. xs) sample_package ''/t'' '''' empty_target = Some (None, w') \<and>
     os_Read (rw_os w') (filePath ''/t'' ''d/f'') = Inr ''22''"
proof -
  have n: "node_at sample_package '''' = Some (pk_bintree sample_package)" by (simp add: node_at_def name_elems_def)
  have d: "bt_depth (pk_bintree sample_package) \<le> 3" by (simp add: sample_package_def)
  have r: "rooted ''/t''" by (simp add: rooted_def HasPrefix_def)
  have u: "unobstructed sample_package ''/t'' ks empty_target" for ks by (simp add: unobstructed_def empty_target_def)
  have k: "''d/f'' \<in> below sample_package ''''" by (simp add: below_def sample_package_def name_elems_def)
  have a: "Asset sample_package ''d/f'' = Inr ''22''"
    by (simp add: Asset_def canonicalName_id sample_package_def sample_asset_def)
  from restore_assets [OF sample_package_ok range_ok_id r, of "''''" 3 empty_target] n d u k a
  show ?thesis by (force simp: n)
qed

end
