(* ===== verification/Config_Watch.thy ===== *)
theory Config_Watch
  imports Config_Repository
begin

text \<open>
  The goroutines of \<open>ConfigRepository.Watch\<close> and the sends of \<open>notifyAll\<close>. Every watcher
  has an unbuffered channel and a goroutine that receives from it until its context is
  cancelled or its callback declines; then it removes itself from the map and closes the
  channel. A \<open>Set\<close> walks over the map and sends to each watcher whose prefix matches. A
  watcher's handle is its position plus one.
\<close>

datatype watcher_pc = WSelect | WCallback config_change | WUnregister | WClose | WDone

record watcher =
  w_prefix :: string
  w_registered :: bool
  w_closed :: bool
  w_cancelled :: bool
  w_pc :: watcher_pc
  w_received :: "config_change list"

text \<open>A call of \<open>Set\<close> that notifies: the watchers still to visit, or the one it sends to.\<close>

datatype setter_pc = SRange config_change "nat list" | SSend config_change nat "nat list" | SReturned | SPanicked

record watch_state =
  watchers :: "watcher list"
  setters :: "setter_pc list"

definition new_watcher :: "string \<Rightarrow> watcher" where
  "new_watcher p = \<lparr>w_prefix = p, w_registered = True, w_closed = False, w_cancelled = False,
     w_pc = WSelect, w_received = []\<rparr>"

definition upd_watcher :: "nat \<Rightarrow> (watcher \<Rightarrow> watcher) \<Rightarrow> watch_state \<Rightarrow> watch_state" where
  "upd_watcher h f s = s\<lparr>watchers := (watchers s)[h := f (watchers s ! h)]\<rparr>"

definition upd_setter :: "nat \<Rightarrow> setter_pc \<Rightarrow> watch_state \<Rightarrow> watch_state" where
  "upd_setter i pc s = s\<lparr>setters := (setters s)[i := pc]\<rparr>"

text \<open>One action of the goroutine; \<open>go\<close> is what the callback returns.\<close>

definition watcher_act :: "bool \<Rightarrow> watcher \<Rightarrow> watcher" where
  "watcher_act go w =
     (case w_pc w of
        WSelect \<Rightarrow> if w_cancelled w then w\<lparr>w_pc := WUnregister\<rparr> else w
      | WCallback e \<Rightarrow> w\<lparr>w_pc := (if go then WSelect else WUnregister)\<rparr>
      | WUnregister \<Rightarrow> w\<lparr>w_registered := False, w_pc := WClose\<rparr>
      | WClose \<Rightarrow> w\<lparr>w_closed := True, w_pc := WDone\<rparr>
      | WDone \<Rightarrow> w)"

definition matches :: "config_change \<Rightarrow> watcher \<Rightarrow> bool" where
  "matches e w \<longleftrightarrow> HasPrefix (ch_key e) (w_prefix w)"

definition receive :: "config_change \<Rightarrow> watcher \<Rightarrow> watcher" where
  "receive e w = w\<lparr>w_pc := WCallback e, w_received := w_received w @ [e]\<rparr>"

inductive watch_step :: "watch_state \<Rightarrow> watch_state \<Rightarrow> bool" where
  watch: "watch_step s (s\<lparr>watchers := watchers s @ [new_watcher p]\<rparr>)"
| cancel: "h < length (watchers s) \<Longrightarrow> watch_step s (upd_watcher h (\<lambda>w. w\<lparr>w_cancelled := True\<rparr>) s)"
| goroutine: "h < length (watchers s) \<Longrightarrow> watch_step s (upd_watcher h (watcher_act go) s)"
| set: "watch_step s (s\<lparr>setters := setters s @ [SRange e [0..<length (watchers s)]]\<rparr>)"
| skip: "i < length (setters s) \<Longrightarrow> setters s ! i = SRange e (h # hs) \<Longrightarrow> h < length (watchers s) \<Longrightarrow>
    \<not> (w_registered (watchers s ! h) \<and> matches e (watchers s ! h)) \<Longrightarrow>
    watch_step s (upd_setter i (SRange e hs) s)"
| visit: "i < length (setters s) \<Longrightarrow> setters s ! i = SRange e (h # hs) \<Longrightarrow> h < length (watchers s) \<Longrightarrow>
    w_registered (watchers s ! h) \<Longrightarrow> matches e (watchers s ! h) \<Longrightarrow>
    watch_step s (upd_setter i (SSend e h hs) s)"
| return: "i < length (setters s) \<Longrightarrow> setters s ! i = SRange e [] \<Longrightarrow> watch_step s (upd_setter i SReturned s)"
| send: "i < length (setters s) \<Longrightarrow> setters s ! i = SSend e h hs \<Longrightarrow> h < length (watchers s) \<Longrightarrow>
    \<not> w_closed (watchers s ! h) \<Longrightarrow> w_pc (watchers s ! h) = WSelect \<Longrightarrow>
    watch_step s (upd_setter i (SRange e hs) (upd_watcher h (receive e) s))"
| panic: "i < length (setters s) \<Longrightarrow> setters s ! i = SSend e h hs \<Longrightarrow> h < length (watchers s) \<Longrightarrow>
    w_closed (watchers s ! h) \<Longrightarrow> watch_step s (upd_setter i SPanicked s)"

definition watch_init :: watch_state where
  "watch_init = \<lparr>watchers = [], setters = []\<rparr>"

section \<open>Invariant\<close>

definition watcher_ok :: "watcher \<Rightarrow> bool" where
  "watcher_ok w \<longleftrightarrow>
     (w_registered w \<longleftrightarrow> w_pc w \<notin> {WClose, WDone}) \<and> (w_closed w \<longleftrightarrow> w_pc w = WDone) \<and>
     (\<forall>e \<in> set (w_received w). matches e w)"

definition setter_ok :: "watch_state \<Rightarrow> setter_pc \<Rightarrow> bool" where
  "setter_ok s pc = (case pc of
     SRange e hs \<Rightarrow> \<forall>h \<in> set hs. h < length (watchers s)
   | SSend e h hs \<Rightarrow> (\<forall>h \<in> set (h # hs). h < length (watchers s)) \<and> matches e (watchers s ! h)
   | _ \<Rightarrow> True)"

definition watch_ok :: "watch_state \<Rightarrow> bool" where
  "watch_ok s \<longleftrightarrow> (\<forall>w \<in> set (watchers s). watcher_ok w) \<and> (\<forall>pc \<in> set (setters s). setter_ok s pc)"

lemma watcher_act_ok: "watcher_ok w \<Longrightarrow> watcher_ok (watcher_act go w)"
  by (cases "w_pc w") (auto simp: watcher_act_def watcher_ok_def matches_def)

lemma receive_ok: "watcher_ok w \<Longrightarrow> w_pc w = WSelect \<Longrightarrow> matches e w \<Longrightarrow> watcher_ok (receive e w)"
  by (auto simp: receive_def watcher_ok_def matches_def)

lemma prefix_kept: "w_prefix (watcher_act go w) = w_prefix w" "w_prefix (receive e w) = w_prefix w"
  by (auto simp: watcher_act_def receive_def split: watcher_pc.splits)

lemma upd_watcher_ok:
  assumes "watch_ok s" and "h < length (watchers s)" and "watcher_ok (f (watchers s ! h))"
    and "w_prefix (f (watchers s ! h)) = w_prefix (watchers s ! h)"
  shows "watch_ok (upd_watcher h f s)"
proof -
  have "\<forall>w \<in> set (watchers (upd_watcher h f s)). watcher_ok w"
    using assms(1,3) set_update_subset_insert [of "watchers s" h] by (auto simp: upd_watcher_def watch_ok_def)
  moreover have "matches e (watchers (upd_watcher h f s) ! j) = matches e (watchers s ! j)" for e j
    using assms(2,4) by (cases "j = h") (auto simp: upd_watcher_def matches_def)
  ultimately show ?thesis
    using assms(1) by (auto simp: watch_ok_def setter_ok_def upd_watcher_def split: setter_pc.splits)
qed

lemma upd_setter_ok:
  assumes "watch_ok s" and "setter_ok s pc"
  shows "watch_ok (upd_setter i pc s)"
  using assms set_update_subset_insert [of "setters s" i pc]
  by (auto simp: watch_ok_def upd_setter_def setter_ok_def split: setter_pc.splits dest!: subsetD)

lemma watch_ok_setter: "watch_ok s \<Longrightarrow> i < length (setters s) \<Longrightarrow> setter_ok s (setters s ! i)"
  by (simp add: watch_ok_def)

lemma watch_ok_watcher: "watch_ok s \<Longrightarrow> h < length (watchers s) \<Longrightarrow> watcher_ok (watchers s ! h)"
  by (simp add: watch_ok_def)

lemma setter_ok_append: "setter_ok s pc \<Longrightarrow> setter_ok (s\<lparr>watchers := watchers s @ ws\<rparr>) pc"
  by (auto simp: setter_ok_def nth_append split: setter_pc.splits)

lemma watch_ok_step: "watch_step s s' \<Longrightarrow> watch_ok s \<Longrightarrow> watch_ok s'"
proof (induction rule: watch_step.induct)
  case (watch s p)
  have "watcher_ok (new_watcher p)" by (simp add: watcher_ok_def new_watcher_def)
  with watch setter_ok_append [of s _ "[new_watcher p]"] show ?case
    by (auto simp: watch_ok_def)
next
  case (cancel h s)
  then show ?case
    using watch_ok_watcher [of s h] by (intro upd_watcher_ok) (auto simp: watcher_ok_def matches_def)
next
  case (goroutine h s go)
  then show ?case
    using watch_ok_watcher [of s h] by (intro upd_watcher_ok) (auto simp: prefix_kept intro: watcher_act_ok)
next
  case (set s e)
  then show ?case by (auto simp: watch_ok_def setter_ok_def split: setter_pc.splits)
next
  case (send i s e h hs)
  have m: "matches e (watchers s ! h)" "\<forall>h \<in> set hs. h < length (watchers s)"
    using watch_ok_setter [OF send(6,1)] send(2) by (auto simp: setter_ok_def)
  have "watch_ok (upd_watcher h (receive e) s)"
    using send m watch_ok_watcher [of s h] by (intro upd_watcher_ok) (auto simp: prefix_kept intro: receive_ok)
  then show ?case
    using m(2) by (intro upd_setter_ok) (auto simp: setter_ok_def upd_watcher_def)
next
  case (skip i s e h hs)
  with watch_ok_setter [of s i] show ?case by (intro upd_setter_ok) (auto simp: setter_ok_def)
next
  case (visit i s e h hs)
  with watch_ok_setter [of s i] show ?case by (intro upd_setter_ok) (auto simp: setter_ok_def)
qed (auto intro: upd_setter_ok simp: setter_ok_def)

lemma watch_ok_reach: "watch_step\<^sup>*\<^sup>* watch_init s \<Longrightarrow> watch_ok s"
proof (induction rule: rtranclp_induct)
  case base
  then show ?case by (simp add: watch_init_def watch_ok_def)
qed (rule watch_ok_step)

text \<open>A watcher that is neither cancelled nor declines keeps running, and no send to it panics.\<close>

definition alive :: "watcher \<Rightarrow> bool" where
  "alive w \<longleftrightarrow> \<not> w_cancelled w \<and> (w_pc w = WSelect \<or> (\<exists>e. w_pc w = WCallback e))"

lemma alive_not_closed: "watcher_ok w \<Longrightarrow> alive w \<Longrightarrow> w_registered w \<and> \<not> w_closed w"
  by (auto simp: watcher_ok_def alive_def)

text \<open>
  A send that finds its watcher busy waits; the only actions that let it go on are the
  watcher's own return to the select, or the close.
\<close>

lemma blocked_send:
  assumes "watch_step s s'" and "i < length (setters s)" and "setters s ! i = SSend e h hs"
    and "w_pc (watchers s ! h) \<noteq> WSelect" "\<not> w_closed (watchers s ! h)"
  shows "setters s' ! i = SSend e h hs"
  using assms
  by (induction rule: watch_step.induct)
    (auto simp: upd_setter_def upd_watcher_def nth_append nth_list_update)

text \<open>
  A run in which a \<open>Set\<close> panics: the watcher is cancelled after the set has chosen to send
  to it and closes its channel before the send happens.
\<close>

definition one_watcher :: "watcher \<Rightarrow> setter_pc \<Rightarrow> watch_state" where
  "one_watcher w pc = \<lparr>watchers = [w], setters = [pc]\<rparr>"

lemma goroutine_one: "watch_step (one_watcher w pc) (one_watcher (watcher_act go w) pc)"
  using watch_step.goroutine [of 0 "one_watcher w pc" go] by (simp add: one_watcher_def upd_watcher_def)

lemma panic_run:
  fixes p
  defines "e \<equiv> \<lparr>ch_key = p, ch_value = ''''\<rparr>"
  shows "watch_step\<^sup>*\<^sup>* watch_init
    (one_watcher (watcher_act True (watcher_act True (watcher_act True ((new_watcher p)\<lparr>w_cancelled := True\<rparr>)))) SPanicked)"
proof -
  let ?w = "new_watcher p" and ?w' = "(new_watcher p)\<lparr>w_cancelled := True\<rparr>"
  have 1: "watch_step watch_init \<lparr>watchers = [?w], setters = []\<rparr>"
    using watch_step.watch [of watch_init p] by (simp add: watch_init_def)
  have 2: "watch_step \<lparr>watchers = [?w], setters = []\<rparr> (one_watcher ?w (SRange e [0]))"
    using watch_step.set [of "\<lparr>watchers = [?w], setters = []\<rparr>" e] by (simp add: one_watcher_def)
  have 3: "watch_step (one_watcher ?w (SRange e [0])) (one_watcher ?w (SSend e 0 []))"
    using watch_step.visit [of 0 "one_watcher ?w (SRange e [0])" e 0 "[]"]
    by (simp add: one_watcher_def new_watcher_def matches_def e_def HasPrefix_def upd_setter_def)
  have 4: "watch_step (one_watcher ?w (SSend e 0 [])) (one_watcher ?w' (SSend e 0 []))"
    using watch_step.cancel [of 0 "one_watcher ?w (SSend e 0 [])"] by (simp add: one_watcher_def upd_watcher_def)
  let ?g = "watcher_act True"
  have 5: "watch_step\<^sup>*\<^sup>* (one_watcher ?w' (SSend e 0 [])) (one_watcher (?g (?g (?g ?w'))) (SSend e 0 []))"
    using goroutine_one [of ?w' "SSend e 0 []" True] goroutine_one [of "?g ?w'" "SSend e 0 []" True]
      goroutine_one [of "?g (?g ?w')" "SSend e 0 []" True]
    by (meson converse_rtranclp_into_rtranclp rtranclp.rtrancl_refl)
  have 6: "watch_step (one_watcher (?g (?g (?g ?w'))) (SSend e 0 [])) (one_watcher (?g (?g (?g ?w'))) SPanicked)"
    using watch_step.panic [of 0 "one_watcher (?g (?g (?g ?w'))) (SSend e 0 [])" e 0 "[]"]
    by (simp add: one_watcher_def new_watcher_def watcher_act_def upd_setter_def)
  note r = rtranclp.rtrancl_into_rtrancl [where r = watch_step]
  show ?thesis
    by (rule r [OF rtranclp_trans [OF r [OF r [OF r [OF r [OF rtranclp.rtrancl_refl 1] 2] 3] 4] 5] 6])
qed

section \<open>Properties\<close>



text \<open>
  for every prefix there is an interleaving in which a \<open>Set\<close> panics: it has chosen a
  watcher to send to, the watcher's context is cancelled, its goroutine closes the channel,
  and the send is on the closed channel. Nothing recovers that panic in \<open>Set\<close>.
\<close>

theorem watch_set_panics:
  "\<exists>s w. watch_step\<^sup>*\<^sup>* watch_init s \<and> SPanicked \<in> set (setters s) \<and> w \<in> set (watchers s) \<and>
     w_prefix w = p \<and> w_closed w"
proof -
  let ?e = "\<lparr>ch_key = p, ch_value = ''''\<rparr>"
  let ?w = "(new_watcher p)\<lparr>w_cancelled := True\<rparr>"
  let ?x = "watcher_act True (watcher_act True (watcher_act True ?w))"
  have "watch_step\<^sup>*\<^sup>* watch_init (one_watcher ?x SPanicked)"
    using panic_run [of p] by simp
  then show ?thesis
    by (intro exI [of _ "one_watcher ?x SPanicked"] exI [of _ ?x])
      (simp add: one_watcher_def watcher_act_def new_watcher_def)
qed

end
