(* ===== verification/Http_Factory.thy ===== *)
theory Http_Factory
  imports Servers App_Resources
begin

text \<open>
  The HTTP side of \<open>sprintserver\<close>: the factory that registers pages and assets
  (\<open>http_server_factory.go\<close>), options, compression and rewriting (\<open>utils.go\<close>), the redirect
  and template pages, the TLS configuration, the health checker, and the search for the
  gateway (\<open>sprintutils/gateway.go\<close>).
\<close>

section \<open>utils.go\<close>

fun parse_options_loop :: "string list \<Rightarrow> (string \<Rightarrow> bool) \<Rightarrow> (string \<Rightarrow> bool)" where
  "parse_options_loop [] cache = cache"
| "parse_options_loop (part # parts) cache =
     (let key = TrimSpace part
      in parse_options_loop parts (if 0 < length key then cache(key := True) else cache))"

definition parseOptions :: "string \<Rightarrow> string \<Rightarrow> bool" where
  "parseOptions str = parse_options_loop (SplitByte str (CHR '';'')) (\<lambda>_. False)"

definition AppendH2ToNextProtos :: "string list \<Rightarrow> string list" where
  "AppendH2ToNextProtos ps = (if ''h2'' \<in> set ps then ps else ps @ [''h2''])"

text \<open>\<open>strings.Split(header, ",")\<close>, and a part that is \<open>gzip\<close> without white space around it.\<close>

definition acceptGzip :: "string \<Rightarrow> bool" where
  "acceptGzip header = list_ex (\<lambda>enc. TrimSpace enc = ''gzip'') (SplitByte header (CHR '',''))"

definition rewrite_path :: "string \<Rightarrow> string \<Rightarrow> string \<Rightarrow> string" where
  "rewrite_path src dst path =
     (let p = (if \<not> HasPrefix path ''/'' then ''/'' @ path else path)
      in if p = src then dst else path)"

text \<open>
  A response: the status (once it is written), the headers, the body. The work of an inner
  handler is the list of the calls it makes on its writer.
\<close>

record http_response =
  status :: "int option"
  headers :: "string \<Rightarrow> string option"
  body :: bytes

datatype write_action = SetHeader string string | WriteHeader int | WriteBody bytes

definition empty_response :: http_response where
  "empty_response = \<lparr>status = None, headers = Map.empty, body = []\<rparr>"

text \<open>The standard writer: the first write sends status 200; later statuses are ignored.\<close>

fun write_plain :: "write_action \<Rightarrow> http_response \<Rightarrow> http_response" where
  "write_plain (SetHeader k v) r = (if status r = None then r\<lparr>headers := (headers r)(k \<mapsto> v)\<rparr> else r)"
| "write_plain (WriteHeader n) r = (if status r = None then r\<lparr>status := Some n\<rparr> else r)"
| "write_plain (WriteBody b) r =
     r\<lparr>status := (case status r of None \<Rightarrow> Some 200 | Some n \<Rightarrow> Some n), body := body r @ b\<rparr>"

definition contentEncoding :: string where "contentEncoding = ''Content-Encoding''"

text \<open>\<open>gzipWriter\<close>: an explicit status 200 announces the encoding.\<close>

fun write_gzip :: "write_action \<Rightarrow> http_response \<Rightarrow> http_response" where
  "write_gzip (WriteHeader n) r =
     write_plain (WriteHeader n) (if n = 200 then write_plain (SetHeader contentEncoding ''gzip'') r else r)"
| "write_gzip a r = write_plain a r"

text \<open>The file server of a source of compressed assets writes through it.\<close>

definition gzipHeader_ServeHTTP :: "write_action list \<Rightarrow> http_response \<Rightarrow> http_response" where
  "gzipHeader_ServeHTTP acts r = fold write_gzip acts r"

text \<open>\<open>bufWriter\<close>: the body is collected, the status remembered (0 at first), headers pass.\<close>

record buf_writer =
  bw_headers :: "string \<Rightarrow> string option"
  bw_buf :: bytes
  bw_code :: int

fun write_buf :: "write_action \<Rightarrow> buf_writer \<Rightarrow> buf_writer" where
  "write_buf (SetHeader k v) w = w\<lparr>bw_headers := (bw_headers w)(k \<mapsto> v)\<rparr>"
| "write_buf (WriteHeader n) w = w\<lparr>bw_code := n\<rparr>"
| "write_buf (WriteBody b) w = w\<lparr>bw_buf := bw_buf w @ b\<rparr>"

text \<open>
  \<open>gzip.NewReader\<close> on the buffer reads ten bytes first (all of a shorter buffer), and fails
  unless they start with the two identification bytes and the deflate method. \<open>gunzip\<close> is
  the rest of it: for data with such a start, either the bytes that remain unread when the
  optional header fields are damaged, or what copying from the reader gives. The code
  returns the unread bytes when the reader cannot be made.
\<close>

definition gzip_start :: "bytes \<Rightarrow> bool" where
  "gzip_start b \<longleftrightarrow> 10 \<le> length b \<and> take 3 b = [CHR 0x1F, CHR 0x8B, CHR 0x08]"

definition Unpack :: "(bytes \<Rightarrow> bytes + bytes) \<Rightarrow> bytes \<Rightarrow> bytes" where
  "Unpack gunzip b =
     (if \<not> gzip_start b then drop 10 b
      else case gunzip b of Inl unread \<Rightarrow> unread | Inr plain \<Rightarrow> plain)"

text \<open>\<open>net/http\<close> refuses (with a panic) to write a status that has not three digits.\<close>

definition checked_header :: "int \<Rightarrow> http_response \<Rightarrow> http_response outcome" where
  "checked_header n r = (if n < 100 \<or> 999 < n then Panic ''invalid WriteHeader code'' else Ret (write_plain (WriteHeader n) r))"

definition gzip_ServeHTTP :: "(bytes \<Rightarrow> bytes + bytes) \<Rightarrow> string \<Rightarrow> string \<Rightarrow> write_action list \<Rightarrow> http_response outcome" where
  "gzip_ServeHTTP gunzip header meth acts =
     (if acceptGzip header then Ret (fold write_gzip acts empty_response)
      else (let bw = fold write_buf acts \<lparr>bw_headers = Map.empty, bw_buf = [], bw_code = 0\<rparr>;
                r = \<lparr>status = None, headers = bw_headers bw, body = []\<rparr>
            in if meth \<noteq> ''HEAD'' then
                 (let plain = Unpack gunzip (bw_buf bw);
                      hs = ((bw_headers bw)(''Content-Length'' := None, ''Accept-Ranges'' := None))
                             (''Content-Length'' \<mapsto> Itoa (int (length plain)))
                  in case checked_header (bw_code bw) (r\<lparr>headers := hs\<rparr>) of
                       Panic m \<Rightarrow> Panic m
                     | Ret r \<Rightarrow> Ret (if plain = [] then r else write_plain (WriteBody plain) r))
               else checked_header (bw_code bw) r))"

section \<open>Registering handlers\<close>

text \<open>Handlers are named by what they serve.\<close>

datatype http_handler = ApiGateway | AcmeChallenge | PageHandler nat | AssetHandler string | OtherMux

type_synonym mux = "(string \<times> http_handler) list"

text \<open>\<open>ServeMux.Handle\<close> panics on the empty pattern and on a pattern that is registered.\<close>

definition mux_Handle :: "string \<Rightarrow> http_handler \<Rightarrow> mux \<Rightarrow> mux outcome" where
  "mux_Handle pattern h m =
     (if pattern = '''' then Panic ''http: invalid pattern''
      else if pattern \<in> fst ` set m then Panic (''http: multiple registrations for '' @ pattern)
      else Ret (m @ [(pattern, h)]))"

text \<open>The serving asset: which of its two file servers serves a request (\<open>None\<close>: not found).\<close>

record serving_asset =
  plainH :: "nat option"
  gzipH :: "nat option"

definition asset_acceptGzip :: "string \<Rightarrow> bool" where
  "asset_acceptGzip header = list_ex (\<lambda>enc. TrimSpace enc = ''gzip'') (SplitByte header (CHR '',''))"

definition asset_ServeHTTP :: "serving_asset \<Rightarrow> string \<Rightarrow> (bool \<times> nat) option" where
  "asset_ServeHTTP s header =
     (case gzipH s of
        Some g \<Rightarrow> if asset_acceptGzip header then Some (True, g) else map_option (Pair False) (plainH s)
      | None \<Rightarrow> map_option (Pair False) (plainH s))"

record asset_source =
  as_Name :: string
  as_AssetNames :: "string list"

definition set_handler :: "bool \<Rightarrow> nat \<Rightarrow> string \<Rightarrow> (string \<Rightarrow> serving_asset option) \<Rightarrow> (string \<Rightarrow> serving_asset option)" where
  "set_handler gz i pattern cache =
     (let s = (case cache pattern of Some s \<Rightarrow> s | None \<Rightarrow> \<lparr>plainH = None, gzipH = None\<rparr>)
      in cache(pattern \<mapsto> (if gz then s\<lparr>gzipH := Some i\<rparr> else s\<lparr>plainH := Some i\<rparr>)))"

text \<open>An \<open>index.html\<close> is served at the root as well (the jump back with the empty name).\<close>

definition add_asset :: "bool \<Rightarrow> nat \<Rightarrow> string \<Rightarrow> (string \<Rightarrow> serving_asset option) \<Rightarrow> (string \<Rightarrow> serving_asset option)" where
  "add_asset gz i name cache =
     (let cache = set_handler gz i (''/'' @ name) cache
      in if name = ''index.html'' then set_handler gz i ''/'' cache else cache)"

fun groupAssets :: "nat \<Rightarrow> asset_source list \<Rightarrow> (string \<Rightarrow> serving_asset option) \<Rightarrow> (string \<Rightarrow> serving_asset option)" where
  "groupAssets i [] cache = cache"
| "groupAssets i (res # rest) cache =
     groupAssets (Suc i) rest
       (if HasPrefix (as_Name res) ''assets''
        then fold (add_asset (HasSuffix (as_Name res) ''gzip'') i) (as_AssetNames res) cache
        else cache)"

text \<open>The loops over the pages and over the grouped assets; \<open>order\<close> is the map's iteration order.\<close>

fun register_pages :: "nat \<Rightarrow> string list \<Rightarrow> string set \<Rightarrow> mux \<Rightarrow> (string set \<times> mux) outcome" where
  "register_pages i [] visited m = Ret (visited, m)"
| "register_pages i (pattern # ps) visited m =
     (if pattern \<in> visited then register_pages (Suc i) ps visited m
      else case mux_Handle pattern (PageHandler i) m of
             Panic e \<Rightarrow> Panic e
           | Ret m \<Rightarrow> register_pages (Suc i) ps (insert pattern visited) m)"

fun register_assets :: "string list \<Rightarrow> mux \<Rightarrow> mux outcome" where
  "register_assets [] m = Ret m"
| "register_assets (pattern # ps) m =
     (case mux_Handle pattern (AssetHandler pattern) m of Panic e \<Rightarrow> Panic e | Ret m \<Rightarrow> register_assets ps m)"

text \<open>A panicking computation followed by another.\<close>

definition and_then :: "'a outcome \<Rightarrow> ('a \<Rightarrow> 'b outcome) \<Rightarrow> 'b outcome" where
  "and_then x f = (case x of Panic m \<Rightarrow> Panic m | Ret a \<Rightarrow> f a)"

record http_config =
  hc_beanName :: string
  hc_bindAddress :: string
  hc_options :: string
  hc_pages :: "string list"
  hc_assets :: "asset_source list"
  hc_order :: "string list"
  hc_autocert :: bool
  hc_tls :: bool
  hc_readTimeout :: "int option"
  hc_writeTimeout :: "int option"
  hc_idleTimeout :: "int option"

record http_server_bean =
  hs_Addr :: string
  hs_mux :: mux
  hs_tls :: bool
  ReadTimeout :: int
  WriteTimeout :: int
  IdleTimeout :: int

text \<open>\<open>Properties.GetDuration\<close> with a default; durations are nanoseconds.\<close>

definition GetDuration :: "int option \<Rightarrow> int \<Rightarrow> int" where
  "GetDuration prop dflt = (case prop of None \<Rightarrow> dflt | Some d \<Rightarrow> d)"

definition Second :: int where "Second = 1000000000"

definition register_all :: "http_config \<Rightarrow> mux outcome" where
  "register_all c =
     (let options = parseOptions (hc_options c)
      in and_then (if options ''gateway'' then mux_Handle ''/api/'' ApiGateway [] else Ret [])
        (\<lambda>m. and_then (if hc_autocert c then mux_Handle ''/.well-known/acme-challenge/'' AcmeChallenge m else Ret m)
        (\<lambda>m. and_then (if options ''pages'' then register_pages 0 (hc_pages c) {} m else Ret ({}, m))
        (\<lambda>(visited, m). if options ''assets'' then register_assets (hc_order c) m else Ret m))))"

definition http_Object :: "http_config \<Rightarrow> http_server_bean res" where
  "http_Object c =
     (if hc_bindAddress c = '''' then
        Inl (Errorf (''property '' @ hc_beanName c @ ''.bind-address not found in server context''))
      else PanicToError
        (case register_all c of
           Panic m \<Rightarrow> Panic m
         | Ret m \<Rightarrow> Ret (Inr \<lparr>hs_Addr = hc_bindAddress c, hs_mux = m, hs_tls = hc_tls c,
             ReadTimeout = GetDuration (hc_readTimeout c) (30 * Second),
             WriteTimeout = GetDuration (hc_writeTimeout c) (30 * Second),
             IdleTimeout = GetDuration (hc_idleTimeout c) (60 * Second)\<rparr>)))"

section \<open>gateway.go\<close>

text \<open>
  \<open>ServeMux.Handler\<close> for a path: an exact pattern, else the longest pattern that ends in a
  slash and is a prefix (patterns with a host are not used by the framework).
\<close>

fun longest :: "(string \<times> http_handler) list \<Rightarrow> (string \<times> http_handler) option" where
  "longest [] = None"
| "longest ((p, h) # r) =
     (case longest r of None \<Rightarrow> Some (p, h) | Some (q, g) \<Rightarrow> if length q < length p then Some (p, h) else Some (q, g))"

definition mux_match :: "mux \<Rightarrow> string \<Rightarrow> (string \<times> http_handler) option" where
  "mux_match m path =
     (case find (\<lambda>(p, h). p = path) m of
        Some ph \<Rightarrow> Some ph
      | None \<Rightarrow> longest (filter (\<lambda>(p, h). HasSuffix p ''/'' \<and> HasPrefix path p) m))"

datatype srv_handler = GatewayMux | StdMux mux | OtherHandler

definition FindGatewayHandler :: "srv_handler \<Rightarrow> string \<Rightarrow> goerror option" where
  "FindGatewayHandler handler pattern =
     (case handler of
        GatewayMux \<Rightarrow> None
      | StdMux m \<Rightarrow>
          (let (found, h) = (case mux_match m ''/api/'' of None \<Rightarrow> ('''', OtherMux) | Some ph \<Rightarrow> ph)
           in if found \<noteq> pattern then
                Some (Errorf (''invalid configuration of http mux, found pattern '' @ found @ '' whereas expected '' @ pattern))
              else if h \<noteq> ApiGateway then Some (Errorf (''non gateway mux found on pattern '' @ pattern))
              else None)
      | OtherHandler \<Rightarrow> Some (Errorf ''unknown server handler''))"

text \<open>
  \<open>PostConstruct\<close> of the control server (\<open>grpc_control_server.go\<close>): with a gateway server, the
  gateway must be found behind \<open>/api/\<close>; registering with the third-party servers cannot fail.
\<close>

definition control_PostConstruct :: "srv_handler option \<Rightarrow> goerror option" where
  "control_PostConstruct gatewayServer =
     (case gatewayServer of None \<Rightarrow> None | Some handler \<Rightarrow> FindGatewayHandler handler ''/api/'')"

section \<open>Pages and the other factories\<close>

record redirect_page =
  rp_beanName :: string
  redirectAddr :: string
  redirectSuffix :: string

definition redirect_PostConstruct :: "string \<Rightarrow> redirect_page \<Rightarrow> goerror option \<times> redirect_page" where
  "redirect_PostConstruct prop t =
     (let t = t\<lparr>redirectAddr := prop\<rparr>
      in if prop = '''' then
           (Some (Errorf (''property '' @ rp_beanName t @ ''.redirect-address is not found in context'')), t)
         else (None, t\<lparr>redirectSuffix := (case IndexByte prop (CHR '':'') of Some i \<Rightarrow> drop i prop | None \<Rightarrow> '''')\<rparr>))"

definition redirect_url :: "string \<Rightarrow> string \<Rightarrow> redirect_page \<Rightarrow> string" where
  "redirect_url host uri t = ''https://'' @ hd (SplitByte host (CHR '':'')) @ redirectSuffix t @ uri"

definition template_PostConstruct ::
    "(string \<Rightarrow> bytes res outcome option) \<Rightarrow> (string \<Rightarrow> bytes \<Rightarrow> 'h res) \<Rightarrow> string
     \<Rightarrow> ('t, 'h) resource_service \<Rightarrow> 'h res \<times> ('t, 'h) resource_service" where
  "template_PostConstruct resource parse templateFile rs =
     (case HtmlTemplate resource parse templateFile rs of
        (Inl e, rs) \<Rightarrow> (Inl (Errorf (''template index file '' @ templateFile @ '' error, '' @ error_text e)), rs)
      | (Inr t, rs) \<Rightarrow> (Inr t, rs))"

text \<open>
  What \<open>Execute\<close> of the template library writes, and its panic, if any, which is answered by
  \<open>http.Error\<close>; its error result is dropped.
\<close>

definition http_Error :: "string \<Rightarrow> int \<Rightarrow> http_response \<Rightarrow> http_response" where
  "http_Error msg code r =
     fold write_plain
       [SetHeader ''Content-Type'' ''text/plain; charset=utf-8'', SetHeader ''X-Content-Type-Options'' ''nosniff'',
        WriteHeader code, WriteBody (msg @ [CHR 0x0A])] r"

definition template_ServeHTTP :: "write_action list \<times> string option \<Rightarrow> http_response \<Rightarrow> http_response" where
  "template_ServeHTTP execute r =
     (let r = fold write_plain (fst execute) r
      in case snd execute of None \<Rightarrow> r | Some m \<Rightarrow> http_Error m 500 r)"

record tls_config =
  InsecureSkipVerify :: bool
  has_GetCertificate :: bool
  NextProtos :: "string list"

definition tls_Object :: "bool \<Rightarrow> bool \<Rightarrow> tls_config" where
  "tls_Object insecure certManager =
     \<lparr>InsecureSkipVerify = insecure, has_GetCertificate = certManager, NextProtos = AppendH2ToNextProtos []\<rparr>"

text \<open>The health checker: the services that are reported as serving.\<close>

definition health_Object :: "bool \<Rightarrow> string list \<Rightarrow> string set" where
  "health_Object enableServices services = (if enableServices then insert '''' (set services) else {''''})"

section \<open>Lemmas\<close>

lemma parse_options_loop_eq:
  "parse_options_loop parts cache key \<longleftrightarrow> cache key \<or> (key \<noteq> '''' \<and> key \<in> TrimSpace ` set parts)"
  by (induction parts arbitrary: cache) (auto simp: Let_def)

lemma parseOptions_eq: "parseOptions str key \<longleftrightarrow> key \<noteq> '''' \<and> (\<exists>p \<in> set (SplitByte str (CHR '';'')). TrimSpace p = key)"
  by (auto simp: parseOptions_def parse_options_loop_eq)

lemma and_then_Ret: "and_then x f = Ret b \<longleftrightarrow> (\<exists>a. x = Ret a \<and> f a = Ret b)"
  by (cases x) (auto simp: and_then_def)

lemma mux_Handle_Ret: "mux_Handle p h m = Ret m' \<longleftrightarrow> p \<noteq> '''' \<and> p \<notin> fst ` set m \<and> m' = m @ [(p, h)]"
  by (auto simp: mux_Handle_def)

lemma register_pages_Ret:
  "register_pages i ps visited m = Ret (v, m') \<Longrightarrow> distinct (map fst m) \<Longrightarrow>
   distinct (map fst m') \<and> set m \<subseteq> set m' \<and> v = visited \<union> set ps \<and> fst ` set m' = fst ` set m \<union> (set ps - visited)"
  by (induction i ps visited m rule: register_pages.induct)
    (auto simp: mux_Handle_Ret split: if_splits outcome.splits)

lemma register_assets_Ret:
  "register_assets ps m = Ret m' \<longleftrightarrow>
   m' = m @ map (\<lambda>p. (p, AssetHandler p)) ps \<and> distinct ps \<and> '''' \<notin> set ps \<and> set ps \<inter> fst ` set m = {}"
  by (induction ps arbitrary: m) (auto simp: mux_Handle_def split: outcome.splits)

lemma register_assets_distinct:
  "register_assets ps m = Ret m' \<Longrightarrow> distinct (map fst m) \<Longrightarrow> distinct (map fst m')"
  by (induction ps arbitrary: m) (auto simp: mux_Handle_def split: outcome.splits if_splits)

text \<open>Every registered pattern is registered once.\<close>

lemma register_all_distinct:
  assumes "register_all c = Ret m"
  shows "distinct (map fst m)"
  using assms
  by (auto simp: register_all_def Let_def and_then_Ret mux_Handle_Ret
      split: if_splits dest!: register_pages_Ret dest: register_assets_distinct)

text \<open>A page and an asset at the same pattern make the factory fail.\<close>

lemma register_all_clash:
  assumes "parseOptions (hc_options c) ''pages''" and "parseOptions (hc_options c) ''assets''"
    and "p \<in> set (hc_pages c)" and "p \<in> set (hc_order c)"
  shows "\<exists>e. register_all c = Panic e"
proof (cases "register_all c")
  case (Ret m)
  with assms(1,2) obtain m0 v m1 where r: "register_pages 0 (hc_pages c) {} m0 = Ret (v, m1)"
      "register_assets (hc_order c) m1 = Ret m" "distinct (map fst m0)"
    by (auto simp: register_all_def Let_def and_then_Ret mux_Handle_Ret split: if_splits)
  from register_pages_Ret [OF r(1,3)] assms(3) have "p \<in> fst ` set m1" by auto
  with r(2) assms(4) show ?thesis by (auto simp: register_assets_Ret)
qed simp

lemma groupAssets_mono: "cache p \<noteq> None \<Longrightarrow> groupAssets i rs cache p \<noteq> None"
proof (induction i rs cache rule: groupAssets.induct)
  case (2 i res rest cache)
  have one: "cache p \<noteq> None \<Longrightarrow> add_asset g i n cache p \<noteq> None" for cache g n
    by (auto simp: add_asset_def set_handler_def Let_def)
  have "cache p \<noteq> None \<Longrightarrow> fold (add_asset g i) ns cache p \<noteq> None" for cache g ns
    using one by (induction ns arbitrary: cache) (auto simp del: not_None_eq)
  with 2 show ?case by simp
qed simp

text \<open>A client that does not accept compressed data never gets the compressed file.\<close>

lemma asset_plain: "\<not> asset_acceptGzip header \<Longrightarrow> asset_ServeHTTP s header = Some (g, i) \<Longrightarrow> \<not> g \<and> plainH s = Some i"
  by (auto simp: asset_ServeHTTP_def split: option.splits)

lemma fold_write_buf:
  "bw_buf (fold write_buf acts w) = bw_buf w @ concat (map (\<lambda>a. case a of WriteBody b \<Rightarrow> b | _ \<Rightarrow> []) acts)"
proof (induction acts arbitrary: w)
  case (Cons a acts)
  then show ?case by (cases a) auto
qed simp

lemma mux_match_exact: "distinct (map fst m) \<Longrightarrow> (p, h) \<in> set m \<Longrightarrow> mux_match m p = Some (p, h)"
proof -
  assume d: "distinct (map fst m)" "(p, h) \<in> set m"
  then have "find (\<lambda>(q, g). q = p) m = Some (p, h)"
    by (induction m) (auto simp: rev_image_eqI)
  then show ?thesis by (simp add: mux_match_def)
qed

section \<open>Properties\<close>

lemma register_all_gateway:
  assumes "register_all c = Ret m" and "parseOptions (hc_options c) ''gateway''"
  shows "(''/api/'', ApiGateway) \<in> set m"
  using assms
  by (auto simp: register_all_def Let_def and_then_Ret mux_Handle_Ret register_assets_Ret
      split: if_splits dest!: register_pages_Ret)

lemma longest_in: "longest m = Some ph \<Longrightarrow> ph \<in> set m"
  by (induction m arbitrary: ph rule: longest.induct) (auto split: option.splits if_splits)

lemma mux_match_in: "mux_match m path = Some ph \<Longrightarrow> ph \<in> set m"
  by (auto simp: mux_match_def find_Some_iff split: option.splits dest!: longest_in) (metis nth_mem)

lemma register_pages_handlers:
  "register_pages i ps visited m = Ret (v, m') \<Longrightarrow> (p, ApiGateway) \<in> set m' \<longleftrightarrow> (p, ApiGateway) \<in> set m"
  by (induction i ps visited m rule: register_pages.induct)
    (auto simp: mux_Handle_Ret split: if_splits outcome.splits)

lemma register_all_gateway_only:
  assumes "register_all c = Ret m" and "(p, ApiGateway) \<in> set m"
  shows "parseOptions (hc_options c) ''gateway''"
  using assms
  by (auto simp: register_all_def Let_def and_then_Ret mux_Handle_Ret register_assets_Ret register_pages_handlers
      split: if_splits)

text \<open>The control server can be constructed exactly behind a server with the gateway option.\<close>

lemma control_gateway:
  assumes "register_all c = Ret m"
  shows "control_PostConstruct (Some (StdMux m)) = None \<longleftrightarrow> parseOptions (hc_options c) ''gateway''"
proof
  assume "control_PostConstruct (Some (StdMux m)) = None"
  then have "mux_match m ''/api/'' = Some (''/api/'', ApiGateway)"
    by (auto simp: control_PostConstruct_def FindGatewayHandler_def split: option.splits prod.splits if_splits)
  then show "parseOptions (hc_options c) ''gateway''"
    using register_all_gateway_only [OF assms] mux_match_in by blast
next
  assume "parseOptions (hc_options c) ''gateway''"
  from mux_match_exact [OF register_all_distinct [OF assms] register_all_gateway [OF assms this]]
  show "control_PostConstruct (Some (StdMux m)) = None"
    by (simp add: control_PostConstruct_def FindGatewayHandler_def)
qed

lemma add_asset_keeps: "cache p \<noteq> None \<Longrightarrow> add_asset g i n cache p \<noteq> None"
  by (auto simp: add_asset_def set_handler_def Let_def)

lemma add_assets_has: "name \<in> set ns \<or> cache (''/'' @ name) \<noteq> None \<Longrightarrow> fold (add_asset g i) ns cache (''/'' @ name) \<noteq> None"
proof (induction ns arbitrary: cache)
  case (Cons n ns)
  have "add_asset g i name cache (''/'' @ name) \<noteq> None"
    by (auto simp: add_asset_def set_handler_def Let_def)
  with Cons.prems add_asset_keeps [of cache "''/'' @ name" g i n]
  have "name \<in> set ns \<or> add_asset g i n cache (''/'' @ name) \<noteq> None" by (auto simp del: not_None_eq)
  from Cons.IH [where cache = "add_asset g i n cache", OF this] show ?case by simp
qed (simp del: not_None_eq)

lemma groupAssets_has:
  "res \<in> set rs \<Longrightarrow> HasPrefix (as_Name res) ''assets'' \<Longrightarrow> name \<in> set (as_AssetNames res) \<Longrightarrow>
   groupAssets i rs cache (''/'' @ name) \<noteq> None"
proof (induction i rs cache rule: groupAssets.induct)
  case (2 i res2 rest cache)
  show ?case
  proof (cases "res = res2")
    case True
    with 2 have "fold (add_asset (HasSuffix (as_Name res) ''gzip'') i) (as_AssetNames res) cache (''/'' @ name) \<noteq> None"
      using add_assets_has by (simp del: not_None_eq)
    with True 2 groupAssets_mono show ?thesis by (simp del: not_None_eq)
  next
    case False
    with 2 show ?thesis by (simp del: not_None_eq)
  qed
qed simp

lemma register_all_assets:
  assumes "register_all c = Ret m" and "parseOptions (hc_options c) ''assets''" and "p \<in> set (hc_order c)"
  shows "(p, AssetHandler p) \<in> set m"
  using assms
  by (auto simp: register_all_def Let_def and_then_Ret register_assets_Ret split: if_splits)

text \<open>The order in which the loop over the grouped assets visits their patterns.\<close>

definition assets_order :: "http_config \<Rightarrow> bool" where
  "assets_order c \<longleftrightarrow> set (hc_order c) = dom (groupAssets 0 (hc_assets c) Map.empty)"


definition sample_http :: http_config where
  "sample_http = \<lparr>hc_beanName = ''http-server'', hc_bindAddress = ''0.0.0.0:80'', hc_options = ''gateway; pages'',
     hc_pages = [''/a'', ''/b'', ''/a''], hc_assets = [], hc_order = [], hc_autocert = False, hc_tls = False,
     hc_readTimeout = Some 5, hc_writeTimeout = None, hc_idleTimeout = None\<rparr>"

lemma sample_http_options: "parseOptions ''gateway; pages'' ''gateway''" "parseOptions ''gateway; pages'' ''pages''"
  "\<not> parseOptions ''gateway; pages'' ''assets''"
  by code_simp+


definition written :: "write_action list \<Rightarrow> bytes" where
  "written acts = concat (map (\<lambda>a. case a of WriteBody b \<Rightarrow> b | _ \<Rightarrow> []) acts)"

lemma body_write_gzip: "body (fold write_gzip acts r) = body r @ written acts"
proof (induction acts arbitrary: r)
  case (Cons a acts)
  then show ?case by (cases a) (auto simp: written_def)
qed (simp add: written_def)

lemma bw_code_none: "\<forall>n. WriteHeader n \<notin> set acts \<Longrightarrow> bw_code (fold write_buf acts w) = bw_code w"
proof (induction acts arbitrary: w)
  case (Cons a acts)
  then show ?case by (cases a) auto
qed simp

lemma bw_code_range:
  "\<forall>n. WriteHeader n \<in> set acts \<longrightarrow> 100 \<le> n \<and> n \<le> 999 \<Longrightarrow>
   WriteHeader k \<in> set acts \<or> 100 \<le> bw_code w \<and> bw_code w \<le> 999 \<Longrightarrow>
   100 \<le> bw_code (fold write_buf acts w) \<and> bw_code (fold write_buf acts w) \<le> 999"
proof (induction acts arbitrary: w)
  case (Cons a acts)
  then show ?case by (cases a) auto
qed simp

text \<open>
  C38: a client that accepts gzip gets what the asset handler wrote; another one gets it
  decompressed, with the length of what it gets and no offer of ranges, provided the handler
  wrote a valid status. The code means to pass a body that is not compressed as it is, but
  such a body loses its first ten bytes, the ones the attempt to read a gzip header consumed;
  and a handler that never writes a status makes the wrapper panic for every client without
  gzip.
\<close>

theorem gzip_content:
  assumes "gzip_ServeHTTP gunzip header meth acts = r"
    and "\<forall>n. WriteHeader n \<in> set acts \<longrightarrow> 100 \<le> n \<and> n \<le> 999"
  shows "if acceptGzip header then \<exists>resp. r = Ret resp \<and> body resp = written acts
    else if \<forall>n. WriteHeader n \<notin> set acts then \<exists>m. r = Panic m
    else meth = ''HEAD'' \<or> (\<exists>resp. r = Ret resp \<and>
      (if gzip_start (written acts) then \<forall>plain. gunzip (written acts) = Inr plain \<longrightarrow> body resp = plain
       else body resp = drop 10 (written acts)) \<and>
      headers resp ''Content-Length'' = Some (Itoa (int (length (body resp)))) \<and> headers resp ''Accept-Ranges'' = None)"
proof -
  define bw where "bw = fold write_buf acts \<lparr>bw_headers = Map.empty, bw_buf = [], bw_code = 0\<rparr>"
  have buf: "bw_buf bw = written acts" by (simp add: bw_def fold_write_buf written_def)
  consider "acceptGzip header" | "\<not> acceptGzip header" "\<forall>n. WriteHeader n \<notin> set acts"
    | k where "\<not> acceptGzip header" "WriteHeader k \<in> set acts" by blast
  then show ?thesis
  proof cases
    case 1
    with assms(1) show ?thesis by (auto simp: gzip_ServeHTTP_def body_write_gzip empty_response_def)
  next
    case 2
    then have "bw_code bw = 0" by (simp add: bw_def bw_code_none)
    with 2 assms(1) show ?thesis by (auto simp: gzip_ServeHTTP_def Let_def checked_header_def simp flip: bw_def)
  next
    case 3
    have "100 \<le> bw_code bw" "bw_code bw \<le> 999"
      using bw_code_range [OF assms(2), of k] 3(2) by (simp_all add: bw_def)
    then have "meth = ''HEAD'' \<or> (\<exists>resp. r = Ret resp \<and> body resp = Unpack gunzip (written acts) \<and>
        headers resp ''Content-Length'' = Some (Itoa (int (length (body resp)))) \<and> headers resp ''Accept-Ranges'' = None)"
      using 3 assms(1) buf by (auto simp: gzip_ServeHTTP_def Let_def checked_header_def simp flip: bw_def)
    with 3 show ?thesis by (auto simp: Unpack_def)
  qed
qed

theorem gzip_content_witness:
  "\<exists>resp. gzip_ServeHTTP Inr ''br'' ''GET'' [WriteHeader 200, WriteBody ''0123456789abc''] = Ret resp \<and> body resp = ''abc''"
proof -
  have "\<not> acceptGzip ''br''" by code_simp
  moreover have "\<not> gzip_start ''0123456789abc''" by (simp add: gzip_start_def)
  ultimately show ?thesis
    using gzip_content [OF refl, where acts = "[WriteHeader 200, WriteBody ''0123456789abc'']" and gunzip = Inr
        and header = "''br''" and meth = "''GET''"]
    by (auto simp: written_def)
qed

end
