(* ===== verification/Remote_Control.thy ===== *)
theory Remote_Control
  imports Control_Client Servers
begin

text \<open>
  The control service as a remote caller meets it: \<open>sprintserver/grpc_server_factory.go\<close> puts
  the interceptors in front of the handlers of \<open>sprintserver/grpc_control_server.go\<close>, and the
  handlers ask the authorization middleware who the caller is. The theory composes
  \<open>Servers\<close>, \<open>Auth_Middleware\<close> and \<open>Control_Server\<close>, and the client's connection with the
  server's listener.
\<close>

section \<open>The service\<close>

text \<open>The calls of the service that need an administrator.\<close>

datatype admin_call =
  NodeCall string
| ConfigCall string "string list"
| CertificateCall string "string list"
| JobCall string "string list"
| StorageCall string "string list"
| ConsoleCall console_stream

datatype admin_answer = Replied reply | Streamed "goerror option" console_stream

fun answered :: "admin_answer \<Rightarrow> bool" where
  "answered (Replied r) = (fst r \<noteq> None)"
| "answered (Streamed e st) = (e = None)"

text \<open>What comes from outside the framework: float parsing, the optional certificate services.\<close>

record 'x control_env =
  ce_float :: "string \<Rightarrow> float64 res"
  ce_certManager :: "'x cert_exec option"
  ce_certs :: "'x cert_exec option"

text \<open>\<open>user\<close> and \<open>admin\<close> are what the middleware's \<open>GetUser\<close> and \<open>HasUserRole\<close> give for the context.\<close>

fun handle :: "'x control_env \<Rightarrow> admin_call \<Rightarrow> authorized_user option \<Rightarrow> bool \<Rightarrow> ('s, 'w, 'x, 'b) control_state
    \<Rightarrow> admin_answer \<times> ('s, 'w, 'x, 'b) control_state" where
  "handle env (NodeCall cmd) user admin t = (case cs_Node user cmd t of (r, t) \<Rightarrow> (Replied r, t))"
| "handle env (ConfigCall cmd args) user admin t = (case cs_Config user cmd args t of (r, t) \<Rightarrow> (Replied r, t))"
| "handle env (CertificateCall cmd args) user admin t =
     (case cs_Certificate (ce_certManager env) (ce_certs env) user cmd args t of (r, t) \<Rightarrow> (Replied r, t))"
| "handle env (JobCall cmd args) user admin t = (case cs_Job admin cmd args t of (r, t) \<Rightarrow> (Replied r, t))"
| "handle env (StorageCall cmd args) user admin t =
     (case cs_Storage (ce_float env) admin cmd args t of (r, t) \<Rightarrow> (Replied r, t))"
| "handle env (ConsoleCall st) user admin t =
     (case cs_StorageConsole admin st t of (e, st, t) \<Rightarrow> (Streamed e st, t))"

text \<open>
  One call: it is authenticated at \<open>now\<close> by the interceptor; the handler asks later, at
  \<open>now'\<close>, when the middleware is \<open>mw'\<close>.
\<close>

definition remote_call :: "jwt_lib \<Rightarrow> 'x control_env \<Rightarrow> int \<Rightarrow> auth_middleware \<Rightarrow> int \<Rightarrow> auth_middleware \<Rightarrow> call_ctx
    \<Rightarrow> admin_call \<Rightarrow> ('s, 'w, 'x, 'b) control_state \<Rightarrow> admin_answer \<times> ('s, 'w, 'x, 'b) control_state" where
  "remote_call lib env now mw now' mw' ctx call t =
     intercepted lib now mw
       (\<lambda>ctx. handle env call (GetUser lib now' mw' ctx) (HasUserRole lib now' mw' ctx ''ADMIN'') t) ctx"

section \<open>Only administrators get through\<close>

text \<open>The calls that reach a handler as an administrator's, spelled out on the wire.\<close>

definition admin_header :: "jwt_lib \<Rightarrow> int \<Rightarrow> bytes \<Rightarrow> string set \<Rightarrow> call_ctx \<Rightarrow> bool" where
  "admin_header lib now key invalid ctx \<longleftrightarrow>
     (\<exists>h c. metadata ctx = Some (Some [h]) \<and> HasPrefix h ''Bearer '' \<and> TrimSpace (drop 7 h) \<noteq> '''' \<and>
       TrimSpace (drop 7 h) \<notin> invalid \<and> jwt_Parse lib key now (TrimSpace (drop 7 h)) = (None, c, True) \<and>
       ''ADMIN'' \<in> set (claim_Roles c) \<and> \<not> (claim_Id c = '''' \<and> claim_ExpiresAt c = 0))"

definition root_user :: "authorized_user option" where
  "root_user = Some (default_user ''root'' 0)"

lemma root_user_admin: "require_admin root_user = None"
  by (simp add: require_admin_if root_user_def default_user_def)

lemma handle_denied:
  "require_admin user \<noteq> None \<Longrightarrow> \<not> answered (fst (handle env call user False t)) \<and> snd (handle env call user False t) = t"
  by (cases call; cases "require_admin user")
    (auto simp: cs_Node_def cs_Config_def cs_Certificate_def cs_Job_def cs_Storage_def cs_StorageConsole_def fail_def)

lemma handle_admin:
  "require_admin user = None \<Longrightarrow> handle env call user True t = handle env call root_user True t"
  using root_user_admin
  by (cases call) (simp_all add: cs_Node_def cs_Config_def cs_Certificate_def)

lemma role_after_interceptor:
  assumes "secretKey mw = Some key"
  shows "HasUserRole lib now' mw' (Authenticate lib now ctx mw) ''ADMIN'' \<longleftrightarrow>
    admin_header lib now key (invalidTokens mw) ctx"
proof (cases "doAuthenticate lib now ctx mw")
  case None
  have "\<not> admin_header lib now key (invalidTokens mw) ctx"
  proof
    assume "admin_header lib now key (invalidTokens mw) ctx"
    then obtain h c where h: "metadata ctx = Some (Some [h])" "HasPrefix h ''Bearer ''" "TrimSpace (drop 7 h) \<noteq> ''''"
        "TrimSpace (drop 7 h) \<notin> invalidTokens mw" "jwt_Parse lib key now (TrimSpace (drop 7 h)) = (None, c, True)"
      by (auto simp: admin_header_def)
    then have "\<exists>u. VerifyAuthToken lib now (secretKey mw) (TrimSpace (drop 7 h)) = Inr u"
      by (simp add: VerifyAuthToken_def assms)
    with None h(1-4) show False
      by (auto simp: doAuthenticate_def AuthenticateByHeader_drop)
  qed
  moreover have "GetUser lib now' mw' (Authenticate lib now ctx mw) = None"
    by (simp add: Authenticate_GetUser None)
  ultimately show ?thesis by (simp add: HasUserRole_def)
next
  case (Some u)
  from authenticated_header [OF Some] obtain h where
      h: "metadata ctx = Some (Some [h])" "HasPrefix h ''Bearer ''" "TrimSpace (drop 7 h) \<noteq> ''''"
        "TrimSpace (drop 7 h) \<notin> invalidTokens mw" and
      v: "VerifyAuthToken lib now (Some key) (TrimSpace (drop 7 h)) = Inr u" by (auto simp: assms)
  from verified_user [OF v] obtain c where c: "jwt_Parse lib key now (TrimSpace (drop 7 h)) = (None, c, True)"
      "Username u = claim_Id c" "ExpiresAt u = claim_ExpiresAt c"
      "\<forall>m r. Roles u = Some m \<longrightarrow> (m r = Some True \<longleftrightarrow> r \<in> set (claim_Roles c))" by blast
  obtain m where m: "Roles u = Some m"
    using v c(1) by (auto simp: VerifyAuthToken_def)
  have "admin_header lib now key (invalidTokens mw) ctx \<longleftrightarrow>
      ''ADMIN'' \<in> set (claim_Roles c) \<and> \<not> (claim_Id c = '''' \<and> claim_ExpiresAt c = 0)"
    using h c(1) by (auto simp: admin_header_def)
  with c m Some show ?thesis
    by (auto simp: HasUserRole_def Authenticate_GetUser)
qed

section \<open>Properties\<close>

lemma remote_call_exact:
  assumes "secretKey mw = Some key"
  shows "if admin_header lib now key (invalidTokens mw) ctx
    then remote_call lib env now mw now' mw' ctx call t = handle env call root_user True t
    else \<not> answered (fst (remote_call lib env now mw now' mw' ctx call t)) \<and>
      snd (remote_call lib env now mw now' mw' ctx call t) = t"
proof -
  let ?ctx = "Authenticate lib now ctx mw"
  note role = role_after_interceptor [OF assms, of lib now' mw' now ctx]
  note user = require_admin_role [of lib now' mw' ?ctx]
  show ?thesis
  proof (cases "admin_header lib now key (invalidTokens mw) ctx")
    case True
    with role user handle_admin show ?thesis by (auto simp: remote_call_def intercepted_def)
  next
    case False
    with role user handle_denied [of "GetUser lib now' mw' ?ctx" env call t] show ?thesis
      by (simp add: remote_call_def intercepted_def)
  qed
qed

text \<open>
  C2: a remote call of an administrative method has an effect or an answer only for a caller
  whose one authorization header is a bearer token that was not invalidated, that verifies
  with the node's key at the time of the call, that names the role ADMIN and has an identity or
  an expiry; every such caller gets what any administrator gets, and for everybody else the
  node's state is untouched. What happens to the middleware between the interceptor and the
  handler does not matter.
\<close>

theorem remote_admin_only:
  assumes "secretKey mw = Some key"
  shows "if admin_header lib now key (invalidTokens mw) ctx
    then remote_call lib env now mw now' mw' ctx call t = handle env call root_user True t
    else \<not> answered (fst (remote_call lib env now mw now' mw' ctx call t)) \<and>
      snd (remote_call lib env now mw now' mw' ctx call t) = t"
  using remote_call_exact [OF assms] .

definition sample_env :: "unit control_env" where
  "sample_env = \<lparr>ce_float = (\<lambda>_. Inl ErrSyntax), ce_certManager = None, ce_certs = None\<rparr>"

theorem remote_admin_only_witness:
  "remote_call (one_token_lib ''k'' sample_claims ''t'') sample_env 7 sample_mw 8 sample_mw (bearer_ctx ''t'')
     (NodeCall ''restart'') sample_control =
     (Replied (Some ''OK'', None), sample_control\<lparr>shutdown_timers := [True]\<rparr>) \<and>
   snd (remote_call (one_token_lib ''k'' sample_claims ''t'') sample_env 7 sample_mw 8 sample_mw (bearer_ctx ''u'')
     (NodeCall ''restart'') sample_control) = sample_control"
proof -
  have k: "secretKey sample_mw = Some ''k''" by (simp add: sample_mw_def)
  have u: "TrimSpace '' u'' = ''u''" "TrimSpace ''u'' = ''u''" by code_simp+
  have a: "admin_header (one_token_lib ''k'' sample_claims ''t'') 7 ''k'' (invalidTokens sample_mw) (bearer_ctx ''t'')"
    "\<not> admin_header (one_token_lib ''k'' sample_claims ''t'') 7 ''k'' (invalidTokens sample_mw) (bearer_ctx ''u'')"
    using trim_sample u
    by (simp_all add: admin_header_def bearer_ctx_def one_token_lib_def sample_claims_def sample_mw_def HasPrefix_def)
  have "handle sample_env (NodeCall ''restart'') root_user True sample_control =
      (Replied (Some ''OK'', None), sample_control\<lparr>shutdown_timers := [True]\<rparr>)"
    by (simp add: cs_Node_def root_user_admin ok_reply_def sample_control_def)
  then show ?thesis
    using a remote_admin_only [OF k, where lib = "one_token_lib ''k'' sample_claims ''t''" and now = 7 and env = sample_env
        and now' = 8 and mw' = sample_mw and call = "NodeCall ''restart''" and t = sample_control] by auto
qed

section \<open>The client finds the server\<close>

text \<open>
  What the resolver of the standard library does with a literal address: it keeps the host and
  gives the number of the port.
\<close>

definition literal_port :: "(string \<Rightarrow> tcp_addr res) \<Rightarrow> string \<Rightarrow> int \<Rightarrow> bool" where
  "literal_port resolve port n \<longleftrightarrow>
     resolve (''0.0.0.0:'' @ port) = Inr \<lparr>IP = ''0.0.0.0'', Port = n\<rparr> \<and>
     resolve (''127.0.0.1:'' @ port) = Inr \<lparr>IP = ''127.0.0.1'', Port = n\<rparr>"

definition plain_port :: "string \<Rightarrow> bool" where
  "plain_port p \<longleftrightarrow> CHR '':'' \<notin> set p \<and> CHR ''['' \<notin> set p \<and> CHR '']'' \<notin> set p"

lemma adjust_literal:
  assumes "literal_port resolve port n" and "plain_port port" and "host \<in> {'''', ''0.0.0.0'', ''127.0.0.1''}"
  shows "ParseAndAdjustTCPAddr resolve (host @ '':'' @ port) seq =
    Inr \<lparr>IP = (if host = '''' then ''0.0.0.0'' else host), Port = n + seq\<rparr>"
proof -
  have "SplitHostPort (host @ '':'' @ port) = Inr (host, port)"
    using assms(2,3) by (intro SplitHostPort_plain) (auto simp: plain_port_def)
  then show ?thesis
    using assms(1,3) by (auto simp: ParseAndAdjustTCPAddr_def literal_port_def Let_def)
qed

lemma connect_literal:
  "host \<in> {'''', ''0.0.0.0'', ''127.0.0.1''} \<Longrightarrow> getConnectFromBindAddress (host @ '':'' @ port) = ''127.0.0.1:'' @ port"
  by (auto simp: getConnectFromBindAddress_def HasPrefix_def)

text \<open>
  C32: without a connect address of its own, a client reads the server's bind address: when
  the server of a node could bind to a port on all interfaces or on the loopback interface, the
  client of the same node dials the loopback interface at the port the server listens on, and
  the client of a node with another number dials another address.
\<close>

theorem client_meets_server:
  assumes "grpc_Bind resolve listen (ReplaceAll bean ''client'' ''server'') (host @ '':'' @ port) seq srv = (None, srv')"
    and "prop (bean @ ''.connect-address'') = ''''"
    and "prop (ReplaceAll bean ''client'' ''server'' @ ''.bind-address'') = host @ '':'' @ port"
    and "host \<in> {'''', ''0.0.0.0'', ''127.0.0.1''}" and "plain_port port" and "literal_port resolve port n"
  shows "\<exists>d d2. client_Object resolve prop maxSize tls seq bean = Inr d \<and> do_addr d = ''127.0.0.1:'' @ Itoa (n + seq) \<and>
    ListenAddress (listener srv') \<in> {''0.0.0.0:'' @ Itoa (n + seq), ''127.0.0.1:'' @ Itoa (n + seq)} \<and>
    client_Object resolve prop maxSize tls seq' bean = Inr d2 \<and> (do_addr d2 = do_addr d \<longleftrightarrow> seq' = seq)"
proof -
  have l: "listener srv' = Some (addr_text \<lparr>IP = (if host = '''' then ''0.0.0.0'' else host), Port = n + seq\<rparr>, use_tls srv)"
    using grpc_Bind_listener [OF assms(1)] adjust_literal [OF assms(6,5,4)] by auto
  have c: "client_Object resolve prop maxSize tls k bean =
      Inr (doDial tls maxSize (prop ''application.auth'') (''127.0.0.1'' @ '':'' @ Itoa (n + k)))" for k
    using adjust_literal [OF assms(6,5), of "''127.0.0.1''" k] connect_literal [OF assms(4), of port] assms(2-4)
    by (auto simp: client_Object_def connect_address_def Let_def)
  have "Itoa (n + seq') = Itoa (n + seq) \<longleftrightarrow> seq' = seq" by (auto dest: Itoa_inj)
  then show ?thesis using l assms(4) by (auto simp: c doDial_def addr_text_def ListenAddress_def)
qed

definition sample_resolve :: "string \<Rightarrow> tcp_addr res" where
  "sample_resolve a =
     (if a = ''0.0.0.0:80'' then Inr \<lparr>IP = ''0.0.0.0'', Port = 80\<rparr>
      else if a = ''127.0.0.1:80'' then Inr \<lparr>IP = ''127.0.0.1'', Port = 80\<rparr>
      else Inl (Errorf ''no such host''))"

definition sample_prop :: "string \<Rightarrow> string" where
  "sample_prop k = (if k = ''control-grpc-server.bind-address'' then ''0.0.0.0:80'' else '''')"

theorem client_meets_server_witness:
  "\<exists>srv' d. grpc_Bind sample_resolve (\<lambda>_. None) (ReplaceAll ''control-grpc-client'' ''client'' ''server'')
       (''0.0.0.0'' @ '':'' @ ''80'') 2 (NewGrpcServer False) = (None, srv') \<and>
     client_Object sample_resolve sample_prop 0 False 2 ''control-grpc-client'' = Inr d \<and> do_addr d = ''127.0.0.1:82''"
proof -
  have r: "ReplaceAll ''control-grpc-client'' ''client'' ''server'' = ''control-grpc-server''" by code_simp
  have p: "sample_prop (''control-grpc-client'' @ ''.connect-address'') = ''''"
    "sample_prop (ReplaceAll ''control-grpc-client'' ''client'' ''server'' @ ''.bind-address'') = ''0.0.0.0'' @ '':'' @ ''80''"
    by (simp_all add: r sample_prop_def)
  have h: "''0.0.0.0'' \<in> {'''', ''0.0.0.0'', ''127.0.0.1''}" "plain_port ''80''" "literal_port sample_resolve ''80'' 80"
    by (simp_all add: plain_port_def literal_port_def sample_resolve_def)
  have "ParseAndAdjustTCPAddr sample_resolve (''0.0.0.0'' @ '':'' @ ''80'') 2 = Inr \<lparr>IP = ''0.0.0.0'', Port = 80 + 2\<rparr>"
    using adjust_literal [OF h(3,2,1)] by simp
  then obtain srv' where b: "grpc_Bind sample_resolve (\<lambda>_. None) (ReplaceAll ''control-grpc-client'' ''client'' ''server'')
       (''0.0.0.0'' @ '':'' @ ''80'') 2 (NewGrpcServer False) = (None, srv')"
    by (simp add: grpc_Bind_def Let_def)
  have i: "Itoa (80 + 2) = ''82''" by code_simp
  from client_meets_server [OF b p h, where maxSize = 0 and tls = False] b i show ?thesis by auto
qed

end
