(* ===== verification/Wiring.thy ===== *)
theory Wiring
  imports Beans Http_Factory Remote_Control
begin

text \<open>
  How the program is put together: the lists of beans of the \<open>scan.go\<close> files, the tree of
  contexts \<open>main.go\<close> builds of them, what \<open>sprintapp.Application(...).Run\<close> adds to it, and the
  exit of \<open>main\<close>. A child context sees the beans of its parents; the container itself provides
  each context with its own \<open>glue.Context\<close> and \<open>glue.Properties\<close>, and with a \<open>glue.ChildContext\<close>
  for every child. Resolving the tree is third-party code; the theorems show that it never lacks a bean.
\<close>

section \<open>The tree of beans\<close>

text \<open>What is handed to the container: a bean, a slice (also of a scanner), or a child context.\<close>

datatype scan = BeanDef bean_def | Beans "scan list" | Child string "scan list"

definition GrpcServerScanner_Beans :: "string \<Rightarrow> scan list \<Rightarrow> scan" where
  "GrpcServerScanner_Beans beanName scan =
     Beans ([BeanDef AuthorizationMiddleware_bean,
             BeanDef (GrpcServerFactory_bean beanName),
             BeanDef (component [] ''''
               [(needs SprintServer)\<lparr>in_optional := True\<rparr>,
                (needs GrpcServer)\<lparr>in_optional := True\<rparr>,
                (needs HttpServer)\<lparr>in_optional := True\<rparr>])] @ scan)"

definition HttpServerScanner_Beans :: "string \<Rightarrow> scan list \<Rightarrow> scan" where
  "HttpServerScanner_Beans beanName scan =
     Beans ([BeanDef (HttpServerFactory_bean beanName),
             BeanDef (component [] ''''
               [(needs SprintServer)\<lparr>in_optional := True\<rparr>,
                needs HttpServer])] @ scan)"

definition ApplicationBeans :: scan where
  "ApplicationBeans = Beans
     [BeanDef (ApplicationFlags_bean 100000), BeanDef FlagSetFactory_bean, BeanDef ResourceService_bean]"

definition ApplicationCommands :: scan where
  "ApplicationCommands = Beans
     [BeanDef VersionCommand_bean, BeanDef SetupCommand_bean, BeanDef HelpCommand_bean,
      BeanDef ResourcesCommand_bean, BeanDef ConfigCommand_bean, BeanDef CertsCommand_bean,
      BeanDef StorageCommand_bean, BeanDef JobsCommand_bean, BeanDef KeygenCommand_bean,
      BeanDef NodeCommand_bean, BeanDef RunNode_bean, BeanDef StartNode_bean, BeanDef StopNode_bean,
      BeanDef RestartNode_bean, BeanDef StatusNode_bean]"

definition CoreServices :: scan where
  "CoreServices = Beans
     [BeanDef ZapLogFactory_bean, BeanDef HCLogFactory_bean, BeanDef NodeService_bean,
      BeanDef (ConfigRepository_bean 10000), BeanDef JobService_bean, BeanDef StorageService_bean,
      BeanDef MailService_bean]"

definition ControlClientBeans :: scan where
  "ControlClientBeans = Beans [BeanDef (GrpcClientFactory_bean ''control-grpc-client''), BeanDef ControlClient_bean]"

text \<open>The embedded resources: \<open>names\<close> are the files that were embedded under each name.\<close>

definition DefaultResources :: "string list \<Rightarrow> asset_source" where
  "DefaultResources names = \<lparr>as_Name = ''resources'', as_AssetNames = names\<rparr>"

definition DefaultAssets :: "string list \<Rightarrow> asset_source" where
  "DefaultAssets names = \<lparr>as_Name = ''assets'', as_AssetNames = names\<rparr>"

definition DefaultGzipAssets :: "string list \<Rightarrow> asset_source" where
  "DefaultGzipAssets names = \<lparr>as_Name = ''assets-gzip'', as_AssetNames = names\<rparr>"

definition resource_source_bean :: bean_def where
  "resource_source_bean = component [GlueResourceSource] '''' []"

definition main_beans :: scan where
  "main_beans = Beans
     [ApplicationBeans, ApplicationCommands,
      BeanDef resource_source_bean, BeanDef resource_source_bean, BeanDef resource_source_bean,
      Child ''sprint.CoreRole''
        [CoreServices,
         BeanDef (BoltStoreFactory_bean ''config-store''),
         BeanDef (BadgerStoreFactory_bean ''secure-store''),
         BeanDef AutoupdateService_bean,
         BeanDef LumberjackFactory_bean,
         Child ''sprint.ServerRole''
           [GrpcServerScanner_Beans ''control-grpc-server'' [],
            BeanDef ControlServer_bean,
            BeanDef (HttpServerFactory_bean ''control-gateway-server''),
            BeanDef (TemplatePage_bean ''/'')],
         Child ''sprint.ServerRole''
           [HttpServerScanner_Beans ''redirect-https'' [],
            BeanDef (RedirectHttpsPage_bean ''redirect-https'')]],
      Child ''sprint.ControlClientRole'' [ControlClientBeans]]"

section \<open>main\<close>

definition main_application :: "string \<Rightarrow> string \<Rightarrow> scan application" where
  "main_application Version Build =
     Application ''sprint'' [WithVersion Version, WithBuild Build, WithBeans [main_beans]]"

text \<open>
  \<open>doMain\<close> recovers from panics, as \<open>Run\<close> does itself. \<open>main\<close> prints an error and exits with
  status 1.
\<close>

definition doMain :: "(scan bean list \<Rightarrow> 'w app_dep res outcome) \<Rightarrow> string \<Rightarrow> string \<Rightarrow> string list
    \<Rightarrow> 'w run_state \<Rightarrow> goerror option \<times> 'w run_state" where
  "doMain glue_New Version Build args s =
     (let (e, t, s) = app_Run glue_New args (main_application Version Build) s in (e, s))"

definition main_exit :: "(scan bean list \<Rightarrow> 'w app_dep res outcome) \<Rightarrow> string \<Rightarrow> string \<Rightarrow> string list
    \<Rightarrow> 'w run_state \<Rightarrow> int \<times> 'w run_state" where
  "main_exit glue_New Version Build args s =
     (case doMain glue_New Version Build args s of
        (Some e, s) \<Rightarrow> (1, s\<lparr>out := out s @ [''Error: '' @ error_text e]\<rparr>)
      | (None, s) \<Rightarrow> (0, s))"

text \<open>The beans that \<open>Run\<close> hands to the container, as a tree. Property sources are no beans.\<close>

fun to_scan :: "scan bean \<Rightarrow> scan" where
  "to_scan (Bean s) = s"
| "to_scan ApplicationBean = BeanDef Application_bean"
| "to_scan DepBean = BeanDef applicationDep_bean"
| "to_scan (PropertyFile path) = Beans []"
| "to_scan (PropertyMap m) = Beans []"
| "to_scan (EnvironmentBean r) = BeanDef (SystemEnvironmentPropertyResolver_bean (res_priority r))"

definition handed :: "string \<Rightarrow> string \<Rightarrow> scan list" where
  "handed Version Build =
     (let t = main_application Version Build in map to_scan (beans (AppendBeans (run_beans t) t)))"

section \<open>Contexts and what they see\<close>

definition container_beans :: "bean_def list" where
  "container_beans = [component [GlueContext] '''' [], component [GlueProperties] '''' []]"

fun own_beans :: "scan \<Rightarrow> bean_def list" where
  "own_beans (BeanDef b) = [b]"
| "own_beans (Beans xs) = concat (map own_beans xs)"
| "own_beans (Child role xs) = [component [GlueChildContext] role []]"

record context_view =
  cv_role :: string
  cv_visible :: "bean_def list"  \<comment> \<open>of this context and its parents\<close>
  cv_own :: "bean_def list"

fun contexts :: "bean_def list \<Rightarrow> scan \<Rightarrow> context_view list" where
  "contexts vis (BeanDef b) = []"
| "contexts vis (Beans xs) = concat (map (contexts vis) xs)"
| "contexts vis (Child role xs) =
     (let own = concat (map own_beans xs)
      in \<lparr>cv_role = role, cv_visible = container_beans @ vis @ own, cv_own = own\<rparr>
         # concat (map (contexts (vis @ own)) xs))"

definition main_contexts :: "string \<Rightarrow> string \<Rightarrow> context_view list" where
  "main_contexts Version Build = contexts [] (Child ''root'' (handed Version Build))"

text \<open>
  Objects of factories have types that are not declared in the repository: \<open>third c t\<close> says
  that an object of type \<open>c\<close> can be put into a field of type \<open>t\<close>. What the code relies on
  (\<open>class_laws\<close>): the class constants of \<open>sprint\<close> stand for the types that the code converts
  their beans to (\<open>sprintcmd/utils.go\<close> and \<open>run_node.go\<close> do it for three of them) and the stores
  are data stores.
\<close>

definition class_table :: "(go_type \<times> go_type) list" where
  "class_table =
     [(SprintFlagSetClass, FlagFlagSet), (SprintZapLogClass, ZapLogger), (SprintLumberjackClass, LumberjackLogger),
      (SprintGrpcServerClass, GrpcServer), (SprintHttpServerClass, HttpServer),
      (SprintGrpcClientConnClass, GrpcClientConn), (SprintTlsConfigClass, TlsConfig),
      (BoltstoreObjectType, StoreDataStore), (BoltstoreObjectType, StoreManagedDataStore),
      (BboltstoreObjectType, StoreDataStore), (BboltstoreObjectType, StoreManagedDataStore),
      (BadgerstoreObjectType, StoreDataStore), (BadgerstoreObjectType, StoreManagedDataStore),
      (CachestoreObjectType, StoreDataStore), (CachestoreObjectType, StoreManagedDataStore)]"

definition factory_classes :: "go_type list" where
  "factory_classes = map fst class_table @ [SprintHCLogClass, SprintHealthCheckerClass]"

definition provides :: "(go_type \<Rightarrow> go_type \<Rightarrow> bool) \<Rightarrow> bean_def \<Rightarrow> injection \<Rightarrow> bool" where
  "provides third b i \<longleftrightarrow>
     (case bd_factory b of Some f \<Rightarrow> third (ObjectType f) (in_type i) | None \<Rightarrow> in_type i \<in> set (bd_types b)) \<and>
     (case in_bean i of None \<Rightarrow> True | Some n \<Rightarrow> bean_name b = n)"

text \<open>
  A field gets what it needs: a single bean without a choice, a collection of at least one; an
  optional field may stay empty.
\<close>

definition satisfied :: "(go_type \<Rightarrow> go_type \<Rightarrow> bool) \<Rightarrow> bean_def list \<Rightarrow> injection \<Rightarrow> bool" where
  "satisfied third vis i =
     (let n = length (filter (\<lambda>b. provides third b i) vis)
      in if in_many i then in_optional i \<or> 0 < n else n = 1 \<or> in_optional i \<and> n = 0)"

definition wired :: "(go_type \<Rightarrow> go_type \<Rightarrow> bool) \<Rightarrow> bean_def list \<Rightarrow> bean_def \<Rightarrow> bool" where
  "wired third vis b = list_all (satisfied third vis) (bd_injects b)"

text \<open>
  The objects that the code injects into a context later: the commands that act in the core
  context (\<open>doInCore\<close>) and the wrapped servers (\<open>doWithServers\<close>).
\<close>

definition injected_later :: "string \<Rightarrow> bean_def list" where
  "injected_later role =
     (if role = ''sprint.CoreRole''
      then [coreConfigContext_bean, coreSetupContext_bean, coreDomainContext_bean, coreStorageContext_bean]
      else if role = ''sprint.ServerRole'' then [GrpcServer_bean, HttpServer_bean]
      else [])"

definition asked_types :: "context_view list \<Rightarrow> go_type set" where
  "asked_types cs = in_type ` set (concat (map bd_injects (concat (map (\<lambda>c. cv_own c @ injected_later (cv_role c)) cs))))"

definition class_laws :: "(go_type \<Rightarrow> go_type \<Rightarrow> bool) \<Rightarrow> go_type set \<Rightarrow> bool" where
  "class_laws third asked \<longleftrightarrow> (\<forall>c \<in> set factory_classes. \<forall>t \<in> asked. third c t \<longleftrightarrow> (c, t) \<in> set class_table)"

definition context_wired :: "(go_type \<Rightarrow> go_type \<Rightarrow> bool) \<Rightarrow> context_view \<Rightarrow> bool" where
  "context_wired third c = list_all (wired third (cv_visible c)) (cv_own c @ injected_later (cv_role c))"

section \<open>Lemmas\<close>

lemma handed_scans:
  "handed Version Build =
     [main_beans, BeanDef Application_bean, BeanDef applicationDep_bean, Beans [], Beans [],
      BeanDef (SystemEnvironmentPropertyResolver_bean 10)]"
  by (simp add: handed_def main_application_def Application_def AppendBeans_def new_application_def
      run_beans_def SystemEnvironmentPropertyResolver_def)

definition by_table :: "go_type \<Rightarrow> go_type \<Rightarrow> bool" where
  "by_table c t \<longleftrightarrow> (c, t) \<in> set class_table"

definition program :: "context_view list" where
  "program = contexts [] (Child ''root'' [main_beans, BeanDef Application_bean, BeanDef applicationDep_bean, Beans [], Beans [],
      BeanDef (SystemEnvironmentPropertyResolver_bean 10)])"

lemma main_contexts_program: "main_contexts Version Build = program"
  by (simp add: main_contexts_def program_def handed_scans)

section \<open>Properties\<close>

lemma program_wired_0: "context_wired by_table (program ! 0)"
  by code_simp

lemma program_wired_1: "context_wired by_table (program ! 1)"
  by code_simp

lemma program_wired_2: "context_wired by_table (program ! 2)"
  by code_simp

lemma program_wired_3: "context_wired by_table (program ! 3)"
  by code_simp

lemma program_wired_4: "context_wired by_table (program ! 4)"
  by code_simp

lemmas program_wired = program_wired_0 program_wired_1 program_wired_2 program_wired_3 program_wired_4

lemma program_length: "length program = 5"
  by code_simp

lemma program_nth: "c \<in> set program \<Longrightarrow> \<exists>k \<in> {0, 1, 2, 3, 4}. c = program ! k"
  using program_length by (auto simp: in_set_conv_nth less_Suc_eq numeral_eq_Suc)

lemma program_wired_by_table: "c \<in> set program \<Longrightarrow> context_wired by_table c"
  using program_nth [of c] program_wired by auto

text \<open>The factories of the program make objects of classes the laws are about.\<close>

lemma program_classes:
  "list_all (\<lambda>c. list_all (\<lambda>b. case bd_factory b of None \<Rightarrow> True | Some f \<Rightarrow> ObjectType f \<in> set factory_classes)
     (cv_visible c)) program"
  by code_simp

lemma satisfied_third:
  assumes "class_laws third asked" and "in_type i \<in> asked"
    and "list_all (\<lambda>b. case bd_factory b of None \<Rightarrow> True | Some f \<Rightarrow> ObjectType f \<in> set factory_classes) vis"
  shows "satisfied third vis i = satisfied by_table vis i"
proof -
  have "provides third b i = provides by_table b i" if "b \<in> set vis" for b
    using assms that by (auto simp: provides_def class_laws_def by_table_def list_all_iff split: option.splits)
  then have "filter (\<lambda>b. provides third b i) vis = filter (\<lambda>b. provides by_table b i) vis" by (rule filter_cong [OF refl])
  then show ?thesis by (simp add: satisfied_def)
qed

lemma context_wired_third:
  assumes "class_laws third (asked_types program)" and "c \<in> set program"
  shows "context_wired third c"
proof -
  have cls: "list_all (\<lambda>b. case bd_factory b of None \<Rightarrow> True | Some f \<Rightarrow> ObjectType f \<in> set factory_classes) (cv_visible c)"
    using program_classes assms(2) by (simp add: list_all_iff)
  have "satisfied third (cv_visible c) i"
    if "b \<in> set (cv_own c @ injected_later (cv_role c))" "i \<in> set (bd_injects b)" for b i
  proof -
    have "in_type i \<in> asked_types program" using that assms(2) unfolding asked_types_def by fastforce
    moreover have "satisfied by_table (cv_visible c) i"
      using program_wired_by_table [OF assms(2)] that by (auto simp: context_wired_def wired_def list_all_iff)
    ultimately show ?thesis using satisfied_third [OF assms(1) _ cls] by simp
  qed
  then show ?thesis by (simp add: context_wired_def wired_def list_all_iff)
qed

text \<open>The patterns of the pages of a context, and the servers \<open>doWithServers\<close> finds in it.\<close>

definition page_patterns :: "context_view \<Rightarrow> string list" where
  "page_patterns c = concat (map (\<lambda>b. case bd_pattern b of Some p \<Rightarrow> [p] | None \<Rightarrow> []) (cv_own c))"

definition server_factories :: "context_view \<Rightarrow> string list" where
  "server_factories c = concat (map (\<lambda>b. case bd_factory b of
     Some f \<Rightarrow> (if ObjectType f \<in> {SprintGrpcServerClass, SprintHttpServerClass} then [ObjectName f] else [])
   | None \<Rightarrow> []) (cv_own c))"

definition server_contexts :: "context_view list \<Rightarrow> context_view list" where
  "server_contexts cs = filter (\<lambda>c. cv_role c = ''sprint.ServerRole'') cs"

lemma program_servers:
  "map page_patterns (server_contexts program) = [[''/''], [''/'']]"
  "map server_factories (server_contexts program) =
     [[''control-grpc-server'', ''control-gateway-server''], [''redirect-https'']]"
  by code_simp+

text \<open>The properties whose default is a permission, and what \<open>Run\<close> registers for them.\<close>

definition permission_defaults :: "context_view \<Rightarrow> (string \<times> string) list" where
  "permission_defaults c =
     filter (\<lambda>(k, d). HasPrefix k ''application.perm.'') (concat (map bd_values (cv_own c)))"

lemma program_permissions:
  "list_all (\<lambda>c. list_all (\<lambda>(k, d). map_of DefaultFileModes (drop 17 k) \<noteq> None \<and>
       map_of [(''-rwxrwxr-x'', 509), (''-rw-rw-r--'', 436), (''-rw-rw-rw-'', 438), (''-rwxrwx---'', 504)] d =
         map_of DefaultFileModes (drop 17 k)) (permission_defaults c)) program"
  by code_simp

lemma permission_strings:
  "ParseFileMode ''-rwxrwxr-x'' = 509" "ParseFileMode ''-rw-rw-r--'' = 436"
  "ParseFileMode ''-rw-rw-rw-'' = 438" "ParseFileMode ''-rwxrwx---'' = 504"
  by code_simp+

lemma permission_mode:
  assumes "map_of ms n \<noteq> None"
    and "map_of [(''-rwxrwxr-x'', 509), (''-rw-rw-r--'', 436), (''-rw-rw-rw-'', 438), (''-rwxrwx---'', 504)] d = map_of ms n"
  shows "\<exists>m. map_of ms n = Some m \<and> ParseFileMode d = of_nat m"
proof -
  from assms(1) obtain m where m: "map_of ms n = Some m" by blast
  with assms(2) have "(d, m) \<in> set [(''-rwxrwxr-x'', 509), (''-rw-rw-r--'', 436), (''-rw-rw-rw-'', 438), (''-rwxrwx---'', 504)]"
    by (metis map_of_SomeD)
  then have "ParseFileMode d = of_nat m" by (auto simp: permission_strings)
  with m show ?thesis by blast
qed

text \<open>
  C22: the program is wired. In every context of the tree that \<open>main\<close> hands to the container,
  every injected field of every bean, and of the objects that are injected later, finds what it
  needs among the beans the context sees: a single bean is there and is the only candidate, a
  mandatory collection is not empty, a named bean has the name. Both server contexts hold
  servers. And every permission property that a bean reads has the same default in its tag, as
  the framework's own parser reads it, as the value that \<open>Run\<close> registers for it.
\<close>

theorem wiring_complete:
  assumes "class_laws third (asked_types (main_contexts Version Build))"
  shows "map cv_role (main_contexts Version Build) =
      [''root'', ''sprint.CoreRole'', ''sprint.ServerRole'', ''sprint.ServerRole'', ''sprint.ControlClientRole''] \<and>
    (\<forall>c \<in> set (main_contexts Version Build). context_wired third c) \<and>
    (\<forall>c \<in> set (server_contexts (main_contexts Version Build)). server_factories c \<noteq> []) \<and>
    (\<forall>c \<in> set (main_contexts Version Build). \<forall>(k, d) \<in> set (permission_defaults c).
       \<exists>m. map_of DefaultFileModes (drop (length ''application.perm.'') k) = Some m \<and> ParseFileMode d = of_nat m)"
proof (intro conjI)
  show "map cv_role (main_contexts Version Build) =
      [''root'', ''sprint.CoreRole'', ''sprint.ServerRole'', ''sprint.ServerRole'', ''sprint.ControlClientRole'']"
    unfolding main_contexts_program by code_simp
  show "\<forall>c \<in> set (main_contexts Version Build). context_wired third c"
    using context_wired_third assms unfolding main_contexts_program by blast
  have "server_factories c \<in> set (map server_factories (server_contexts program))" if "c \<in> set (server_contexts program)" for c
    using that by simp
  then show "\<forall>c \<in> set (server_contexts (main_contexts Version Build)). server_factories c \<noteq> []"
    unfolding main_contexts_program program_servers by fastforce
  have "\<exists>m. map_of DefaultFileModes (drop 17 k) = Some m \<and> ParseFileMode d = of_nat m"
    if "c \<in> set program" "(k, d) \<in> set (permission_defaults c)" for c k d
  proof -
    from program_permissions that(1) have "list_all (\<lambda>(k, d). map_of DefaultFileModes (drop 17 k) \<noteq> None \<and>
       map_of [(''-rwxrwxr-x'', 509), (''-rw-rw-r--'', 436), (''-rw-rw-rw-'', 438), (''-rwxrwx---'', 504)] d =
         map_of DefaultFileModes (drop 17 k)) (permission_defaults c)"
      unfolding list_all_iff [of _ program] by (rule bspec)
    from this [unfolded list_all_iff, THEN bspec, OF that(2), unfolded case_prod_conv] show ?thesis
      by (elim conjE) (rule permission_mode)
  qed
  moreover have l: "length ''application.perm.'' = 17" by simp
  ultimately show "\<forall>c \<in> set (main_contexts Version Build). \<forall>(k, d) \<in> set (permission_defaults c).
       \<exists>m. map_of DefaultFileModes (drop (length ''application.perm.'') k) = Some m \<and> ParseFileMode d = of_nat m"
    unfolding main_contexts_program l by (intro ballI) (simp only: split_paired_all case_prod_conv)
qed

theorem wiring_complete_witness:
  "list_all (context_wired (\<lambda>c t. (c, t) \<in> set class_table)) (main_contexts ''1.0'' ''7'')"
  using wiring_complete [of "\<lambda>c t. (c, t) \<in> set class_table" "''1.0''" "''7''"]
  by (simp add: class_laws_def list_all_iff)

end
