(* ===== verification/Deployment.thy ===== *)
theory Deployment
  imports Wiring
begin

text \<open>
  The program of \<open>main.go\<close> with the properties of \<open>resources/sprint.yml\<close>: what the HTTP server
  factories of its two server contexts build from them, and where its redirect page sends a visitor.
\<close>

section \<open>The configured servers\<close>

text \<open>The properties of the servers in \<open>resources/sprint.yml\<close>.\<close>

definition sprint_yml :: "string \<Rightarrow> string option" where
  "sprint_yml = map_of
     [(''control-grpc-server.bind-address'', '':8543''),
      (''control-gateway-server.bind-address'', '':8443''),
      (''control-gateway-server.options'', ''gateway;pages;assets;gzip''),
      (''redirect-https.bind-address'', '':8080''),
      (''redirect-https.redirect-address'', ''127.0.0.1:8443''),
      (''redirect-https.options'', ''pages'')]"

text \<open>What the HTTP factory of a context reads and gets injected; \<open>robots.txt\<close> is the embedded asset.\<close>

definition configured :: "context_view \<Rightarrow> string \<Rightarrow> string list \<Rightarrow> http_config" where
  "configured c bean visit =
     \<lparr>hc_beanName = bean, hc_bindAddress = value_or_empty (sprint_yml (bean @ ''.bind-address'')),
      hc_options = value_or_empty (sprint_yml (bean @ ''.options'')), hc_pages = page_patterns c,
      hc_assets = [DefaultResources [], DefaultAssets [''robots.txt''], DefaultGzipAssets [''robots.txt'']],
      hc_order = visit, hc_autocert = False, hc_tls = False,
      hc_readTimeout = None, hc_writeTimeout = None, hc_idleTimeout = None\<rparr>"

lemma yml_options:
  "parseOptions ''gateway;pages;assets;gzip'' ''gateway''" "parseOptions ''gateway;pages;assets;gzip'' ''pages''"
  "parseOptions ''gateway;pages;assets;gzip'' ''assets''" "\<not> parseOptions ''pages'' ''gateway''"
  "parseOptions ''pages'' ''pages''" "\<not> parseOptions ''pages'' ''assets''"
  by code_simp+

lemma server_context_pages:
  "page_patterns (server_contexts (main_contexts Version Build) ! 0) = [''/'']"
  "page_patterns (server_contexts (main_contexts Version Build) ! 1) = [''/'']"
proof -
  have "length (server_contexts program) = 2" using program_servers(1) by (metis length_map list.size(3,4) Suc_1 One_nat_def add.right_neutral add_Suc_right)
  with program_servers(1) show "page_patterns (server_contexts (main_contexts Version Build) ! 0) = [''/'']"
    "page_patterns (server_contexts (main_contexts Version Build) ! 1) = [''/'']"
    unfolding main_contexts_program
    by (metis nth_Cons_0 nth_map zero_less_numeral, metis nth_Cons_0 nth_Cons_Suc nth_map One_nat_def one_less_numeral_iff semiring_norm(76))
qed

definition gateway_mux :: mux where
  "gateway_mux = [(''/api/'', ApiGateway), (''/'', PageHandler 0), (''/robots.txt'', AssetHandler ''/robots.txt'')]"

lemma gateway_routes:
  "mux_match gateway_mux ''/robots.txt'' = Some (''/robots.txt'', AssetHandler ''/robots.txt'')"
  "HasPrefix path ''/api/'' \<Longrightarrow> mux_match gateway_mux path = Some (''/api/'', ApiGateway)"
  "HasPrefix path ''/'' \<Longrightarrow> \<not> HasPrefix path ''/api/'' \<Longrightarrow> path \<noteq> ''/robots.txt'' \<Longrightarrow>
     mux_match gateway_mux path = Some (''/'', PageHandler 0)"
  by (auto simp: mux_match_def gateway_mux_def HasSuffix_def HasPrefix_def suffix_def split: if_splits)

lemma gateway_parts:
  assumes "page_patterns c = [''/'']"
  defines "g \<equiv> configured c ''control-gateway-server'' [''/robots.txt'']"
  shows "hc_options g = ''gateway;pages;assets;gzip''" "hc_pages g = [''/'']" "hc_bindAddress g = '':8443''"
    "hc_order g = [''/robots.txt'']" "\<not> hc_autocert g"
  using assms(1) by (simp_all add: g_def configured_def sprint_yml_def value_or_empty_def)

lemma redirect_parts:
  assumes "page_patterns c = [''/'']"
  defines "g \<equiv> configured c ''redirect-https'' []"
  shows "hc_options g = ''pages''" "hc_pages g = [''/'']" "hc_bindAddress g = '':8080''" "\<not> hc_autocert g"
  using assms(1) by (simp_all add: g_def configured_def sprint_yml_def value_or_empty_def)

lemma register_gateway:
  assumes "page_patterns c = [''/'']"
  shows "register_all (configured c ''control-gateway-server'' [''/robots.txt'']) = Ret gateway_mux"
  using yml_options by (simp add: register_all_def gateway_parts [OF assms] and_then_def mux_Handle_def gateway_mux_def)

lemma register_redirect:
  assumes "page_patterns c = [''/'']"
  shows "register_all (configured c ''redirect-https'' []) = Ret [(''/'', PageHandler 0)]"
  using yml_options by (simp add: register_all_def redirect_parts [OF assms] and_then_def mux_Handle_def)

lemma control_behind:
  assumes "page_patterns c = [''/'']"
  shows "control_PostConstruct (Some (StdMux gateway_mux)) = None"
    "control_PostConstruct (Some (StdMux [(''/'', PageHandler 0)])) \<noteq> None"
  using control_gateway [OF register_gateway [OF assms]] control_gateway [OF register_redirect [OF assms]] yml_options
  by (simp_all add: gateway_parts(1) [OF assms] redirect_parts(1) [OF assms])

lemma page_route:
  "HasPrefix path ''/'' \<Longrightarrow> mux_match [(''/'', PageHandler 0)] path = Some (''/'', PageHandler 0)"
  by (auto simp: mux_match_def HasSuffix_def)

text \<open>The redirect page of the configured program, and the address of its gateway server.\<close>

lemma redirect_suffix:
  assumes "redirect_PostConstruct (value_or_empty (sprint_yml ''redirect-https.redirect-address''))
      \<lparr>rp_beanName = ''redirect-https'', redirectAddr = '''', redirectSuffix = ''''\<rparr> = (e, page)"
  shows "e = None" "redirectSuffix page = '':8443''"
proof -
  have y: "value_or_empty (sprint_yml ''redirect-https.redirect-address'') = ''127.0.0.1:8443''"
    by (simp add: sprint_yml_def value_or_empty_def)
  have i: "IndexByte ''127.0.0.1:8443'' (CHR '':'') = Some 9" by code_simp
  show "e = None" "redirectSuffix page = '':8443''"
    using assms i unfolding y by (auto simp: redirect_PostConstruct_def Let_def)
qed

lemma gateway_listens:
  assumes "http_Bind resolve listen n (NewHttpServer (value_or_empty (sprint_yml ''control-gateway-server.bind-address'')) tls) = (None, srv)"
    and "literal_port resolve ''8443'' 8443"
  shows "ListenAddress (http_listener srv) = ''0.0.0.0:'' @ Itoa (8443 + n)"
proof -
  have y: "value_or_empty (sprint_yml ''control-gateway-server.bind-address'') = '':8443''"
    by (simp add: sprint_yml_def value_or_empty_def)
  have p: "plain_port ''8443''" by (simp add: plain_port_def)
  have "ParseAndAdjustTCPAddr resolve '':8443'' n = Inr \<lparr>IP = ''0.0.0.0'', Port = 8443 + n\<rparr>"
    using adjust_literal [OF assms(2) p, of "''''" n] by simp
  then show ?thesis
    using http_Bind_listener [OF assms(1)] by (auto simp: y NewHttpServer_def ListenAddress_def addr_text_def)
qed

lemma itoa_nat_step: "d < 10 \<Longrightarrow> 0 < m \<Longrightarrow> itoa_nat (10 * m + d) = itoa_nat m @ [digit_char d]"
  by (subst itoa_nat.simps) simp

lemma gateway_port_0: "Itoa 8443 = ''8443''"
proof -
  have d: "digit_char 8 = CHR ''8''" "digit_char 4 = CHR ''4''" "digit_char 3 = CHR ''3''" by code_simp+
  have "itoa_nat 8 = ''8''" by (subst itoa_nat.simps) (simp add: d)
  then have "itoa_nat 84 = ''84''" using itoa_nat_step [of 4 8] by (simp add: d)
  then have "itoa_nat 844 = ''844''" using itoa_nat_step [of 4 84] by (simp add: d)
  then have "itoa_nat 8443 = ''8443''" using itoa_nat_step [of 3 844] by (simp add: d)
  then show ?thesis by (simp add: Itoa_def)
qed

lemma gateway_port: "Itoa (8443 + n) = ''8443'' \<Longrightarrow> n = 0"
  using Itoa_inj [of "8443 + n" 8443] gateway_port_0 by auto

section \<open>Properties\<close>



text \<open>
  C33: where the redirect page sends the visitors of a node: always to port 8443, the gateway
  server's port in \<open>sprint.yml\<close>, at the host they asked for. The gateway server of the node with
  number \<open>n\<close> listens on port \<open>8443 + n\<close>: only the node with number zero redirects to itself.
\<close>

theorem redirect_port:
  assumes "redirect_PostConstruct (value_or_empty (sprint_yml ''redirect-https.redirect-address''))
      \<lparr>rp_beanName = ''redirect-https'', redirectAddr = '''', redirectSuffix = ''''\<rparr> = (e, page)"
    and "http_Bind resolve listen n (NewHttpServer (value_or_empty (sprint_yml ''control-gateway-server.bind-address'')) tls) = (None, srv)"
    and "literal_port resolve ''8443'' 8443"
  shows "e = None \<and> redirect_url host uri page = ''https://'' @ hd (SplitByte host (CHR '':'')) @ '':8443'' @ uri \<and>
    ListenAddress (http_listener srv) = ''0.0.0.0:'' @ Itoa (8443 + n) \<and>
    (ListenAddress (http_listener srv) = ''0.0.0.0'' @ redirectSuffix page \<longleftrightarrow> n = 0)"
  using redirect_suffix [OF assms(1)] gateway_listens [OF assms(2,3)] by (auto simp: redirect_url_def gateway_port_0 dest: gateway_port)

text \<open>A resolver that knows the two addresses of port 8443.\<close>

definition gateway_resolve :: "string \<Rightarrow> tcp_addr res" where
  "gateway_resolve a =
     (if a = ''0.0.0.0:8443'' then Inr \<lparr>IP = ''0.0.0.0'', Port = 8443\<rparr>
      else if a = ''127.0.0.1:8443'' then Inr \<lparr>IP = ''127.0.0.1'', Port = 8443\<rparr>
      else Inl (Errorf ''no such host''))"

theorem redirect_port_witness:
  "\<exists>srv page. http_Bind gateway_resolve (\<lambda>_. None) 1 (NewHttpServer '':8443'' False) = (None, srv) \<and>
     ListenAddress (http_listener srv) = ''0.0.0.0:'' @ Itoa (8443 + 1) \<and>
     redirect_url ''example.org:8081'' ''/x'' page = ''https://example.org:8443/x''"
proof -
  have y: "value_or_empty (sprint_yml ''control-gateway-server.bind-address'') = '':8443''"
    by (simp add: sprint_yml_def value_or_empty_def)
  have l: "literal_port gateway_resolve ''8443'' 8443" "plain_port ''8443''"
    by (simp_all add: literal_port_def gateway_resolve_def plain_port_def)
  then have "ParseAndAdjustTCPAddr gateway_resolve '':8443'' 1 = Inr \<lparr>IP = ''0.0.0.0'', Port = 8443 + 1\<rparr>"
    using adjust_literal [OF l, of "''''" 1] by simp
  then obtain srv where b: "http_Bind gateway_resolve (\<lambda>_. None) 1 (NewHttpServer '':8443'' False) = (None, srv)"
    by (simp add: http_Bind_def NewHttpServer_def Let_def)
  obtain e page where r: "redirect_PostConstruct (value_or_empty (sprint_yml ''redirect-https.redirect-address''))
      \<lparr>rp_beanName = ''redirect-https'', redirectAddr = '''', redirectSuffix = ''''\<rparr> = (e, page)" by fastforce
  have s: "hd (SplitByte ''example.org:8081'' (CHR '':'')) = ''example.org''" by code_simp
  show ?thesis
    using redirect_port [OF r b [folded y] l(1), of "''example.org:8081''" "''/x''"] b s by auto
qed

end
