(* ===== verification/Embedded.thy ===== *)
theory Embedded
  imports Bindata App_Resources
begin

text \<open>
  The three embedded packages of the program with their contents, as \<open>pkg/resources/bindata.go\<close>,
  \<open>pkg/assets/bindata.go\<close> and \<open>pkg/assetsgz/bindata.go\<close> hold them: the data of each file, the
  function that makes its asset, and the tables over which Bindata defines the packages'
  functions. Every package is well formed.
\<close>

section \<open>The files\<close>

definition licensesTxt_part1 :: "string list" where
  "licensesTxt_part1 =
     [''github.com/boltdb/bolt,https://github.com/boltdb/bolt/blob/v1.3.1/LICENSE,MIT'' @ [newline],
      ''github.com/cespare/xxhash,https://github.com/cespare/xxhash/blob/v1.1.0/LICENSE.txt,MIT'' @ [newline],
      ''github.com/cespare/xxhash/v2,https://github.com/cespare/xxhash/blob/v2.2.0/LICENSE.txt,MIT'' @ [newline],
      ''github.com/codeallergy/base62,Unknown,Unknown'' @ [newline],
      ''github.com/codeallergy/glue,Unknown,Unknown'' @ [newline],
      ''github.com/codeallergy/properties,Unknown,Unknown'' @ [newline],
      ''github.com/codeallergy/uuid,Unknown,Unknown'' @ [newline],
      ''github.com/dgraph-io/badger/v3,https://github.com/dgraph-io/badger/blob/v3.2103.5/LICENSE,Apache-2.0'' @ [newline],
      ''github.com/dgraph-io/ristretto,https://github.com/dgraph-io/ristretto/blob/v0.1.1/LICENSE,Apache-2.0'' @ [newline],
      ''github.com/dgraph-io/ristretto/z,https://github.com/dgraph-io/ristretto/blob/v0.1.1/z/LICENSE,MIT'' @ [newline],
      ''github.com/dustin/go-humanize,https://github.com/dustin/go-humanize/blob/v1.0.1/LICENSE,MIT'' @ [newline],
      ''github.com/fatih/color,https://github.com/fatih/color/blob/v1.13.0/LICENSE.md,MIT'' @ [newline],
      ''github.com/fsnotify/fsnotify,https://github.com/fsnotify/fsnotify/blob/v1.6.0/LICENSE,BSD-3-Clause'' @ [newline],
      ''github.com/gogo/protobuf/proto,https://github.com/gogo/protobuf/blob/v1.3.2/LICENSE,BSD-3-Clause'' @ [newline],
      ''github.com/golang-jwt/jwt,https://github.com/golang-jwt/jwt/blob/v3.2.2/LICENSE,MIT'' @ [newline],
      ''github.com/golang/glog,https://github.com/golang/glog/blob/v1.0.0/LICENSE,Apache-2.0'' @ [newline],
      ''github.com/golang/groupcache/lru,https://github.com/golang/groupcache/blob/41bb18bfe9da/LICENSE,Apache-2.0'' @ [newline],
      ''github.com/golang/protobuf,https://github.com/golang/protobuf/blob/v1.5.2/LICENSE,BSD-3-Clause'' @ [newline],
      ''github.com/golang/snappy,https://github.com/golang/snappy/blob/v0.0.4/LICENSE,BSD-3-Clause'' @ [newline],
      ''github.com/google/flatbuffers/go,https://github.com/google/flatbuffers/blob/v23.1.21/LICENSE.txt,Apache-2.0'' @ [newline],
      ''github.com/gorilla/mux,https://github.com/gorilla/mux/blob/v1.8.0/LICENSE,BSD-3-Clause'' @ [newline],
      ''github.com/grpc-ecosystem/go-grpc-middleware,https://github.com/grpc-ecosystem/go-grpc-middleware/blob/v1.3.0/LICENSE,Apache-2.0'' @ [newline],
      ''github.com/grpc-ecosystem/grpc-gateway,https://github.com/grpc-ecosystem/grpc-gateway/blob/v1.16.0/LICENSE.txt,BSD-3-Clause'' @ [newline],
      ''github.com/grpc-ecosystem/grpc-gateway/v2,https://github.com/grpc-ecosystem/grpc-gateway/blob/v2.15.2/LICENSE.txt,BSD-3-Clause'' @ [newline],
      ''github.com/hashicorp/go-hclog,https://github.com/hashicorp/go-hclog/blob/v1.5.0/LICENSE,MIT'' @ [newline],
      ''github.com/json-iterator/go,https://github.com/json-iterator/go/blob/v1.1.12/LICENSE,MIT'' @ [newline],
      ''github.com/keyvalstore/badgerstore,Unknown,Unknown'' @ [newline],
      ''github.com/keyvalstore/bboltstore,Unknown,Unknown'' @ [newline],
      ''github.com/keyvalstore/boltstore,Unknown,Unknown'' @ [newline],
      ''github.com/keyvalstore/cachestore,Unknown,Unknown'' @ [newline],
      ''github.com/keyvalstore/store,Unknown,Unknown'' @ [newline],
      ''github.com/klauspost/compress,https://github.com/klauspost/compress/blob/v1.16.0/LICENSE,Apache-2.0'' @ [newline],
      ''github.com/klauspost/compress/internal/snapref,https://github.com/klauspost/compress/blob/v1.16.0/internal/snapref/LICENSE,BSD-3-Clause'' @ [newline],
      ''github.com/klauspost/compress/zstd/internal/xxhash,https://github.com/klauspost/compress/blob/v1.16.0/zstd/internal/xxhash/LICENSE.txt,MIT'' @ [newline],
      ''github.com/mailgun/mailgun-go/v4,Unknown,Unknown'' @ [newline],
      ''github.com/mailgun/mailgun-go/v4/events,Unknown,Unknown'' @ [newline],
      ''github.com/mattn/go-colorable,https://github.com/mattn/go-colorable/blob/v0.1.12/LICENSE,MIT'' @ [newline],
      ''github.com/mattn/go-isatty,https://github.com/mattn/go-isatty/blob/v0.0.16/LICENSE,MIT'' @ [newline],
      ''github.com/modern-go/concurrent,https://github.com/modern-go/concurrent/blob/bacd9c7ef1dd/LICENSE,Apache-2.0'' @ [newline],
      ''github.com/modern-go/reflect2,https://github.com/modern-go/reflect2/blob/v1.0.2/LICENSE,Apache-2.0'' @ [newline]]"

definition licensesTxt_part2 :: "string list" where
  "licensesTxt_part2 =
     [''github.com/patrickmn/go-cache,https://github.com/patrickmn/go-cache/blob/v2.1.0/LICENSE,MIT'' @ [newline],
      ''github.com/pkg/errors,https://github.com/pkg/errors/blob/v0.9.1/LICENSE,BSD-2-Clause'' @ [newline],
      ''github.com/sprintframework/cert,Unknown,Unknown'' @ [newline],
      ''github.com/sprintframework/certpb,Unknown,Unknown'' @ [newline],
      ''github.com/sprintframework/dns,Unknown,Unknown'' @ [newline],
      ''github.com/sprintframework/nat,Unknown,Unknown'' @ [newline],
      ''github.com/sprintframework/sprint,Unknown,Unknown'' @ [newline],
      ''github.com/sprintframework/sprintframework,Unknown,Unknown'' @ [newline],
      ''github.com/sprintframework/sprintframework/pkg/app,Unknown,Unknown'' @ [newline],
      ''github.com/sprintframework/sprintframework/pkg/assets,Unknown,Unknown'' @ [newline],
      ''github.com/sprintframework/sprintframework/pkg/assetsgz,Unknown,Unknown'' @ [newline],
      ''github.com/sprintframework/sprintframework/pkg/client,Unknown,Unknown'' @ [newline],
      ''github.com/sprintframework/sprintframework/pkg/cmd,Unknown,Unknown'' @ [newline],
      ''github.com/sprintframework/sprintframework/pkg/core,Unknown,Unknown'' @ [newline],
      ''github.com/sprintframework/sprintframework/pkg/resources,Unknown,Unknown'' @ [newline],
      ''github.com/sprintframework/sprintframework/pkg/server,Unknown,Unknown'' @ [newline],
      ''github.com/sprintframework/sprintframework/pkg/util,Unknown,Unknown'' @ [newline],
      ''github.com/sprintframework/sprintpb,Unknown,Unknown'' @ [newline],
      ''go.etcd.io/bbolt,https://github.com/etcd-io/bbolt/blob/v1.3.7/LICENSE,MIT'' @ [newline],
      ''go.opencensus.io,https://github.com/census-instrumentation/opencensus-go/blob/v0.24.0/LICENSE,Apache-2.0'' @ [newline],
      ''go.uber.org/atomic,https://github.com/uber-go/atomic/blob/v1.10.0/LICENSE.txt,MIT'' @ [newline],
      ''go.uber.org/multierr,https://github.com/uber-go/multierr/blob/v1.9.0/LICENSE.txt,MIT'' @ [newline],
      ''go.uber.org/zap,https://github.com/uber-go/zap/blob/v1.24.0/LICENSE.txt,MIT'' @ [newline],
      ''golang.org/x/crypto,https://cs.opensource.google/go/x/crypto/+/v0.10.0:LICENSE,BSD-3-Clause'' @ [newline],
      ''golang.org/x/net,https://cs.opensource.google/go/x/net/+/v0.11.0:LICENSE,BSD-3-Clause'' @ [newline],
      ''golang.org/x/sync/errgroup,https://cs.opensource.google/go/x/sync/+/v0.3.0:LICENSE,BSD-3-Clause'' @ [newline],
      ''golang.org/x/sys/unix,https://cs.opensource.google/go/x/sys/+/v0.9.0:LICENSE,BSD-3-Clause'' @ [newline],
      ''golang.org/x/term,https://cs.opensource.google/go/x/term/+/v0.9.0:LICENSE,BSD-3-Clause'' @ [newline],
      ''golang.org/x/text,https://cs.opensource.google/go/x/text/+/v0.10.0:LICENSE,BSD-3-Clause'' @ [newline],
      ''google.golang.org/genproto,https://github.com/googleapis/go-genproto/blob/e74f57abe488/LICENSE,Apache-2.0'' @ [newline],
      ''google.golang.org/grpc,https://github.com/grpc/grpc-go/blob/v1.53.0/LICENSE,Apache-2.0'' @ [newline],
      ''google.golang.org/protobuf,https://github.com/protocolbuffers/protobuf-go/blob/v1.28.1/LICENSE,BSD-3-Clause'' @ [newline],
      ''gopkg.in/natefinch/lumberjack.v2,https://github.com/natefinch/lumberjack/blob/v2.2.1/LICENSE,MIT'' @ [newline],
      ''gopkg.in/yaml.v3,https://github.com/go-yaml/yaml/blob/v3.0.1/LICENSE,MIT'' @ [newline]]"

definition licensesTxt_data :: bytes where
  "licensesTxt_data = concat (licensesTxt_part1 @ licensesTxt_part2)"

definition licensesTxtBytes :: "bytes res" where
  "licensesTxtBytes = bindataRead licensesTxt_data ''licenses.txt''"

definition licensesTxt :: "asset res" where
  "licensesTxt =
     (case licensesTxtBytes of
        Inl err \<Rightarrow> Inl err
      | Inr bytes \<Rightarrow>
          (let info = \<lparr>fi_name = ''licenses.txt'', fi_size = 6029, fi_mode = 420, fi_modTime = 1695419808\<rparr>
           in Inr \<lparr>asset_bytes = bytes, asset_info = info\<rparr>))"

definition openapiCertificatesSwaggerJson_part1 :: "string list" where
  "openapiCertificatesSwaggerJson_part1 =
     [''{'' @ [newline],
      ''  \"swagger\": \"2.0\",'' @ [newline],
      ''  \"info\": {'' @ [newline],
      ''    \"title\": \"certificates.proto\",'' @ [newline],
      ''    \"version\": \"version not set\"'' @ [newline],
      ''  },'' @ [newline],
      ''  \"consumes\": ['' @ [newline],
      ''    \"application/json\"'' @ [newline],
      ''  ],'' @ [newline],
      ''  \"produces\": ['' @ [newline],
      ''    \"application/json\"'' @ [newline],
      ''  ],'' @ [newline],
      ''  \"paths\": {},'' @ [newline],
      ''  \"definitions\": {'' @ [newline],
      ''    \"protobufAny\": {'' @ [newline],
      ''      \"type\": \"object\",'' @ [newline],
      ''      \"properties\": {'' @ [newline],
      ''        \"@type\": {'' @ [newline],
      ''          \"type\": \"string\"'' @ [newline],
      ''        }'' @ [newline],
      ''      },'' @ [newline],
      ''      \"additionalProperties\": {}'' @ [newline],
      ''    },'' @ [newline],
      ''    \"rpcStatus\": {'' @ [newline],
      ''      \"type\": \"object\",'' @ [newline],
      ''      \"properties\": {'' @ [newline],
      ''        \"code\": {'' @ [newline],
      ''          \"type\": \"integer\",'' @ [newline],
      ''          \"format\": \"int32\"'' @ [newline],
      ''        },'' @ [newline],
      ''        \"message\": {'' @ [newline],
      ''          \"type\": \"string\"'' @ [newline],
      ''        },'' @ [newline],
      ''        \"details\": {'' @ [newline],
      ''          \"type\": \"array\",'' @ [newline],
      ''          \"items\": {'' @ [newline],
      ''            \"$ref\": \"#/definitions/protobufAny\"'' @ [newline],
      ''          }'' @ [newline],
      ''        }'' @ [newline],
      ''      }'' @ [newline]]"

definition openapiCertificatesSwaggerJson_part2 :: "string list" where
  "openapiCertificatesSwaggerJson_part2 =
     [''    }'' @ [newline],
      ''  }'' @ [newline],
      ''}'' @ [newline]]"

definition openapiCertificatesSwaggerJson_data :: bytes where
  "openapiCertificatesSwaggerJson_data = concat (openapiCertificatesSwaggerJson_part1 @ openapiCertificatesSwaggerJson_part2)"

definition openapiCertificatesSwaggerJsonBytes :: "bytes res" where
  "openapiCertificatesSwaggerJsonBytes = bindataRead openapiCertificatesSwaggerJson_data ''openapi/certificates.swagger.json''"

definition openapiCertificatesSwaggerJson :: "asset res" where
  "openapiCertificatesSwaggerJson =
     (case openapiCertificatesSwaggerJsonBytes of
        Inl err \<Rightarrow> Inl err
      | Inr bytes \<Rightarrow>
          (let info = \<lparr>fi_name = ''openapi/certificates.swagger.json'', fi_size = 770, fi_mode = 420, fi_modTime = 1687643533\<rparr>
           in Inr \<lparr>asset_bytes = bytes, asset_info = info\<rparr>))"

definition openapiControlSwaggerJson_part1 :: "string list" where
  "openapiControlSwaggerJson_part1 =
     [''{'' @ [newline],
      ''  \"swagger\": \"2.0\",'' @ [newline],
      ''  \"info\": {'' @ [newline],
      ''    \"title\": \"ControlService\",'' @ [newline],
      ''    \"version\": \"1.0\",'' @ [newline],
      ''    \"contact\": {'' @ [newline],
      ''      \"name\": \"ControlService\",'' @ [newline],
      ''      \"url\": \"https://github.com/sprintframework/sprintframework\",'' @ [newline],
      ''      \"email\": \"zander@schwid.com\"'' @ [newline],
      ''    }'' @ [newline],
      ''  },'' @ [newline],
      ''  \"tags\": ['' @ [newline],
      ''    {'' @ [newline],
      ''      \"name\": \"ControlService\"'' @ [newline],
      ''    }'' @ [newline],
      ''  ],'' @ [newline],
      ''  \"schemes\": ['' @ [newline],
      ''    \"http\",'' @ [newline],
      ''    \"https\"'' @ [newline],
      ''  ],'' @ [newline],
      ''  \"consumes\": ['' @ [newline],
      ''    \"application/json\",'' @ [newline],
      ''    \"application/octet-stream\"'' @ [newline],
      ''  ],'' @ [newline],
      ''  \"produces\": ['' @ [newline],
      ''    \"application/json\",'' @ [newline],
      ''    \"application/octet-stream\"'' @ [newline],
      ''  ],'' @ [newline],
      ''  \"paths\": {'' @ [newline],
      ''    \"/api/v1/certificate\": {'' @ [newline],
      ''      \"put\": {'' @ [newline],
      ''        \"summary\": \"Certificate management commands\",'' @ [newline],
      ''        \"operationId\": \"ControlService_Certificate\",'' @ [newline],
      ''        \"responses\": {'' @ [newline],
      ''          \"200\": {'' @ [newline],
      ''            \"description\": \"A successful response.\",'' @ [newline],
      ''            \"schema\": {'' @ [newline],
      ''              \"$ref\": \"#/definitions/nodeCommandResult\"'' @ [newline],
      ''            }'' @ [newline],
      ''          },'' @ [newline]]"

definition openapiControlSwaggerJson_part2 :: "string list" where
  "openapiControlSwaggerJson_part2 =
     [''          \"default\": {'' @ [newline],
      ''            \"description\": \"An unexpected error response.\",'' @ [newline],
      ''            \"schema\": {'' @ [newline],
      ''              \"$ref\": \"#/definitions/rpcStatus\"'' @ [newline],
      ''            }'' @ [newline],
      ''          }'' @ [newline],
      ''        },'' @ [newline],
      ''        \"parameters\": ['' @ [newline],
      ''          {'' @ [newline],
      ''            \"name\": \"body\",'' @ [newline],
      ''            \"in\": \"body\",'' @ [newline],
      ''            \"required\": true,'' @ [newline],
      ''            \"schema\": {'' @ [newline],
      ''              \"$ref\": \"#/definitions/nodeCommand\"'' @ [newline],
      ''            }'' @ [newline],
      ''          }'' @ [newline],
      ''        ],'' @ [newline],
      ''        \"tags\": ['' @ [newline],
      ''          \"ControlService\"'' @ [newline],
      ''        ]'' @ [newline],
      ''      }'' @ [newline],
      ''    },'' @ [newline],
      ''    \"/api/v1/config\": {'' @ [newline],
      ''      \"put\": {'' @ [newline],
      ''        \"summary\": \"Config management commands\",'' @ [newline],
      ''        \"operationId\": \"ControlService_Config\",'' @ [newline],
      ''        \"responses\": {'' @ [newline],
      ''          \"200\": {'' @ [newline],
      ''            \"description\": \"A successful response.\",'' @ [newline],
      ''            \"schema\": {'' @ [newline],
      ''              \"$ref\": \"#/definitions/nodeCommandResult\"'' @ [newline],
      ''            }'' @ [newline],
      ''          },'' @ [newline],
      ''          \"default\": {'' @ [newline],
      ''            \"description\": \"An unexpected error response.\",'' @ [newline],
      ''            \"schema\": {'' @ [newline],
      ''              \"$ref\": \"#/definitions/rpcStatus\"'' @ [newline],
      ''            }'' @ [newline],
      ''          }'' @ [newline],
      ''        },'' @ [newline]]"

definition openapiControlSwaggerJson_part3 :: "string list" where
  "openapiControlSwaggerJson_part3 =
     [''        \"parameters\": ['' @ [newline],
      ''          {'' @ [newline],
      ''            \"name\": \"body\",'' @ [newline],
      ''            \"in\": \"body\",'' @ [newline],
      ''            \"required\": true,'' @ [newline],
      ''            \"schema\": {'' @ [newline],
      ''              \"$ref\": \"#/definitions/nodeCommand\"'' @ [newline],
      ''            }'' @ [newline],
      ''          }'' @ [newline],
      ''        ],'' @ [newline],
      ''        \"tags\": ['' @ [newline],
      ''          \"ControlService\"'' @ [newline],
      ''        ]'' @ [newline],
      ''      }'' @ [newline],
      ''    },'' @ [newline],
      ''    \"/api/v1/job\": {'' @ [newline],
      ''      \"put\": {'' @ [newline],
      ''        \"summary\": \"Job commands\",'' @ [newline],
      ''        \"operationId\": \"ControlService_Job\",'' @ [newline],
      ''        \"responses\": {'' @ [newline],
      ''          \"200\": {'' @ [newline],
      ''            \"description\": \"A successful response.\",'' @ [newline],
      ''            \"schema\": {'' @ [newline],
      ''              \"$ref\": \"#/definitions/nodeCommandResult\"'' @ [newline],
      ''            }'' @ [newline],
      ''          },'' @ [newline],
      ''          \"default\": {'' @ [newline],
      ''            \"description\": \"An unexpected error response.\",'' @ [newline],
      ''            \"schema\": {'' @ [newline],
      ''              \"$ref\": \"#/definitions/rpcStatus\"'' @ [newline],
      ''            }'' @ [newline],
      ''          }'' @ [newline],
      ''        },'' @ [newline],
      ''        \"parameters\": ['' @ [newline],
      ''          {'' @ [newline],
      ''            \"name\": \"body\",'' @ [newline],
      ''            \"in\": \"body\",'' @ [newline],
      ''            \"required\": true,'' @ [newline],
      ''            \"schema\": {'' @ [newline],
      ''              \"$ref\": \"#/definitions/nodeCommand\"'' @ [newline]]"

definition openapiControlSwaggerJson_part4 :: "string list" where
  "openapiControlSwaggerJson_part4 =
     [''            }'' @ [newline],
      ''          }'' @ [newline],
      ''        ],'' @ [newline],
      ''        \"tags\": ['' @ [newline],
      ''          \"ControlService\"'' @ [newline],
      ''        ]'' @ [newline],
      ''      }'' @ [newline],
      ''    },'' @ [newline],
      ''    \"/api/v1/node\": {'' @ [newline],
      ''      \"put\": {'' @ [newline],
      ''        \"summary\": \"Node management commands\",'' @ [newline],
      ''        \"operationId\": \"ControlService_Node\",'' @ [newline],
      ''        \"responses\": {'' @ [newline],
      ''          \"200\": {'' @ [newline],
      ''            \"description\": \"A successful response.\",'' @ [newline],
      ''            \"schema\": {'' @ [newline],
      ''              \"$ref\": \"#/definitions/nodeCommandResult\"'' @ [newline],
      ''            }'' @ [newline],
      ''          },'' @ [newline],
      ''          \"default\": {'' @ [newline],
      ''            \"description\": \"An unexpected error response.\",'' @ [newline],
      ''            \"schema\": {'' @ [newline],
      ''              \"$ref\": \"#/definitions/rpcStatus\"'' @ [newline],
      ''            }'' @ [newline],
      ''          }'' @ [newline],
      ''        },'' @ [newline],
      ''        \"parameters\": ['' @ [newline],
      ''          {'' @ [newline],
      ''            \"name\": \"body\",'' @ [newline],
      ''            \"in\": \"body\",'' @ [newline],
      ''            \"required\": true,'' @ [newline],
      ''            \"schema\": {'' @ [newline],
      ''              \"$ref\": \"#/definitions/nodeCommand\"'' @ [newline],
      ''            }'' @ [newline],
      ''          }'' @ [newline],
      ''        ],'' @ [newline],
      ''        \"tags\": ['' @ [newline],
      ''          \"ControlService\"'' @ [newline],
      ''        ]'' @ [newline],
      ''      }'' @ [newline]]"

definition openapiControlSwaggerJson_part5 :: "string list" where
  "openapiControlSwaggerJson_part5 =
     [''    },'' @ [newline],
      ''    \"/api/v1/status\": {'' @ [newline],
      ''      \"get\": {'' @ [newline],
      ''        \"summary\": \"Gets status info\",'' @ [newline],
      ''        \"operationId\": \"ControlService_Status\",'' @ [newline],
      ''        \"responses\": {'' @ [newline],
      ''          \"200\": {'' @ [newline],
      ''            \"description\": \"A successful response.\",'' @ [newline],
      ''            \"schema\": {'' @ [newline],
      ''              \"$ref\": \"#/definitions/nodeStatusResponse\"'' @ [newline],
      ''            }'' @ [newline],
      ''          },'' @ [newline],
      ''          \"default\": {'' @ [newline],
      ''            \"description\": \"An unexpected error response.\",'' @ [newline],
      ''            \"schema\": {'' @ [newline],
      ''              \"$ref\": \"#/definitions/rpcStatus\"'' @ [newline],
      ''            }'' @ [newline],
      ''          }'' @ [newline],
      ''        },'' @ [newline],
      ''        \"tags\": ['' @ [newline],
      ''          \"ControlService\"'' @ [newline],
      ''        ]'' @ [newline],
      ''      }'' @ [newline],
      ''    },'' @ [newline],
      ''    \"/api/v1/storage\": {'' @ [newline],
      ''      \"put\": {'' @ [newline],
      ''        \"summary\": \"Storage management commands\",'' @ [newline],
      ''        \"operationId\": \"ControlService_Storage\",'' @ [newline],
      ''        \"responses\": {'' @ [newline],
      ''          \"200\": {'' @ [newline],
      ''            \"description\": \"A successful response.\",'' @ [newline],
      ''            \"schema\": {'' @ [newline],
      ''              \"$ref\": \"#/definitions/nodeCommandResult\"'' @ [newline],
      ''            }'' @ [newline],
      ''          },'' @ [newline],
      ''          \"default\": {'' @ [newline],
      ''            \"description\": \"An unexpected error response.\",'' @ [newline],
      ''            \"schema\": {'' @ [newline],
      ''              \"$ref\": \"#/definitions/rpcStatus\"'' @ [newline],
      ''            }'' @ [newline]]"

definition openapiControlSwaggerJson_part6 :: "string list" where
  "openapiControlSwaggerJson_part6 =
     [''          }'' @ [newline],
      ''        },'' @ [newline],
      ''        \"parameters\": ['' @ [newline],
      ''          {'' @ [newline],
      ''            \"name\": \"body\",'' @ [newline],
      ''            \"in\": \"body\",'' @ [newline],
      ''            \"required\": true,'' @ [newline],
      ''            \"schema\": {'' @ [newline],
      ''              \"$ref\": \"#/definitions/nodeCommand\"'' @ [newline],
      ''            }'' @ [newline],
      ''          }'' @ [newline],
      ''        ],'' @ [newline],
      ''        \"tags\": ['' @ [newline],
      ''          \"ControlService\"'' @ [newline],
      ''        ]'' @ [newline],
      ''      }'' @ [newline],
      ''    },'' @ [newline],
      ''    \"/api/v1/storage/console\": {'' @ [newline],
      ''      \"put\": {'' @ [newline],
      ''        \"summary\": \"Storage console\",'' @ [newline],
      ''        \"operationId\": \"ControlService_StorageConsole\",'' @ [newline],
      ''        \"responses\": {'' @ [newline],
      ''          \"200\": {'' @ [newline],
      ''            \"description\": \"A successful response.(streaming responses)\",'' @ [newline],
      ''            \"schema\": {'' @ [newline],
      ''              \"type\": \"object\",'' @ [newline],
      ''              \"properties\": {'' @ [newline],
      ''                \"result\": {'' @ [newline],
      ''                  \"$ref\": \"#/definitions/nodeStorageConsoleResponse\"'' @ [newline],
      ''                },'' @ [newline],
      ''                \"error\": {'' @ [newline],
      ''                  \"$ref\": \"#/definitions/rpcStatus\"'' @ [newline],
      ''                }'' @ [newline],
      ''              },'' @ [newline],
      ''              \"title\": \"Stream result of nodeStorageConsoleResponse\"'' @ [newline],
      ''            }'' @ [newline],
      ''          },'' @ [newline],
      ''          \"default\": {'' @ [newline],
      ''            \"description\": \"An unexpected error response.\",'' @ [newline],
      ''            \"schema\": {'' @ [newline]]"

definition openapiControlSwaggerJson_part7 :: "string list" where
  "openapiControlSwaggerJson_part7 =
     [''              \"$ref\": \"#/definitions/rpcStatus\"'' @ [newline],
      ''            }'' @ [newline],
      ''          }'' @ [newline],
      ''        },'' @ [newline],
      ''        \"parameters\": ['' @ [newline],
      ''          {'' @ [newline],
      ''            \"name\": \"body\",'' @ [newline],
      ''            \"description\": \" (streaming inputs)\",'' @ [newline],
      ''            \"in\": \"body\",'' @ [newline],
      ''            \"required\": true,'' @ [newline],
      ''            \"schema\": {'' @ [newline],
      ''              \"$ref\": \"#/definitions/nodeStorageConsoleRequest\"'' @ [newline],
      ''            }'' @ [newline],
      ''          }'' @ [newline],
      ''        ],'' @ [newline],
      ''        \"tags\": ['' @ [newline],
      ''          \"ControlService\"'' @ [newline],
      ''        ]'' @ [newline],
      ''      }'' @ [newline],
      ''    }'' @ [newline],
      ''  },'' @ [newline],
      ''  \"definitions\": {'' @ [newline],
      ''    \"nodeCommand\": {'' @ [newline],
      ''      \"type\": \"object\",'' @ [newline],
      ''      \"properties\": {'' @ [newline],
      ''        \"command\": {'' @ [newline],
      ''          \"type\": \"string\"'' @ [newline],
      ''        },'' @ [newline],
      ''        \"args\": {'' @ [newline],
      ''          \"type\": \"array\",'' @ [newline],
      ''          \"items\": {'' @ [newline],
      ''            \"type\": \"string\"'' @ [newline],
      ''          }'' @ [newline],
      ''        }'' @ [newline],
      ''      }'' @ [newline],
      ''    },'' @ [newline],
      ''    \"nodeCommandResult\": {'' @ [newline],
      ''      \"type\": \"object\",'' @ [newline],
      ''      \"properties\": {'' @ [newline],
      ''        \"content\": {'' @ [newline]]"

definition openapiControlSwaggerJson_part8 :: "string list" where
  "openapiControlSwaggerJson_part8 =
     [''          \"type\": \"string\"'' @ [newline],
      ''        }'' @ [newline],
      ''      }'' @ [newline],
      ''    },'' @ [newline],
      ''    \"nodeStatusResponse\": {'' @ [newline],
      ''      \"type\": \"object\",'' @ [newline],
      ''      \"properties\": {'' @ [newline],
      ''        \"stats\": {'' @ [newline],
      ''          \"type\": \"object\",'' @ [newline],
      ''          \"additionalProperties\": {'' @ [newline],
      ''            \"type\": \"string\"'' @ [newline],
      ''          }'' @ [newline],
      ''        }'' @ [newline],
      ''      }'' @ [newline],
      ''    },'' @ [newline],
      ''    \"nodeStorageConsoleRequest\": {'' @ [newline],
      ''      \"type\": \"object\",'' @ [newline],
      ''      \"properties\": {'' @ [newline],
      ''        \"query\": {'' @ [newline],
      ''          \"type\": \"string\"'' @ [newline],
      ''        }'' @ [newline],
      ''      }'' @ [newline],
      ''    },'' @ [newline],
      ''    \"nodeStorageConsoleResponse\": {'' @ [newline],
      ''      \"type\": \"object\",'' @ [newline],
      ''      \"properties\": {'' @ [newline],
      ''        \"status\": {'' @ [newline],
      ''          \"type\": \"integer\",'' @ [newline],
      ''          \"format\": \"int32\"'' @ [newline],
      ''        },'' @ [newline],
      ''        \"content\": {'' @ [newline],
      ''          \"type\": \"string\"'' @ [newline],
      ''        }'' @ [newline],
      ''      }'' @ [newline],
      ''    },'' @ [newline],
      ''    \"protobufAny\": {'' @ [newline],
      ''      \"type\": \"object\",'' @ [newline],
      ''      \"properties\": {'' @ [newline],
      ''        \"@type\": {'' @ [newline],
      ''          \"type\": \"string\"'' @ [newline]]"

definition openapiControlSwaggerJson_part9 :: "string list" where
  "openapiControlSwaggerJson_part9 =
     [''        }'' @ [newline],
      ''      },'' @ [newline],
      ''      \"additionalProperties\": {}'' @ [newline],
      ''    },'' @ [newline],
      ''    \"rpcStatus\": {'' @ [newline],
      ''      \"type\": \"object\",'' @ [newline],
      ''      \"properties\": {'' @ [newline],
      ''        \"code\": {'' @ [newline],
      ''          \"type\": \"integer\",'' @ [newline],
      ''          \"format\": \"int32\"'' @ [newline],
      ''        },'' @ [newline],
      ''        \"message\": {'' @ [newline],
      ''          \"type\": \"string\"'' @ [newline],
      ''        },'' @ [newline],
      ''        \"details\": {'' @ [newline],
      ''          \"type\": \"array\",'' @ [newline],
      ''          \"items\": {'' @ [newline],
      ''            \"$ref\": \"#/definitions/protobufAny\"'' @ [newline],
      ''          }'' @ [newline],
      ''        }'' @ [newline],
      ''      }'' @ [newline],
      ''    }'' @ [newline],
      ''  }'' @ [newline],
      ''}'' @ [newline]]"

definition openapiControlSwaggerJson_data :: bytes where
  "openapiControlSwaggerJson_data = concat (openapiControlSwaggerJson_part1 @ openapiControlSwaggerJson_part2 @ openapiControlSwaggerJson_part3 @ openapiControlSwaggerJson_part4 @ openapiControlSwaggerJson_part5 @ openapiControlSwaggerJson_part6 @ openapiControlSwaggerJson_part7 @ openapiControlSwaggerJson_part8 @ openapiControlSwaggerJson_part9)"

definition openapiControlSwaggerJsonBytes :: "bytes res" where
  "openapiControlSwaggerJsonBytes = bindataRead openapiControlSwaggerJson_data ''openapi/control.swagger.json''"

definition openapiControlSwaggerJson :: "asset res" where
  "openapiControlSwaggerJson =
     (case openapiControlSwaggerJsonBytes of
        Inl err \<Rightarrow> Inl err
      | Inr bytes \<Rightarrow>
          (let info = \<lparr>fi_name = ''openapi/control.swagger.json'', fi_size = 8069, fi_mode = 420, fi_modTime = 1687650916\<rparr>
           in Inr \<lparr>asset_bytes = bytes, asset_info = info\<rparr>))"

definition sprintYml_data :: bytes where
  "sprintYml_data = concat
     [''application:'' @ [newline],
      ''  package: \"github.com/sprintframework/sprintframework\"'' @ [newline],
      ''  company: \"CodeAllergy\"'' @ [newline],
      ''  copyright: \"Copyright (c) 2022 Zander Schwid & Co. LLC. All rights reserved.\"'' @ [newline],
      ''  nat: \"no\"'' @ [newline],
      ''  bootstrap-tokens: \"boot\"'' @ [newline],
      [newline],
      ''secure-store:'' @ [newline],
      ''  split-key-value: false'' @ [newline],
      [newline],
      ''control-grpc-server:'' @ [newline],
      ''  bind-address: \":8543\"'' @ [newline],
      [newline],
      ''control-gateway-server:'' @ [newline],
      ''  bind-address: \":8443\"'' @ [newline],
      ''  options: \"gateway;pages;assets;gzip\"'' @ [newline],
      [newline],
      ''redirect-https:'' @ [newline],
      ''  bind-address: \":8080\"'' @ [newline],
      ''  redirect-address: \"127.0.0.1:8443\"'' @ [newline],
      ''  options: \"pages\"'' @ [newline],
      [newline],
      ''lumberjack:'' @ [newline],
      ''  rotate-on-start: true'' @ [newline],
      [newline],
      ''tls-config:'' @ [newline],
      ''  insecure: true'' @ [newline],
      [newline],
      ''client-tls-config:'' @ [newline],
      ''  insecure: true'' @ [newline]]"

definition sprintYmlBytes :: "bytes res" where
  "sprintYmlBytes = bindataRead sprintYml_data ''sprint.yml''"

definition sprintYml :: "asset res" where
  "sprintYml =
     (case sprintYmlBytes of
        Inl err \<Rightarrow> Inl err
      | Inr bytes \<Rightarrow>
          (let info = \<lparr>fi_name = ''sprint.yml'', fi_size = 588, fi_mode = 420, fi_modTime = 1695506888\<rparr>
           in Inr \<lparr>asset_bytes = bytes, asset_info = info\<rparr>))"

definition templatesIndexTmpl_part1 :: "string list" where
  "templatesIndexTmpl_part1 =
     [''<!DOCTYPE html>'' @ [newline],
      ''<html lang=\"en\">'' @ [newline],
      [newline],
      ''<head>'' @ [newline],
      ''  <meta charset=\"UTF-8\">'' @ [newline],
      ''  <title>Sauce Framework</title>'' @ [newline],
      ''  <link href=\"https://fonts.googleapis.com/css?family=Open+Sans:400,700|Source+Code+Pro:300,600|Titillium+Web:400,600,700\" rel=\"stylesheet\">'' @ [newline],
      ''</head>'' @ [newline],
      [newline],
      ''<body>'' @ [newline],
      [newline],
      ''<dir id=\"root\">'' @ [newline],
      ''    <h4>Welcome to Sauce Framework</h4>'' @ [newline],
      [newline],
      ''    <p>Request:</p>'' @ [newline],
      ''    <ul>'' @ [newline],
      ''        <li><strong>RemoteAddr</strong>: {{ .RemoteAddr }}</li>'' @ [newline],
      ''        <li><strong>RequestURI</strong>: {{ .RequestURI }}</li>'' @ [newline],
      ''        <li><strong>Method</strong>: {{ .Method }}</li>'' @ [newline],
      ''        <li><strong>Proto</strong>: {{ .Proto }}</li>'' @ [newline],
      ''        <li><strong>Host</strong>: {{ .Host }}</li>'' @ [newline],
      ''    </ul>'' @ [newline],
      [newline],
      ''    <p>Form:</p>'' @ [newline],
      ''    <ul>'' @ [newline],
      ''    {{ range $key, $value := .Form }}'' @ [newline],
      ''       <li><strong>{{ $key }}</strong>: {{ $value }}</li>'' @ [newline],
      ''    {{ end }}'' @ [newline],
      ''    </ul>'' @ [newline],
      [newline],
      ''    <p>Headers:</p>'' @ [newline],
      ''    <ul>'' @ [newline],
      ''    {{ range $key, $value := .Header }}'' @ [newline],
      ''       <li><strong>{{ $key }}</strong>: {{ $value }}</li>'' @ [newline],
      ''    {{ end }}'' @ [newline],
      ''    </ul>'' @ [newline],
      [newline],
      ''</div>'' @ [newline],
      [newline],
      ''</body>'' @ [newline]]"

definition templatesIndexTmpl_part2 :: "string list" where
  "templatesIndexTmpl_part2 =
     [[newline],
      ''</html>'' @ [newline]]"

definition templatesIndexTmpl_data :: bytes where
  "templatesIndexTmpl_data = concat (templatesIndexTmpl_part1 @ templatesIndexTmpl_part2)"

definition templatesIndexTmplBytes :: "bytes res" where
  "templatesIndexTmplBytes = bindataRead templatesIndexTmpl_data ''templates/index.tmpl''"

definition templatesIndexTmpl :: "asset res" where
  "templatesIndexTmpl =
     (case templatesIndexTmplBytes of
        Inl err \<Rightarrow> Inl err
      | Inr bytes \<Rightarrow>
          (let info = \<lparr>fi_name = ''templates/index.tmpl'', fi_size = 968, fi_mode = 420, fi_modTime = 1687643533\<rparr>
           in Inr \<lparr>asset_bytes = bytes, asset_info = info\<rparr>))"

definition robotsTxt_data :: bytes where
  "robotsTxt_data = concat
     [''User-agent: *'' @ [newline],
      ''Disallow: /api/'' @ [newline]]"

definition robotsTxtBytes :: "bytes res" where
  "robotsTxtBytes = bindataRead robotsTxt_data ''robots.txt''"

definition robotsTxt :: "asset res" where
  "robotsTxt =
     (case robotsTxtBytes of
        Inl err \<Rightarrow> Inl err
      | Inr bytes \<Rightarrow>
          (let info = \<lparr>fi_name = ''robots.txt'', fi_size = 30, fi_mode = 420, fi_modTime = 1687643533\<rparr>
           in Inr \<lparr>asset_bytes = bytes, asset_info = info\<rparr>))"

definition robotsTxtGz_data :: bytes where
  "robotsTxtGz_data = concat
     [[CHR 0x1F, CHR 0x8B, CHR 0x08, CHR 0x00, CHR 0x00, CHR 0x00, CHR 0x00, CHR 0x00, CHR 0x00, CHR 0xFF, CHR 0x0A, CHR 0x2D],
      [CHR 0x4E, CHR 0x2D, CHR 0xD2, CHR 0x4D, CHR 0x4C, CHR 0x4F, CHR 0xCD, CHR 0x2B, CHR 0xB1, CHR 0x52, CHR 0xD0, CHR 0xE2],
      [CHR 0x72, CHR 0xC9, CHR 0x2C, CHR 0x4E, CHR 0xCC, CHR 0xC9, CHR 0xC9, CHR 0x2F, CHR 0xB7, CHR 0x52, CHR 0xD0, CHR 0x4F],
      [CHR 0x2C, CHR 0xC8, CHR 0xD4, CHR 0xE7, CHR 0x02, CHR 0x04, CHR 0x00, CHR 0x00, CHR 0xFF, CHR 0xFF, CHR 0xB6, CHR 0xDC],
      [CHR 0x1B, CHR 0x71, CHR 0x1E, CHR 0x00, CHR 0x00, CHR 0x00]]"

definition robotsTxtGzBytes :: "bytes res" where
  "robotsTxtGzBytes = bindataRead robotsTxtGz_data ''robots.txt''"

definition robotsTxtGz :: "asset res" where
  "robotsTxtGz =
     (case robotsTxtGzBytes of
        Inl err \<Rightarrow> Inl err
      | Inr bytes \<Rightarrow>
          (let info = \<lparr>fi_name = ''robots.txt'', fi_size = 54, fi_mode = 420, fi_modTime = 1687643533\<rparr>
           in Inr \<lparr>asset_bytes = bytes, asset_info = info\<rparr>))"

section \<open>The tables\<close>

definition resources_bindata :: "(string \<times> asset res) list" where
  "resources_bindata =
     [(''licenses.txt'', licensesTxt),
      (''openapi/certificates.swagger.json'', openapiCertificatesSwaggerJson),
      (''openapi/control.swagger.json'', openapiControlSwaggerJson),
      (''sprint.yml'', sprintYml),
      (''templates/index.tmpl'', templatesIndexTmpl)]"

definition resources_bintree :: bintree where
  "resources_bintree = Bintree None
     [(''licenses.txt'', Bintree (Some licensesTxt) []),
      (''openapi'', Bintree None
        [(''certificates.swagger.json'', Bintree (Some openapiCertificatesSwaggerJson) []),
         (''control.swagger.json'', Bintree (Some openapiControlSwaggerJson) [])]),
      (''sprint.yml'', Bintree (Some sprintYml) []),
      (''templates'', Bintree None
        [(''index.tmpl'', Bintree (Some templatesIndexTmpl) [])])]"

definition assets_bindata :: "(string \<times> asset res) list" where
  "assets_bindata = [(''robots.txt'', robotsTxt)]"

definition assets_bintree :: bintree where
  "assets_bintree = Bintree None [(''robots.txt'', Bintree (Some robotsTxt) [])]"

definition assetsgz_bindata :: "(string \<times> asset res) list" where
  "assetsgz_bindata = [(''robots.txt'', robotsTxtGz)]"

definition assetsgz_bintree :: bintree where
  "assetsgz_bintree = Bintree None [(''robots.txt'', Bintree (Some robotsTxtGz) [])]"

definition resources_package :: package where
  "resources_package = \<lparr>pk_bindata = resources_bindata, pk_bintree = resources_bintree\<rparr>"

definition assets_package :: package where
  "assets_package = \<lparr>pk_bindata = assets_bindata, pk_bintree = assets_bintree\<rparr>"

definition assetsgz_package :: package where
  "assetsgz_package = \<lparr>pk_bindata = assetsgz_bindata, pk_bintree = assetsgz_bintree\<rparr>"

section \<open>What the packages offer\<close>

text \<open>\<open>AssetNames\<close> and the file system \<open>AssetFile\<close> of each package.\<close>

definition resources_AssetNames :: "map_range \<Rightarrow> string list" where
  "resources_AssetNames ord = bindata_names ord resources_package"

definition resources_AssetFile :: "map_range \<Rightarrow> string \<Rightarrow> assetFile res" where
  "resources_AssetFile ord = bindata_Open ord resources_package"

definition assets_AssetNames :: "map_range \<Rightarrow> string list" where
  "assets_AssetNames ord = bindata_names ord assets_package"

definition assets_AssetFile :: "map_range \<Rightarrow> string \<Rightarrow> assetFile res" where
  "assets_AssetFile ord = bindata_Open ord assets_package"

definition assetsgz_AssetNames :: "map_range \<Rightarrow> string list" where
  "assetsgz_AssetNames ord = bindata_names ord assetsgz_package"

definition assetsgz_AssetFile :: "map_range \<Rightarrow> string \<Rightarrow> assetFile res" where
  "assetsgz_AssetFile ord = bindata_Open ord assetsgz_package"

lemmas AssetFile_defs = resources_AssetFile_def assets_AssetFile_def assetsgz_AssetFile_def

lemmas AssetNames_defs = resources_AssetNames_def assets_AssetNames_def assetsgz_AssetNames_def

section \<open>The packages are well formed\<close>

lemma licensesTxt_part1_length: "sum_list (map length licensesTxt_part1) = 3442"
  by (simp add: licensesTxt_part1_def)

lemma licensesTxt_part2_length: "sum_list (map length licensesTxt_part2) = 2587"
  by (simp add: licensesTxt_part2_def)

lemma openapiCertificatesSwaggerJson_part1_length: "sum_list (map length openapiCertificatesSwaggerJson_part1) = 758"
  by (simp add: openapiCertificatesSwaggerJson_part1_def)

lemma openapiCertificatesSwaggerJson_part2_length: "sum_list (map length openapiCertificatesSwaggerJson_part2) = 12"
  by (simp add: openapiCertificatesSwaggerJson_part2_def)

lemma openapiControlSwaggerJson_part1_length: "sum_list (map length openapiControlSwaggerJson_part1) = 871"
  by (simp add: openapiControlSwaggerJson_part1_def)

lemma openapiControlSwaggerJson_part2_length: "sum_list (map length openapiControlSwaggerJson_part2) = 1023"
  by (simp add: openapiControlSwaggerJson_part2_def)

lemma openapiControlSwaggerJson_part3_length: "sum_list (map length openapiControlSwaggerJson_part3) = 1005"
  by (simp add: openapiControlSwaggerJson_part3_def)

lemma openapiControlSwaggerJson_part4_length: "sum_list (map length openapiControlSwaggerJson_part4) = 925"
  by (simp add: openapiControlSwaggerJson_part4_def)

lemma openapiControlSwaggerJson_part5_length: "sum_list (map length openapiControlSwaggerJson_part5) = 1108"
  by (simp add: openapiControlSwaggerJson_part5_def)

lemma openapiControlSwaggerJson_part6_length: "sum_list (map length openapiControlSwaggerJson_part6) = 1101"
  by (simp add: openapiControlSwaggerJson_part6_def)

lemma openapiControlSwaggerJson_part7_length: "sum_list (map length openapiControlSwaggerJson_part7) = 825"
  by (simp add: openapiControlSwaggerJson_part7_def)

lemma openapiControlSwaggerJson_part8_length: "sum_list (map length openapiControlSwaggerJson_part8) = 783"
  by (simp add: openapiControlSwaggerJson_part8_def)

lemma openapiControlSwaggerJson_part9_length: "sum_list (map length openapiControlSwaggerJson_part9) = 428"
  by (simp add: openapiControlSwaggerJson_part9_def)

lemma templatesIndexTmpl_part1_length: "sum_list (map length templatesIndexTmpl_part1) = 959"
  by (simp add: templatesIndexTmpl_part1_def)

lemma templatesIndexTmpl_part2_length: "sum_list (map length templatesIndexTmpl_part2) = 9"
  by (simp add: templatesIndexTmpl_part2_def)

lemma licensesTxt_length: "length licensesTxt_data = 6029"
  by (simp add: licensesTxt_data_def length_concat licensesTxt_part1_length licensesTxt_part2_length)

lemma openapiCertificatesSwaggerJson_length: "length openapiCertificatesSwaggerJson_data = 770"
  by (simp add: openapiCertificatesSwaggerJson_data_def length_concat openapiCertificatesSwaggerJson_part1_length openapiCertificatesSwaggerJson_part2_length)

lemma openapiControlSwaggerJson_length: "length openapiControlSwaggerJson_data = 8069"
  by (simp add: openapiControlSwaggerJson_data_def length_concat openapiControlSwaggerJson_part1_length openapiControlSwaggerJson_part2_length openapiControlSwaggerJson_part3_length openapiControlSwaggerJson_part4_length openapiControlSwaggerJson_part5_length openapiControlSwaggerJson_part6_length openapiControlSwaggerJson_part7_length openapiControlSwaggerJson_part8_length openapiControlSwaggerJson_part9_length)

lemma sprintYml_length: "length sprintYml_data = 588"
  unfolding sprintYml_data_def length_concat list.map by simp

lemma templatesIndexTmpl_length: "length templatesIndexTmpl_data = 968"
  by (simp add: templatesIndexTmpl_data_def length_concat templatesIndexTmpl_part1_length templatesIndexTmpl_part2_length)

lemma robotsTxt_length: "length robotsTxt_data = 30"
  unfolding robotsTxt_data_def length_concat list.map by simp

lemma robotsTxtGz_length: "length robotsTxtGz_data = 54"
  unfolding robotsTxtGz_data_def length_concat list.map by simp

lemma no_dir: "\<not> fi_IsDir \<lparr>fi_name = n, fi_size = s, fi_mode = 420, fi_modTime = t\<rparr>"
  by (simp add: fi_IsDir_def ModeDir_def)

lemma licensesTxt_eq: "licensesTxt = Inr \<lparr>asset_bytes = licensesTxt_data, asset_info = \<lparr>fi_name = ''licenses.txt'', fi_size = 6029, fi_mode = 420, fi_modTime = 1695419808\<rparr>\<rparr>"
  by (simp add: licensesTxt_def licensesTxtBytes_def bindataRead_def)

lemma openapiCertificatesSwaggerJson_eq: "openapiCertificatesSwaggerJson = Inr \<lparr>asset_bytes = openapiCertificatesSwaggerJson_data, asset_info = \<lparr>fi_name = ''openapi/certificates.swagger.json'', fi_size = 770, fi_mode = 420, fi_modTime = 1687643533\<rparr>\<rparr>"
  by (simp add: openapiCertificatesSwaggerJson_def openapiCertificatesSwaggerJsonBytes_def bindataRead_def)

lemma openapiControlSwaggerJson_eq: "openapiControlSwaggerJson = Inr \<lparr>asset_bytes = openapiControlSwaggerJson_data, asset_info = \<lparr>fi_name = ''openapi/control.swagger.json'', fi_size = 8069, fi_mode = 420, fi_modTime = 1687650916\<rparr>\<rparr>"
  by (simp add: openapiControlSwaggerJson_def openapiControlSwaggerJsonBytes_def bindataRead_def)

lemma sprintYml_eq: "sprintYml = Inr \<lparr>asset_bytes = sprintYml_data, asset_info = \<lparr>fi_name = ''sprint.yml'', fi_size = 588, fi_mode = 420, fi_modTime = 1695506888\<rparr>\<rparr>"
  by (simp add: sprintYml_def sprintYmlBytes_def bindataRead_def)

lemma templatesIndexTmpl_eq: "templatesIndexTmpl = Inr \<lparr>asset_bytes = templatesIndexTmpl_data, asset_info = \<lparr>fi_name = ''templates/index.tmpl'', fi_size = 968, fi_mode = 420, fi_modTime = 1687643533\<rparr>\<rparr>"
  by (simp add: templatesIndexTmpl_def templatesIndexTmplBytes_def bindataRead_def)

lemma robotsTxt_eq: "robotsTxt = Inr \<lparr>asset_bytes = robotsTxt_data, asset_info = \<lparr>fi_name = ''robots.txt'', fi_size = 30, fi_mode = 420, fi_modTime = 1687643533\<rparr>\<rparr>"
  by (simp add: robotsTxt_def robotsTxtBytes_def bindataRead_def)

lemma robotsTxtGz_eq: "robotsTxtGz = Inr \<lparr>asset_bytes = robotsTxtGz_data, asset_info = \<lparr>fi_name = ''robots.txt'', fi_size = 54, fi_mode = 420, fi_modTime = 1687643533\<rparr>\<rparr>"
  by (simp add: robotsTxtGz_def robotsTxtGzBytes_def bindataRead_def)

lemmas asset_eqs = licensesTxt_eq openapiCertificatesSwaggerJson_eq openapiControlSwaggerJson_eq sprintYml_eq templatesIndexTmpl_eq robotsTxt_eq robotsTxtGz_eq

lemmas asset_lengths = licensesTxt_length openapiCertificatesSwaggerJson_length openapiControlSwaggerJson_length sprintYml_length templatesIndexTmpl_length robotsTxt_length robotsTxtGz_length

lemma resources_assets: "list_all (\<lambda>(name, f). asset_ok name f) resources_bindata"
  by (simp add: resources_bindata_def asset_ok_def asset_eqs asset_lengths no_dir)

lemma resources_package_ok: "package_ok resources_package"
  using resources_assets
  by (auto simp: package_ok_def resources_package_def resources_bindata_def resources_bintree_def plain_name_def slash_def)

lemma assets_package_ok: "package_ok assets_package"
  by (simp add: package_ok_def assets_package_def assets_bindata_def assets_bintree_def plain_name_def slash_def
      asset_ok_def asset_eqs asset_lengths no_dir)

lemma assetsgz_package_ok: "package_ok assetsgz_package"
  by (simp add: package_ok_def assetsgz_package_def assetsgz_bindata_def assetsgz_bintree_def plain_name_def slash_def
      asset_ok_def asset_eqs asset_lengths no_dir)

end
