(* ===== verification/Hclog.thy ===== *)
theory Hclog
  imports Utils_Node
begin

text \<open>
  \<open>sprintcore/hclog_logger.go\<close>: the adapter that lets libraries written for \<open>hclog\<close> log
  through \<open>zap\<close>. A log entry is its level, its message and its fields; an argument is a
  string (a possible key) or another value.
\<close>

datatype hclog_level = HNoLevel | HTrace | HDebug | HInfo | HWarn | HError | HOff | HOther int

datatype zap_level =
  ZDebug | ZInfo | ZWarn | ZError | ZDPanic | ZPanic | ZFatal | ZInvalid

text \<open>
  The levels of \<open>zap\<close> are numbers; \<open>ZInvalid\<close> is the level of a logger that has none
  enabled. Their order is what enables an entry.
\<close>

fun zap_num :: "zap_level \<Rightarrow> int" where
  "zap_num ZDebug = -1"
| "zap_num ZInfo = 0"
| "zap_num ZWarn = 1"
| "zap_num ZError = 2"
| "zap_num ZDPanic = 3"
| "zap_num ZPanic = 4"
| "zap_num ZFatal = 5"
| "zap_num ZInvalid = 6"

lemma zap_num_inj: "zap_num a = zap_num b \<Longrightarrow> a = b"
  by (cases a; cases b) simp_all

instantiation zap_level :: linorder
begin

definition less_eq_zap_level :: "zap_level \<Rightarrow> zap_level \<Rightarrow> bool" where
  "less_eq_zap_level a b \<longleftrightarrow> zap_num a \<le> zap_num b"

definition less_zap_level :: "zap_level \<Rightarrow> zap_level \<Rightarrow> bool" where
  "less_zap_level a b \<longleftrightarrow> zap_num a < zap_num b"

instance
  by standard (auto simp: less_eq_zap_level_def less_zap_level_def dest: zap_num_inj)

end

lemmas zap_order = less_eq_zap_level_def less_zap_level_def

datatype 'v log_arg = Str string | Val 'v

type_synonym 'v zap_field = "string \<times> 'v log_arg"

record 'v log_entry =
  le_level :: zap_level
  le_name :: "string list"  \<comment> \<open>the names given to the zap logger, outermost first\<close>
  le_fields :: "'v zap_field list"
  le_msg :: string

text \<open>The adapter: the zap logger (its names and context fields, its level) and its own name.\<close>

record 'v hclog_adapter =
  zap_names :: "string list"
  zap_context :: "'v zap_field list"
  zap_level :: zap_level
  adapter_name :: string

fun toZapLevel :: "hclog_level \<Rightarrow> zap_level" where
  "toZapLevel HTrace = ZDebug"
| "toZapLevel HDebug = ZDebug"
| "toZapLevel HInfo = ZInfo"
| "toZapLevel HWarn = ZWarn"
| "toZapLevel HError = ZError"
| "toZapLevel HOff = ZFatal"
| "toZapLevel _ = ZInfo"

fun toHCLevel :: "zap_level \<Rightarrow> hclog_level" where
  "toHCLevel ZDebug = HDebug"
| "toHCLevel ZInfo = HInfo"
| "toHCLevel ZWarn = HWarn"
| "toHCLevel ZError = HError"
| "toHCLevel ZDPanic = HError"
| "toHCLevel ZPanic = HError"
| "toHCLevel ZFatal = HOff"
| "toHCLevel ZInvalid = HNoLevel"

definition arg_name :: "nat \<Rightarrow> string" where
  "arg_name i = ''arg'' @ Itoa (int i)"

text \<open>The loop goes from the end of the arguments to the front, two at a time.\<close>

fun zap_fields :: "nat \<Rightarrow> 'v log_arg list \<Rightarrow> 'v zap_field list" where
  "zap_fields i args =
     (if i = 0 then []
      else if i = 1 then [(arg_name 0, args ! 0)]
      else (case args ! (i - 2) of
              Str k \<Rightarrow> (k, args ! (i - 1)) # zap_fields (i - 2) args
            | Val v \<Rightarrow> (arg_name (i - 1), args ! (i - 1)) # (arg_name (i - 2), Val v)
                       # zap_fields (i - 2) args))"

declare zap_fields.simps [simp del]

definition toZapFields :: "'v log_arg list \<Rightarrow> 'v zap_field list" where
  "toZapFields args = zap_fields (length args) args"

text \<open>\<open>zap.Logger\<close> drops an entry below its level.\<close>

definition zap_log :: "zap_level \<Rightarrow> 'v hclog_adapter \<Rightarrow> string \<Rightarrow> 'v log_arg list \<Rightarrow> 'v log_entry option" where
  "zap_log l t msg args =
     (if zap_level t \<le> l
      then Some \<lparr>le_level = l, le_name = zap_names t, le_fields = zap_context t @ toZapFields args, le_msg = msg\<rparr>
      else None)"

definition hc_Trace :: "'v hclog_adapter \<Rightarrow> string \<Rightarrow> 'v log_arg list \<Rightarrow> 'v log_entry option" where
  "hc_Trace = zap_log ZInfo"
definition hc_Debug :: "'v hclog_adapter \<Rightarrow> string \<Rightarrow> 'v log_arg list \<Rightarrow> 'v log_entry option" where
  "hc_Debug = zap_log ZDebug"
definition hc_Info :: "'v hclog_adapter \<Rightarrow> string \<Rightarrow> 'v log_arg list \<Rightarrow> 'v log_entry option" where
  "hc_Info = zap_log ZInfo"
definition hc_Warn :: "'v hclog_adapter \<Rightarrow> string \<Rightarrow> 'v log_arg list \<Rightarrow> 'v log_entry option" where
  "hc_Warn = zap_log ZWarn"
definition hc_Error :: "'v hclog_adapter \<Rightarrow> string \<Rightarrow> 'v log_arg list \<Rightarrow> 'v log_entry option" where
  "hc_Error = zap_log ZError"

lemmas hc_emitters = hc_Trace_def hc_Debug_def hc_Info_def hc_Warn_def hc_Error_def

text \<open>\<open>Log\<close>: a level that the switch does not list is dropped.\<close>

fun hc_Log :: "hclog_level \<Rightarrow> 'v hclog_adapter \<Rightarrow> string \<Rightarrow> 'v log_arg list \<Rightarrow> 'v log_entry option" where
  "hc_Log HDebug t msg args = hc_Debug t msg args"
| "hc_Log HWarn t msg args = hc_Warn t msg args"
| "hc_Log HError t msg args = hc_Error t msg args"
| "hc_Log (HOther n) t msg args = None"
| "hc_Log _ t msg args = hc_Info t msg args"

text \<open>The guards \<open>IsTrace\<close> to \<open>IsError\<close> always answer no, and \<open>SetLevel\<close> does nothing.\<close>

definition newHCLogAdapter :: "zap_level \<Rightarrow> 'v hclog_adapter" where
  "newHCLogAdapter level = \<lparr>zap_names = [], zap_context = [], zap_level = level, adapter_name = ''''\<rparr>"

text \<open>The object of the logger factory: the adapter of the logger of the context.\<close>

definition HCLogFactory_Object :: "zap_level \<Rightarrow> 'v hclog_adapter res" where
  "HCLogFactory_Object Log = Inr (newHCLogAdapter Log)"

definition hc_IsLevel :: "hclog_level \<Rightarrow> 'v hclog_adapter \<Rightarrow> bool" where
  "hc_IsLevel level t = False"

definition ImpliedArgs :: "'v hclog_adapter \<Rightarrow> 'v log_arg list" where
  "ImpliedArgs t = []"

definition SetLevel :: "hclog_level \<Rightarrow> 'v hclog_adapter \<Rightarrow> 'v hclog_adapter" where
  "SetLevel level t = t"

definition With :: "'v log_arg list \<Rightarrow> 'v hclog_adapter \<Rightarrow> 'v hclog_adapter" where
  "With args t = t\<lparr>zap_context := zap_context t @ toZapFields args, adapter_name := ''''\<rparr>"

definition Named :: "string \<Rightarrow> 'v hclog_adapter \<Rightarrow> 'v hclog_adapter" where
  "Named name t = t\<lparr>zap_names := zap_names t @ [name], adapter_name := name\<rparr>"

definition ResetNamed :: "string \<Rightarrow> 'v hclog_adapter \<Rightarrow> 'v hclog_adapter" where
  "ResetNamed name t = t\<lparr>zap_names := zap_names t @ [name], adapter_name := name\<rparr>"

definition hc_Name :: "'v hclog_adapter \<Rightarrow> string" where
  "hc_Name t = adapter_name t"

definition GetLevel :: "'v hclog_adapter \<Rightarrow> hclog_level" where
  "GetLevel t = toHCLevel (zap_level t)"

text \<open>The level a standard logger writes at: \<open>NewStdLogAt\<close> refuses levels zap does not know.\<close>

definition StandardLogger :: "hclog_level \<Rightarrow> zap_level" where
  "StandardLogger forceLevel = (if forceLevel = HNoLevel then ZInfo else toZapLevel forceLevel)"

section \<open>Lemmas\<close>

text \<open>Arguments that alternate between keys and values, from the given position back.\<close>

definition well_paired :: "'v log_arg list \<Rightarrow> bool" where
  "well_paired args \<longleftrightarrow> even (length args) \<and> (\<forall>i < length args. even i \<longrightarrow> (\<exists>k. args ! i = Str k))"

fun pairs_of :: "'v log_arg list \<Rightarrow> 'v zap_field list" where
  "pairs_of (Str k # v # r) = (k, v) # pairs_of r"
| "pairs_of _ = []"

lemma well_paired_Cons2:
  assumes "well_paired (a # b # r)"
  shows "well_paired r" and "\<exists>k. a = Str k"
proof -
  have even: "even (length r)" using assms by (simp add: well_paired_def)
  have "\<exists>k. (a # b # r) ! i = Str k" if "i < length (a # b # r)" "even i" for i
    using assms that unfolding well_paired_def by blast
  from this [of 0] show "\<exists>k. a = Str k" by simp
  show "well_paired r"
    unfolding well_paired_def
  proof (intro conjI allI impI even)
    fix i assume "i < length r" "even i"
    with \<open>\<And>i. i < length (a # b # r) \<Longrightarrow> even i \<Longrightarrow> \<exists>k. (a # b # r) ! i = Str k\<close> [of "i + 2"]
    show "\<exists>k. r ! i = Str k" by simp
  qed
qed

lemma pairs_of_append: "well_paired args \<Longrightarrow> pairs_of (args @ [Str k, v]) = pairs_of args @ [(k, v)]"
proof (induction args rule: induct_list012)
  case (2 x)
  then show ?case by (simp add: well_paired_def)
next
  case (3 x y zs)
  from well_paired_Cons2 [OF 3(3)] obtain j where "x = Str j" "well_paired zs" by blast
  with 3 show ?case by simp
qed simp

lemma well_paired_take: "well_paired args \<Longrightarrow> 2 * n \<le> length args \<Longrightarrow> well_paired (take (2 * n) args)"
  by (auto simp: well_paired_def)

lemma zap_fields_paired:
  "well_paired args \<Longrightarrow> 2 * n \<le> length args \<Longrightarrow> zap_fields (2 * n) args = rev (pairs_of (take (2 * n) args))"
proof (induction n)
  case 0
  then show ?case by (simp add: zap_fields.simps)
next
  case (Suc n)
  then have lt: "2 * n < length args" "Suc (2 * n) < length args" by auto
  have "\<exists>k. args ! (2 * n) = Str k"
    using Suc.prems(1) lt(1) unfolding well_paired_def by (metis dvd_triv_left)
  then obtain k where k: "args ! (2 * n) = Str k" ..
  have take: "take (2 * Suc n) args = take (2 * n) args @ [Str k, args ! Suc (2 * n)]"
    using lt k by (simp add: take_Suc_conv_app_nth)
  have "zap_fields (2 * Suc n) args = (k, args ! Suc (2 * n)) # zap_fields (2 * n) args"
    by (subst zap_fields.simps) (simp add: k)
  with Suc lt well_paired_take [of args n] show ?case
    unfolding take by (simp add: pairs_of_append)
qed

text \<open>With alternating keys and values the fields are those pairs, the last one first.\<close>

lemma toZapFields_paired:
  assumes "well_paired args"
  shows "toZapFields args = rev (pairs_of args)"
proof -
  from assms have "even (length args)" by (simp add: well_paired_def)
  then obtain n where "length args = 2 * n" by (elim evenE)
  then show ?thesis
    using zap_fields_paired [OF assms, of n] by (simp add: toZapFields_def)
qed

text \<open>No argument is lost: every one is the value of a field or the key of the next one.\<close>

lemma zap_fields_args:
  "i \<le> length args \<Longrightarrow> j < i \<Longrightarrow>
   args ! j \<in> snd ` set (zap_fields i args) \<or> (\<exists>k. args ! j = Str k \<and> k \<in> fst ` set (zap_fields i args))"
proof (induction i args rule: zap_fields.induct)
  case (1 i args)
  show ?case
  proof (cases "i \<le> 1")
    case True
    with 1 have "i = 1" "j = 0" by auto
    then show ?thesis by (simp add: zap_fields.simps)
  next
    case False
    then have i: "i \<noteq> 0" "i \<noteq> 1" by auto
    have z: "zap_fields i args = (case args ! (i - 2) of
              Str k \<Rightarrow> (k, args ! (i - 1)) # zap_fields (i - 2) args
            | Val v \<Rightarrow> (arg_name (i - 1), args ! (i - 1)) # (arg_name (i - 2), Val v) # zap_fields (i - 2) args)"
      using i by (subst zap_fields.simps) simp
    consider "j = i - 1" | "j = i - 2" | "j < i - 2" using 1(4) False by linarith
    then show ?thesis
    proof cases
      case 3
      have "i - 2 \<le> length args" using 1(3) by simp
      with 1 3 i z show ?thesis by (cases "args ! (i - 2)") auto
    qed (auto simp: z split: log_arg.splits)
  qed
qed

text \<open>The level at which \<open>Log\<close> emits.\<close>

definition emitted_at :: "hclog_level \<Rightarrow> zap_level" where
  "emitted_at l = (if l \<in> {HDebug, HWarn, HError} then toZapLevel l else ZInfo)"

lemma hc_Log_eq: "hc_Log l t msg args = (if \<exists>n. l = HOther n then None else zap_log (emitted_at l) t msg args)"
  by (cases l) (simp_all add: emitted_at_def hc_emitters)

lemma toHCLevel_toZapLevel:
  "toHCLevel (toZapLevel l) = l \<longleftrightarrow> l \<in> {HDebug, HInfo, HWarn, HError, HOff}"
  by (cases l) auto

section \<open>Properties\<close>

text \<open>
  C40: \<open>Log\<close> drops an entry when \<open>hclog\<close> does not know its level or when that level is below
  the zap logger's, and nothing else; what it emits has the message, the zap logger's names,
  and the adapter's context followed by fields that lose no argument (every one is the value
  of a field or the key of one); alternating keys and values give exactly those pairs, the
  last one first. A trace message is emitted like an info message: by a logger at the level
  info it is, although a debug message is not.
\<close>

theorem log_fields:
  "(case hc_Log l t msg args of
      None \<Rightarrow> (\<exists>n. l = HOther n) \<or> emitted_at l < zap_level t
    | Some e \<Rightarrow> le_level e = emitted_at l \<and> zap_level t \<le> emitted_at l \<and> le_msg e = msg \<and> le_name e = zap_names t \<and>
        (well_paired args \<longrightarrow> le_fields e = zap_context t @ rev (pairs_of args)) \<and>
        (\<forall>j < length args. args ! j \<in> snd ` set (le_fields e) \<or>
           (\<exists>k. args ! j = Str k \<and> k \<in> fst ` set (le_fields e)))) \<and>
   (zap_level t = ZInfo \<longrightarrow> hc_Log HTrace t msg args \<noteq> None \<and> hc_Log HDebug t msg args = None)"
proof -
  have "args ! j \<in> snd ` (C \<union> set (toZapFields args)) \<or>
      (\<exists>k. args ! j = Str k \<and> k \<in> fst ` (C \<union> set (toZapFields args)))" if "j < length args" for C j
    using zap_fields_args [of "length args" args j] that by (auto simp: toZapFields_def)
  moreover have "\<not> ZInfo \<le> ZDebug" by (simp add: zap_order)
  ultimately show ?thesis
    using toZapFields_paired [of args]
    by (auto simp: hc_Log_eq zap_log_def emitted_at_def)
qed

theorem log_fields_witness:
  "\<exists>e. hc_Log HWarn (newHCLogAdapter ZInfo) ''m'' [Str ''a'', Val (1 :: nat), Str ''b'', Val 2] = Some e \<and>
     le_fields e = [(''b'', Val 2), (''a'', Val 1)]"
proof -
  have "well_paired [Str ''a'', Val (1 :: nat), Str ''b'', Val 2]"
    by (auto simp: well_paired_def less_Suc_eq nth_Cons')
  moreover have "ZInfo \<le> ZWarn" by (simp add: zap_order)
  ultimately show ?thesis
    using log_fields [of HWarn "newHCLogAdapter ZInfo" "''m''" "[Str ''a'', Val (1 :: nat), Str ''b'', Val 2]"]
    by (auto simp: newHCLogAdapter_def emitted_at_def hc_Log_eq zap_log_def)
qed

end
