(* ===== verification/Mail_Service.thy ===== *)
theory Mail_Service
  imports App_Resources
begin

text \<open>
  \<open>sprintcore/mail_service.go\<close>: building a message from templates and attachments and
  sending it. A template is the function it stands for: from the mail's data to a text or
  an error. \<open>deliver\<close> stands for \<open>mailgun.Send\<close>; messages handed to it are collected in
  \<open>outgoing\<close>, those of asynchronous calls in \<open>background\<close>.
\<close>

type_synonym 'd template = "'d \<Rightarrow> string res"

record 'd mail =
  Sender :: string
  Recipients :: "string list"
  Subject :: string
  mail_TextTemplate :: string
  mail_HtmlTemplate :: string
  Data :: 'd
  Attachments :: "string list"

record message =
  msg_domain :: string
  msg_key :: string
  msg_from :: string
  msg_subject :: string
  msg_text :: string
  msg_to :: "string list"
  msg_html :: "string option"
  msg_attachments :: "(string \<times> bytes) list"

record 'd mail_world =
  templates :: "('d template, 'd template) resource_service"
  outgoing :: "message list"
  background :: "message list"

definition getDomainFromEmail :: "string \<Rightarrow> string" where
  "getDomainFromEmail email =
     (case LastIndexByte email (CHR ''@'') of None \<Rightarrow> email | Some i \<Rightarrow> drop (i + 1) email)"

text \<open>The attachments are read one after the other; the first error ends the call.\<close>

fun attach :: "(string \<Rightarrow> bytes res outcome option) \<Rightarrow> string list \<Rightarrow> (string \<times> bytes) list
    \<Rightarrow> (string \<times> bytes) list res" where
  "attach resource [] acc = Inr acc"
| "attach resource (a # as) acc =
     (case GetResource resource a of
        Inl e \<Rightarrow> Inl e
      | Inr content \<Rightarrow> attach resource as (acc @ [(a, content)]))"

definition html_body :: "(string \<Rightarrow> bytes res outcome option) \<Rightarrow> (string \<Rightarrow> bytes \<Rightarrow> 'd template res)
    \<Rightarrow> 'd mail \<Rightarrow> ('d template, 'd template) resource_service
    \<Rightarrow> string option res \<times> ('d template, 'd template) resource_service" where
  "html_body resource parseHtml m ts =
     (if mail_HtmlTemplate m = '''' then (Inr None, ts)
      else case HtmlTemplate resource parseHtml (mail_HtmlTemplate m) ts of
             (Inl e, ts) \<Rightarrow> (Inl e, ts)
           | (Inr tmpl, ts) \<Rightarrow>
               (case tmpl (Data m) of Inl e \<Rightarrow> (Inl e, ts) | Inr h \<Rightarrow> (Inr (Some h), ts)))"

definition SendMail ::
    "(string \<Rightarrow> bytes res outcome option) \<Rightarrow> (string \<Rightarrow> bytes \<Rightarrow> 'd template res)
     \<Rightarrow> (string \<Rightarrow> bytes \<Rightarrow> 'd template res) \<Rightarrow> (message \<Rightarrow> goerror option) \<Rightarrow> string
     \<Rightarrow> 'd mail \<Rightarrow> bool \<Rightarrow> 'd mail_world \<Rightarrow> goerror option \<times> 'd mail_world" where
  "SendMail resource parseText parseHtml deliver key m async w =
     (if key = '''' then (Some (Errorf ''empty property mailgun.key''), w)
      else case TextTemplate resource parseText (mail_TextTemplate m) (templates w) of
        (Inl e, ts) \<Rightarrow> (Some e, w\<lparr>templates := ts\<rparr>)
      | (Inr tmpl, ts) \<Rightarrow>
          (case tmpl (Data m) of
             Inl e \<Rightarrow> (Some e, w\<lparr>templates := ts\<rparr>)
           | Inr body \<Rightarrow>
               (case html_body resource parseHtml m ts of
                  (Inl e, ts) \<Rightarrow> (Some e, w\<lparr>templates := ts\<rparr>)
                | (Inr html, ts) \<Rightarrow>
                    (case attach resource (Attachments m) [] of
                       Inl e \<Rightarrow> (Some e, w\<lparr>templates := ts\<rparr>)
                     | Inr files \<Rightarrow>
                         (let msg = \<lparr>msg_domain = getDomainFromEmail (Sender m), msg_key = key,
                             msg_from = Sender m, msg_subject = Subject m, msg_text = body,
                             msg_to = Recipients m, msg_html = html, msg_attachments = files\<rparr>;
                              w = w\<lparr>templates := ts\<rparr>
                          in if async then (None, w\<lparr>background := background w @ [msg]\<rparr>)
                             else (deliver msg, w\<lparr>outgoing := outgoing w @ [msg]\<rparr>))))))"

section \<open>Lemmas\<close>

lemma attach_names: "attach resource as acc = Inr files \<Longrightarrow> map fst files = map fst acc @ as"
  by (induction as arbitrary: acc) (auto split: sum.splits)

lemma attach_contents:
  "attach resource as acc = Inr files \<Longrightarrow> (a, c) \<in> set files \<Longrightarrow>
   (a, c) \<in> set acc \<or> GetResource resource a = Inr c"
  by (induction as arbitrary: acc) (auto split: sum.splits, fastforce)

lemma attach_ok:
  "attach resource as [] = Inr files \<Longrightarrow>
   map fst files = as \<and> (\<forall>a c. (a, c) \<in> set files \<longrightarrow> GetResource resource a = Inr c)"
  using attach_names [of resource as "[]" files] attach_contents [of resource as "[]" files] by auto

lemma getDomainFromEmail_domain: "CHR ''@'' \<notin> set d \<Longrightarrow> getDomainFromEmail (u @ ''@'' @ d) = d"
  using IndexByte_append [of "CHR ''@''" "rev d" "rev u"]
  by (simp add: getDomainFromEmail_def LastIndexByte_def)

lemma SendMail_cases:
  assumes "SendMail resource pt ph deliver key m async w = (r, w')"
  shows "outgoing w' = outgoing w \<and> background w' = background w \<and> r \<noteq> None \<or>
    (\<exists>msg. msg_to msg = Recipients m \<and> msg_from msg = Sender m \<and> map fst (msg_attachments msg) = Attachments m \<and>
      (\<forall>a c. (a, c) \<in> set (msg_attachments msg) \<longrightarrow> GetResource resource a = Inr c) \<and>
      (if async then r = None \<and> outgoing w' = outgoing w \<and> background w' = background w @ [msg]
       else r = deliver msg \<and> outgoing w' = outgoing w @ [msg] \<and> background w' = background w))"
  using assms
  by (auto simp: SendMail_def Let_def split: if_splits prod.splits sum.splits dest: attach_ok)

section \<open>Properties\<close>

text \<open>
  a call hands over exactly one message or, with an error, none; the message has the
  sender, the recipients and the attachments of the mail, in their order, each with the
  content of its resource; a synchronous call returns what the delivery returned, an
  asynchronous one reports success before it.
\<close>

theorem mail_once:
  assumes "SendMail resource pt ph deliver key m async w = (r, w')"
  shows "outgoing w' = outgoing w \<and> background w' = background w \<and> r \<noteq> None \<or>
    (\<exists>msg. msg_to msg = Recipients m \<and> msg_from msg = Sender m \<and> map fst (msg_attachments msg) = Attachments m \<and>
      (\<forall>a c. (a, c) \<in> set (msg_attachments msg) \<longrightarrow> GetResource resource a = Inr c) \<and>
      (if async then r = None \<and> outgoing w' = outgoing w \<and> background w' = background w @ [msg]
       else r = deliver msg \<and> outgoing w' = outgoing w @ [msg] \<and> background w' = background w))"
  using SendMail_cases [OF assms] .

definition sample_mail :: "nat mail" where
  "sample_mail = \<lparr>Sender = ''a@b.c'', Recipients = [''d@e.f''], Subject = ''s'', mail_TextTemplate = ''t'',
     mail_HtmlTemplate = '''', Data = 0, Attachments = [''x'']\<rparr>"

theorem mail_once_witness:
  "\<exists>w' msg. SendMail (\<lambda>_. Some (Ret (Inr ''data''))) (\<lambda>_ _. Inr (\<lambda>_. Inr ''hi'')) (\<lambda>_ _. Inr (\<lambda>_. Inr '''')) (\<lambda>_. None) ''key''
     sample_mail False \<lparr>templates = ResourceService, outgoing = [], background = []\<rparr> = (None, w') \<and>
     outgoing w' = [msg] \<and> map fst (msg_attachments msg) = [''x'']"
proof -
  let ?w = "\<lparr>templates = ResourceService, outgoing = [], background = []\<rparr> :: nat mail_world"
  obtain w' where s: "SendMail (\<lambda>_. Some (Ret (Inr ''data''))) (\<lambda>_ _. Inr (\<lambda>_. Inr ''hi'')) (\<lambda>_ _. Inr (\<lambda>_. Inr ''''))
      (\<lambda>_. None) ''key'' sample_mail False ?w = (None, w')"
    by (simp add: SendMail_def sample_mail_def ResourceService_def TextTemplate_def text_lookup_def load_template_def
        GetResource_def html_body_def Let_def)
  from mail_once [OF s] s show ?thesis by (auto simp: sample_mail_def)
qed

end
