(* ===== verification/Node_Service.thy ===== *)
theory Node_Service
  imports Utils_Node Utils_Tokens App_Property
begin

text \<open>
  \<open>sprintcore/node_service.go\<close>: the identity and the names of the node, and the generator
  of time-based identifiers. The generator is modelled twice: \<open>Issue\<close> is one call that
  nobody interferes with, \<open>issue_step\<close> the single atomic operations of concurrent calls.
\<close>

section \<open>Identity\<close>

record node_service =
  nodeIdHex :: string
  nodeId :: int
  nodeSeq :: int
  LocalNodeName :: string
  LANNodeName :: string
  WANNodeName :: string
  DataCenterName :: string
  lastTimestamp :: int
  clock :: int

definition NodeService :: "string \<Rightarrow> string \<Rightarrow> string \<Rightarrow> string \<Rightarrow> node_service" where
  "NodeService localName lan wan dc =
     \<lparr>nodeIdHex = '''', nodeId = 0, nodeSeq = 0, LocalNodeName = localName, LANNodeName = lan,
      WANNodeName = wan, DataCenterName = dc, lastTimestamp = 0, clock = 0\<rparr>"

text \<open>
  The first part of \<open>PostConstruct\<close>: the property \<open>node.id\<close>, or a new one that is stored.
  \<open>rd\<close> is the result of reading the random source.
\<close>

definition node_id_hex :: "string \<Rightarrow> bytes res \<Rightarrow> 's config_repo
    \<Rightarrow> string res outcome \<times> 's config_repo \<times> (int \<times> config_change) list" where
  "node_id_hex prop rd repo =
     (if prop \<noteq> '''' then (Ret (Inr prop), repo, [])
      else case GenerateNodeId rd of
             Inl e \<Rightarrow> (Ret (Inl (Errorf (''generate node id, '' @ error_text e))), repo, [])
           | Inr hex \<Rightarrow>
               (case cfg_Set ''node.id'' hex repo of
                  (Panic m, repo, ns) \<Rightarrow> (Panic m, repo, ns)
                | (Ret (Some e), repo, ns) \<Rightarrow>
                    (Ret (Inl (Errorf (''set property node.id with value '' @ hex @ '', '' @ error_text e))), repo, ns)
                | (Ret None, repo, ns) \<Rightarrow> (Ret (Inr hex), repo, ns)))"

text \<open>
  The rest of it: the number (a number out of range leaves the greatest one, as
  \<open>strconv.ParseUint\<close> returns it), and the names that are not configured.
\<close>

definition node_names :: "string \<Rightarrow> int \<Rightarrow> string res \<Rightarrow> node_service \<Rightarrow> goerror option \<times> node_service" where
  "node_names appName seq hostname t =
     (case ParseNodeId (nodeIdHex t) of
        Inl e \<Rightarrow> (Some e, t\<lparr>nodeId := (if e = ErrRange then 2 ^ NodeIdBits - 1 else 0)\<rparr>)
      | Inr n \<Rightarrow>
          (let t = t\<lparr>nodeId := n, nodeSeq := seq\<rparr>;
               t = (if LocalNodeName t = '''' then t\<lparr>LocalNodeName := AppendNodeSequence appName seq\<rparr> else t);
               finish = (\<lambda>t. if WANNodeName t = ''''
                  then t\<lparr>WANNodeName := AppendNodeName (LANNodeName t) (DataCenterName t)\<rparr> else t)
           in if LANNodeName t = '''' then
                (case hostname of
                   Inl e \<Rightarrow> (Some e, t)
                 | Inr h \<Rightarrow> (None, finish (t\<lparr>LANNodeName := AppendNodeName (LocalNodeName t) h\<rparr>)))
              else (None, finish t)))"

definition node_PostConstruct ::
    "string \<Rightarrow> bytes res \<Rightarrow> string \<Rightarrow> int \<Rightarrow> string res \<Rightarrow> node_service \<Rightarrow> 's config_repo
     \<Rightarrow> goerror option \<times> node_service \<times> 's config_repo \<times> (int \<times> config_change) list" where
  "node_PostConstruct prop rd appName seq hostname t repo =
     (case node_id_hex prop rd repo of
        (Panic m, repo, ns) \<Rightarrow> (Some (Recovered m), t, repo, ns)
      | (Ret (Inl e), repo, ns) \<Rightarrow> (Some e, t, repo, ns)
      | (Ret (Inr hex), repo, ns) \<Rightarrow>
          (let (err, t) = node_names appName seq hostname (t\<lparr>nodeIdHex := hex\<rparr>) in (err, t, repo, ns)))"

text \<open>The figures of the runtime, as the function reads them.\<close>

record runtime_stats =
  NumGoroutine :: int
  NumCPU :: int
  NumCgoCall :: int
  goVersion :: string
  memAlloc :: int
  memTotalAlloc :: int
  memSys :: int
  memNumGC :: int

definition oneMb :: int where "oneMb = 1024 * 1024"

definition node_stats :: "runtime_stats \<Rightarrow> node_service \<Rightarrow> (string \<times> string) list" where
  "node_stats m t =
     [(''id'', nodeIdHex t), (''local'', LocalNodeName t), (''lan'', LANNodeName t),
      (''wan'', WANNodeName t), (''dc'', DataCenterName t),
      (''numGoroutine'', Itoa (NumGoroutine m)), (''numCPU'', Itoa (NumCPU m)),
      (''numCgoCall'', Itoa (NumCgoCall m)), (''goVersion'', goVersion m),
      (''memAlloc'', Itoa (memAlloc m div oneMb) @ ''mb''),
      (''memTotalAlloc'', Itoa (memTotalAlloc m div oneMb) @ ''mb''),
      (''memSys'', Itoa (memSys m div oneMb) @ ''mb''), (''memNumGC'', Itoa (memNumGC m))]"

definition node_GetStats :: "(string \<times> string \<Rightarrow> 'c \<Rightarrow> bool \<times> 'c) \<Rightarrow> runtime_stats \<Rightarrow> node_service \<Rightarrow> 'c \<Rightarrow> 'c" where
  "node_GetStats cb m t c = fold (\<lambda>nv c. snd (cb nv c)) (node_stats m t) c"

section \<open>Identifiers, one call at a time\<close>

text \<open>
  The fields of a time-based UUID as the third-party library sets and reads them: the time
  in units of 100 nanoseconds, the node and the clock sequence. \<open>clock0\<close> is the clock
  sequence a new UUID has.
\<close>

record uuid =
  Time100 :: int
  UuidNode :: int
  ClockSequence :: int

text \<open>\<open>atomic.Int32.Inc\<close>\<close>

definition inc32 :: "int \<Rightarrow> int" where
  "inc32 n = (if n = 2 ^ 31 - 1 then - (2 ^ 31) else n + 1)"

text \<open>
  A call without interference: the clock counts up within one time unit; in a new unit the
  timestamp is replaced (the exchange cannot fail) and the clock starts again.
\<close>

definition Issue :: "int \<Rightarrow> int \<Rightarrow> node_service \<Rightarrow> uuid \<times> node_service" where
  "Issue clock0 now t =
     (let old = lastTimestamp t in
      if old = now then
        (let c = inc32 (clock t)
         in (\<lparr>Time100 = now, UuidNode = nodeId t, ClockSequence = c\<rparr>, t\<lparr>clock := c\<rparr>))
      else (\<lparr>Time100 = now, UuidNode = nodeId t, ClockSequence = clock0\<rparr>,
            t\<lparr>lastTimestamp := now, clock := 0\<rparr>))"

definition node_Parse :: "uuid \<Rightarrow> int \<times> int \<times> int" where
  "node_Parse u = (Time100 u div 10000, UuidNode u, ClockSequence u)"

fun issue_run :: "int \<Rightarrow> int list \<Rightarrow> node_service \<Rightarrow> uuid list" where
  "issue_run clock0 [] t = []"
| "issue_run clock0 (now # nows) t = (let (u, t') = Issue clock0 now t in u # issue_run clock0 nows t')"

text \<open>
  With a clock that does not go back and fewer than \<open>2 ^ 31\<close> calls, no two identifiers are
  equal: all later ones have a greater time, or the same time and a greater clock sequence.
\<close>

lemma issue_run_after:
  assumes "sorted (lastTimestamp t # nows)" and "0 \<le> clock t" "clock t + int (length nows) < 2 ^ 31"
    and "u \<in> set (issue_run 0 nows t)"
  shows "lastTimestamp t < Time100 u \<or> (lastTimestamp t = Time100 u \<and> clock t < ClockSequence u)"
  using assms
proof (induction nows arbitrary: t)
  case (Cons now nows)
  show ?case
  proof (cases "lastTimestamp t = now")
    case True
    define t' where "t' = t\<lparr>clock := clock t + 1\<rparr>"
    have run: "issue_run 0 (now # nows) t =
        \<lparr>Time100 = now, UuidNode = nodeId t, ClockSequence = clock t + 1\<rparr> # issue_run 0 nows t'"
      using True Cons.prems(3) by (simp add: Issue_def Let_def inc32_def t'_def)
    have IH: "u \<in> set (issue_run 0 nows t') \<Longrightarrow>
        lastTimestamp t' < Time100 u \<or> (lastTimestamp t' = Time100 u \<and> clock t' < ClockSequence u)"
      using Cons.prems True by (intro Cons.IH) (auto simp: t'_def)
    from Cons.prems(4) have "u = \<lparr>Time100 = now, UuidNode = nodeId t, ClockSequence = clock t + 1\<rparr>
        \<or> u \<in> set (issue_run 0 nows t')" unfolding run by simp
    then show ?thesis using IH True by (auto simp: t'_def)
  next
    case False
    then have lt: "lastTimestamp t < now" using Cons.prems(1) by auto
    define t' where "t' = t\<lparr>lastTimestamp := now, clock := 0\<rparr>"
    have run: "issue_run 0 (now # nows) t =
        \<lparr>Time100 = now, UuidNode = nodeId t, ClockSequence = 0\<rparr> # issue_run 0 nows t'"
      using False by (simp add: Issue_def Let_def t'_def)
    have IH: "u \<in> set (issue_run 0 nows t') \<Longrightarrow>
        lastTimestamp t' < Time100 u \<or> (lastTimestamp t' = Time100 u \<and> clock t' < ClockSequence u)"
      using Cons.prems by (intro Cons.IH) (auto simp: t'_def)
    from Cons.prems(4) have "u = \<lparr>Time100 = now, UuidNode = nodeId t, ClockSequence = 0\<rparr>
        \<or> u \<in> set (issue_run 0 nows t')" unfolding run by simp
    then show ?thesis using IH lt by (auto simp: t'_def)
  qed
qed simp

lemma issue_run_distinct:
  assumes "sorted (lastTimestamp t # nows)" and "0 \<le> clock t" "clock t + int (length nows) < 2 ^ 31"
  shows "distinct (issue_run 0 nows t)"
  using assms
proof (induction nows arbitrary: t)
  case (Cons now nows)
  obtain u t' where i: "Issue 0 now t = (u, t')" by (cases "Issue 0 now t")
  have t': "lastTimestamp t' = now" "Time100 u = now" "ClockSequence u = clock t'"
      "0 \<le> clock t'" "clock t' \<le> clock t + 1"
    using i Cons.prems(2,3) by (auto simp: Issue_def Let_def inc32_def split: if_splits)
  have s: "sorted (lastTimestamp t' # nows)" "clock t' + int (length nows) < 2 ^ 31"
    using Cons.prems(1,3) t' by auto
  have "u \<notin> set (issue_run 0 nows t')"
    using issue_run_after [OF s(1) t'(4) s(2), of u] t' by auto
  with Cons.IH [OF s(1) t'(4) s(2)] i show ?case by simp
qed simp

section \<open>Concurrent calls\<close>

text \<open>
  The atomic operations of a call: reading the clock of the system, loading the timestamp,
  counting, the compare-and-swap, resetting the counter, and loading again after a failed
  exchange. \<open>IDone\<close> holds the time and the clock sequence of the identifier.
\<close>

datatype issue_pc =
  IStart | ILoop int | IInc int | ICas int int | IStore int | IReload int | IDone int int

record issue_state =
  shTimestamp :: int
  shClock :: int
  pcs :: "issue_pc list"

definition issue_act :: "int \<Rightarrow> issue_pc \<Rightarrow> int \<Rightarrow> int \<Rightarrow> issue_pc \<times> int \<times> int" where
  "issue_act now pc ts c =
     (case pc of
        IStart \<Rightarrow> (ILoop now, ts, c)
      | ILoop cur \<Rightarrow> (if ts = cur then IInc cur else ICas cur ts, ts, c)
      | IInc cur \<Rightarrow> (IDone cur (inc32 c), ts, inc32 c)
      | ICas cur old \<Rightarrow> (if ts = old then (IStore cur, cur, c) else (IReload cur, ts, c))
      | IStore cur \<Rightarrow> (IDone cur 0, ts, 0)
      | IReload cur \<Rightarrow> (ILoop (if cur < ts then now else cur), ts, c)
      | IDone cur k \<Rightarrow> (pc, ts, c))"

definition issue_step :: "int \<Rightarrow> nat \<Rightarrow> issue_state \<Rightarrow> issue_state" where
  "issue_step now i s =
     (if i < length (pcs s) then
        (let (pc, ts, c) = issue_act now (pcs s ! i) (shTimestamp s) (shClock s)
         in \<lparr>shTimestamp = ts, shClock = c, pcs = (pcs s)[i := pc]\<rparr>)
      else s)"

text \<open>A schedule: which call acts next, and the system time it sees.\<close>

fun issue_schedule :: "(int \<times> nat) list \<Rightarrow> issue_state \<Rightarrow> issue_state" where
  "issue_schedule [] s = s"
| "issue_schedule ((now, i) # sc) s = issue_schedule sc (issue_step now i s)"

text \<open>A call alone takes three actions more than its start and does what \<open>Issue\<close> does.\<close>

lemma issue_alone:
  assumes "pcs s = [IStart]"
  shows "issue_schedule [(now, 0), (n1, 0), (n2, 0), (n3, 0)] s =
    (let (u, t) = Issue 0 now \<lparr>nodeIdHex = h, nodeId = n, nodeSeq = q, LocalNodeName = l1, LANNodeName = l2,
             WANNodeName = l3, DataCenterName = l4, lastTimestamp = shTimestamp s, clock = shClock s\<rparr>
     in \<lparr>shTimestamp = lastTimestamp t, shClock = clock t, pcs = [IDone (Time100 u) (ClockSequence u)]\<rparr>)"
  using assms by (simp add: issue_step_def issue_act_def Issue_def Let_def)

section \<open>Lemmas on the identity\<close>

lemma node_id_hex_stored:
  assumes "cfg_inv repo" and "node_id_hex '''' rd repo = (Ret (Inr hex), repo', ns)"
  shows "cfg_inv repo' \<and> cfg_view repo' = (cfg_view repo)(''node.id'' \<mapsto> hex) \<and>
    (\<exists>blob. rd = Inr blob \<and> hex = ''0x'' @ hex_encode blob)"
proof -
  from assms(2) obtain blob where b: "rd = Inr blob" "hex = ''0x'' @ hex_encode blob"
      and s: "cfg_Set ''node.id'' hex repo = (Ret None, repo', ns)"
    by (auto simp: node_id_hex_def GenerateNodeId_def split: sum.splits prod.splits outcome.splits option.splits)
  have p: "cfg_put ''node.id'' hex repo = (Ret None, repo')" using s by (rule cfg_Set_put)
  have "hex \<noteq> ''''" using b(2) by simp
  with cfgr.put_ok [OF assms(1) p] cfgr.put_returns [OF assms(1) p] b show ?thesis
    by (auto simp: as_entry_def)
qed

lemma node_names_id: "node_names appName seq hostname t = (None, t') \<Longrightarrow>
  ParseNodeId (nodeIdHex t) = Inr (nodeId t') \<and> nodeIdHex t' = nodeIdHex t \<and> nodeSeq t' = seq"
  by (auto simp: node_names_def Let_def split: sum.splits if_splits)

section \<open>Properties\<close>

text \<open>
  C10: the identity of a node is stable: the first start without the property \<open>node.id\<close> draws
  a 48-bit number, stores it, and every later start that reads the stored property has the
  same identity, whatever its random source, its names and its sequence number are, and
  leaves the repository as it is.
\<close>

theorem node_id_stable:
  assumes "cfg_inv cr" and "length blob = NodeIdSize"
    and "node_PostConstruct '''' (Inr blob) appName seq hostname t cr = (None, t1, cr1, ns1)"
    and "node_PostConstruct (value_or_empty (cfg_view cr1 ''node.id'')) rd2 appName2 seq2 hostname2 t2 cr1 = (None, t3, cr3, ns3)"
  shows "nodeId t1 = be_value blob \<and> 0 \<le> nodeId t1 \<and> nodeId t1 < 2 ^ 48 \<and>
    nodeId t3 = nodeId t1 \<and> nodeIdHex t3 = nodeIdHex t1 \<and> nodeSeq t3 = seq2 \<and> cr3 = cr1 \<and> ns3 = []"
proof -
  from assms(3) obtain hex where h: "node_id_hex '''' (Inr blob) cr = (Ret (Inr hex), cr1, ns1)"
      and n: "node_names appName seq hostname (t\<lparr>nodeIdHex := hex\<rparr>) = (None, t1)"
    by (auto simp: node_PostConstruct_def split: prod.splits outcome.splits sum.splits)
  from node_id_hex_stored [OF assms(1) h] have hex: "hex = ''0x'' @ hex_encode blob"
      and v: "cfg_view cr1 ''node.id'' = Some hex" by auto
  have p: "node_id_hex hex rd2 cr1 = (Ret (Inr hex), cr1, [])" by (simp add: node_id_hex_def hex)
  from assms(4) v have m: "node_names appName2 seq2 hostname2 (t2\<lparr>nodeIdHex := hex\<rparr>) = (None, t3)"
      and "cr3 = cr1" "ns3 = []"
    by (auto simp: value_or_empty_def node_PostConstruct_def p split: prod.splits)
  then show ?thesis
    using node_names_id [OF n] node_names_id [OF m] ParseNodeId_hex [OF assms(2)]
      ParseNodeId_bound [of hex "be_value blob"]
    by (simp add: hex)
qed

theorem node_id_stable_witness:
  "\<exists>t1 cr1 ns1 t3 cr3 ns3.
     node_PostConstruct '''' (Inr ''abcdef'') ''app'' 0 (Inr ''h'') (NodeService '''' '''' '''' ''dc'') sample_repo = (None, t1, cr1, ns1) \<and>
     node_PostConstruct (value_or_empty (cfg_view cr1 ''node.id'')) (Inl ErrRange) ''app'' 1 (Inr ''h'')
       (NodeService '''' '''' '''' ''dc'') cr1 = (None, t3, cr3, ns3) \<and> nodeId t3 = be_value ''abcdef''"
proof -
  define t0 where "t0 = NodeService '''' '''' '''' ''dc''"
  define hex where "hex = ''0x'' @ hex_encode ''abcdef''"
  have g: "GenerateNodeId (Inr ''abcdef'') = Inr hex" unfolding hex_def by (simp only: GenerateNodeId_def sum.case)
  have len: "length ''abcdef'' = NodeIdSize" by (simp add: NodeIdSize_def NodeIdBits_def)
  have pn: "ParseNodeId hex = Inr (be_value ''abcdef'')" unfolding hex_def by (rule ParseNodeId_hex [OF len])
  have hx: "hex = CHR ''0'' # tl hex" by (simp add: hex_def)
  then have ne: "hex \<noteq> ''''" by (metis list.distinct(1))
  obtain cr1 where put: "cfg_put ''node.id'' hex sample_repo = (Ret None, cr1)"
    using sample_put [of "''node.id''" "CHR ''0''" "tl hex"] hx by metis
  then obtain ns1 where st: "cfg_Set ''node.id'' hex sample_repo = (Ret None, cr1, ns1)"
    by (auto simp: cfg_put_def split: prod.splits)
  have id: "node_id_hex '''' (Inr ''abcdef'') sample_repo = (Ret (Inr hex), cr1, ns1)"
    using g st by (simp add: node_id_hex_def)
  have v: "value_or_empty (cfg_view cr1 ''node.id'') = hex"
    using cfgr.put_ok [OF sample_repo_inv put] by simp
  have ok: "\<exists>t1. node_names ''app'' seq (Inr ''h'') (t0\<lparr>nodeIdHex := hex\<rparr>) = (None, t1)" for seq
    by (simp add: node_names_def Let_def t0_def NodeService_def pn)
  obtain t1 t3 where n: "node_names ''app'' 0 (Inr ''h'') (t0\<lparr>nodeIdHex := hex\<rparr>) = (None, t1)"
      "node_names ''app'' 1 (Inr ''h'') (t0\<lparr>nodeIdHex := hex\<rparr>) = (None, t3)" using ok by blast
  have a: "node_PostConstruct '''' (Inr ''abcdef'') ''app'' 0 (Inr ''h'') t0 sample_repo = (None, t1, cr1, ns1)"
    by (simp add: node_PostConstruct_def id n)
  have b: "node_PostConstruct (value_or_empty (cfg_view cr1 ''node.id'')) (Inl ErrRange) ''app'' 1 (Inr ''h'') t0 cr1 =
      (None, t3, cr1, [])"
    unfolding v using ne by (simp add: node_PostConstruct_def node_id_hex_def n)
  show ?thesis
    using a b node_id_stable [OF sample_repo_inv len a b] unfolding t0_def by metis
qed



text \<open>
  concurrent calls can give the same identifier twice, with a clock that does not go back:
  the call that won the exchange resets the counter only after another call has counted, so
  the next one counts to the same number again.
\<close>

theorem issue_duplicate:
  "\<exists>sc s i j now k. sorted (map fst sc) \<and>
     s = issue_schedule sc \<lparr>shTimestamp = 0, shClock = 0, pcs = [IStart, IStart, IStart]\<rparr> \<and>
     i < length (pcs s) \<and> j < length (pcs s) \<and> i \<noteq> j \<and> pcs s ! i = IDone now k \<and> pcs s ! j = IDone now k"
proof -
  let ?sc = "[(10, 0), (10, 0), (10, 0), (10, 1), (10, 1), (10, 1), (10, 0), (10, 2), (10, 2), (10, 2)]"
  have "issue_schedule ?sc \<lparr>shTimestamp = 0, shClock = 0, pcs = [IStart, IStart, IStart]\<rparr> =
      \<lparr>shTimestamp = 10, shClock = 1, pcs = [IDone 10 0, IDone 10 1, IDone 10 1]\<rparr>"
    by (simp add: issue_step_def issue_act_def inc32_def)
  then show ?thesis
    by (intro exI [of _ ?sc] exI [of _ "\<lparr>shTimestamp = 10, shClock = 1, pcs = [IDone 10 0, IDone 10 1, IDone 10 1]\<rparr>"]
        exI [of _ 1] exI [of _ 2] exI [of _ 10]) simp
qed

end
