(* ===== verification/Program_Data.thy ===== *)
theory Program_Data
  imports Embedded Wiring Cmd_Setup
begin

text \<open>
  The embedded packages in the program: the sources that \<open>sprintapp/scan.go\<close> makes of them, the
  resources that the code names, the commands that print them, and the assets that the HTTP
  server serves.
\<close>

section \<open>The sources\<close>

text \<open>The three sources of \<open>main.go\<close>, by their names, and the file system each opens.\<close>

definition embedded_sources :: "map_range \<Rightarrow> (string \<times> (string \<Rightarrow> assetFile res)) list" where
  "embedded_sources ord =
     [(''resources'', resources_AssetFile ord), (''assets'', assets_AssetFile ord), (''assets-gzip'', assetsgz_AssetFile ord)]"

definition program_sources :: "map_range \<Rightarrow> asset_source list" where
  "program_sources ord =
     [DefaultResources (resources_AssetNames ord), DefaultAssets (assets_AssetNames ord),
      DefaultGzipAssets (assetsgz_AssetNames ord)]"

definition service_sources :: "map_range \<Rightarrow> resource_source list" where
  "service_sources ord =
     map (\<lambda>s. \<lparr>source_Name = as_Name s, AssetNames = as_AssetNames s\<rparr>) (program_sources ord)"

text \<open>
  What the container documents of \<open>Context.Resource\<close>: a resource is asked for by the name of its
  source, a colon and its path, and is the file that the source opens at the path; a path without
  a source names no resource.
\<close>

definition resource_law :: "map_range \<Rightarrow> (string \<Rightarrow> bytes res outcome option) \<Rightarrow> bool" where
  "resource_law ord resource \<longleftrightarrow>
     (\<forall>(src, files) \<in> set (embedded_sources ord). \<forall>path f c.
        files path = Inr f \<and> af_Reader f = Some c \<longrightarrow>
        resource (src @ '':'' @ path) = Some (Ret (Inr c))) \<and>
     (\<forall>path. CHR '':'' \<notin> set path \<longrightarrow> resource path = None)"

lemma resource_found:
  assumes "resource_law ord resource" and "(src, files) \<in> set (embedded_sources ord)"
    and "files path = Inr f" and "af_Reader f = Some c"
  shows "GetResource resource (src @ '':'' @ path) = Inr c"
  using assms unfolding resource_law_def by (fastforce simp: GetResource_def)

text \<open>A file of a package, opened at its name or below a slash.\<close>

lemma Open_asset:
  assumes "map_of (pk_bindata pk) name = Some (Inr a)" and "CHR 0x5C \<notin> set name" and "\<not> HasPrefix name ''/''"
    and "path = name \<or> path = slash # name"
  shows "\<exists>f. bindata_Open ord pk path = Inr f \<and> af_Reader f = Some (asset_bytes a)"
proof -
  have "(if 0 < length path \<and> path ! 0 = slash then drop 1 path else path) = name"
    using assms(3,4) by (cases name) (auto simp: HasPrefix_def slash_def)
  then show ?thesis
    using assms(1,2) unfolding bindata_Open_def Let_def by (simp add: Asset_def canonicalName_id)
qed

lemmas tables = resources_package_def resources_bindata_def assets_package_def assets_bindata_def
  assetsgz_package_def assetsgz_bindata_def

lemma single_range: "range_ok ord \<Longrightarrow> ord d [x] = [x]"
proof -
  assume "range_ok ord"
  then have "set (ord d [x]) = {x}" "length (ord d [x]) = 1" by (simp_all add: range_ok_def)
  then show "ord d [x] = [x]" by (cases "ord d [x]") auto
qed

lemma asset_names:
  assumes "range_ok ord"
  shows "assets_AssetNames ord = [''robots.txt'']" and "assetsgz_AssetNames ord = [''robots.txt'']"
  using single_range [OF assms] by (simp_all add: AssetNames_defs bindata_names_def tables)

lemma resource_names:
  assumes "range_ok ord"
  shows "set (resources_AssetNames ord) =
    {''licenses.txt'', ''openapi/certificates.swagger.json'', ''openapi/control.swagger.json'', ''sprint.yml'', ''templates/index.tmpl''}"
  using assms by (simp add: AssetNames_defs bindata_names_def tables range_ok_def)

lemma concat_map_nil: "(\<And>x. x \<in> set xs \<Longrightarrow> f x = []) \<Longrightarrow> concat (map f xs) = []"
  by (induction xs) auto

lemma GetOpenAPI_none:
  assumes "\<And>s name. s \<in> set sources \<Longrightarrow> source_Name s = source \<Longrightarrow> name \<in> set (AssetNames s) \<Longrightarrow> resource name = None"
  shows "GetOpenAPI resource sources source = ''''"
  unfolding GetOpenAPI_def
proof (rule concat_map_nil)
  fix s assume s: "s \<in> set sources"
  have "(case GetResource resource name of Inl _ \<Rightarrow> '''' | Inr content \<Rightarrow> content) = ''''"
    if "source_Name s = source" "name \<in> set (AssetNames s)" for name
    using assms [OF s that] by (simp add: GetResource_def)
  then have "concat (map (\<lambda>name. if HasSuffix name ''.swagger.json''
      then (case GetResource resource name of Inl _ \<Rightarrow> '''' | Inr content \<Rightarrow> content) else '''') (AssetNames s)) = ''''"
    if "source_Name s = source"
    using that by (intro concat_map_nil) simp
  then show "(if source_Name s \<noteq> source then '''' else concat (map (\<lambda>name. if HasSuffix name ''.swagger.json''
      then (case GetResource resource name of Inl _ \<Rightarrow> '''' | Inr content \<Rightarrow> content) else '''') (AssetNames s))) = ''''"
    by simp
qed

lemma service_sources_eq:
  "service_sources ord =
     [\<lparr>source_Name = ''resources'', AssetNames = resources_AssetNames ord\<rparr>,
      \<lparr>source_Name = ''assets'', AssetNames = assets_AssetNames ord\<rparr>,
      \<lparr>source_Name = ''assets-gzip'', AssetNames = assetsgz_AssetNames ord\<rparr>]"
  by (simp add: service_sources_def program_sources_def DefaultResources_def DefaultAssets_def DefaultGzipAssets_def)

lemma openapi_none:
  assumes "range_ok ord" and "resource_law ord resource"
  shows "GetOpenAPI resource (service_sources ord) ''resources'' = ''''"
proof (rule GetOpenAPI_none)
  fix s name
  assume "s \<in> set (service_sources ord)" "source_Name s = ''resources''" "name \<in> set (AssetNames s)"
  then have "name \<in> set (resources_AssetNames ord)"
    by (auto simp: service_sources_eq)
  then have "name \<in> {''licenses.txt'', ''openapi/certificates.swagger.json'', ''openapi/control.swagger.json'',
      ''sprint.yml'', ''templates/index.tmpl''}" unfolding resource_names [OF assms(1)] .
  then have "CHR '':'' \<notin> set name" by (elim insertE emptyE) simp_all
  then show "resource name = None" using assms(2) by (simp add: resource_law_def)
qed

lemma program_assets:
  assumes "range_ok ord"
  shows "groupAssets 0 (program_sources ord) Map.empty = [''/robots.txt'' \<mapsto> \<lparr>plainH = Some 1, gzipH = Some 2\<rparr>]"
  by (auto simp: program_sources_def asset_names [OF assms] DefaultResources_def DefaultAssets_def DefaultGzipAssets_def
      HasPrefix_def HasSuffix_def add_asset_def set_handler_def suffix_def Let_def)

lemma main_application_name: "applicationName (main_application Version Build) = ''sprint''"
  by (simp add: main_application_def Application_def AppendBeans_def new_application_def)

lemma robots_files:
  "\<exists>f. assets_AssetFile ord ''/robots.txt'' = Inr f \<and> af_Reader f = Some robotsTxt_data"
  "\<exists>f. assetsgz_AssetFile ord ''/robots.txt'' = Inr f \<and> af_Reader f = Some robotsTxtGz_data"
proof -
  have p: "CHR 0x5C \<notin> set ''robots.txt''" "\<not> HasPrefix ''robots.txt'' ''/''"
    "''/robots.txt'' = ''robots.txt'' \<or> ''/robots.txt'' = slash # ''robots.txt''"
    by (simp_all add: HasPrefix_def slash_def)
  show "\<exists>f. assets_AssetFile ord ''/robots.txt'' = Inr f \<and> af_Reader f = Some robotsTxt_data"
  proof -
    obtain a where a: "map_of (pk_bindata assets_package) ''robots.txt'' = Some (Inr a)" "asset_bytes a = robotsTxt_data"
      by (simp add: tables asset_eqs)
    from Open_asset [OF a(1) p, of ord] a(2) show ?thesis by (simp add: AssetFile_defs)
  qed
  show "\<exists>f. assetsgz_AssetFile ord ''/robots.txt'' = Inr f \<and> af_Reader f = Some robotsTxtGz_data"
  proof -
    obtain a where a: "map_of (pk_bindata assetsgz_package) ''robots.txt'' = Some (Inr a)" "asset_bytes a = robotsTxtGz_data"
      by (simp add: tables asset_eqs)
    from Open_asset [OF a(1) p, of ord] a(2) show ?thesis by (simp add: AssetFile_defs)
  qed
qed

lemma robots_start: "gzip_start robotsTxtGz_data" "\<not> gzip_start robotsTxt_data"
  by (simp_all add: gzip_start_def robotsTxtGz_data_def robotsTxt_data_def)

section \<open>Properties\<close>


text \<open>The container's lookup on the three sources.\<close>

definition sample_container :: "map_range \<Rightarrow> string \<Rightarrow> bytes res outcome option" where
  "sample_container ord p =
     (case IndexByte p (CHR '':'') of
        None \<Rightarrow> None
      | Some i \<Rightarrow>
          (case map_of (embedded_sources ord) (take i p) of
             None \<Rightarrow> None
           | Some files \<Rightarrow>
               (case files (drop (i + 1) p) of
                  Inl _ \<Rightarrow> None
                | Inr f \<Rightarrow> map_option (\<lambda>c. Ret (Inr c)) (af_Reader f))))"

lemma sample_container_law: "resource_law ord (sample_container ord)"
proof -
  have i: "IndexByte (s @ c # t) c = Some (length s)" if "c \<notin> set s" for s t and c :: char
    using that by (induction s) auto
  have n: "IndexByte p c = None" if "c \<notin> set p" for p and c :: char
    using that by (induction p) auto
  have "sample_container ord (src @ '':'' @ path) = Some (Ret (Inr c))"
    if "(src, files) \<in> set (embedded_sources ord)" "files path = Inr f" "af_Reader f = Some c" for src files path f c
  proof -
    have "CHR '':'' \<notin> set src" "map_of (embedded_sources ord) src = Some files"
      using that(1) by (auto simp: embedded_sources_def)
    then show ?thesis using that(2,3) i [of "CHR '':''" src path] by (simp add: sample_container_def)
  qed
  then have "\<forall>(src, files) \<in> set (embedded_sources ord). \<forall>path f c.
        files path = Inr f \<and> af_Reader f = Some c \<longrightarrow>
        sample_container ord (src @ '':'' @ path) = Some (Ret (Inr c))" by blast
  moreover have "\<forall>path. CHR '':'' \<notin> set path \<longrightarrow> sample_container ord path = None"
    by (intro allI impI) (simp add: sample_container_def n)
  ultimately show ?thesis unfolding resource_law_def by (rule conjI)
qed


end
