(* ===== verification/Property_Order.thy ===== *)
theory Property_Order
  imports Cmd_Node Cmd_Setup
begin

text \<open>
  Where a property's value comes from. The container's \<open>glue.Properties\<close> asks the registered
  resolvers: the flags (\<open>sprintapp/scan.go\<close> registers them with priority 100000, \<open>override any
  property resolvers\<close>), the configuration repository (\<open>sprintcore/scan.go\<close>, 10000), the process
  environment (\<open>sprintapp/application.go\<close>, 10) and the container's own property files. The
  lookup itself is third-party code, a parameter with the law \<open>priority_law\<close>.
\<close>

section \<open>Resolvers in order of priority\<close>

type_synonym resolver = "int \<times> (string \<Rightarrow> string \<times> bool)"

text \<open>\<open>GetString(key, default)\<close> over the registered resolvers.\<close>

type_synonym property_lookup = "resolver list \<Rightarrow> string \<Rightarrow> string \<Rightarrow> string"

text \<open>
  What the code relies on: the answer of the resolver with the highest priority among those
  that have the property, and the default when none has.
\<close>

definition priority_law :: "property_lookup \<Rightarrow> bool" where
  "priority_law get \<longleftrightarrow>
     (\<forall>rs k d. distinct (map fst rs) \<longrightarrow>
        (\<forall>(p, a) \<in> set rs. snd (a k) \<and> (\<forall>(q, b) \<in> set rs. snd (b k) \<longrightarrow> q \<le> p) \<longrightarrow> get rs k d = fst (a k)) \<and>
        ((\<forall>(p, a) \<in> set rs. \<not> snd (a k)) \<longrightarrow> get rs k d = d))"

lemma priority_highest:
  assumes "priority_law get" and "distinct (map fst rs)" and "(p, a) \<in> set rs" and "snd (a k)"
    and "\<And>q b. (q, b) \<in> set rs \<Longrightarrow> snd (b k) \<Longrightarrow> q \<le> p"
  shows "get rs k d = fst (a k)"
  using assms unfolding priority_law_def by fast

lemma priority_none:
  assumes "priority_law get" and "distinct (map fst rs)" and "\<And>q b. (q, b) \<in> set rs \<Longrightarrow> \<not> snd (b k)"
  shows "get rs k d = d"
  using assms unfolding priority_law_def by fast

text \<open>
  The resolvers of the root context and of the core context. \<open>files\<close> is the resolver of the
  property files, with the priority the container gives it.
\<close>

definition flags_resolver :: "app_flags \<Rightarrow> resolver" where
  "flags_resolver f = (flags_priority f, flags_GetProperty f)"

definition env_resolver_of :: "(string \<Rightarrow> string) \<Rightarrow> env_resolver \<Rightarrow> resolver" where
  "env_resolver_of env t = (res_priority t, env_answer env t)"

definition cfg_resolver :: "'s config_repo \<Rightarrow> resolver" where
  "cfg_resolver cr =
     (cfg_priority cr, \<lambda>k. case cfg_GetProperty cr k of None \<Rightarrow> ('''', False) | Some v \<Rightarrow> (v, True))"

definition root_resolvers :: "resolver \<Rightarrow> app_flags \<Rightarrow> (string \<Rightarrow> string) \<Rightarrow> env_resolver \<Rightarrow> resolver list" where
  "root_resolvers files f env t = [flags_resolver f, env_resolver_of env t, files]"

definition core_resolvers :: "resolver \<Rightarrow> app_flags \<Rightarrow> 's config_repo \<Rightarrow> (string \<Rightarrow> string) \<Rightarrow> env_resolver \<Rightarrow> resolver list" where
  "core_resolvers files f cr env t = root_resolvers files f env t @ [cfg_resolver cr]"

text \<open>The priorities the constructors are called with.\<close>

definition registered :: "resolver \<Rightarrow> app_flags \<Rightarrow> env_resolver \<Rightarrow> bool" where
  "registered files f t \<longleftrightarrow> flags_priority f = 100000 \<and> res_priority t = 10 \<and> fst files \<notin> {100000, 10000, 10}"

lemma flags_GetProperty_map:
  "flags_GetProperty f k = (case prop_map f k of Some v \<Rightarrow> (v, True) | None \<Rightarrow> ('''', False))"
  by (simp add: flags_GetProperty_def prop_map_def split: option.split)

text \<open>The first answer of resolvers that are listed from the highest priority down.\<close>

fun first_answer :: "resolver list \<Rightarrow> string \<Rightarrow> string \<Rightarrow> string" where
  "first_answer [] k d = d"
| "first_answer ((p, a) # rs) k d = (if snd (a k) then fst (a k) else first_answer rs k d)"

lemma first_answer_none: "\<forall>(q, b) \<in> set rs. \<not> snd (b k) \<Longrightarrow> first_answer rs k d = d"
  by (induction rs) auto

lemma first_answer_highest:
  assumes "sorted_wrt (\<lambda>r r'. fst r' < fst r) rs" and "\<exists>(q, b) \<in> set rs. snd (b k)"
  shows "\<exists>p a. (p, a) \<in> set rs \<and> snd (a k) \<and> first_answer rs k d = fst (a k) \<and>
    (\<forall>(q, b) \<in> set rs. snd (b k) \<longrightarrow> q \<le> p)"
  using assms
proof (induction rs)
  case (Cons r rs)
  obtain p a where r: "r = (p, a)" by (cases r)
  show ?case
  proof (cases "snd (a k)")
    case True
    with Cons.prems(1) r show ?thesis by (intro exI [of _ p] exI [of _ a]) auto
  next
    case False
    with Cons r obtain q b where "(q, b) \<in> set rs" "snd (b k)" "first_answer rs k d = fst (b k)"
        "\<forall>(q', b') \<in> set rs. snd (b' k) \<longrightarrow> q' \<le> q"
      by auto
    with False r show ?thesis by (intro exI [of _ q] exI [of _ b]) auto
  qed
qed simp

text \<open>Resolvers that do not know the property, and the order of registration, do not matter.\<close>

lemma lookup_first:
  assumes "priority_law get" and "distinct (map fst rs)" and "sorted_wrt (\<lambda>r r'. fst r' < fst r) rs'"
    and "set rs' \<subseteq> set rs" and "\<And>p a. (p, a) \<in> set rs \<Longrightarrow> snd (a k) \<Longrightarrow> (p, a) \<in> set rs'"
  shows "get rs k d = first_answer rs' k d"
proof (cases "\<exists>(q, b) \<in> set rs'. snd (b k)")
  case True
  from first_answer_highest [OF assms(3) this, of d] obtain p a where
      a: "(p, a) \<in> set rs'" "snd (a k)" "first_answer rs' k d = fst (a k)"
      "\<forall>(q, b) \<in> set rs'. snd (b k) \<longrightarrow> q \<le> p"
    by auto
  have "get rs k d = fst (a k)"
    by (rule priority_highest [OF assms(1,2), of p]) (use a assms(4,5) in fast)+
  with a(3) show ?thesis by simp
next
  case False
  have "get rs k d = d" by (rule priority_none [OF assms(1,2)]) (use False assms(5) in fast)
  moreover have "first_answer rs' k d = d" by (rule first_answer_none) (use False in fast)
  ultimately show ?thesis by simp
qed

lemmas resolver_defs = core_resolvers_def root_resolvers_def flags_resolver_def env_resolver_of_def cfg_resolver_def

lemma core_lookup:
  assumes "priority_law get" and "registered files f t" and "cfg_priority cr = 10000" and "\<not> snd (snd files k)"
  shows "get (core_resolvers files f cr env t) k d =
    (case prop_map f k of Some v \<Rightarrow> v | None \<Rightarrow>
       (case cfg_GetProperty cr k of Some v \<Rightarrow> v | None \<Rightarrow>
          (if snd (env_answer env t k) then fst (env_answer env t k) else d)))"
proof -
  have "get (core_resolvers files f cr env t) k d =
      first_answer [flags_resolver f, cfg_resolver cr, env_resolver_of env t] k d"
    by (rule lookup_first [OF assms(1)]) (use assms(2-4) in \<open>auto simp: resolver_defs registered_def\<close>)
  then show ?thesis by (simp add: resolver_defs flags_GetProperty_map split: option.split)
qed

lemma root_lookup:
  assumes "priority_law get" and "registered files f t" and "\<not> snd (snd files k)"
  shows "get (root_resolvers files f env t) k d =
    (case prop_map f k of Some v \<Rightarrow> v | None \<Rightarrow>
       (if snd (env_answer env t k) then fst (env_answer env t k) else d))"
proof -
  have "get (root_resolvers files f env t) k d = first_answer [flags_resolver f, env_resolver_of env t] k d"
    by (rule lookup_first [OF assms(1)]) (use assms(2-3) in \<open>auto simp: resolver_defs registered_def\<close>)
  then show ?thesis by (simp add: resolver_defs flags_GetProperty_map split: option.split)
qed

text \<open>Parsing the command line keeps the priority of the flags.\<close>

lemma set_flag_priority: "set_flag name v t = (e, t') \<Longrightarrow> flags_priority t' = flags_priority t"
  by (auto simp: set_flag_def split: if_splits sum.splits)

lemma FlagParse_priority: "FlagParse args t = (r, t') \<Longrightarrow> flags_priority t' = flags_priority t"
proof (induction args t arbitrary: r t' rule: FlagParse.induct)
  case (2 s args t)
  show ?case
  proof (cases "flag_head_of s")
    case (FlagNamed name vo)
    note h = FlagNamed
    show ?thesis
    proof (cases "is_bool_flag name")
      case None
      with 2 h show ?thesis by (simp add: FlagParse.simps)
    next
      case (Some b)
      show ?thesis
      proof (cases b)
        case True
        obtain e t1 where f: "set_flag name (case vo of Some v \<Rightarrow> v | None \<Rightarrow> ''true'') t = (e, t1)" by fastforce
        have "FlagParse args t1 = (r, t') \<Longrightarrow> e = None \<Longrightarrow> flags_priority t' = flags_priority t1"
          using 2(1) [OF h Some] True f by simp
        with f 2(4) h Some True set_flag_priority [OF f] show ?thesis
          by (cases e) (auto simp: FlagParse.simps)
      next
        case False
        note n = h Some False
        show ?thesis
        proof (cases vo)
          case (Some v)
          obtain e t1 where f: "set_flag name v t = (e, t1)" by fastforce
          have "FlagParse args t1 = (r, t') \<Longrightarrow> e = None \<Longrightarrow> flags_priority t' = flags_priority t1"
            using 2(3) [OF n(1,2) _ Some _ _, of e t1 r t'] n(3) f by simp
          with f 2(4) n Some set_flag_priority [OF f] show ?thesis
            by (cases e) (auto simp: FlagParse.simps)
        next
          case None
          show ?thesis
          proof (cases args)
            case Nil
            with 2(4) n None show ?thesis by (simp add: FlagParse.simps)
          next
            case (Cons v args')
            obtain e t1 where f: "set_flag name v t = (e, t1)" by fastforce
            have "FlagParse args' t1 = (r, t') \<Longrightarrow> e = None \<Longrightarrow> flags_priority t' = flags_priority t1"
              using 2(2) [OF n(1,2) _ None Cons, of e t1 r t'] n(3) f by simp
            with f 2(4) n None Cons set_flag_priority [OF f] show ?thesis
              by (cases e) (auto simp: FlagParse.simps)
          qed
        qed
      qed
    qed
  qed (use 2 in \<open>simp_all add: FlagParse.simps\<close>)
qed (simp add: FlagParse.simps)

text \<open>An instance of the law.\<close>

definition by_priority :: property_lookup where
  "by_priority rs k d = first_answer (rev (sort_key fst rs)) k d"

lemma by_priority_law: "priority_law by_priority"
proof -
  have *: "by_priority rs k d = fst (a k)" if d: "distinct (map fst rs)" and m: "(p, a) \<in> set rs" "snd (a k)"
      and h: "\<forall>(q, b) \<in> set rs. snd (b k) \<longrightarrow> q \<le> p" for rs k d p a
  proof -
    let ?rs = "rev (sort_key fst rs)"
    have "distinct (map fst (sort_key fst rs))" using d by (metis distinct_map distinct_sort set_sort)
    then have "sorted_wrt (<) (map fst (sort_key fst rs))" by (simp add: strict_sorted_iff)
    then have s: "sorted_wrt (\<lambda>r r'. fst r' < fst r) ?rs" by (simp add: sorted_wrt_map sorted_wrt_rev)
    have "\<exists>(q, b) \<in> set ?rs. snd (b k)" using m by force
    from first_answer_highest [OF s this, of d] obtain q b where
        b: "(q, b) \<in> set rs" "snd (b k)" "first_answer ?rs k d = fst (b k)" "\<forall>(q', b') \<in> set rs. snd (b' k) \<longrightarrow> q' \<le> q"
      by auto
    with m h have "q = p" by fastforce
    with d b(1) m(1) have "b = a" by (metis eq_key_imp_eq_value)
    with b(3) show ?thesis by (simp add: by_priority_def)
  qed
  moreover have "by_priority rs k d = d" if "\<forall>(p, a) \<in> set rs. \<not> snd (a k)" for rs k d
    unfolding by_priority_def by (rule first_answer_none) (use that in auto)
  ultimately show ?thesis unfolding priority_law_def by fast
qed

section \<open>Properties\<close>

lemma ToUpper_not_application: "\<not> HasPrefix (ToUpper s) ''application.''"
proof
  assume "HasPrefix (ToUpper s) ''application.''"
  then have "CHR ''a'' \<in> set (ToUpper s)"
    by (auto simp: HasPrefix_def prefix_def)
  then obtain c where "upper_char c = CHR ''a''" by (auto simp: ToUpper_def)
  then have "(of_char (upper_char c) :: nat) = 97" by simp
  then show False by (auto simp: upper_char_def Let_def split: if_splits)
qed

lemma env_answer_fresh:
  "env_answer env (SystemEnvironmentPropertyResolver name p) ''application.auth'' =
     (env (ToUpper (name @ ''_auth'')), env (ToUpper (name @ ''_auth'')) \<noteq> '''')"
proof -
  have "ReplaceAll ''auth'' ''.'' ''_'' = ''auth''" "HasPrefix ''application.auth'' ''application.''"
    "drop (length ''application.'') ''application.auth'' = ''auth''" by code_simp+
  then show ?thesis
    by (simp add: env_answer_def toEnv_def SystemEnvironmentPropertyResolver_def Let_def)
qed



text \<open>
  C8: the two ways to the token that \<open>setup\<close> prints. With the printed line in the environment,
  the client of a process that gets no other token sends exactly this token; but \<open>keygen verify\<close>
  without an argument does not find it: it asks for a property of the variable's name, which
  the environment's resolver never answers.
\<close>

theorem exported_token:
  assumes "priority_law get" and "registered files f r" and "r = SystemEnvironmentPropertyResolver name 10"
    and "variable = ToUpper (name @ ''_auth'')" and "env variable = tok" and "tok \<noteq> ''''"
    and "\<forall>k \<in> {''application.auth'', variable}. prop_map f k = None \<and> \<not> snd (snd files k)"
  shows "export_line name ''auth'' tok = ''export '' @ variable @ ''='' @ tok @ nl \<and>
    do_token (doDial tls maxSize (get (root_resolvers files f env r) ''application.auth'' '''') addr) = Some tok \<and>
    keygen_verify lib (\<lambda>k. get (root_resolvers files f env r) k '''') name typed now [] =
      Ret (Inl (Errorf ''auth token not found''))"
proof -
  have n: "prop_map f ''application.auth'' = None" "\<not> snd (snd files ''application.auth'')"
    "prop_map f variable = None" "\<not> snd (snd files variable)"
    using assms(7) by simp_all
  have "get (root_resolvers files f env r) ''application.auth'' '''' = tok"
    using root_lookup [OF assms(1,2) n(2)] n(1) assms(3-6) by (simp add: env_answer_fresh)
  moreover have "\<not> snd (env_answer env r variable)"
    using ToUpper_not_application by (simp add: assms(3,4) env_answer_def toEnv_def)
  then have "get (root_resolvers files f env r) variable '''' = ''''"
    using root_lookup [OF assms(1,2) n(4)] n(3) by simp
  ultimately show ?thesis
    using assms(4,6) by (simp add: export_line_def doDial_def keygen_verify_def Let_def)
qed

theorem exported_token_witness:
  "do_token (doDial False 0 (by_priority (root_resolvers (100, \<lambda>_. ('''', False)) (RegisterFlags (ApplicationFlags 100000))
      (\<lambda>v. if v = ''APP_AUTH'' then ''tok'' else '''') (SystemEnvironmentPropertyResolver ''app'' 10)) ''application.auth'' '''') ''a'') = Some ''tok''"
proof -
  let ?f = "RegisterFlags (ApplicationFlags 100000)"
  let ?r = "SystemEnvironmentPropertyResolver ''app'' 10"
  have r: "registered (100, \<lambda>_. ('''', False)) ?f ?r"
    by (simp add: registered_def RegisterFlags_def ApplicationFlags_def SystemEnvironmentPropertyResolver_def)
  have v: "''APP_AUTH'' = ToUpper (''app'' @ ''_auth'')" by code_simp
  have n: "\<forall>k \<in> {''application.auth'', ''APP_AUTH''}. prop_map ?f k = None \<and> \<not> snd (snd (100 :: int, \<lambda>_ :: string. ('''', False)) k)"
    by (simp add: prop_map_def RegisterFlags_def ApplicationFlags_def NewKeyValueFlags_def)
  have e: "(if ''APP_AUTH'' = ''APP_AUTH'' then ''tok'' else '''') = ''tok''" "''tok'' \<noteq> ''''" by simp_all
  from exported_token [OF by_priority_law r refl v _ e(2) n, of "\<lambda>v. if v = ''APP_AUTH'' then ''tok'' else ''''" False 0 "''a''"] e(1)
  show ?thesis by blast
qed

end
