(* ===== verification/Spec2Isabelle.thy ===== *)
theory Spec2Isabelle
  imports App_Core App_Property App_Resources Autoupdate Beans Bindata_Restore Cmd_Config Cmd_Help Cmd_Node Cmd_Setup
    Config_Watch Deployment Embedded Factories Glob Hclog Http_Factory Job_Service Mail_Service Node_Service
    Program_Data Property_Order Remote_Control Servers Storage_Service Utils_Files Utils_Node Utils_Prompt Utils_Tokens
    Wiring
begin

text \<open>
  This library models sprint, a framework for servers written in Go: an application bean with
  its flags and properties, the commands of its command line, the core services of a node
  (configuration, storage, jobs, mail, update, identity), the servers a node runs with the
  authorization of their calls, and the client that administers a running node from outside.
  Every definition is a translation of code under \<open>src/\<close>; the theorems named C1 to C40
  state what the code guarantees, alone and across components.

  How the parts interact. A command (\<open>sprintcmd\<close>) first asks the running node through the
  control client (\<open>sprintclient\<close>); when no node answers, it opens the core context itself and
  acts on the same services (\<open>sprintcore\<close>). A node is started as a new process whose command
  line carries the flags of its parent, it writes a pid file, opens the server contexts and runs
  their servers (\<open>sprintserver\<close>) until the application is shut down or restarted. A control
  call passes the interceptors, the authorization middleware and the handler, in that order.
  The middleware verifies tokens with a key kept in the configuration repository; setup creates
  this key and prints an administrator's token.

  The theories and the code they model.
  \<^item> Prelude: the Go values, results (\<open>Inl\<close> an error, \<open>Inr\<close> a value), panics as values, and
    the functions of packages \<open>strings\<close>, \<open>strconv\<close> and \<open>fmt\<close> that the code calls; the
    collections of simplification rules. Codec (base64, hex), Paths (\<open>path/filepath\<close>), Glob
    (\<open>filepath.Match\<close>) and Trim_Lemmas are the standard library's part of the model. Store_API
    is the interface of the stores with their laws; Commands is the locale of services that
    answer \<open>ExecuteCommand\<close>.
  \<^item> Utils_Node, Utils_Files, Utils_Prompt, Utils_Tokens: the package \<open>sprintutils\<close>, over a
    file system that maps paths to content and mode.
  \<^item> App_Core, App_Property, App_Resources: \<open>sprintapp\<close>. The application's atomic flags are a
    record; App_Core has \<open>Shutdown\<close> both as a function and as a step relation of interleaved
    atomic operations.
  \<^item> Config_Repository: \<open>config_repository.go\<close> over a store of prefixed keys;
    Config_Watch: its watcher goroutines, channels and cancellations as a step relation.
  \<^item> Node_Service, Job_Service, Storage_Service, Mail_Service, Autoupdate, Factories, Hclog: the
    other files of \<open>sprintcore\<close> with the same names. Node_Service has \<open>Issue\<close> sequentially
    and as interleaved atomic operations; Autoupdate has the delayed trigger as a step relation.
  \<^item> Auth_Middleware, Servers, Control_Server, Http_Factory: \<open>sprintserver\<close>. The state of a
    node that the handlers act on is the record \<open>control_state\<close>.
  \<^item> Control_Client: \<open>sprintclient\<close>; a remote method is a function from a command and its
    arguments to an answer and the server's new state. Remote_Control puts interceptors,
    middleware and handlers together, as a caller meets them.
  \<^item> Cmd_Node, Cmd_Config, Cmd_Setup: the commands of \<open>sprintcmd\<close>. The outside world of a
    command (files, processes, output, the contexts it opens) is its explicit state.
    Cmd_Help has the help pages as data, the text built from them, and the subcommands they name.
  \<^item> Property_Order: the resolvers of flags, repository and environment, in the order of their
    priorities, and what a lookup of a property through them gives.
  \<^item> Beans, Wiring, Deployment: every struct of the framework that the dependency injection
    library fills, as a \<open>bean_def\<close> with its injected fields, its classes and the object its
    factory makes; the lists of the \<open>scan.go\<close> files and the tree of contexts that \<open>main.go\<close>
    hands over; and the servers of this tree with the properties of \<open>resources/sprint.yml\<close>.
  \<^item> Bindata, Bindata_Restore, Embedded, Program_Data: the packages \<open>pkg/*\<close> of embedded files.
    Their functions are the same code three times and are defined once over a \<open>package\<close>, its
    table and its tree of directories; Embedded has the three packages with the contents of their
    files; Program_Data is what the program asks of them and serves from them.

  The interfaces. Each is a locale, with an interpretation on the model's own definitions in the
  theory of the provider: \<open>config_repository\<close> (as \<open>cfgr\<close>; used by setup, the handlers, the
  node service and the middleware), \<open>authorization\<close> (\<open>auth\<close>; used by the handlers),
  \<open>command_service\<close> (\<open>storagec\<close>, \<open>jobc\<close>; what a refused command leaves), \<open>server\<close> and its
  extension \<open>listening_server\<close> (\<open>grpcs\<close>, \<open>https\<close>; a shutdown closes once, a listener is closed
  by it), \<open>property_resolver\<close> (\<open>envr\<close>, \<open>cfgp\<close>, \<open>flagp\<close>; a lookup does not change the answers),
  and \<open>memo_table\<close> (\<open>textm\<close>, \<open>htmlm\<close>; the template caches).

  What the groups of lemmas show. C1 to C5: tokens and the authorization of calls, from the
  printed token to the refusal of every other caller. C6 to C9, C21, C27, C34: the life of a node
  process, the flags and properties it starts with and the token its commands find. C10, C11: its
  identity and the identifiers it issues. C12 to C14: configuration, the remote handler and the
  watchers. C15 to C19: the query language, the remote and the local console, storage commands.
  C20, C31: shutting down, under interleaving and repeatedly. C22 to C24, C33: the program of
  \<open>main.go\<close> as a whole: no bean lacks what it is injected, its servers reach their handlers, its
  resources are the ones it asks for, and where its redirect page leads. C25, C26: the file system
  of embedded files, and restoring them to a disk. C28 to C30, C32: commands against a running and
  a stopped node, their documentation, and where the client dials. C35: rate limiting. C36 to C40:
  update, routes, compression, directories and log entries.
  Beside them \<open>issue_duplicate\<close> (two concurrent calls can issue the same identifier),
  \<open>watch_set_panics\<close> (a set can panic on the channel of an ended watcher), \<open>refuse_second_start\<close>,
  \<open>lookups_independent\<close>, \<open>mail_once\<close>, \<open>licences_lines\<close>, \<open>command_reached\<close>, \<open>job_cancel\<close>,
  \<open>mode_roundtrip\<close> and \<open>copy_file\<close> stand in the theories of their components. Where the code behaves otherwise than it means to, the theorem
  states what it does: C8 (keygen does not find the exported token), C24 (\<open>resources openapi\<close>
  prints nothing), C25 (a directory that is read to its end reports no end), C28 (a refused caller
  acts locally), C33 (a numbered node redirects to the node without a number) and C38 (an
  uncompressed body loses bytes).

  Third-party code is a parameter: the stores, the JWT library, base62, gzip, name resolution and
  listening, the process table, gRPC dialling, the mail provider, zap, template engines and the
  contexts of the dependency injection library. What the code relies on is a named hypothesis:
  \<open>store_laws\<close> (a store returns what was put, by key and by prefix), \<open>jwt_laws\<close> (a signed
  token verifies with its key to its claims until it expires, and is refused afterwards),
  \<open>plain_tokens\<close> (a signed token is not empty and has no white space around it),
  \<open>resource_law\<close> (the container finds a resource by its source's name, a colon and its path),
  \<open>priority_law\<close> (the container answers a property from the resolver with the highest priority
  that has it), \<open>class_laws\<close> (which classes of third-party packages implement which interfaces),
  \<open>with_client_laws\<close> (the client runs the callback or fails before it), \<open>repo_child_laws\<close>
  (closing and opening the core context keeps the repository's data) and \<open>literal_port\<close> (a
  numeric address resolves to itself). Each is instantiated in a witness of a property that
  assumes it. base62 appears only in the identifiers' one-line wrappers.

  Bounds and fuel. Only \<open>RestoreAssets\<close> has fuel, for which the depth of the tree is proved
  enough (C26). Loops over lists are structural; a loop that waits for
  input reads a finite list of lines and gives \<open>None\<close> when it would still be waiting; a read of
  the random source takes the next element of a list in the same way. File modes
  and the bits of floats are words; other machine integers are \<open>int\<close> with the wrap-around
  written out where it can happen (the 32-bit clock of \<open>Issue\<close>, the 48-bit node identifier)
  and the range check of \<open>strconv\<close> where the code parses them. Error
  texts are kept as far as a caller can tell them apart and are abbreviated otherwise; debug and
  info logging is omitted. The iteration order of a Go map is an explicit parameter.

  Not modelled: the tests, and one-line getters and texts for logs that only hand on a field. Of
  the modelled files the calls that hand work to libraries are parameters or left out: the
  container's resolving and closing of beans, rendering templates, TLS handshakes, log rotation,
  the registration of the gRPC service and its gateway, and the sizes and times of directories.
  That the YAML parser reads the embedded \<open>sprint.yml\<close> as the properties \<open>sprint_yml\<close> is not
  proved either: the parser is third-party code.
\<close>

section \<open>Properties\<close>

lemma GenerateToken_rest: "GenerateToken rds = Some (r, rest) \<Longrightarrow> set rest \<subseteq> set rds"
  by (induction rds) (auto simp: Let_def split: sum.splits if_splits)

lemma setup_key_core: "setup_key secret cr s = (x, cr', s') \<Longrightarrow> cr' = cr"
  by (auto simp: setup_key_def split: prod.splits)

lemma same_ops_refl [simp]: "same_ops cr cr"
  by (simp add: same_ops_def)

lemma setup_core_ops: "setup_core rds cr s = (Ret (Inr (Some key)), cr', s') \<Longrightarrow> same_ops cr' cr"
  by (auto simp: setup_core_def dest!: setup_key_core dest: cfg_put_ops
      split: outcome.splits sum.splits option.splits prod.splits if_splits)

text \<open>
  What a successful setup leaves: the key in the repository that is opened next, and the token
  it printed, signed with that key.
\<close>

lemma setup_Run_leaves:
  assumes "setup_Run lib roles (Inr username) now set_property [child] name rds s = Some (Ret None, s')"
    and "repo_child_laws child" and "reads_ok rds"
  shows "\<exists>key tok s3. s' = printf (export_line name ''auth'' tok) s3 \<and>
    GenerateAuthToken lib roles (Some key) (Some (setup_user username now)) = Inr tok \<and>
    (\<forall>c cr s2. child_Object child (s'\<lparr>con := c\<rparr>) = (Inr cr, s2) \<longrightarrow>
      cfg_inv cr \<and> (\<exists>secret. cfg_view cr ''jwt.secret.key'' = Some secret \<and> b64_decode True secret = (key, None)))"
proof -
  from assms(1) obtain boot rest where g: "GenerateToken rds = Some (Inr boot, rest)"
    by (auto simp: setup_Run_def split: option.splits prod.splits sum.splits)
  define s1 where "s1 = (printf (export_line name ''boot'' boot) s)
    \<lparr>outer := set_property ''application.boot'' boot (outer (printf (export_line name ''boot'' boot) s))\<rparr>"
  from assms(1) g obtain key s3 where d: "doInCore [child] (setup_core rest) s1 = (Ret (Inr (Some key)), s3)"
      and a: "setup_auth lib roles (Inr username) now name key s3 = (Ret None, s')"
    by (auto simp: setup_Run_def Let_def s1_def split: outcome.splits sum.splits option.splits prod.splits)
  from a obtain tok where tok: "GenerateAuthToken lib roles (Some key) (Some (setup_user username now)) = Inr tok"
      "s' = printf (export_line name ''auth'' tok) s3"
    by (auto simp: setup_auth_def split: sum.splits)
  from doInCore_ok [OF d] obtain core t1 core' t2 where o: "child_Object child s1 = (Inr core, t1)"
      and sc: "setup_core rest core t1 = (Ret (Inr (Some key)), core', t2)" and s3: "s3 = child_Close child core' t2" by auto
  have ro: "reads_ok rest" using assms(3) GenerateToken_rest [OF g] by (auto simp: reads_ok_def)
  from setup_core_key [OF repo_child_inv [OF assms(2) o] ro sc] obtain secret where
      sec: "cfg_view core' ''jwt.secret.key'' = Some secret" "b64_decode True secret = (key, None)" by blast
  have "cfg_inv cr \<and> cfg_view cr ''jwt.secret.key'' = Some secret" if c: "child_Object child (s'\<lparr>con := c\<rparr>) = (Inr cr, s2)" for c cr s2
  proof -
    have "child_Object child ((child_Close child core' t2)\<lparr>con := c\<rparr>) = (Inr cr, s2)"
      using c by (simp add: tok(2) s3 printf_def)
    from repo_child_reopen [OF assms(2) o setup_core_ops [OF sc] this] repo_child_inv [OF assms(2) c] sec(1)
    show ?thesis by simp
  qed
  with tok sec(2) show ?thesis by blast
qed

text \<open>The token of a set-up node in the header of a client's call.\<close>

definition plain_tokens :: "jwt_lib \<Rightarrow> bool" where
  "plain_tokens lib \<longleftrightarrow> (\<forall>key c tok. jwt_SignedString lib key c = Inr tok \<longrightarrow> tok \<noteq> '''' \<and> TrimSpace tok = tok)"

definition setup_claims :: "string list \<Rightarrow> string \<Rightarrow> int \<Rightarrow> user_claims" where
  "setup_claims roles username now =
     \<lparr>claim_Roles = roles, claim_Context = None, claim_Id = username, claim_ExpiresAt = now + 356 * 24 * 3600\<rparr>"

lemma setup_token_header:
  assumes "GenerateAuthToken lib roles (Some key) (Some (setup_user username now)) = Inr tok"
    and "jwt_laws lib" and "plain_tokens lib" and "jwt_encodable lib (setup_claims roles username now)"
    and "role_order_ok roles (setup_user username now)" and "0 \<le> now"
  shows "admin_header lib t key {} (call_metadata (doDial tls maxSize tok addr)) \<longleftrightarrow> t \<le> now + 356 * 24 * 3600"
proof -
  let ?c = "setup_claims roles username now"
  have sg: "jwt_SignedString lib key ?c = Inr tok"
    using assms(1) by (simp add: GenerateAuthToken_def setup_claims_def setup_user_def)
  then have tok: "tok \<noteq> ''''" "TrimSpace tok = tok" using assms(3) by (auto simp: plain_tokens_def)
  have meta: "metadata (call_metadata (doDial tls maxSize tok addr)) = Some (Some [''Bearer '' @ tok])"
    using tok(1) by (simp add: call_metadata_def doDial_def GetRequestMetadata_def)
  have adm: "''ADMIN'' \<in> set roles" using assms(5) by (simp add: role_order_ok_def setup_user_def)
  have law: "if t \<le> now + 356 * 24 * 3600 then jwt_Parse lib key t tok = (None, ?c, True)
      else fst (jwt_Parse lib key t tok) \<noteq> None"
    using assms(2,4,6) sg by (fastforce simp: jwt_laws_def setup_claims_def)
  show ?thesis
    using law adm tok assms(6) by (auto simp: admin_header_def meta HasPrefix_def setup_claims_def split: if_splits)
qed

text \<open>
  C1: from a setup to an administrator's call. When \<open>setup\<close> succeeds, the token it prints for
  the variable the command line tells to export is the token of an administrator: a server
  whose core is opened afterwards takes the secret key from its repository without making a
  new one, and a client that was given the token as its property \<open>application.auth\<close> is served
  every administrative call until 356 days after the setup, and none after that.
\<close>

theorem setup_login:
  assumes "setup_Run lib roles (Inr username) now set_property [child] name rds s = Some (Ret None, s')"
    and "repo_child_laws child" and "reads_ok rds"
    and "jwt_laws lib" and "plain_tokens lib" and "jwt_encodable lib (setup_claims roles username now)"
    and "role_order_ok roles (setup_user username now)" and "0 \<le> now"
    and "child_Object child (s'\<lparr>con := c\<rparr>) = (Inr cr, s2)" and "cfg_GetProperty cr ''jwt.secret.key'' = Some secret"
  shows "\<exists>tok s3 mw. s' = printf (export_line name ''auth'' tok) s3 \<and>
    auth_PostConstruct lib ord cu later reads secret AuthorizationMiddleware cr = Some (Ret None, mw, cr, None) \<and>
    (if t \<le> now + 356 * 24 * 3600
     then remote_call lib env t mw t' mw' (call_metadata (doDial tls maxSize tok addr)) call st = handle env call root_user True st
     else \<not> answered (fst (remote_call lib env t mw t' mw' (call_metadata (doDial tls maxSize tok addr)) call st)) \<and>
       snd (remote_call lib env t mw t' mw' (call_metadata (doDial tls maxSize tok addr)) call st) = st)"
proof -
  from setup_Run_leaves [OF assms(1-3)] assms(9) obtain key tok s3 sec where
      p: "s' = printf (export_line name ''auth'' tok) s3" and
      g: "GenerateAuthToken lib roles (Some key) (Some (setup_user username now)) = Inr tok" and
      i: "cfg_inv cr" and v: "cfg_view cr ''jwt.secret.key'' = Some sec" "b64_decode True sec = (key, None)" by blast
  from assms(10) have ne: "secret \<noteq> ''''" and gt: "cfg_Get cr ''jwt.secret.key'' = Ret (Inr secret)"
    by (auto simp: cfg_GetProperty_def split: if_splits outcome.splits sum.splits)
  have "secret = sec" using cfgr.get_view [OF i gt] v(1) by (simp add: value_or_empty_def)
  with ne v(2) have pc: "auth_PostConstruct lib ord cu later reads secret AuthorizationMiddleware cr =
      Some (Ret None, AuthorizationMiddleware\<lparr>secretKey := Some key\<rparr>, cr, None)"
    by (simp add: auth_PostConstruct_def auth_finish_def)
  define mw where "mw = AuthorizationMiddleware\<lparr>secretKey := Some key\<rparr>"
  have k: "secretKey mw = Some key" "invalidTokens mw = {}" by (simp_all add: mw_def AuthorizationMiddleware_def)
  show ?thesis
    using remote_call_exact [OF k(1), where lib = lib and now = t and ctx = "call_metadata (doDial tls maxSize tok addr)"
        and env = env and now' = t' and mw' = mw' and call = call and t = st]
      setup_token_header [OF g assms(4-8), of t tls maxSize addr] p pc k(2)
    by (intro exI [of _ tok] exI [of _ s3] exI [of _ mw]) (auto simp: mw_def)
qed

definition zeros :: bytes where
  "zeros = replicate 32 (CHR 0x00)"

definition setup_lib :: jwt_lib where
  "setup_lib = one_token_lib zeros (setup_claims [''USER'', ''ADMIN''] ''ann'' 0) ''t''"

lemma b64_zeros: "set bs \<subseteq> {CHR 0x00} \<Longrightarrow> set (b64_encode True bs) \<subseteq> {CHR ''A''}"
proof -
  have "(char_of (65 :: nat) :: char) = CHR ''A''" by code_simp
  then show "set bs \<subseteq> {CHR 0x00} \<Longrightarrow> ?thesis"
    by (induction True bs rule: b64_encode.induct) (auto simp: b64_sym_def)
qed

lemma zeros_token: "GenerateToken (Inr zeros # rds) = Some (Inr (b64_encode True zeros), rds)"
proof -
  have "\<not> ContainsAny (b64_encode True zeros) ''-_''"
    using b64_zeros [of zeros] by (auto simp: ContainsAny_def list_ex_iff zeros_def)
  then show ?thesis by (simp add: Let_def)
qed

lemma setup_runs:
  "\<exists>s'. setup_Run setup_lib [''USER'', ''ADMIN''] (Inr ''ann'') 0 (\<lambda>_ _ w. w) [mem_child] ''app'' [Inr zeros, Inr zeros] sample_cli =
     Some (Ret None, s') \<and> outer s' = [(bucket_key ''jwt.secret.key'', b64_encode True zeros)]"
proof -
  have ne: "b64_encode True zeros \<noteq> ''''" by (rule b64_encode_ne) (simp add: zeros_def)
  have d: "b64_decode True (b64_encode True zeros) = (zeros, None)" by (rule b64_roundtrip)
  have t: "GenerateAuthToken setup_lib [''USER'', ''ADMIN''] (Some zeros) (Some (setup_user ''ann'' 0)) = Inr ''t''"
    by (simp add: GenerateAuthToken_def setup_lib_def one_token_lib_def setup_user_def setup_claims_def)
  show ?thesis
    using ne d
    by (simp add: setup_Run_def zeros_token doInCore_def setup_core_def mem_child_def cfg_Get_def ds_get_def mem_ops_def
        ConfigRepository_def sample_cli_def printf_def Let_def cfg_put_doSet cfg_doSet_def ds_update_def setup_key_def
        setup_auth_def t nil_bytes_def del: GenerateToken.simps)
qed

theorem setup_login_witness:
  "\<exists>s' tok s3. setup_Run setup_lib [''USER'', ''ADMIN''] (Inr ''ann'') 0 (\<lambda>_ _ w. w) [mem_child] ''app'' [Inr zeros, Inr zeros] sample_cli =
     Some (Ret None, s') \<and> s' = printf (export_line ''app'' ''auth'' tok) s3 \<and>
     (\<exists>mw. fst (remote_call setup_lib sample_env 5 mw 6 sample_mw (call_metadata (doDial True 0 tok ''localhost:1''))
       (NodeCall ''restart'') sample_control) = Replied (Some ''OK'', None))"
proof -
  obtain s' where s: "setup_Run setup_lib [''USER'', ''ADMIN''] (Inr ''ann'') 0 (\<lambda>_ _ w. w) [mem_child] ''app''
      [Inr zeros, Inr zeros] sample_cli = Some (Ret None, s')"
      and o: "outer s' = [(bucket_key ''jwt.secret.key'', b64_encode True zeros)]"
    using setup_runs by blast
  have l: "reads_ok [Inr zeros, Inr zeros]" "jwt_laws setup_lib"
    "jwt_encodable setup_lib (setup_claims [''USER'', ''ADMIN''] ''ann'' 0)"
    "role_order_ok [''USER'', ''ADMIN''] (setup_user ''ann'' 0)"
    by (auto simp: reads_ok_def zeros_def DefaultTokenSize_def role_order_ok_def setup_user_def)
      (simp_all add: setup_lib_def one_token_laws, simp add: one_token_lib_def)
  have "TrimSpace ''t'' = ''t''" by code_simp
  then have pt: "plain_tokens setup_lib"
    by (auto simp: plain_tokens_def setup_lib_def one_token_lib_def split: if_splits)
  obtain cr s2 where cr: "child_Object mem_child (s'\<lparr>con := con s'\<rparr>) = (Inr cr, s2)"
      and g: "cfg_GetProperty cr ''jwt.secret.key'' = Some (b64_encode True zeros)"
    using o b64_encode_ne [of zeros True]
    by (simp add: mem_child_def cfg_GetProperty_def cfg_Get_def ds_get_def mem_ops_def ConfigRepository_def zeros_def nil_bytes_def)
  from setup_login [OF s mem_child_laws l(1,2) pt l(3,4) _ cr g, where ord = "[]" and cu = "Inr ''ann''" and later = 1
      and reads = "[]" and t = 5 and t' = 6 and env = sample_env and mw' = sample_mw and call = "NodeCall ''restart''"
      and st = sample_control and tls = True and maxSize = 0 and addr = "''localhost:1''"]
  obtain tok s3 mw where "s' = printf (export_line ''app'' ''auth'' tok) s3"
      "remote_call setup_lib sample_env 5 mw 6 sample_mw (call_metadata (doDial True 0 tok ''localhost:1''))
         (NodeCall ''restart'') sample_control = handle sample_env (NodeCall ''restart'') root_user True sample_control" by auto
  with s show ?thesis
    by (intro exI [of _ s'] exI [of _ tok] exI [of _ s3] conjI exI [of _ mw])
      (auto simp: cs_Node_def root_user_admin ok_reply_def split_beta)
qed

end
